(* ===== verification/Merkle_Tree.thy ===== *)
theory Merkle_Tree
  imports Prelude
begin

text \<open>
  The abstract specification behind \<open>merkle/\<close>: the Merkle tree hash, the audit path and
  the consistency proof of RFC 6962, section 2.1, over any leaf hash \<open>hl\<close> and node hash
  \<open>hn\<close>, the side of the sibling at every level of a path, and the interface
  \<open>tree_hasher\<close> of a hasher, with the soundness of path checking proved from its laws.
\<close>

section \<open>The split point\<close>

fun bitlen :: "nat \<Rightarrow> nat" where
  "bitlen n = (if n = 0 then 0 else Suc (bitlen (n div 2)))"

declare bitlen.simps [simp del]

lemma bitlen_0 [simp]: "bitlen 0 = 0"
  by (simp add: bitlen.simps)

lemma bitlen_le_iff: "bitlen n \<le> b \<longleftrightarrow> n < 2 ^ b"
proof (induction b arbitrary: n)
  case 0
  then show ?case by (simp add: bitlen.simps [of n])
next
  case (Suc b)
  have "bitlen n \<le> Suc b \<longleftrightarrow> n = 0 \<or> bitlen (n div 2) \<le> b"
    by (simp add: bitlen.simps [of n])
  also have "\<dots> \<longleftrightarrow> n = 0 \<or> n div 2 < 2 ^ b"
    using Suc.IH by blast
  also have "\<dots> \<longleftrightarrow> n < 2 ^ Suc b"
    by auto
  finally show ?case .
qed

lemma less_bitlen_iff: "b < bitlen n \<longleftrightarrow> 2 ^ b \<le> n"
  using bitlen_le_iff [of n b] by linarith

lemma bitlen_unique: "2 ^ j \<le> n \<Longrightarrow> n < 2 ^ Suc j \<Longrightarrow> bitlen n = Suc j"
  using bitlen_le_iff [of n "Suc j"] less_bitlen_iff [of j n] by linarith

text \<open>The largest power of two smaller than \<open>n\<close>, for \<open>n > 1\<close>.\<close>

definition split_point :: "nat \<Rightarrow> nat" where
  "split_point n = 2 ^ (bitlen (n - 1) - 1)"

lemma split_point_exp:
  assumes "2 ^ j < n" and "n \<le> 2 ^ Suc j"
  shows "split_point n = 2 ^ j"
proof -
  have "bitlen (n - 1) = Suc j"
    using assms by (intro bitlen_unique) auto
  then show ?thesis by (simp add: split_point_def)
qed

lemma split_point_obtain:
  assumes "1 < n"
  obtains j where "split_point n = 2 ^ j" "2 ^ j < n" "n \<le> 2 ^ Suc j"
proof -
  define j where "j = bitlen (n - 1) - 1"
  have "0 < bitlen (n - 1)"
    using assms less_bitlen_iff [of 0 "n - 1"] by simp
  then have *: "bitlen (n - 1) = Suc j" by (simp add: j_def)
  then have "2 ^ j \<le> n - 1" using less_bitlen_iff [of j "n - 1"] by simp
  moreover have "n - 1 < 2 ^ Suc j" using * bitlen_le_iff [of "n - 1" "Suc j"] by simp
  ultimately show ?thesis
    using assms that [of j] by (simp add: split_point_def j_def)
qed

lemma split_point_pos [simp]: "0 < split_point n"
  by (simp add: split_point_def)

lemma split_point_less: "1 < n \<Longrightarrow> split_point n < n"
  by (metis split_point_obtain)

lemma split_point_less_Suc [simp]: "Suc 0 < n \<Longrightarrow> split_point n < n"
  using split_point_less by simp

lemma diff_split_point_less [simp]: "Suc 0 < n \<Longrightarrow> n - split_point n < n"
  by (rule diff_less) auto

lemma split_point_ge: "1 < n \<Longrightarrow> n \<le> 2 * split_point n"
  by (metis split_point_obtain power_Suc)

lemma split_point_power [simp]: "split_point (2 ^ Suc j) = 2 ^ j"
  by (rule split_point_exp) auto

lemma split_point_double [simp]: "split_point (2 * 2 ^ j) = 2 ^ j"
  by (rule split_point_exp) auto

section \<open>Tree hash, audit path, consistency proof\<close>

function mth :: "'h \<Rightarrow> (bytes \<Rightarrow> 'h) \<Rightarrow> ('h \<Rightarrow> 'h \<Rightarrow> 'h) \<Rightarrow> bytes list \<Rightarrow> 'h" where
  "mth er hl hn ds =
     (if ds = [] then er
      else if length ds = 1 then hl (hd ds)
      else hn (mth er hl hn (take (split_point (length ds)) ds))
              (mth er hl hn (drop (split_point (length ds)) ds)))"
  by pat_completeness auto
termination
  by (relation "measure (\<lambda>(_, _, _, ds). length ds)")
    (auto simp: min_less_iff_disj neq_Nil_conv)

declare mth.simps [simp del]

lemma mth_Nil [simp]: "mth er hl hn [] = er"
  by (simp add: mth.simps)

lemma mth_single: "length ds = 1 \<Longrightarrow> mth er hl hn ds = hl (hd ds)"
  by (subst mth.simps) auto

lemma mth_split:
  "1 < length ds \<Longrightarrow>
     mth er hl hn ds = hn (mth er hl hn (take (split_point (length ds)) ds))
                          (mth er hl hn (drop (split_point (length ds)) ds))"
  by (subst mth.simps) auto

function audit_path ::
  "'h \<Rightarrow> (bytes \<Rightarrow> 'h) \<Rightarrow> ('h \<Rightarrow> 'h \<Rightarrow> 'h) \<Rightarrow> nat \<Rightarrow> bytes list \<Rightarrow> 'h list" where
  "audit_path er hl hn m ds =
     (if length ds \<le> 1 then []
      else let k = split_point (length ds) in
        if m < k then audit_path er hl hn m (take k ds) @ [mth er hl hn (drop k ds)]
        else audit_path er hl hn (m - k) (drop k ds) @ [mth er hl hn (take k ds)])"
  by pat_completeness auto
termination
  by (relation "measure (\<lambda>(_, _, _, _, ds). length ds)")
    (auto simp: min_less_iff_disj intro: diff_less)

declare audit_path.simps [simp del]

text \<open>\<open>SUBPROOF (m, D, b)\<close> of section 2.1.2; \<open>PROOF (m, D)\<close> is \<open>SUBPROOF (m, D, true)\<close>.\<close>

function subproof ::
  "'h \<Rightarrow> (bytes \<Rightarrow> 'h) \<Rightarrow> ('h \<Rightarrow> 'h \<Rightarrow> 'h) \<Rightarrow> nat \<Rightarrow> bytes list \<Rightarrow> bool \<Rightarrow> 'h list" where
  "subproof er hl hn m ds b =
     (if length ds \<le> m then (if b then [] else [mth er hl hn ds])
      else if length ds \<le> 1 then []
      else let k = split_point (length ds) in
        if m \<le> k then subproof er hl hn m (take k ds) b @ [mth er hl hn (drop k ds)]
        else subproof er hl hn (m - k) (drop k ds) False @ [mth er hl hn (take k ds)])"
  by pat_completeness auto
termination
  by (relation "measure (\<lambda>(_, _, _, _, ds, _). length ds)")
    (auto simp: min_less_iff_disj intro: diff_less)

declare subproof.simps [simp del]

definition consistency_proof ::
  "'h \<Rightarrow> (bytes \<Rightarrow> 'h) \<Rightarrow> ('h \<Rightarrow> 'h \<Rightarrow> 'h) \<Rightarrow> nat \<Rightarrow> bytes list \<Rightarrow> 'h list" where
  "consistency_proof er hl hn m ds = subproof er hl hn m ds True"

section \<open>The sides of a path\<close>

text \<open>
  \<open>True\<close> where the sibling is on the left, bottom level first: for a single leaf
  (\<open>leaf_sides\<close>), and for the subtree that ends at leaf \<open>m - 1\<close> and is complete in both
  trees of a consistency proof (\<open>prefix_sides\<close>).
\<close>

function leaf_sides :: "nat \<Rightarrow> nat \<Rightarrow> bool list" where
  "leaf_sides i n =
     (if n \<le> 1 then []
      else if i < split_point n then leaf_sides i (split_point n) @ [False]
      else leaf_sides (i - split_point n) (n - split_point n) @ [True])"
  by pat_completeness auto
termination
  by (relation "measure snd") (auto intro: split_point_less)

declare leaf_sides.simps [simp del]

function prefix_sides :: "nat \<Rightarrow> nat \<Rightarrow> bool list" where
  "prefix_sides m n =
     (if n \<le> m \<or> n \<le> 1 then []
      else if m \<le> split_point n then prefix_sides m (split_point n) @ [False]
      else prefix_sides (m - split_point n) (n - split_point n) @ [True])"
  by pat_completeness auto
termination
  by (relation "measure snd") (auto intro: split_point_less)

declare prefix_sides.simps [simp del]

text \<open>Folding a path: one node hash per level, the sibling on its side.\<close>

definition climb :: "('h \<Rightarrow> 'h \<Rightarrow> 'h) \<Rightarrow> bool \<Rightarrow> 'h \<Rightarrow> 'h \<Rightarrow> 'h" where
  "climb hn left h s = (if left then hn h s else hn s h)"

fun chain :: "('h \<Rightarrow> 'h \<Rightarrow> 'h) \<Rightarrow> bool list \<Rightarrow> 'h \<Rightarrow> 'h list \<Rightarrow> 'h" where
  "chain hn (b # bs) s (h # hs) = chain hn bs (climb hn b h s) hs"
| "chain hn _ s _ = s"

text \<open>Only the siblings on the left: the hash of the older, smaller tree.\<close>

fun chain_left :: "('h \<Rightarrow> 'h \<Rightarrow> 'h) \<Rightarrow> bool list \<Rightarrow> 'h \<Rightarrow> 'h list \<Rightarrow> 'h" where
  "chain_left hn (b # bs) s (h # hs) = chain_left hn bs (if b then hn h s else s) hs"
| "chain_left hn _ s _ = s"

lemma chain_append:
  "length bs = length hs \<Longrightarrow> chain hn (bs @ bs') s (hs @ hs') = chain hn bs' (chain hn bs s hs) hs'"
  by (induction bs hs arbitrary: s rule: list_induct2) auto

lemma chain_left_append:
  "length bs = length hs \<Longrightarrow>
     chain_left hn (bs @ bs') s (hs @ hs') = chain_left hn bs' (chain_left hn bs s hs) hs'"
  by (induction bs hs arbitrary: s rule: list_induct2) auto

lemma chain_snoc [simp]:
  "length bs = length hs \<Longrightarrow> chain hn (bs @ [b]) s (hs @ [h]) = climb hn b h (chain hn bs s hs)"
  by (simp add: chain_append)

lemma chain_left_snoc [simp]:
  "length bs = length hs \<Longrightarrow>
     chain_left hn (bs @ [b]) s (hs @ [h]) =
       (if b then hn h (chain_left hn bs s hs) else chain_left hn bs s hs)"
  by (simp add: chain_left_append)

lemma leaf_sides_trivial [simp]: "n \<le> 1 \<Longrightarrow> leaf_sides i n = []"
  by (simp add: leaf_sides.simps)

lemma leaf_sides_below:
  "1 < n \<Longrightarrow> i < split_point n \<Longrightarrow> leaf_sides i n = leaf_sides i (split_point n) @ [False]"
  by (subst leaf_sides.simps) simp

lemma leaf_sides_above:
  "1 < n \<Longrightarrow> split_point n \<le> i \<Longrightarrow>
     leaf_sides i n = leaf_sides (i - split_point n) (n - split_point n) @ [True]"
  by (subst leaf_sides.simps) simp

lemma prefix_sides_same [simp]: "n \<le> m \<Longrightarrow> prefix_sides m n = []"
  by (simp add: prefix_sides.simps)

lemma prefix_sides_below:
  "m < n \<Longrightarrow> 1 < n \<Longrightarrow> m \<le> split_point n \<Longrightarrow>
     prefix_sides m n = prefix_sides m (split_point n) @ [False]"
  by (subst prefix_sides.simps) simp

lemma prefix_sides_above:
  "m < n \<Longrightarrow> 1 < n \<Longrightarrow> split_point n < m \<Longrightarrow>
     prefix_sides m n = prefix_sides (m - split_point n) (n - split_point n) @ [True]"
  by (subst prefix_sides.simps) simp

section \<open>Trees by their two halves\<close>

lemma split_induct [case_names small split]:
  assumes small: "\<And>ds. length ds \<le> 1 \<Longrightarrow> P ds"
    and split: "\<And>ds. 1 < length ds \<Longrightarrow> P (take (split_point (length ds)) ds) \<Longrightarrow>
                  P (drop (split_point (length ds)) ds) \<Longrightarrow> P ds"
  shows "P ds"
proof (induction "length ds" arbitrary: ds rule: less_induct)
  case less
  show ?case
  proof (cases "1 < length ds")
    case True
    have "P (take (split_point (length ds)) ds)"
      by (rule less.hyps) (use True in \<open>simp add: min_less_iff_disj\<close>)
    moreover have "P (drop (split_point (length ds)) ds)"
      by (rule less.hyps) (use True in \<open>simp\<close>)
    ultimately show ?thesis by (rule split [OF True])
  next
    case False
    then show ?thesis by (simp add: small)
  qed
qed

lemma length_take_split [simp]:
  "Suc 0 < length ds \<Longrightarrow> length (take (split_point (length ds)) ds) = split_point (length ds)"
  by (simp add: min_absorb2 less_imp_le)

lemma audit_path_small [simp]: "length ds \<le> Suc 0 \<Longrightarrow> audit_path er hl hn m ds = []"
  by (simp add: audit_path.simps)

lemma audit_path_below:
  "1 < length ds \<Longrightarrow> m < split_point (length ds) \<Longrightarrow>
     audit_path er hl hn m ds = audit_path er hl hn m (take (split_point (length ds)) ds)
       @ [mth er hl hn (drop (split_point (length ds)) ds)]"
  by (subst audit_path.simps) (simp add: Let_def)

lemma audit_path_above:
  "1 < length ds \<Longrightarrow> split_point (length ds) \<le> m \<Longrightarrow>
     audit_path er hl hn m ds =
       audit_path er hl hn (m - split_point (length ds)) (drop (split_point (length ds)) ds)
       @ [mth er hl hn (take (split_point (length ds)) ds)]"
  by (subst audit_path.simps) (simp add: Let_def)

lemma length_audit_path:
  "m < length ds \<Longrightarrow> length (audit_path er hl hn m ds) = length (leaf_sides m (length ds))"
proof (induction ds arbitrary: m rule: split_induct)
  case (small ds)
  then show ?case by simp
next
  case (split ds)
  show ?case
  proof (cases "m < split_point (length ds)")
    case True
    then show ?thesis
      using split by (simp add: audit_path_below leaf_sides_below)
  next
    case False
    then show ?thesis
      using split by (simp add: audit_path_above leaf_sides_above diff_less_mono)
  qed
qed

text \<open>The audit path of a leaf climbs to the tree hash.\<close>

lemma chain_audit_path:
  "m < length ds \<Longrightarrow>
     chain hn (leaf_sides m (length ds)) (hl (ds ! m)) (audit_path er hl hn m ds) = mth er hl hn ds"
proof (induction ds arbitrary: m rule: split_induct)
  case (small ds)
  then have "length ds = 1" "m = 0" by auto
  then show ?case by (cases ds) (auto simp: mth_single)
next
  case (split ds)
  let ?k = "split_point (length ds)"
  have k: "?k < length ds" using split.hyps by simp
  show ?case
  proof (cases "m < ?k")
    case True
    have "chain hn (leaf_sides m ?k) (hl (ds ! m)) (audit_path er hl hn m (take ?k ds))
          = mth er hl hn (take ?k ds)"
      using split.IH(1) [of m] split.hyps True by simp
    then show ?thesis
      using True split.hyps length_audit_path [of m "take ?k ds" er hl hn]
      by (simp add: audit_path_below leaf_sides_below climb_def mth_split)
  next
    case False
    have "chain hn (leaf_sides (m - ?k) (length ds - ?k)) (hl (ds ! m))
            (audit_path er hl hn (m - ?k) (drop ?k ds)) = mth er hl hn (drop ?k ds)"
      using split.IH(2) [of "m - ?k"] split.prems False by simp
    then show ?thesis
      using False split.hyps split.prems k length_audit_path [of "m - ?k" "drop ?k ds" er hl hn]
      by (simp add: audit_path_above leaf_sides_above climb_def mth_split)
  qed
qed

section \<open>The subtree two trees share\<close>

text \<open>
  For \<open>0 < m \<le> n\<close>: the complete subtree that ends at leaf \<open>m - 1\<close> and is the same in
  the tree of the first \<open>m\<close> leaves and in the tree of all \<open>n\<close>, and the siblings above it.
\<close>

function shared_leaves :: "nat \<Rightarrow> bytes list \<Rightarrow> bytes list" where
  "shared_leaves m ds =
     (if length ds \<le> m \<or> length ds \<le> 1 then ds
      else let k = split_point (length ds) in
        if m \<le> k then shared_leaves m (take k ds) else shared_leaves (m - k) (drop k ds))"
  by pat_completeness auto
termination
  by (relation "measure (\<lambda>(_, ds). length ds)") (auto simp: min_less_iff_disj)

declare shared_leaves.simps [simp del]

function shared_path ::
  "'h \<Rightarrow> (bytes \<Rightarrow> 'h) \<Rightarrow> ('h \<Rightarrow> 'h \<Rightarrow> 'h) \<Rightarrow> nat \<Rightarrow> bytes list \<Rightarrow> 'h list" where
  "shared_path er hl hn m ds =
     (if length ds \<le> m \<or> length ds \<le> 1 then []
      else let k = split_point (length ds) in
        if m \<le> k then shared_path er hl hn m (take k ds) @ [mth er hl hn (drop k ds)]
        else shared_path er hl hn (m - k) (drop k ds) @ [mth er hl hn (take k ds)])"
  by pat_completeness auto
termination
  by (relation "measure (\<lambda>(_, _, _, _, ds). length ds)") (auto simp: min_less_iff_disj)

declare shared_path.simps [simp del]

lemma shared_same [simp]:
  "length ds \<le> m \<Longrightarrow> shared_leaves m ds = ds"
  "length ds \<le> m \<Longrightarrow> shared_path er hl hn m ds = []"
  by (simp_all add: shared_leaves.simps shared_path.simps)

lemma shared_below:
  assumes "m < length ds" and "1 < length ds" and "m \<le> split_point (length ds)"
  shows "shared_leaves m ds = shared_leaves m (take (split_point (length ds)) ds)"
    and "shared_path er hl hn m ds = shared_path er hl hn m (take (split_point (length ds)) ds)
           @ [mth er hl hn (drop (split_point (length ds)) ds)]"
  using assms by (subst shared_leaves.simps shared_path.simps, simp add: Let_def)+

lemma shared_above:
  assumes "m < length ds" and "1 < length ds" and "split_point (length ds) < m"
  shows "shared_leaves m ds =
           shared_leaves (m - split_point (length ds)) (drop (split_point (length ds)) ds)"
    and "shared_path er hl hn m ds =
           shared_path er hl hn (m - split_point (length ds)) (drop (split_point (length ds)) ds)
           @ [mth er hl hn (take (split_point (length ds)) ds)]"
  using assms by (subst shared_leaves.simps shared_path.simps, simp add: Let_def)+

text \<open>Case analysis on the position of \<open>m\<close>, shared by the inductions below.\<close>

lemma prefix_induct [consumes 2, case_names same below above]:
  assumes "0 < m" and "m \<le> length ds"
    and same: "\<And>m ds. 0 < m \<Longrightarrow> m = length ds \<Longrightarrow> P m ds"
    and below: "\<And>m ds. 0 < m \<Longrightarrow> m < length ds \<Longrightarrow> 1 < length ds \<Longrightarrow> m \<le> split_point (length ds) \<Longrightarrow>
       P m (take (split_point (length ds)) ds) \<Longrightarrow> P m ds"
    and above: "\<And>m ds. m < length ds \<Longrightarrow> 1 < length ds \<Longrightarrow> split_point (length ds) < m \<Longrightarrow>
       P (m - split_point (length ds)) (drop (split_point (length ds)) ds) \<Longrightarrow> P m ds"
  shows "P m ds"
  using assms(1,2)
proof (induction ds arbitrary: m rule: split_induct)
  case (small ds)
  then have "m = length ds" by simp
  with small.prems(1) show ?case by (rule same)
next
  case (split ds)
  consider "m = length ds" | "m < length ds" "m \<le> split_point (length ds)"
    | "m < length ds" "split_point (length ds) < m"
    using split.prems by linarith
  then show ?case
  proof cases
    case 1
    with split.prems(1) show ?thesis by (rule same)
  next
    case 2
    have "P m (take (split_point (length ds)) ds)"
      by (rule split.IH(1)) (use split.prems split.hyps 2 in auto)
    then show ?thesis by (rule below [OF split.prems(1) 2(1) split.hyps 2(2)])
  next
    case 3
    have "P (m - split_point (length ds)) (drop (split_point (length ds)) ds)"
      by (rule split.IH(2)) (use split.prems 3 in auto)
    then show ?thesis by (rule above [OF 3(1) split.hyps 3(2)])
  qed
qed

lemma length_shared_path:
  "0 < m \<Longrightarrow> m \<le> length ds \<Longrightarrow>
     length (shared_path er hl hn m ds) = length (prefix_sides m (length ds))"
proof (induction rule: prefix_induct)
  case (below m ds)
  then show ?case by (simp add: shared_below prefix_sides_below)
next
  case (above m ds)
  then show ?case by (simp add: shared_above prefix_sides_above)
qed simp

lemma mth_take_above:
  assumes "m \<le> length ds" and "1 < length ds" and "split_point (length ds) < m"
  shows "mth er hl hn (take m ds) =
    hn (mth er hl hn (take (split_point (length ds)) ds))
       (mth er hl hn (take (m - split_point (length ds)) (drop (split_point (length ds)) ds)))"
proof -
  let ?k = "split_point (length ds)"
  obtain j where j: "?k = 2 ^ j" "2 ^ j < length ds" "length ds \<le> 2 ^ Suc j"
    using split_point_obtain [OF assms(2)] .
  have "split_point (length (take m ds)) = ?k"
    using assms(1,3) j by (simp only: j(1) length_take min_absorb2) (rule split_point_exp; simp)
  moreover have "1 < length (take m ds)"
    using assms split_point_pos [of "length ds"] by (simp add: min_absorb2 del: split_point_pos)
  ultimately show ?thesis
    using assms mth_split [of "take m ds" er hl hn]
    by (simp add: min_absorb1 drop_take less_imp_le)
qed

lemma chain_shared_path:
  "0 < m \<Longrightarrow> m \<le> length ds \<Longrightarrow>
     chain hn (prefix_sides m (length ds)) (mth er hl hn (shared_leaves m ds)) (shared_path er hl hn m ds)
     = mth er hl hn ds"
proof (induction rule: prefix_induct)
  case (below m ds)
  then show ?case
    using length_shared_path [of m "take (split_point (length ds)) ds" er hl hn]
    by (simp add: shared_below prefix_sides_below climb_def mth_split)
next
  case (above m ds)
  then show ?case
    using length_shared_path [of "m - split_point (length ds)" "drop (split_point (length ds)) ds" er hl hn]
    by (simp add: shared_above prefix_sides_above climb_def mth_split)
qed simp

lemma chain_left_shared_path:
  "0 < m \<Longrightarrow> m \<le> length ds \<Longrightarrow>
     chain_left hn (prefix_sides m (length ds)) (mth er hl hn (shared_leaves m ds)) (shared_path er hl hn m ds)
     = mth er hl hn (take m ds)"
proof (induction rule: prefix_induct)
  case (below m ds)
  then show ?case
    using length_shared_path [of m "take (split_point (length ds)) ds" er hl hn]
    by (simp add: shared_below prefix_sides_below min_absorb1)
next
  case (above m ds)
  then show ?case
    using length_shared_path [of "m - split_point (length ds)" "drop (split_point (length ds)) ds" er hl hn]
    by (simp add: shared_above prefix_sides_above mth_take_above)
qed simp

text \<open>The consistency proof starts with the hash of the shared subtree, unless that subtree is
  the whole older tree (only siblings on the right).\<close>

lemma subproof_shared:
  "0 < m \<Longrightarrow> m \<le> length ds \<Longrightarrow>
     subproof er hl hn m ds b =
       (if b \<and> True \<notin> set (prefix_sides m (length ds)) then []
        else [mth er hl hn (shared_leaves m ds)]) @ shared_path er hl hn m ds"
proof (induction arbitrary: b rule: prefix_induct)
  case (same m ds)
  then show ?case by (subst subproof.simps) simp
next
  case (below m ds)
  then show ?case
    by (subst subproof.simps) (simp add: Let_def shared_below prefix_sides_below)
next
  case (above m ds)
  then show ?case
    by (subst subproof.simps) (simp add: Let_def shared_above prefix_sides_above)
qed

section \<open>Hashers and collisions\<close>

text \<open>
  \<open>collide dig ms ms'\<close>: two different messages, one of \<open>ms\<close> and one of \<open>ms'\<close>, with
  the same digest. Both lists are computed from the proof and the tree at hand, so the
  statement is about hashes that were evaluated, not about the existence of collisions.
\<close>

definition collide :: "('m \<Rightarrow> 'h) \<Rightarrow> 'm list \<Rightarrow> 'm list \<Rightarrow> bool" where
  "collide dig ms ms' = (\<exists>m\<in>set ms. \<exists>m'\<in>set ms'. m \<noteq> m' \<and> dig m = dig m')"

lemma collideI: "m \<in> set ms \<Longrightarrow> m' \<in> set ms' \<Longrightarrow> m \<noteq> m' \<Longrightarrow> dig m = dig m' \<Longrightarrow> collide dig ms ms'"
  by (auto simp: collide_def)

lemma collide_Cons [simp]:
  "collide dig (m # ms) ns \<longleftrightarrow> (\<exists>n\<in>set ns. m \<noteq> n \<and> dig m = dig n) \<or> collide dig ms ns"
  "\<not> collide dig [] ns"
  "\<not> collide dig ms []"
  by (auto simp: collide_def)

text \<open>Turned on where a path and a tree have been taken apart.\<close>

lemma collide_Un:
  "collide dig (ms @ ms') ns \<longleftrightarrow> collide dig ms ns \<or> collide dig ms' ns"
  "collide dig ms (ns @ ns') \<longleftrightarrow> collide dig ms ns \<or> collide dig ms ns'"
  "collide dig ms (n # ns) \<longleftrightarrow> (\<exists>m\<in>set ms. m \<noteq> n \<and> dig m = dig n) \<or> collide dig ms ns"
  by (auto simp: collide_def)

text \<open>The messages hashed while a path is climbed, and while a tree is hashed.\<close>

fun chain_msgs ::
  "('h \<Rightarrow> 'h \<Rightarrow> 'm) \<Rightarrow> ('h \<Rightarrow> 'h \<Rightarrow> 'h) \<Rightarrow> bool list \<Rightarrow> 'h \<Rightarrow> 'h list \<Rightarrow> 'm list" where
  "chain_msgs nm hn (b # bs) s (h # hs) =
     (if b then nm h s else nm s h) # chain_msgs nm hn bs (climb hn b h s) hs"
| "chain_msgs nm hn _ s _ = []"

function tree_msgs ::
  "'m \<Rightarrow> (bytes \<Rightarrow> 'm) \<Rightarrow> ('h \<Rightarrow> 'h \<Rightarrow> 'm) \<Rightarrow> 'h \<Rightarrow> (bytes \<Rightarrow> 'h) \<Rightarrow> ('h \<Rightarrow> 'h \<Rightarrow> 'h) \<Rightarrow> bytes list \<Rightarrow> 'm list"
where
  "tree_msgs em lm nm er hl hn ds =
     (if ds = [] then [em]
      else if length ds = 1 then [lm (hd ds)]
      else let l = take (split_point (length ds)) ds; r = drop (split_point (length ds)) ds in
        nm (mth er hl hn l) (mth er hl hn r)
        # tree_msgs em lm nm er hl hn l @ tree_msgs em lm nm er hl hn r)"
  by pat_completeness auto
termination
  by (relation "measure (\<lambda>(_, _, _, _, _, _, ds). length ds)")
    (auto simp: min_less_iff_disj neq_Nil_conv)

declare tree_msgs.simps [simp del]

lemma tree_msgs_split:
  "1 < length ds \<Longrightarrow>
     tree_msgs em lm nm er hl hn ds =
       nm (mth er hl hn (take (split_point (length ds)) ds)) (mth er hl hn (drop (split_point (length ds)) ds))
       # tree_msgs em lm nm er hl hn (take (split_point (length ds)) ds)
       @ tree_msgs em lm nm er hl hn (drop (split_point (length ds)) ds)"
  by (subst tree_msgs.simps) (auto simp: Let_def)

lemma tree_msgs_Nil [simp]: "tree_msgs em lm nm er hl hn [] = [em]"
  by (simp add: tree_msgs.simps)

lemma tree_msgs_single [simp]: "tree_msgs em lm nm er hl hn [d] = [lm d]"
  by (simp add: tree_msgs.simps)

lemma chain_msgs_snoc [simp]:
  "length bs = length hs \<Longrightarrow>
     chain_msgs nm hn (bs @ [b]) s (hs @ [h]) =
       chain_msgs nm hn bs s hs
       @ [if b then nm h (chain hn bs s hs) else nm (chain hn bs s hs) h]"
  by (induction bs hs arbitrary: s rule: list_induct2) auto

section \<open>The hasher interface\<close>

text \<open>
  What \<open>Rfc6269HasherTrait\<close> promises: every hash is the digest of a message, a message
  determines the children it was made from, and the messages of the empty tree, of a
  leaf and of an interior node are told apart (the prefixes \<open>0x00\<close> and \<open>0x01\<close>).
\<close>

locale tree_hasher =
  fixes dig :: "'m \<Rightarrow> 'h"
    and em :: 'm
    and lm :: "bytes \<Rightarrow> 'm"
    and nm :: "'h \<Rightarrow> 'h \<Rightarrow> 'm"
    and er :: 'h
    and hl :: "bytes \<Rightarrow> 'h"
    and hn :: "'h \<Rightarrow> 'h \<Rightarrow> 'h"
  assumes er_dig: "er = dig em"
    and hl_dig: "hl d = dig (lm d)"
    and hn_dig: "hn a b = dig (nm a b)"
    and lm_inject: "lm d = lm d' \<longleftrightarrow> d = d'"
    and nm_inject: "nm a b = nm a' b' \<longleftrightarrow> a = a' \<and> b = b'"
    and em_lm: "em \<noteq> lm d"
    and em_nm: "em \<noteq> nm a b"
    and lm_nm: "lm d \<noteq> nm a b"
begin

abbreviation "tree \<equiv> mth er hl hn"
abbreviation "msgs \<equiv> tree_msgs em lm nm er hl hn"
abbreviation "path_msgs \<equiv> chain_msgs nm hn"

lemma node_eq:
  assumes "hn a b = hn a' b'" and "nm a b \<in> set ms" and "nm a' b' \<in> set ms'"
  shows "(a = a' \<and> b = b') \<or> collide dig ms ms'"
proof (cases "nm a b = nm a' b'")
  case True
  then show ?thesis by (simp add: nm_inject)
next
  case False
  with assms show ?thesis by (auto simp: hn_dig intro: collideI)
qed

text \<open>
  Soundness of a path of the right shape: the seed is the leaf hash and the path is the
  audit path, or two of the messages hashed on the way collide.
\<close>

lemma leaf_path_sound:
  "i < length ds \<Longrightarrow> length hs = length (leaf_sides i (length ds)) \<Longrightarrow>
   chain hn (leaf_sides i (length ds)) s hs = tree ds \<Longrightarrow>
   (s = hl (ds ! i) \<and> hs = audit_path er hl hn i ds)
   \<or> collide dig (path_msgs (leaf_sides i (length ds)) s hs) (msgs ds)"
proof (induction ds arbitrary: i hs rule: split_induct)
  case (small ds)
  then have "length ds = 1" "i = 0" by auto
  with small.prems show ?case by (cases ds) (auto simp: mth_single)
next
  case (split ds)
  let ?k = "split_point (length ds)" and ?l = "take (split_point (length ds)) ds"
    and ?r = "drop (split_point (length ds)) ds"
  have k: "?k < length ds" using split.hyps by simp
  have "hs \<noteq> []"
    using split.prems split.hyps by (cases "i < ?k") (auto simp: leaf_sides_below leaf_sides_above)
  then obtain hs' h where hs: "hs = hs' @ [h]" by (metis rev_exhaust)
  have tree: "tree ds = hn (tree ?l) (tree ?r)" using split.hyps by (simp add: mth_split)
  show ?case
  proof (cases "i < ?k")
    case True
    let ?s = "leaf_sides i ?k"
    have sides: "leaf_sides i (length ds) = ?s @ [False]"
      using split.hyps True by (simp add: leaf_sides_below)
    have len: "length hs' = length ?s" using split.prems(2) by (simp add: sides hs)
    have "hn (chain hn ?s s hs') h = hn (tree ?l) (tree ?r)"
      using split.prems(3) len by (simp add: sides hs tree climb_def)
    then have "(chain hn ?s s hs' = tree ?l \<and> h = tree ?r)
        \<or> collide dig (path_msgs (leaf_sides i (length ds)) s hs) (msgs ds)"
      using len split.hyps by (intro node_eq) (auto simp: sides hs tree_msgs_split)
    moreover have "(s = hl (?l ! i) \<and> hs' = audit_path er hl hn i ?l)
        \<or> collide dig (path_msgs ?s s hs') (msgs ?l)" if "chain hn ?s s hs' = tree ?l"
      using split.IH(1) [of i hs'] that split.hyps True len by simp
    ultimately show ?thesis
      using split.hyps True len
      by (auto simp: sides hs tree_msgs_split audit_path_below collide_Un)
  next
    case False
    let ?s = "leaf_sides (i - ?k) (length ds - ?k)"
    have sides: "leaf_sides i (length ds) = ?s @ [True]"
      using split.hyps False by (simp add: leaf_sides_above)
    have len: "length hs' = length ?s" using split.prems(2) by (simp add: sides hs)
    have "hn h (chain hn ?s s hs') = hn (tree ?l) (tree ?r)"
      using split.prems(3) len by (simp add: sides hs tree climb_def)
    then have "(h = tree ?l \<and> chain hn ?s s hs' = tree ?r)
        \<or> collide dig (path_msgs (leaf_sides i (length ds)) s hs) (msgs ds)"
      using len split.hyps by (intro node_eq) (auto simp: sides hs tree_msgs_split)
    moreover have "(s = hl (?r ! (i - ?k)) \<and> hs' = audit_path er hl hn (i - ?k) ?r)
        \<or> collide dig (path_msgs ?s s hs') (msgs ?r)" if "chain hn ?s s hs' = tree ?r"
      using split.IH(2) [of "i - ?k" hs'] that split.prems(1) False len by simp
    ultimately show ?thesis
      using split.hyps split.prems(1) False len
      by (auto simp: sides hs tree_msgs_split audit_path_above collide_Un)
  qed
qed

text \<open>Soundness of a path from the shared subtree.\<close>

lemma prefix_path_sound:
  "0 < m \<Longrightarrow> m \<le> length ds \<Longrightarrow> length hs = length (prefix_sides m (length ds)) \<Longrightarrow>
   chain hn (prefix_sides m (length ds)) s hs = tree ds \<Longrightarrow>
   (s = tree (shared_leaves m ds) \<and> hs = shared_path er hl hn m ds)
   \<or> collide dig (path_msgs (prefix_sides m (length ds)) s hs) (msgs ds)"
proof (induction arbitrary: hs rule: prefix_induct)
  case (same m ds)
  then show ?case by simp
next
  case (below m ds)
  let ?l = "take (split_point (length ds)) ds" and ?r = "drop (split_point (length ds)) ds"
  let ?s = "prefix_sides m (split_point (length ds))"
  have sides: "prefix_sides m (length ds) = ?s @ [False]"
    using below.hyps by (simp add: prefix_sides_below)
  then obtain hs' h where hs: "hs = hs' @ [h]" and len: "length hs' = length ?s"
    using below.prems(1) by (cases hs rule: rev_cases) auto
  have "hn (chain hn ?s s hs') h = hn (tree ?l) (tree ?r)"
    using below.prems(2) below.hyps len by (simp add: sides hs climb_def mth_split)
  then have "(chain hn ?s s hs' = tree ?l \<and> h = tree ?r)
      \<or> collide dig (path_msgs (prefix_sides m (length ds)) s hs) (msgs ds)"
    using len below.hyps by (intro node_eq) (auto simp: sides hs tree_msgs_split)
  moreover have "(s = tree (shared_leaves m ?l) \<and> hs' = shared_path er hl hn m ?l)
      \<or> collide dig (path_msgs ?s s hs') (msgs ?l)" if "chain hn ?s s hs' = tree ?l"
    using below.IH [of hs'] that below.hyps len by simp
  ultimately show ?case
    using below.hyps len by (auto simp: sides hs tree_msgs_split shared_below collide_Un)
next
  case (above m ds)
  let ?l = "take (split_point (length ds)) ds" and ?r = "drop (split_point (length ds)) ds"
  let ?m = "m - split_point (length ds)"
  let ?s = "prefix_sides ?m (length ds - split_point (length ds))"
  have sides: "prefix_sides m (length ds) = ?s @ [True]"
    using above.hyps by (simp add: prefix_sides_above)
  then obtain hs' h where hs: "hs = hs' @ [h]" and len: "length hs' = length ?s"
    using above.prems(1) by (cases hs rule: rev_cases) auto
  have "hn h (chain hn ?s s hs') = hn (tree ?l) (tree ?r)"
    using above.prems(2) above.hyps len by (simp add: sides hs climb_def mth_split)
  then have "(h = tree ?l \<and> chain hn ?s s hs' = tree ?r)
      \<or> collide dig (path_msgs (prefix_sides m (length ds)) s hs) (msgs ds)"
    using len above.hyps by (intro node_eq) (auto simp: sides hs tree_msgs_split)
  moreover have "(s = tree (shared_leaves ?m ?r) \<and> hs' = shared_path er hl hn ?m ?r)
      \<or> collide dig (path_msgs ?s s hs') (msgs ?r)" if "chain hn ?s s hs' = tree ?r"
    using above.IH [of hs'] that len by simp
  ultimately show ?case
    using above.hyps len by (auto simp: sides hs tree_msgs_split shared_above collide_Un)
qed

text \<open>
  Membership with no trusted index or size: whatever the sides, a path from a leaf
  message to the tree hash starts at a leaf of the tree, or two messages collide.
\<close>

lemma any_path_member:
  "length bs = length hs \<Longrightarrow> chain hn bs (hl d) hs = tree ds \<Longrightarrow>
   d \<in> set ds \<or> collide dig (lm d # path_msgs bs (hl d) hs) (msgs ds)"
proof (induction ds arbitrary: bs hs rule: split_induct)
  case (small ds)
  show ?case
  proof (cases hs rule: rev_cases)
    case Nil
    with small show ?thesis
      by (cases ds) (auto simp: mth_single er_dig hl_dig lm_inject collide_def em_lm [symmetric])
  next
    case (snoc hs' h)
    with small.prems(1) obtain bs' b where bs: "bs = bs' @ [b]"
      by (metis append_Nil length_0_conv length_append_singleton nat.simps(3) rev_exhaust)
    have len: "length bs' = length hs'" using small.prems(1) by (simp add: bs snoc)
    obtain x y where xy: "climb hn b h (chain hn bs' (hl d) hs') = dig (nm x y)"
        "nm x y \<in> set (path_msgs bs (hl d) hs)"
      using len by (cases b) (auto simp: climb_def hn_dig bs snoc)
    have top: "dig (nm x y) = tree ds"
      using small.prems(2) len xy(1) by (simp add: bs snoc)
    show ?thesis
    proof (cases ds)
      case Nil
      then show ?thesis
        using top xy(2) em_nm [of x y]
        by (intro disjI2 collideI [of "nm x y" _ em]) (auto simp: er_dig)
    next
      case (Cons e es)
      then have "ds = [e]" using small.hyps by simp
      then show ?thesis
        using top xy(2) lm_nm [of e x y]
        by (intro disjI2 collideI [of "nm x y" _ "lm e"]) (auto simp: mth_single hl_dig)
    qed
  qed
next
  case (split ds)
  let ?l = "take (split_point (length ds)) ds" and ?r = "drop (split_point (length ds)) ds"
  have tree: "tree ds = hn (tree ?l) (tree ?r)" using split.hyps by (simp add: mth_split)
  show ?case
  proof (cases hs rule: rev_cases)
    case Nil
    with split.prems have "hl d = hn (tree ?l) (tree ?r)" by (simp add: tree)
    then have "dig (lm d) = dig (nm (tree ?l) (tree ?r))" by (simp add: hl_dig hn_dig)
    then show ?thesis
      using split.hyps lm_nm by (auto simp: tree_msgs_split collide_def)
  next
    case (snoc hs' h)
    with split.prems(1) obtain bs' b where bs: "bs = bs' @ [b]"
      by (metis append_Nil length_0_conv length_append_singleton nat.simps(3) rev_exhaust)
    have len: "length bs' = length hs'" using split.prems(1) by (simp add: bs snoc)
    let ?c = "chain hn bs' (hl d) hs'"
    have "climb hn b h ?c = hn (tree ?l) (tree ?r)"
      using split.prems(2) len by (simp add: bs snoc tree)
    then have "?c = (if b then tree ?r else tree ?l)
        \<or> collide dig (lm d # path_msgs bs (hl d) hs) (msgs ds)"
      using len split.hyps
        node_eq [of h ?c "tree ?l" "tree ?r" "lm d # path_msgs bs (hl d) hs" "msgs ds"]
        node_eq [of ?c h "tree ?l" "tree ?r" "lm d # path_msgs bs (hl d) hs" "msgs ds"]
      by (cases b) (auto simp: bs snoc climb_def tree_msgs_split)
    moreover have "d \<in> set ds \<or> collide dig (lm d # path_msgs bs (hl d) hs) (msgs ds)"
      if "?c = tree ?l"
      using split.IH(1) [OF len that] split.hyps len
      by (auto simp: bs snoc tree_msgs_split collide_Un dest: in_set_takeD)
    moreover have "d \<in> set ds \<or> collide dig (lm d # path_msgs bs (hl d) hs) (msgs ds)"
      if "?c = tree ?r"
      using split.IH(2) [OF len that] split.hyps len
      by (auto simp: bs snoc tree_msgs_split collide_Un dest: in_set_dropD)
    ultimately show ?thesis by (cases b) auto
  qed
qed

end

end
