(* ===== verification/Merkle_Bits.thy ===== *)
theory Merkle_Bits
  imports Merkle_Tree
begin

text \<open>
  The shape of a path read off the bits of a leaf index: the recursive sides of
  \<open>Merkle_Tree\<close> equal the inner part (one bit of the index per level) followed by the border
  part (left siblings only) that the iterative verifier uses, and the word-level bit counts
  of \<open>Prelude\<close> are the bit length and the lowest set bit of natural numbers.
\<close>

section \<open>Bits of natural numbers\<close>

lemma not_bit_of_less: "(n :: nat) < 2 ^ b \<Longrightarrow> b \<le> c \<Longrightarrow> \<not> bit n c"
proof -
  assume "n < 2 ^ b" and "b \<le> c"
  then have "n < 2 ^ c"
    by (meson less_le_trans one_le_numeral power_increasing)
  then show ?thesis by (simp add: bit_iff_odd)
qed

lemma less_of_not_bit: "(\<And>c. b \<le> c \<Longrightarrow> \<not> bit (n :: nat) c) \<Longrightarrow> n < 2 ^ b"
proof -
  assume "\<And>c. b \<le> c \<Longrightarrow> \<not> bit n c"
  then have "take_bit b n = n"
    by (intro bit_eqI) (auto simp: bit_simps, meson not_le)
  then show ?thesis by (metis take_bit_nat_less_exp)
qed

lemma bit_top_split:
  fixes m :: nat
  assumes "2 ^ j \<le> m" and "m < 2 ^ Suc j"
  shows "bit m b \<longleftrightarrow> b = j \<or> bit (m - 2 ^ j) b"
proof -
  have r: "m - 2 ^ j < 2 ^ j" using assms by simp
  have "2 ^ j AND (m - 2 ^ j) = 0"
    using not_bit_of_less [OF r order_refl] by (intro bit_eqI) (auto simp: bit_simps)
  then have "2 ^ j + (m - 2 ^ j) = 2 ^ j OR (m - 2 ^ j)"
    by (simp add: disjunctive_add_eq_or)
  then have "m = 2 ^ j OR (m - 2 ^ j)" using assms(1) by simp
  then have "bit m b \<longleftrightarrow> bit (2 ^ j OR (m - 2 ^ j)) b" by simp
  then show ?thesis by (auto simp: bit_simps)
qed

lemma bitlen_eq_of_bits:
  assumes "bit n j" and "\<And>c. j < c \<Longrightarrow> \<not> bit n c"
  shows "bitlen n = Suc j"
proof (rule bitlen_unique)
  show "n < 2 ^ Suc j" using assms(2) by (intro less_of_not_bit) simp
  show "2 ^ j \<le> n" using assms(1) not_bit_of_less [of n j j] by (meson not_le order_refl)
qed

definition inner_bits :: "nat \<Rightarrow> nat \<Rightarrow> nat" where
  "inner_bits i n = bitlen (i XOR (n - 1))"

definition border_bits :: "nat \<Rightarrow> nat \<Rightarrow> nat" where
  "border_bits i n = card {b. inner_bits i n \<le> b \<and> bit i b}"

definition bit_sides :: "nat \<Rightarrow> nat \<Rightarrow> bool list" where
  "bit_sides i n = map (bit i) [0..<inner_bits i n] @ replicate (border_bits i n) True"

lemma finite_bits [simp]: "finite {b. P b \<and> bit (i :: nat) b}"
proof -
  have "{b. P b \<and> bit i b} \<subseteq> {..<i + 1}"
  proof
    fix b assume "b \<in> {b. P b \<and> bit i b}"
    then have "\<not> i < 2 ^ b" using not_bit_of_less [of i b b] by auto
    moreover have "b < 2 ^ b" by (rule less_exp)
    ultimately have "b < i + 1" by linarith
    then show "b \<in> {..<i + 1}" by simp
  qed
  then show ?thesis by (rule finite_subset) simp
qed

section \<open>Sides of a leaf\<close>

lemma leaf_sides_power: "i < 2 ^ j \<Longrightarrow> leaf_sides i (2 ^ j) = map (bit i) [0..<j]"
proof (induction j arbitrary: i)
  case 0
  then show ?case by simp
next
  case (Suc j)
  show ?case
  proof (cases "i < 2 ^ j")
    case True
    then have "leaf_sides i (2 ^ Suc j) = leaf_sides i (2 ^ j) @ [False]"
      by (subst leaf_sides_below) simp_all
    then show ?thesis
      using Suc.IH [OF True] not_bit_of_less [OF True order_refl] by simp
  next
    case False
    have top: "bit i b \<longleftrightarrow> b = j \<or> bit (i - 2 ^ j) b" for b
      using False Suc.prems by (intro bit_top_split) auto
    have lt: "i - 2 ^ j < 2 ^ j" using Suc.prems False by simp
    have "leaf_sides i (2 ^ Suc j) = leaf_sides (i - 2 ^ j) (2 ^ j) @ [True]"
      using False leaf_sides_above [of "2 ^ Suc j" i] one_less_power [of "2 :: nat" "Suc j"]
      by (simp add: not_less)
    then show ?thesis using Suc.IH [OF lt] by (auto simp: top)
  qed
qed

lemma inner_bits_below:
  assumes "i < 2 ^ j" and "2 ^ j < n" and "n \<le> 2 ^ Suc j"
  shows "inner_bits i n = Suc j"
  unfolding inner_bits_def
proof (rule bitlen_eq_of_bits)
  have n: "2 ^ j \<le> n - 1" "n - 1 < 2 ^ Suc j" using assms(2,3) by auto
  show "bit (i XOR (n - 1)) j"
    using bit_top_split [OF n, of j] not_bit_of_less [OF assms(1), of j] by (simp add: bit_simps)
  fix c assume "j < c"
  then show "\<not> bit (i XOR (n - 1)) c"
    using not_bit_of_less [OF n(2), of c] not_bit_of_less [OF assms(1), of c] by (simp add: bit_simps)
qed

lemma inner_bits_above:
  assumes "2 ^ j \<le> i" and "i < n" and "2 ^ j < n" and "n \<le> 2 ^ Suc j"
  shows "inner_bits i n = inner_bits (i - 2 ^ j) (n - 2 ^ j)" and "inner_bits i n \<le> j"
proof -
  obtain p where p: "n = Suc p" using assms(2) by (cases n) auto
  have i: "2 ^ j \<le> i" "i < 2 ^ Suc j" and n: "2 ^ j \<le> p" "p < 2 ^ Suc j"
    using assms by (auto simp: p)
  have low: "i - 2 ^ j < 2 ^ j" "p - 2 ^ j < 2 ^ j" using i n by auto
  have "i XOR p = (i - 2 ^ j) XOR (p - 2 ^ j)"
    using not_bit_of_less [OF low(1), of j] not_bit_of_less [OF low(2), of j]
    by (intro bit_eqI) (auto simp: bit_xor_iff bit_top_split [OF i] bit_top_split [OF n])
  then have xor: "inner_bits i n = bitlen ((i - 2 ^ j) XOR (p - 2 ^ j))"
    by (simp add: inner_bits_def p)
  moreover have "n - 2 ^ j - 1 = p - 2 ^ j" by (simp add: p)
  ultimately show "inner_bits i n = inner_bits (i - 2 ^ j) (n - 2 ^ j)"
    by (simp only: inner_bits_def)
  have "(i - 2 ^ j) XOR (p - 2 ^ j) < 2 ^ j"
    using not_bit_of_less [OF low(1)] not_bit_of_less [OF low(2)]
    by (intro less_of_not_bit) (simp add: bit_xor_iff)
  then show "inner_bits i n \<le> j"
    by (simp add: xor bitlen_le_iff)
qed

text \<open>The iterative shape is the recursive one.\<close>

theorem leaf_sides_bits: "i < n \<Longrightarrow> leaf_sides i n = bit_sides i n"
proof (induction n arbitrary: i rule: less_induct)
  case (less n)
  show ?case
  proof (cases "1 < n")
    case False
    then have "i = 0" using less.prems by simp
    with False show ?thesis
      by (simp add: bit_sides_def inner_bits_def border_bits_def)
  next
    case True
    obtain j where j: "split_point n = 2 ^ j" "2 ^ j < n" "n \<le> 2 ^ Suc j"
      using split_point_obtain [OF True] .
    show ?thesis
    proof (cases "i < 2 ^ j")
      case i: True
      have "border_bits i n = 0"
        using not_bit_of_less [OF i] by (simp add: border_bits_def inner_bits_below [OF i j(2,3)])
      moreover have "\<not> bit i j" using not_bit_of_less [OF i] by simp
      ultimately show ?thesis
        using True i j(1)
        by (simp add: leaf_sides_below leaf_sides_power bit_sides_def inner_bits_below [OF i j(2,3)])
    next
      case i: False
      let ?i = "i - 2 ^ j" and ?n = "n - 2 ^ j"
      have inner: "inner_bits i n = inner_bits ?i ?n" "inner_bits i n \<le> j"
        using inner_bits_above [of j i n] i less.prems j(2,3) by auto
      have top: "bit i b \<longleftrightarrow> b = j \<or> bit ?i b" for b
        using i less.prems j(3) by (intro bit_top_split) auto
      have "?i < 2 ^ j" using less.prems j(3) i by simp
      then have nj: "\<not> bit ?i j" by (simp add: not_bit_of_less)
      have "{b. inner_bits i n \<le> b \<and> bit i b} = insert j {b. inner_bits ?i ?n \<le> b \<and> bit ?i b}"
        using inner by (auto simp: top)
      then have border: "border_bits i n = Suc (border_bits ?i ?n)"
        using nj by (simp add: border_bits_def)
      have "map (bit i) [0..<inner_bits i n] = map (bit ?i) [0..<inner_bits ?i ?n]"
        using inner by (auto simp: top)
      then have "bit_sides i n = bit_sides ?i ?n @ [True]"
        by (simp add: bit_sides_def border replicate_append_same [symmetric])
      moreover have "leaf_sides ?i ?n = bit_sides ?i ?n"
        by (rule less.IH) (use less.prems i j in auto)
      ultimately show ?thesis
        using True i j(1) by (simp add: leaf_sides_above)
    qed
  qed
qed

section \<open>Sides of the shared subtree\<close>

definition lowest_bit :: "nat \<Rightarrow> nat \<Rightarrow> bool" where
  "lowest_bit m t = (bit m t \<and> (\<forall>b<t. \<not> bit m b))"

lemma lowest_bit_exp [simp]: "lowest_bit (2 ^ j) t \<longleftrightarrow> t = j"
  by (auto simp: lowest_bit_def bit_simps)

lemma bit_mask_nat: "bit (2 ^ j - Suc 0) b \<longleftrightarrow> b < j"
  using bit_mask_iff [of j b, where 'a = nat] by (simp add: mask_eq_exp_minus_1)

lemma lowest_bit_diff_exp:
  assumes "2 ^ j < m" and "m < 2 ^ Suc j" and "lowest_bit m t"
  shows "lowest_bit (m - 2 ^ j) t"
proof -
  have top: "bit m b \<longleftrightarrow> b = j \<or> bit (m - 2 ^ j) b" for b
    using assms by (intro bit_top_split) auto
  have "t \<noteq> j"
  proof
    assume "t = j"
    then have "\<not> bit (m - 2 ^ j) b" for b
      using assms(1,2,3) top [of b] not_bit_of_less [of "m - 2 ^ j" j b]
      by (cases "b < j") (auto simp: lowest_bit_def)
    then have "m - 2 ^ j = 0" by (intro bit_eqI) simp
    then show False using assms(1) by simp
  qed
  then show ?thesis using assms(3) top by (simp add: lowest_bit_def)
qed

lemma leaf_sides_prefix_sides:
  "0 < m \<Longrightarrow> m < n \<Longrightarrow> lowest_bit m t \<Longrightarrow>
     leaf_sides (m - 1) n = replicate t True @ prefix_sides m n"
proof (induction n arbitrary: m rule: less_induct)
  case (less n)
  have n: "1 < n" using less.prems by simp
  obtain j where j: "split_point n = 2 ^ j" "2 ^ j < n" "n \<le> 2 ^ Suc j"
    using split_point_obtain [OF n] .
  consider "m = 2 ^ j" | "m < 2 ^ j" | "2 ^ j < m" by linarith
  then show ?case
  proof cases
    case 1
    then have "t = j" using less.prems by simp
    moreover have "map (bit (2 ^ j - Suc 0)) [0..<j] = replicate j True"
      by (rule nth_equalityI) (simp_all add: bit_mask_nat)
    ultimately show ?thesis
      using 1 n j by (simp add: leaf_sides_below prefix_sides_below leaf_sides_power)
  next
    case 2
    then have "leaf_sides (m - 1) (2 ^ j) = replicate t True @ prefix_sides m (2 ^ j)"
      using less.prems j by (intro less.IH) auto
    then show ?thesis
      using 2 n j less.prems by (simp add: leaf_sides_below prefix_sides_below)
  next
    case 3
    have "lowest_bit (m - 2 ^ j) t"
      by (rule lowest_bit_diff_exp) (use 3 less.prems j in auto)
    then have "leaf_sides (m - 2 ^ j - 1) (n - 2 ^ j)
        = replicate t True @ prefix_sides (m - 2 ^ j) (n - 2 ^ j)"
      using less.prems 3 j by (intro less.IH) auto
    moreover have "m - 2 ^ j - 1 = m - 1 - 2 ^ j" by simp
    ultimately show ?thesis
      using 3 n j less.prems by (simp add: leaf_sides_above prefix_sides_above)
  qed
qed

lemma bit_pred_lowest:
  assumes "lowest_bit m t"
  shows "bit (m - 1) b \<longleftrightarrow> b < t \<or> t < b \<and> bit m b"
proof -
  define h where "h = push_bit (Suc t) (drop_bit (Suc t) m)"
  have h: "bit h c \<longleftrightarrow> t < c \<and> bit m c" for c
    unfolding h_def by (simp only: bit_push_bit_iff bit_drop_bit_eq comp_def) (auto simp: Suc_le_eq)
  have "h + 2 ^ t = h OR 2 ^ t"
    by (rule disjunctive_add_eq_or, rule bit_eqI) (auto simp: bit_and_iff bit_exp_iff h)
  also have "\<dots> = m"
    using assms by (intro bit_eqI) (auto simp: lowest_bit_def bit_or_iff bit_exp_iff h, meson linorder_neqE_nat)
  finally have m: "m = h + 2 ^ t" by simp
  have "h + (2 ^ t - 1) = h OR (2 ^ t - 1)"
    by (rule disjunctive_add_eq_or, rule bit_eqI) (auto simp: bit_and_iff bit_mask_nat h)
  moreover have "m - 1 = h + (2 ^ t - 1)"
    by (simp add: m)
  ultimately have "m - 1 = h OR (2 ^ t - 1)" by simp
  then have "bit (m - 1) b \<longleftrightarrow> bit (h OR (2 ^ t - 1)) b" by (simp only:)
  then show ?thesis by (auto simp: bit_or_iff bit_mask_nat h)
qed

section \<open>Bit counts of words\<close>

lemma bit_unat_iff [simp]: "bit (unat w) b \<longleftrightarrow> bit w b"
  by (auto simp: bit_simps dest: bit_imp_le_length)

lemma length_takeWhile_ge_iff:
  "k \<le> length (takeWhile P xs) \<longleftrightarrow> k \<le> length xs \<and> (\<forall>i<k. P (xs ! i))"
proof (induction xs arbitrary: k)
  case Nil
  then show ?case by auto
next
  case (Cons x xs)
  then show ?case by (cases k) (auto simp: less_Suc_eq_0_disj)
qed

lemma leading_zeros_ge_iff:
  fixes w :: "'a::len word"
  shows "k \<le> leading_zeros w \<longleftrightarrow> k \<le> LENGTH('a) \<and> unat w < 2 ^ (LENGTH('a) - k)"
proof -
  have "(\<forall>i<k. \<not> bit w (LENGTH('a) - Suc i)) \<longleftrightarrow> unat w < 2 ^ (LENGTH('a) - k)"
    if k: "k \<le> LENGTH('a)"
  proof
    assume zero: "\<forall>i<k. \<not> bit w (LENGTH('a) - Suc i)"
    show "unat w < 2 ^ (LENGTH('a) - k)"
    proof (rule less_of_not_bit)
      fix c assume c: "LENGTH('a) - k \<le> c"
      show "\<not> bit (unat w) c"
      proof (cases "c < LENGTH('a)")
        case True
        then have "LENGTH('a) - Suc c < k" "LENGTH('a) - Suc (LENGTH('a) - Suc c) = c"
          using c k by auto
        with zero have "\<not> bit w c" by metis
        then show ?thesis by simp
      qed (simp add: bit_imp_le_length, meson bit_imp_le_length)
    qed
  next
    assume "unat w < 2 ^ (LENGTH('a) - k)"
    then show "\<forall>i<k. \<not> bit w (LENGTH('a) - Suc i)"
      using not_bit_of_less [of "unat w" "LENGTH('a) - k"] by (auto simp: diff_le_mono2)
  qed
  then show ?thesis
    by (auto simp: leading_zeros_def length_takeWhile_ge_iff rev_nth)
qed

lemma bitlen_unat:
  fixes w :: "'a::len word"
  shows "LENGTH('a) - leading_zeros w = bitlen (unat w)"
proof (rule antisym)
  have le: "leading_zeros w \<le> LENGTH('a)"
    using leading_zeros_ge_iff [of "leading_zeros w" w] by simp
  show "bitlen (unat w) \<le> LENGTH('a) - leading_zeros w"
    using leading_zeros_ge_iff [of "leading_zeros w" w] by (simp add: bitlen_le_iff)
  have b: "bitlen (unat w) \<le> LENGTH('a)"
    by (simp add: bitlen_le_iff)
  have "unat w < 2 ^ bitlen (unat w)"
    using bitlen_le_iff [of "unat w" "bitlen (unat w)"] by simp
  then have "LENGTH('a) - bitlen (unat w) \<le> leading_zeros w"
    using b by (simp add: leading_zeros_ge_iff)
  then show "LENGTH('a) - leading_zeros w \<le> bitlen (unat w)"
    using b le by linarith
qed

lemma count_ones_drop_bit:
  fixes w :: "'a::len word"
  shows "count_ones (drop_bit k w) = card {b. k \<le> b \<and> bit (unat w) b}"
proof -
  have "bij_betw (\<lambda>b. k + b) {b. bit w (k + b)} {b. k \<le> b \<and> bit w b}"
    by (rule bij_betw_byWitness [where f' = "\<lambda>b. b - k"]) auto
  then have card: "card {b. bit w (k + b)} = card {b. k \<le> b \<and> bit w b}"
    by (rule bij_betw_same_card)
  have "set (filter (bit (drop_bit k w)) [0..<LENGTH('a)]) = {b. bit w (k + b)}"
    by (auto simp: bit_drop_bit_eq dest: bit_imp_le_length)
  moreover have "distinct (filter (bit (drop_bit k w)) [0..<LENGTH('a)])" by simp
  ultimately have "count_ones (drop_bit k w) = card {b. bit w (k + b)}"
    unfolding count_ones_def by (metis distinct_card)
  then show ?thesis by (simp add: card)
qed

lemma lowest_bit_trailing_zeros:
  fixes w :: "'a::len word"
  assumes "w \<noteq> 0"
  shows "lowest_bit (unat w) (trailing_zeros w)"
proof -
  have upto: "\<not> bit w b" if "b < trailing_zeros w" for b
  proof -
    have le: "trailing_zeros w \<le> LENGTH('a)"
      unfolding trailing_zeros_def by (rule order_trans [OF length_takeWhile_le]) simp
    have "\<not> bit w ([0..<LENGTH('a)] ! b)"
      using that length_takeWhile_ge_iff [of "trailing_zeros w" "\<lambda>i. \<not> bit w i" "[0..<LENGTH('a)]"]
      unfolding trailing_zeros_def by blast
    with that le show ?thesis by simp
  qed
  have "trailing_zeros w < LENGTH('a)"
  proof (rule ccontr)
    assume "\<not> trailing_zeros w < LENGTH('a)"
    then have "w = 0"
      using upto by (intro bit_word_eqI) simp
    with assms show False by simp
  qed
  then have "bit w (trailing_zeros w)"
    using nth_length_takeWhile [of "\<lambda>i. \<not> bit w i" "[0..<LENGTH('a)]"]
    by (simp add: trailing_zeros_def)
  with upto show ?thesis by (simp add: lowest_bit_def)
qed

end
