(* ===== verification/Rfc6962.thy ===== *)
theory Rfc6962
  imports Merkle_Tree
begin

text \<open>
  \<open>merkle/rfc6962.rs\<close>: the RFC 6962 hasher over SHA-256. A digest \<open>Output<Sha256>\<close> is a
  256-bit word, \<open>as_ref()\<close> its 32 bytes in big-endian order. The digest function of the
  \<open>sha2\<close> crate is the parameter \<open>sha256\<close>, so every result holds for any hash function.
\<close>

type_synonym digest = "256 word"

definition digest_bytes :: "digest \<Rightarrow> bytes" where
  "digest_bytes d = rev (to_le_bytes 32 d)"

definition digest_from_bytes :: "bytes \<Rightarrow> digest" where
  "digest_from_bytes bs = from_le_bytes (rev bs)"

lemma length_digest_bytes [simp]: "length (digest_bytes d) = 32"
  by (simp add: digest_bytes_def)

lemma digest_from_to_bytes [simp]: "digest_from_bytes (digest_bytes d) = d"
  by (simp add: digest_from_bytes_def digest_bytes_def from_to_le_bytes)

lemma digest_to_from_bytes: "length bs = 32 \<Longrightarrow> digest_bytes (digest_from_bytes bs) = bs"
  by (simp add: digest_from_bytes_def digest_bytes_def to_from_le_bytes)

lemma digest_bytes_inject [simp]: "digest_bytes d = digest_bytes e \<longleftrightarrow> d = e"
  by (metis digest_from_to_bytes)

section \<open>The hasher\<close>

datatype rfc6269_hash_prefix = RFC6962LeafHashPrefix | RFC6962NodeHashPrefix

fun prefix_byte :: "rfc6269_hash_prefix \<Rightarrow> u8" where
  "prefix_byte RFC6962LeafHashPrefix = 0"
| "prefix_byte RFC6962NodeHashPrefix = 1"

definition leaf_message :: "bytes \<Rightarrow> bytes" where
  "leaf_message leaf = prefix_byte RFC6962LeafHashPrefix # leaf"

definition node_message :: "digest \<Rightarrow> digest \<Rightarrow> bytes" where
  "node_message left right = prefix_byte RFC6962NodeHashPrefix # digest_bytes left @ digest_bytes right"

definition empty_root :: "(bytes \<Rightarrow> digest) \<Rightarrow> digest" where
  "empty_root sha256 = sha256 []"

definition hash_leaf :: "(bytes \<Rightarrow> digest) \<Rightarrow> bytes \<Rightarrow> digest" where
  "hash_leaf sha256 leaf = sha256 (leaf_message leaf)"

definition hash_children :: "(bytes \<Rightarrow> digest) \<Rightarrow> digest \<Rightarrow> digest \<Rightarrow> digest" where
  "hash_children sha256 left right = sha256 (node_message left right)"

text \<open>The prefixes separate the domains, so the hasher interface holds for every \<open>sha256\<close>.\<close>

interpretation rfc: tree_hasher sha256 "[]" leaf_message node_message
  "empty_root sha256" "hash_leaf sha256" "hash_children sha256"
  for sha256
  by unfold_locales
    (auto simp: empty_root_def hash_leaf_def hash_children_def leaf_message_def node_message_def)

abbreviation merkle_root :: "(bytes \<Rightarrow> digest) \<Rightarrow> bytes list \<Rightarrow> digest" where
  "merkle_root sha256 \<equiv> mth (empty_root sha256) (hash_leaf sha256) (hash_children sha256)"

abbreviation merkle_messages :: "(bytes \<Rightarrow> digest) \<Rightarrow> bytes list \<Rightarrow> bytes list" where
  "merkle_messages sha256 \<equiv>
     tree_msgs [] leaf_message node_message (empty_root sha256) (hash_leaf sha256) (hash_children sha256)"

abbreviation path_messages :: "(bytes \<Rightarrow> digest) \<Rightarrow> bool list \<Rightarrow> digest \<Rightarrow> digest list \<Rightarrow> bytes list" where
  "path_messages sha256 \<equiv> chain_msgs node_message (hash_children sha256)"

end
