(* ===== verification/Merkle_Proof.thy ===== *)
theory Merkle_Proof
  imports Merkle_Bits Rfc6962
begin

text \<open>
  \<open>merkle/proof_verification.rs\<close>: the iterative checks of inclusion and consistency proofs.
  Tree sizes and indices are \<open>u64\<close> words; the proof lengths and bit counts, all at most 129
  where the code computes them, are natural numbers. \<open>MerklePanic\<close> stands for a panic:
  a shift by 64, a subtraction below zero, a slice or an index out of range.
  The digests of \<open>MismatchedRoot\<close> are those the source prints in hexadecimal.
\<close>

datatype 'h merkle_error =
    MismatchedRoot 'h 'h
  | IndexGtTreeSize
  | UnexpectedNonEmptyProof
  | UnexpectedEmptyProof
  | NewTreeSmaller u64 u64
  | WrongProofSize nat nat
  | WrongEmptyTreeHash
  | MerklePanic

section \<open>Operations\<close>

definition verify_match :: "'h \<Rightarrow> 'h \<Rightarrow> unit + unit" where
  "verify_match a b = (if a = b then Inr () else Inl ())"

definition inner_proof_size :: "u64 \<Rightarrow> u64 \<Rightarrow> 'h merkle_error + nat" where
  "inner_proof_size index tree_size =
     (if tree_size = 0 then Inl MerklePanic
      else Inr (64 - leading_zeros (index XOR (tree_size - 1))))"

definition decomp_inclusion_proof :: "u64 \<Rightarrow> u64 \<Rightarrow> 'h merkle_error + nat \<times> nat" where
  "decomp_inclusion_proof index tree_size =
     try_bind (inner_proof_size index tree_size) (\<lambda>inner.
     if 64 \<le> inner then Inl MerklePanic
     else Inr (inner, count_ones (drop_bit inner index)))"

definition chain_inner :: "('h \<Rightarrow> 'h \<Rightarrow> 'h) \<Rightarrow> 'h \<Rightarrow> 'h list \<Rightarrow> u64 \<Rightarrow> 'h" where
  "chain_inner hn seed proof_hashes index =
     foldl (\<lambda>seed (i, h). if drop_bit i index AND 1 = 0 then hn seed h else hn h seed)
       seed (enumerate 0 proof_hashes)"

definition chain_inner_right :: "('h \<Rightarrow> 'h \<Rightarrow> 'h) \<Rightarrow> 'h \<Rightarrow> 'h list \<Rightarrow> u64 \<Rightarrow> 'h" where
  "chain_inner_right hn seed proof_hashes index =
     foldl (\<lambda>seed (i, h). if drop_bit i index AND 1 = 1 then hn h seed else seed)
       seed (enumerate 0 proof_hashes)"

definition chain_border_right :: "('h \<Rightarrow> 'h \<Rightarrow> 'h) \<Rightarrow> 'h \<Rightarrow> 'h list \<Rightarrow> 'h" where
  "chain_border_right hn seed proof_hashes = foldl (\<lambda>seed h. hn h seed) seed proof_hashes"

definition root_from_inclusion_proof ::
  "('h \<Rightarrow> 'h \<Rightarrow> 'h) \<Rightarrow> u64 \<Rightarrow> 'h \<Rightarrow> u64 \<Rightarrow> 'h list \<Rightarrow> 'h merkle_error + 'h" where
  "root_from_inclusion_proof hn index leaf_hash tree_size proof_hashes =
     (if tree_size \<le> index then Inl IndexGtTreeSize
      else try_bind (decomp_inclusion_proof index tree_size) (\<lambda>(inner, border).
        if length proof_hashes \<noteq> inner + border
        then Inl (WrongProofSize (length proof_hashes) (inner + border))
        else let res_left = chain_inner hn leaf_hash (take inner proof_hashes) index
             in Inr (chain_border_right hn res_left (drop inner proof_hashes))))"

definition verify_inclusion ::
  "('h \<Rightarrow> 'h \<Rightarrow> 'h) \<Rightarrow> u64 \<Rightarrow> 'h \<Rightarrow> u64 \<Rightarrow> 'h list \<Rightarrow> 'h \<Rightarrow> 'h merkle_error + unit" where
  "verify_inclusion hn index leaf_hash tree_size proof_hashes root_hash =
     (if tree_size \<le> index then Inl IndexGtTreeSize
      else try_bind (root_from_inclusion_proof hn index leaf_hash tree_size proof_hashes) (\<lambda>calc_root.
        map_err (\<lambda>_. MismatchedRoot calc_root root_hash) (verify_match calc_root root_hash)))"

text \<open>The first \<open>match\<close> of \<open>verify_consistency\<close>: \<open>None\<close> when it falls through to the proof.\<close>

definition consistency_cases ::
  "'h \<Rightarrow> u64 \<Rightarrow> u64 \<Rightarrow> 'h list \<Rightarrow> 'h \<Rightarrow> 'h \<Rightarrow> ('h merkle_error + unit) option" where
  "consistency_cases er old_size new_size proof_hashes old_root new_root =
     (if new_size < old_size then Some (Inl (NewTreeSmaller new_size old_size))
      else if old_size = new_size then
        (if proof_hashes = []
         then Some (map_err (\<lambda>_. MismatchedRoot old_root new_root) (verify_match old_root new_root))
         else Some (Inl UnexpectedNonEmptyProof))
      else if old_size = 0 then
        (if proof_hashes = []
         then Some (map_err (\<lambda>_. WrongEmptyTreeHash) (verify_match old_root er))
         else Some (Inl UnexpectedNonEmptyProof))
      else if proof_hashes = [] then Some (Inl UnexpectedEmptyProof)
      else None)"

definition verify_consistency ::
  "'h \<Rightarrow> ('h \<Rightarrow> 'h \<Rightarrow> 'h) \<Rightarrow> u64 \<Rightarrow> u64 \<Rightarrow> 'h list \<Rightarrow> 'h \<Rightarrow> 'h \<Rightarrow> 'h merkle_error + unit" where
  "verify_consistency er hn old_size new_size proof_hashes old_root new_root =
     (case consistency_cases er old_size new_size proof_hashes old_root new_root of
       Some r \<Rightarrow> r
     | None \<Rightarrow>
       let shift = trailing_zeros old_size in
       try_bind (decomp_inclusion_proof (old_size - 1) new_size) (\<lambda>(inner, border).
       if inner < shift then Inl MerklePanic
       else let inner = inner - shift;
                power = old_size = push_bit shift 1;
                seed = (if power then old_root else hd proof_hashes);
                start = (if power then 0 else 1)
       in if length proof_hashes \<noteq> start + inner + border
          then Inl (WrongProofSize (length proof_hashes) (start + inner + border))
       else let prf = drop start proof_hashes;
                mask = drop_bit shift (old_size - 1);
                hash1 = chain_inner_right hn seed (take inner prf) mask;
                hash1 = chain_border_right hn hash1 (drop inner prf)
       in try_bind (map_err (\<lambda>_. MismatchedRoot hash1 old_root) (verify_match hash1 old_root)) (\<lambda>_.
          let hash2 = chain_inner hn seed (take inner prf) mask;
              hash2 = chain_border_right hn hash2 (drop inner prf)
          in map_err (\<lambda>_. MismatchedRoot hash2 new_root) (verify_match hash2 new_root))))"

section \<open>Folds and paths\<close>

lemma verify_match_Inr_iff [result_inv]: "verify_match a b = Inr u \<longleftrightarrow> a = b"
  by (simp add: verify_match_def)

lemma bit_test [simp]:
  "drop_bit i (w :: 'a::len word) AND 1 = 0 \<longleftrightarrow> \<not> bit w i"
  "drop_bit i w AND 1 = 1 \<longleftrightarrow> bit w i"
  by (simp_all add: and_one_eq bit_iff_odd_drop_bit mod2_eq_if)

lemma chain_inner_chain:
  "chain_inner hn seed hs index = chain hn (map (bit index) [0..<length hs]) seed hs"
proof (induction hs rule: rev_induct)
  case Nil
  then show ?case by (simp add: chain_inner_def)
next
  case (snoc h hs)
  then show ?case
    by (simp add: chain_inner_def enumerate_append_eq climb_def)
qed

lemma chain_inner_right_chain:
  "chain_inner_right hn seed hs index = chain_left hn (map (bit index) [0..<length hs]) seed hs"
proof (induction hs rule: rev_induct)
  case Nil
  then show ?case by (simp add: chain_inner_right_def)
next
  case (snoc h hs)
  then show ?case
    by (simp add: chain_inner_right_def enumerate_append_eq)
qed

lemma chain_border_right_chain:
  "chain_border_right hn seed hs = chain hn (replicate (length hs) True) seed hs"
  "chain_border_right hn seed hs = chain_left hn (replicate (length hs) True) seed hs"
  by (induction hs arbitrary: seed) (auto simp: chain_border_right_def climb_def)

lemma chain_two_parts:
  assumes "length hs = inner + border"
  shows "chain_border_right hn (chain_inner hn s (take inner hs) w) (drop inner hs)
         = chain hn (map (bit w) [0..<inner] @ replicate border True) s hs"
    and "chain_border_right hn (chain_inner_right hn s (take inner hs) w) (drop inner hs)
         = chain_left hn (map (bit w) [0..<inner] @ replicate border True) s hs"
proof -
  have "hs = take inner hs @ drop inner hs" and "length (take inner hs) = inner"
    and "length (drop inner hs) = border"
    using assms by auto
  then show "chain_border_right hn (chain_inner hn s (take inner hs) w) (drop inner hs)
         = chain hn (map (bit w) [0..<inner] @ replicate border True) s hs"
    and "chain_border_right hn (chain_inner_right hn s (take inner hs) w) (drop inner hs)
         = chain_left hn (map (bit w) [0..<inner] @ replicate border True) s hs"
    by (metis chain_append chain_inner_chain chain_border_right_chain(1) length_map length_upt diff_zero,
        metis chain_left_append chain_inner_right_chain chain_border_right_chain(2) length_map length_upt diff_zero)
qed

section \<open>The decomposition\<close>

lemma unat_pred: "(n :: 'a::len word) \<noteq> 0 \<Longrightarrow> unat (n - 1) = unat n - 1"
  by (simp add: unat_minus_one)

lemma unat_xor: "unat (a XOR b) = unat a XOR unat (b :: 'a::len word)"
  by (rule bit_eqI) (simp add: bit_xor_iff)

lemma inner_proof_size_bits:
  "n \<noteq> 0 \<Longrightarrow> inner_proof_size i n = Inr (inner_bits (unat i) (unat n))"
  using bitlen_unat [of "i XOR (n - 1)"]
  by (simp add: inner_proof_size_def inner_bits_def unat_xor unat_pred)

lemma decomp_bits:
  "n \<noteq> 0 \<Longrightarrow> decomp_inclusion_proof i n =
     (if 64 \<le> inner_bits (unat i) (unat n) then Inl MerklePanic
      else Inr (inner_bits (unat i) (unat n), border_bits (unat i) (unat n)))"
  by (simp add: decomp_inclusion_proof_def inner_proof_size_bits count_ones_drop_bit border_bits_def)

lemma inner_bits_le_63:
  assumes "i < n" and "n \<le> 2 ^ 63"
  shows "inner_bits i n < 64"
proof -
  have "i XOR (n - 1) < 2 ^ 63"
    using assms not_bit_of_less [of i 63] not_bit_of_less [of "n - 1" 63]
    by (intro less_of_not_bit) (auto simp: bit_xor_iff)
  then have "inner_bits i n \<le> 63" by (simp add: inner_bits_def bitlen_le_iff)
  then show ?thesis by simp
qed

lemma root_from_inclusion_proof_eq:
  assumes "i < n" and "inner_bits (unat i) (unat n) < 64"
  shows "root_from_inclusion_proof hn i lh n hs =
    (if length hs \<noteq> length (leaf_sides (unat i) (unat n))
     then Inl (WrongProofSize (length hs) (length (leaf_sides (unat i) (unat n))))
     else Inr (chain hn (leaf_sides (unat i) (unat n)) lh hs))"
proof -
  have n: "n \<noteq> 0" and lt: "unat i < unat n"
    using assms(1) by (auto simp: word_less_nat_alt)
  have sides: "leaf_sides (unat i) (unat n) =
      map (bit i) [0..<inner_bits (unat i) (unat n)] @ replicate (border_bits (unat i) (unat n)) True"
    using leaf_sides_bits [OF lt] by (simp add: bit_sides_def)
  show ?thesis
    using assms n chain_two_parts(1) [of hs "inner_bits (unat i) (unat n)" "border_bits (unat i) (unat n)" hn lh i]
    by (simp add: root_from_inclusion_proof_def decomp_bits sides)
qed

section \<open>The consistency check as paths\<close>

lemma prefix_sides_hd:
  "0 < m \<Longrightarrow> m < n \<Longrightarrow> \<exists>bs. prefix_sides m n = False # bs"
proof (induction n arbitrary: m rule: less_induct)
  case (less n)
  have n: "1 < n" using less.prems by simp
  consider "m = split_point n" | "m < split_point n" | "split_point n < m" by linarith
  then show ?case
  proof cases
    case 1
    have "prefix_sides m n = prefix_sides m (split_point n) @ [False]"
      by (rule prefix_sides_below) (use n less.prems 1 in linarith)+
    then show ?thesis using 1 by simp
  next
    case 2
    then have "\<exists>bs. prefix_sides m (split_point n) = False # bs"
      using less.prems n by (intro less.IH) (auto simp: split_point_less)
    then show ?thesis using 2 n less.prems by (auto simp: prefix_sides_below)
  next
    case 3
    then have "\<exists>bs. prefix_sides (m - split_point n) (n - split_point n) = False # bs"
      using less.prems n by (intro less.IH) auto
    then show ?thesis using 3 n less.prems by (auto simp: prefix_sides_above)
  qed
qed

text \<open>The bits above the lowest set bit of \<open>m\<close> are the sides of the shared subtree.\<close>

lemma prefix_sides_bits:
  assumes "0 < m" and "m < n" and "lowest_bit m t"
  shows "t < inner_bits (m - 1) n"
    and "prefix_sides m n =
      map (bit (m - 1)) [t..<inner_bits (m - 1) n] @ replicate (border_bits (m - 1) n) True"
proof -
  let ?I = "inner_bits (m - 1) n" and ?B = "border_bits (m - 1) n"
  have eq: "map (bit (m - 1)) [0..<?I] @ replicate ?B True = replicate t True @ prefix_sides m n"
    using assms leaf_sides_bits [of "m - 1" n] leaf_sides_prefix_sides [of m n t]
    by (simp add: bit_sides_def)
  show I: "t < ?I"
  proof (rule ccontr)
    assume "\<not> t < ?I"
    then have "bit (m - 1) b" if "b < ?I" for b
      using that by (subst bit_pred_lowest [OF assms(3)]) linarith
    then have "\<forall>b\<in>set (map (bit (m - 1)) [0..<?I] @ replicate ?B True). b" by auto
    then have "\<forall>b\<in>set (prefix_sides m n). b" unfolding eq by (auto simp only: set_append)
    then show False using prefix_sides_hd [OF assms(1,2)] by auto
  qed
  have "map (bit (m - 1)) [0..<?I] = map (bit (m - 1)) [0..<t] @ map (bit (m - 1)) [t..<?I]"
    using I upt_add_eq_append [of 0 t "?I - t"] by simp
  moreover have "map (bit (m - 1)) [0..<t] = replicate t True"
    by (rule nth_equalityI) (simp_all add: bit_pred_lowest [OF assms(3), simplified])
  ultimately show "prefix_sides m n = map (bit (m - 1)) [t..<?I] @ replicate ?B True"
    using eq by simp
qed

lemma power_iff_no_left:
  assumes "0 < m" and "m < n" and "lowest_bit m t"
  shows "m = 2 ^ t \<longleftrightarrow> True \<notin> set (prefix_sides m n)"
proof
  have ps: "True \<notin> set (prefix_sides m n) \<longleftrightarrow>
      (\<forall>b. t \<le> b \<and> b < inner_bits (m - 1) n \<longrightarrow> \<not> bit (m - 1) b) \<and> border_bits (m - 1) n = 0"
    using prefix_sides_bits [OF assms] by (auto simp: image_iff)
  have border: "border_bits (m - 1) n = 0 \<longleftrightarrow> (\<forall>b\<ge>inner_bits (m - 1) n. \<not> bit (m - 1) b)"
    by (auto simp: border_bits_def)
  {
    assume "m = 2 ^ t"
    then have "\<not> bit (m - 1) b" if "t \<le> b" for b
      using that by (simp add: bit_mask_nat)
    then show "True \<notin> set (prefix_sides m n)"
      using prefix_sides_bits(1) [OF assms] unfolding ps border by auto
  next
    assume "True \<notin> set (prefix_sides m n)"
    then have "\<not> bit (m - 1) b" if "t \<le> b" for b
      using that unfolding ps border by (cases "b < inner_bits (m - 1) n") auto
    then have "\<not> bit m b" if "t < b" for b
      using that bit_pred_lowest [OF assms(3), of b] by auto
    then show "m = 2 ^ t"
      using assms(3) by (intro bit_eqI) (auto simp: bit_exp_iff lowest_bit_def, meson linorder_neqE_nat)
  }
qed

definition consistency_check :: "('h \<Rightarrow> 'h \<Rightarrow> 'h) \<Rightarrow> bool list \<Rightarrow> 'h list \<Rightarrow> 'h \<Rightarrow> 'h \<Rightarrow> 'h merkle_error + unit" where
  "consistency_check hn ps hs old_root new_root =
     (let whole = True \<notin> set ps; start = (if whole then 0 else 1);
          seed = (if whole then old_root else hd hs); prf = drop start hs
      in if length hs \<noteq> start + length ps then Inl (WrongProofSize (length hs) (start + length ps))
         else if chain_left hn ps seed prf \<noteq> old_root then Inl (MismatchedRoot (chain_left hn ps seed prf) old_root)
         else if chain hn ps seed prf \<noteq> new_root then Inl (MismatchedRoot (chain hn ps seed prf) new_root)
         else Inr ())"

lemma verify_consistency_eq:
  assumes "0 < m" and "m < n" and "hs \<noteq> []" and "inner_bits (unat m - 1) (unat n) < 64"
  shows "verify_consistency er hn m n hs old_root new_root =
    consistency_check hn (prefix_sides (unat m) (unat n)) hs old_root new_root"
proof -
  let ?t = "trailing_zeros m" and ?ps = "prefix_sides (unat m) (unat n)"
  let ?I = "inner_bits (unat m - 1) (unat n)" and ?B = "border_bits (unat m - 1) (unat n)"
  have m: "m \<noteq> 0" "0 < unat m" "unat m < unat n" and n: "n \<noteq> 0"
    using assms(1,2) by (auto simp: word_less_nat_alt unat_gt_0)
  have low: "lowest_bit (unat m) ?t" using m(1) by (rule lowest_bit_trailing_zeros)
  then have t: "?t < 64"
    using bit_imp_le_length [of m ?t] by (simp add: lowest_bit_def)
  note I = prefix_sides_bits(1) [OF m(2,3) low]
  have "map (bit (unat m - 1)) [?t..<?I] = map (bit (drop_bit ?t (m - 1))) [0..<?I - ?t]"
    using m(1) bit_unat_iff [of "m - 1"]
    by (intro nth_equalityI) (simp_all add: bit_drop_bit_eq unat_pred add.commute)
  then have ps: "?ps = map (bit (drop_bit ?t (m - 1))) [0..<?I - ?t] @ replicate ?B True"
    using prefix_sides_bits(2) [OF m(2,3) low] by simp
  have unat_pow: "unat (push_bit ?t 1 :: u64) = 2 ^ ?t"
    using t by (simp only: unsigned_push_bit_eq unsigned_1) (simp add: take_bit_nat_eq_self)
  have power: "m = push_bit ?t 1 \<longleftrightarrow> True \<notin> set ?ps"
    using power_iff_no_left [OF m(2,3) low] unat_pow by (metis unsigned_word_eqI)
  have none: "consistency_cases er m n hs old_root new_root = None"
    using assms(2,3) m(1) by (auto simp: consistency_cases_def)
  have dec: "decomp_inclusion_proof (m - 1) n = Inr (?I, ?B)"
    using assms(4) n m(1) by (simp add: decomp_bits unat_pred)
  define st where "st = (if True \<notin> set ?ps then 0 else 1 :: nat)"
  define sd where "sd = (if True \<notin> set ?ps then old_root else hd hs)"
  define inner where "inner = ?I - ?t"
  define pf where "pf = drop st hs"
  define w where "w = drop_bit ?t (m - 1)"
  have nI: "(?I < ?t) = False" using I by simp
  have step: "verify_consistency er hn m n hs old_root new_root =
     (if length hs \<noteq> st + inner + ?B then Inl (WrongProofSize (length hs) (st + inner + ?B))
      else let hash1 = chain_border_right hn (chain_inner_right hn sd (take inner pf) w) (drop inner pf);
               hash2 = chain_border_right hn (chain_inner hn sd (take inner pf) w) (drop inner pf)
           in try_bind (map_err (\<lambda>_. MismatchedRoot hash1 old_root) (verify_match hash1 old_root)) (\<lambda>_.
              map_err (\<lambda>_. MismatchedRoot hash2 new_root) (verify_match hash2 new_root)))"
    unfolding st_def sd_def inner_def pf_def w_def
    by (simp only: verify_consistency_def none option.case Let_def dec try_bind_simps prod.case power
        nI if_False)
  have ps': "?ps = map (bit w) [0..<inner] @ replicate ?B True"
    by (simp add: ps w_def inner_def)
  have two: "chain_border_right hn (chain_inner hn sd (take inner pf) w) (drop inner pf) = chain hn ?ps sd pf"
    "chain_border_right hn (chain_inner_right hn sd (take inner pf) w) (drop inner pf) = chain_left hn ?ps sd pf"
    if "length pf = inner + ?B"
    using chain_two_parts [OF that, of hn sd w] by (simp_all only: ps')
  have len: "length ?ps = inner + ?B" by (simp add: ps')
  show ?thesis
  proof (cases "length hs = st + inner + ?B")
    case True
    then have "length pf = inner + ?B" by (simp add: pf_def)
    with True show ?thesis
      unfolding step consistency_check_def Let_def st_def [symmetric] sd_def [symmetric] pf_def [symmetric] len
      by (simp only: two) (simp add: verify_match_def)
  next
    case False
    then show ?thesis
      unfolding step consistency_check_def Let_def st_def [symmetric] len by simp
  qed
qed

end
