(* ===== verification/Merkle_Properties.thy ===== *)
theory Merkle_Properties
  imports Merkle_Proof
begin

text \<open>
  What the Merkle verifier guarantees, over any digest function \<open>sha256\<close>: completeness and
  soundness of inclusion and consistency proofs, membership when index and size come from
  an untrusted log entry, and the exact inputs on which the arithmetic panics.
\<close>

section \<open>Preparation\<close>

lemma inner_bits_64_iff:
  assumes "i < n"
  shows "64 \<le> inner_bits (unat i) (unat n) \<longleftrightarrow> i < (2 ^ 63 :: u64) \<and> 2 ^ 63 < n"
proof -
  have n: "n \<noteq> 0" using assms by auto
  have i: "unat i < 2 ^ 64" using unsigned_less [of i, where 'a = nat] by simp
  have n1: "unat n - 1 < 2 ^ 64" using unsigned_less [of n, where 'a = nat] by simp
  have top: "bit (unat i) 63 \<longleftrightarrow> 2 ^ 63 \<le> i"
  proof
    assume "bit (unat i) 63"
    then have "\<not> unat i < 2 ^ 63" using not_bit_of_less by blast
    then show "2 ^ 63 \<le> i" by (simp add: word_le_nat_alt)
  next
    assume "2 ^ 63 \<le> i"
    then have "2 ^ 63 \<le> unat i" by (simp add: word_le_nat_alt)
    then show "bit (unat i) 63"
      using bit_top_split [of 63 "unat i" 63] i by simp
  qed
  have topn: "bit (unat n - 1) 63 \<longleftrightarrow> 2 ^ 63 < n"
  proof
    assume "bit (unat n - 1) 63"
    then have "\<not> unat n - 1 < 2 ^ 63" using not_bit_of_less by blast
    then show "2 ^ 63 < n" using n by (simp add: word_less_nat_alt unat_gt_0)
  next
    assume "2 ^ 63 < n"
    then have "2 ^ 63 \<le> unat n - 1" by (simp add: word_less_nat_alt)
    then show "bit (unat n - 1) 63"
      using bit_top_split [of 63 "unat n - 1" 63] n1 by simp
  qed
  have "64 \<le> inner_bits (unat i) (unat n) \<longleftrightarrow> 2 ^ 63 \<le> unat i XOR (unat n - 1)"
    using less_bitlen_iff [of 63 "unat i XOR (unat n - 1)"] by (auto simp: inner_bits_def)
  also have "\<dots> \<longleftrightarrow> bit (unat i XOR (unat n - 1)) 63"
  proof
    assume le: "2 ^ 63 \<le> unat i XOR (unat n - 1)"
    have "unat i XOR (unat n - 1) < 2 ^ Suc 63"
      using not_bit_of_less [OF i] not_bit_of_less [OF n1]
      by (intro less_of_not_bit) (simp add: bit_xor_iff)
    with le show "bit (unat i XOR (unat n - 1)) 63"
      using bit_top_split [of 63 "unat i XOR (unat n - 1)" 63] by simp
  next
    assume "bit (unat i XOR (unat n - 1)) 63"
    then show "2 ^ 63 \<le> unat i XOR (unat n - 1)"
      using not_bit_of_less [of "unat i XOR (unat n - 1)" 63 63] by (meson not_le order_refl)
  qed
  also have "\<dots> \<longleftrightarrow> (2 ^ 63 \<le> i) \<noteq> (2 ^ 63 < n)"
    unfolding bit_xor_iff top topn by blast
  also have "\<dots> \<longleftrightarrow> i < 2 ^ 63 \<and> 2 ^ 63 < n"
    using assms by (auto simp: not_le not_less)
  finally show ?thesis .
qed

lemma unat_of_nat_64: "n \<le> 2 ^ 63 \<Longrightarrow> unat (of_nat n :: u64) = n"
  by (simp add: unat_of_nat take_bit_nat_eq_self)

lemma of_nat_le_63: "n \<le> 2 ^ 63 \<Longrightarrow> \<not> 2 ^ 63 < (of_nat n :: u64)"
  by (simp add: word_less_nat_alt unat_of_nat_64)

lemma root_panic_iff:
  "root_from_inclusion_proof hn i lh n hs = Inl MerklePanic \<longleftrightarrow> i < 2 ^ 63 \<and> 2 ^ 63 < n"
proof (cases "i < n")
  case True
  show ?thesis
  proof (cases "inner_bits (unat i) (unat n) < 64")
    case inner: True
    then show ?thesis
      using True inner_bits_64_iff [OF True] by (simp add: root_from_inclusion_proof_eq not_le [symmetric])
  next
    case False
    then have "decomp_inclusion_proof i n = (Inl MerklePanic :: 'a merkle_error + nat \<times> nat)"
      using True by (subst decomp_bits) auto
    then show ?thesis
      using False True inner_bits_64_iff [OF True] by (simp add: root_from_inclusion_proof_def)
  qed
next
  case False
  then show ?thesis
    by (auto simp: root_from_inclusion_proof_def)
qed

text \<open>An accepted inclusion proof is a path of the right length to the root.\<close>

lemma verify_inclusion_path:
  assumes "verify_inclusion hn i lh n hs root = Inr ()"
  shows "i < n" and "length hs = length (leaf_sides (unat i) (unat n))"
    and "chain hn (leaf_sides (unat i) (unat n)) lh hs = root"
proof -
  obtain r where r: "i < n" "root_from_inclusion_proof hn i lh n hs = Inr r" "r = root"
    using assms by (auto simp: verify_inclusion_def result_inv)
  then have "\<not> (i < 2 ^ 63 \<and> 2 ^ 63 < n)"
    using root_panic_iff [of hn i lh n hs] by simp
  then have "inner_bits (unat i) (unat n) < 64"
    using inner_bits_64_iff [OF r(1)] by (meson not_le)
  with r show "i < n" "length hs = length (leaf_sides (unat i) (unat n))"
    "chain hn (leaf_sides (unat i) (unat n)) lh hs = root"
    by (auto simp: root_from_inclusion_proof_eq split: if_splits)
qed

lemma consistency_none_iff:
  "consistency_cases er m n hs old_root new_root = None \<longleftrightarrow> 0 < m \<and> m < n \<and> hs \<noteq> []"
  by (auto simp: consistency_cases_def word_neq_0_conv)

lemma pred_le_63:
  fixes m n :: u64
  assumes "0 < m" and "m < n"
  shows "m - 1 < n" and "m - 1 < 2 ^ 63 \<longleftrightarrow> m \<le> 2 ^ 63" and "unat (m - 1) = unat m - 1"
proof -
  show u: "unat (m - 1) = unat m - 1" using assms(1) by (simp add: unat_pred word_neq_0_conv)
  have "0 < unat m" using assms(1) by (simp add: unat_gt_0 word_neq_0_conv)
  then show "m - 1 < n" "m - 1 < 2 ^ 63 \<longleftrightarrow> m \<le> 2 ^ 63"
    using assms by (auto simp: word_less_nat_alt word_le_nat_alt u)
qed

lemma consistency_panic_iff:
  "verify_consistency er hn m n hs old_root new_root = Inl MerklePanic \<longleftrightarrow>
     0 < m \<and> m \<le> 2 ^ 63 \<and> 2 ^ 63 < n \<and> hs \<noteq> []"
proof (cases "0 < m \<and> m < n \<and> hs \<noteq> []")
  case True
  then have m: "0 < m" "m < n" "hs \<noteq> []" by auto
  note p = pred_le_63 [OF m(1,2)]
  have iff: "64 \<le> inner_bits (unat m - 1) (unat n) \<longleftrightarrow> m \<le> 2 ^ 63 \<and> 2 ^ 63 < n"
    using inner_bits_64_iff [OF p(1)] p(2,3) by simp
  show ?thesis
  proof (cases "inner_bits (unat m - 1) (unat n) < 64")
    case inner: True
    then have "\<not> (m \<le> 2 ^ 63 \<and> 2 ^ 63 < n)" using iff by simp
    then show ?thesis
      by (auto simp: verify_consistency_eq [OF m inner] consistency_check_def Let_def)
  next
    case False
    have "decomp_inclusion_proof (m - 1) n = (Inl MerklePanic :: 'a merkle_error + nat \<times> nat)"
      using False m p(3) by (subst decomp_bits) auto
    then show ?thesis
      using False m iff
      by (simp add: verify_consistency_def consistency_none_iff [THEN iffD2])
  qed
next
  case False
  then obtain r where r: "consistency_cases er m n hs old_root new_root = Some r"
    using consistency_none_iff [of er m n hs old_root new_root] by auto
  then have "r \<noteq> Inl MerklePanic"
    by (auto simp: consistency_cases_def verify_match_def split: if_splits)
  with False r show ?thesis
    by (auto simp: verify_consistency_def intro: le_less_trans)
qed

text \<open>An accepted consistency proof, when it is not one of the trivial cases.\<close>

lemma verify_consistency_path:
  assumes "verify_consistency er hn m n hs old_root new_root = Inr ()" and "0 < m" and "m < n"
  shows "consistency_check hn (prefix_sides (unat m) (unat n)) hs old_root new_root = Inr ()"
proof -
  have "consistency_cases er m n [] old_root new_root = Some (Inl UnexpectedEmptyProof)"
    using assms(2,3) by (auto simp: consistency_cases_def)
  then have hs: "hs \<noteq> []"
    using assms(1) by (auto simp: verify_consistency_def)
  have "inner_bits (unat m - 1) (unat n) < 64"
    using assms hs consistency_panic_iff [of er hn m n hs old_root new_root]
      inner_bits_64_iff [OF pred_le_63(1) [OF assms(2,3)]] pred_le_63 [OF assms(2,3)]
    by (simp add: not_le [symmetric])
  then show ?thesis
    using assms hs by (simp add: verify_consistency_eq)
qed

lemma consistency_check_Inr:
  assumes "consistency_check hn ps hs old_root new_root = Inr ()"
  obtains seed hs' where
    "hs' = (if True \<in> set ps then drop 1 hs else hs)"
    "seed = (if True \<in> set ps then hd hs else old_root)"
    "length hs' = length ps" "chain_left hn ps seed hs' = old_root" "chain hn ps seed hs' = new_root"
  using assms that [of "if True \<in> set ps then drop 1 hs else hs" "if True \<in> set ps then hd hs else old_root"]
  by (auto simp: consistency_check_def Let_def split: if_splits)

lemma consistency_path_sound:
  assumes "0 < m" and "m < length ds"
    and "consistency_check (hash_children sha256) (prefix_sides m (length ds)) hs old_root (merkle_root sha256 ds) = Inr ()"
  shows "old_root = merkle_root sha256 (take m ds) \<or>
    collide sha256 (path_messages sha256 (prefix_sides m (length ds))
        (if True \<in> set (prefix_sides m (length ds)) then hd hs else old_root)
        (if True \<in> set (prefix_sides m (length ds)) then drop 1 hs else hs)) (merkle_messages sha256 ds)"
proof -
  obtain seed hs' where s:
    "hs' = (if True \<in> set (prefix_sides m (length ds)) then drop 1 hs else hs)"
    "seed = (if True \<in> set (prefix_sides m (length ds)) then hd hs else old_root)"
    "length hs' = length (prefix_sides m (length ds))"
    "chain_left (hash_children sha256) (prefix_sides m (length ds)) seed hs' = old_root"
    "chain (hash_children sha256) (prefix_sides m (length ds)) seed hs' = merkle_root sha256 ds"
    by (rule consistency_check_Inr [OF assms(3)])
  have "old_root = merkle_root sha256 (take m ds)"
    if "seed = merkle_root sha256 (shared_leaves m ds)"
      "hs' = shared_path (empty_root sha256) (hash_leaf sha256) (hash_children sha256) m ds"
    using s(4) chain_left_shared_path [of m ds "hash_children sha256" "empty_root sha256" "hash_leaf sha256"]
      assms(1,2) by (simp add: that)
  then show ?thesis
    using rfc.prefix_path_sound [of m ds hs' sha256 seed] assms(1,2) s(3,5)
    by (auto simp flip: s(1,2))
qed

lemma chain_left_no_left: "True \<notin> set ps \<Longrightarrow> chain_left hn ps s hs = s"
  by (induction hn ps s hs rule: chain_left.induct) auto

section \<open>Inclusion\<close>

text \<open>
  C10. Soundness of inclusion: if \<open>verify_inclusion\<close> accepts a proof against the root of the
  tree of the leaves \<open>ds\<close>, at that tree's size, then the leaf hash is the hash of the leaf
  at that index and the proof is its audit path; otherwise two messages that were hashed on
  the proof's path and in the tree are a SHA-256 collision.
\<close>

theorem inclusion_sound:
  assumes "verify_inclusion (hash_children sha256) i lh n hs (merkle_root sha256 ds) = Inr ()"
    and "unat n = length ds"
  shows "(unat i < length ds \<and> lh = hash_leaf sha256 (ds ! unat i) \<and>
      hs = audit_path (empty_root sha256) (hash_leaf sha256) (hash_children sha256) (unat i) ds)
    \<or> collide sha256 (path_messages sha256 (leaf_sides (unat i) (unat n)) lh hs)
        (merkle_messages sha256 ds)"
proof -
  note path = verify_inclusion_path [OF assms(1)]
  have "unat i < length ds" using path(1) assms(2) by (simp add: word_less_nat_alt)
  then show ?thesis
    using path(2,3) rfc.leaf_path_sound [of "unat i" ds hs sha256 lh] by (auto simp: assms(2))
qed

text \<open>
  Membership with untrusted position: whatever index and tree size an entry claims, an
  accepted inclusion proof of the leaf \<open>d\<close> against the root of the leaves \<open>ds\<close> shows that
  \<open>d\<close> is one of them, or exhibits a collision.
\<close>

theorem inclusion_membership:
  assumes "verify_inclusion (hash_children sha256) i (hash_leaf sha256 d) n hs (merkle_root sha256 ds) = Inr ()"
  shows "d \<in> set ds \<or>
    collide sha256 (leaf_message d # path_messages sha256 (leaf_sides (unat i) (unat n)) (hash_leaf sha256 d) hs)
      (merkle_messages sha256 ds)"
  using rfc.any_path_member verify_inclusion_path [OF assms] by metis

text \<open>
  C13. Completeness of inclusion: for every tree of at most \<open>2 ^ 63\<close> leaves, the audit path of
  every leaf is accepted.
\<close>

theorem inclusion_complete:
  assumes "i < length ds" and "length ds \<le> 2 ^ 63"
  shows "verify_inclusion (hash_children sha256) (of_nat i) (hash_leaf sha256 (ds ! i)) (of_nat (length ds))
     (audit_path (empty_root sha256) (hash_leaf sha256) (hash_children sha256) i ds) (merkle_root sha256 ds) = Inr ()"
proof -
  have u: "unat (of_nat i :: u64) = i" "unat (of_nat (length ds) :: u64) = length ds"
    using assms by (auto simp: unat_of_nat_64)
  have lt: "(of_nat i :: u64) < of_nat (length ds)"
    using assms by (simp add: word_less_nat_alt u)
  have "inner_bits i (length ds) < 64" using assms by (rule inner_bits_le_63)
  then show ?thesis
    using lt assms(1) chain_audit_path [of i ds "hash_children sha256" "hash_leaf sha256" "empty_root sha256"]
      length_audit_path [of i ds "empty_root sha256" "hash_leaf sha256" "hash_children sha256"]
    by (simp add: verify_inclusion_def root_from_inclusion_proof_eq u verify_match_def not_le)
qed

text \<open>
  C19. The arithmetic of an inclusion proof: \<open>root_from_inclusion_proof\<close> panics (a shift by
  64) exactly when the claimed tree size is above \<open>2 ^ 63\<close> and the index below it; for every
  other input it returns a value or an error.
\<close>

theorem inclusion_panics_iff:
  "root_from_inclusion_proof hn i lh n hs = Inl MerklePanic \<longleftrightarrow> i < 2 ^ 63 \<and> 2 ^ 63 < n"
  by (rule root_panic_iff)

text \<open>
  The hypotheses hold: the third leaf of a tree of three leaves, whose audit path is the
  node above the first two, for every digest function.
\<close>

definition three_leaves :: "bytes list" where
  "three_leaves = [[1], [2], [3]]"

definition toy_digest :: "bytes \<Rightarrow> digest" where
  "toy_digest bs = foldl (\<lambda>a b. 257 * a + ucast b + 1) 7 bs"

lemma split_point_small:
  "split_point (Suc (Suc (Suc 0))) = 2" "split_point (Suc (Suc 0)) = 1"
  by code_simp+

lemma three_leaves_root:
  "mth er hl hn three_leaves = hn (hn (hl [1]) (hl [2])) (hl [3])"
  by (simp add: three_leaves_def mth_split mth_single split_point_small)

lemma three_leaves_accepted:
  "verify_inclusion hn 2 (hl [3]) 3 [hn (hl [1]) (hl [2])] (mth er hl hn three_leaves) = Inr ()"
proof -
  have "leading_zeros (0 :: u64) = 64" "count_ones (2 :: u64) = 1"
    by code_simp+
  then have "decomp_inclusion_proof 2 3 = (Inr (0, 1) :: 'a merkle_error + nat \<times> nat)"
    by (simp add: decomp_inclusion_proof_def inner_proof_size_def)
  then show ?thesis
    by (simp add: verify_inclusion_def root_from_inclusion_proof_def three_leaves_root
        chain_inner_def chain_border_right_def verify_match_def)
qed

lemma inclusion_sound_witness:
  "(hash_leaf toy_digest [3] = hash_leaf toy_digest (three_leaves ! unat (2 :: u64)) \<and>
      [hash_children toy_digest (hash_leaf toy_digest [1]) (hash_leaf toy_digest [2])] =
      audit_path (empty_root toy_digest) (hash_leaf toy_digest) (hash_children toy_digest) (unat (2 :: u64)) three_leaves)
    \<or> collide toy_digest (path_messages toy_digest (leaf_sides (unat (2 :: u64)) (unat (3 :: u64))) (hash_leaf toy_digest [3])
          [hash_children toy_digest (hash_leaf toy_digest [1]) (hash_leaf toy_digest [2])])
        (merkle_messages toy_digest three_leaves)"
  using inclusion_sound [OF three_leaves_accepted] by (simp add: three_leaves_def)

lemma inclusion_membership_witness:
  "[3] \<in> set three_leaves \<or>
    collide toy_digest (leaf_message [3] # path_messages toy_digest (leaf_sides (unat (2 :: u64)) (unat (3 :: u64)))
        (hash_leaf toy_digest [3]) [hash_children toy_digest (hash_leaf toy_digest [1]) (hash_leaf toy_digest [2])])
      (merkle_messages toy_digest three_leaves)"
  by (rule inclusion_membership [OF three_leaves_accepted])

lemma inclusion_complete_witness:
  "verify_inclusion (hash_children toy_digest) (of_nat 2) (hash_leaf toy_digest [3]) (of_nat 3)
     (audit_path (empty_root toy_digest) (hash_leaf toy_digest)
        (hash_children toy_digest) 2 three_leaves)
     (merkle_root toy_digest three_leaves) = Inr ()"
  using inclusion_complete [of 2 three_leaves toy_digest] by (simp add: three_leaves_def)

section \<open>Consistency\<close>

text \<open>
  C11. Soundness of consistency: if \<open>verify_consistency\<close> accepts, against the root of the
  leaves \<open>ds\<close> as the new root, then the old size is at most the new one and the old root
  is the root of that many first leaves, or a collision is at hand.
\<close>

theorem consistency_sound:
  assumes "verify_consistency (empty_root sha256) (hash_children sha256) m n hs old_root (merkle_root sha256 ds) = Inr ()"
    and "unat n = length ds"
  shows "unat m \<le> length ds \<and>
    (old_root = merkle_root sha256 (take (unat m) ds) \<or>
     collide sha256 (path_messages sha256 (prefix_sides (unat m) (length ds))
         (if True \<in> set (prefix_sides (unat m) (length ds)) then hd hs else old_root)
         (if True \<in> set (prefix_sides (unat m) (length ds)) then drop 1 hs else hs)) (merkle_messages sha256 ds))"
proof -
  have le: "m \<le> n"
    using assms(1) by (auto simp: verify_consistency_def consistency_cases_def split: if_splits)
  consider "m = 0" "m < n" | "m = n" | "0 < m" "m < n"
    using le by (metis le_neq_trans word_neq_0_conv)
  then show ?thesis
  proof cases
    case 1
    then have "old_root = empty_root sha256"
      using assms(1) by (auto simp: verify_consistency_def consistency_cases_def result_inv split: if_splits)
    with 1 show ?thesis by simp
  next
    case 2
    then have "old_root = merkle_root sha256 ds"
      using assms(1) by (auto simp: verify_consistency_def consistency_cases_def result_inv split: if_splits)
    with 2 assms(2) show ?thesis by simp
  next
    case 3
    then have "0 < unat m" "unat m < length ds"
      using assms(2) by (auto simp: word_less_nat_alt unat_gt_0)
    moreover have "consistency_check (hash_children sha256) (prefix_sides (unat m) (length ds)) hs old_root (merkle_root sha256 ds) = Inr ()"
      using verify_consistency_path [OF assms(1) 3] by (simp add: assms(2))
    ultimately show ?thesis using consistency_path_sound [of "unat m" ds sha256 hs old_root] by simp
  qed
qed

text \<open>
  C14. Completeness of consistency: for every prefix of at least one leaf of a tree of at most
  \<open>2 ^ 63\<close> leaves, the RFC 6962 consistency proof between the two is accepted.
\<close>

theorem consistency_complete:
  assumes "0 < m" and "m \<le> length ds" and "length ds \<le> 2 ^ 63"
  shows "verify_consistency (empty_root sha256) (hash_children sha256) (of_nat m) (of_nat (length ds))
     (consistency_proof (empty_root sha256) (hash_leaf sha256) (hash_children sha256) m ds)
     (merkle_root sha256 (take m ds)) (merkle_root sha256 ds) = Inr ()"
proof -
  let ?er = "empty_root sha256" and ?hl = "hash_leaf sha256" and ?hn = "hash_children sha256"
  let ?ps = "prefix_sides m (length ds)" and ?hs = "consistency_proof ?er ?hl ?hn m ds"
  have u: "unat (of_nat m :: u64) = m" "unat (of_nat (length ds) :: u64) = length ds"
    using assms by (auto simp: unat_of_nat_64)
  have hs: "?hs = (if True \<notin> set ?ps then [] else [mth ?er ?hl ?hn (shared_leaves m ds)]) @ shared_path ?er ?hl ?hn m ds"
    using subproof_shared [OF assms(1,2), of ?er ?hl ?hn True] by (simp add: consistency_proof_def)
  show ?thesis
  proof (cases "m = length ds")
    case True
    then show ?thesis
      by (simp add: consistency_proof_def subproof.simps verify_consistency_def
          consistency_cases_def verify_match_def)
  next
    case False
    then have lt: "m < length ds" using assms(2) by simp
    note len = length_shared_path [OF assms(1,2), of ?er ?hl ?hn]
    note old = chain_left_shared_path [OF assms(1,2), of ?hn ?er ?hl]
    note new = chain_shared_path [OF assms(1,2), of ?hn ?er ?hl]
    have ne: "?hs \<noteq> []" using prefix_sides_hd [OF assms(1) lt] len by (auto simp: hs)
    have whole: "mth ?er ?hl ?hn (take m ds) = mth ?er ?hl ?hn (shared_leaves m ds)" if "True \<notin> set ?ps"
      using old chain_left_no_left [OF that] by metis
    have "consistency_check ?hn ?ps ?hs (mth ?er ?hl ?hn (take m ds)) (mth ?er ?hl ?hn ds) = Inr ()"
      using len old new whole by (simp add: consistency_check_def Let_def hs)
    moreover have "inner_bits (m - 1) (length ds) < 64"
      by (rule inner_bits_le_63) (use assms lt in auto)
    moreover have "(0 :: u64) < of_nat m" "(of_nat m :: u64) < of_nat (length ds)"
      using assms(1) lt by (auto simp: word_less_nat_alt u)
    ultimately show ?thesis
      using ne by (simp add: verify_consistency_eq u)
  qed
qed

text \<open>
  The arithmetic of a consistency proof: \<open>verify_consistency\<close> panics exactly when a
  proof is given, the old size is positive and at most \<open>2 ^ 63\<close> and the new one above it; in
  particular \<open>inner - shift\<close> never underflows and no slice is out of range.
\<close>

theorem consistency_panics_iff:
  "verify_consistency er hn m n hs old_root new_root = Inl MerklePanic \<longleftrightarrow>
     0 < m \<and> m \<le> 2 ^ 63 \<and> 2 ^ 63 < n \<and> hs \<noteq> []"
  by (rule consistency_panic_iff)

text \<open>The hypotheses hold: the first two leaves of the tree of three.\<close>

lemma two_of_three_accepted:
  "verify_consistency er hn 2 3 [hl [3]] (hn (hl [1]) (hl [2])) (mth er hl hn three_leaves) = Inr ()"
proof -
  have "leading_zeros (3 :: u64) = 62" "count_ones (0 :: u64) = 0" "trailing_zeros (2 :: u64) = 1"
    "drop_bit 1 1 = (0 :: u64)" "drop_bit 2 1 = (0 :: u64)"
    by code_simp+
  then have "decomp_inclusion_proof 1 3 = (Inr (2, 0) :: 'a merkle_error + nat \<times> nat)"
    "trailing_zeros (2 :: u64) = 1" "drop_bit 1 1 = (0 :: u64)"
    by (simp_all add: decomp_inclusion_proof_def inner_proof_size_def)
  then show ?thesis
    by (simp add: verify_consistency_def consistency_cases_def three_leaves_root Let_def
        chain_inner_def chain_inner_right_def chain_border_right_def verify_match_def)
qed

lemma consistency_sound_witness:
  "unat (2 :: u64) \<le> length three_leaves \<and>
    (hash_children toy_digest (hash_leaf toy_digest [1]) (hash_leaf toy_digest [2]) =
        merkle_root toy_digest (take (unat (2 :: u64)) three_leaves) \<or>
     collide toy_digest (path_messages toy_digest (prefix_sides (unat (2 :: u64)) (length three_leaves))
         (if True \<in> set (prefix_sides (unat (2 :: u64)) (length three_leaves)) then hd [hash_leaf toy_digest [3]]
          else hash_children toy_digest (hash_leaf toy_digest [1]) (hash_leaf toy_digest [2]))
         (if True \<in> set (prefix_sides (unat (2 :: u64)) (length three_leaves)) then drop 1 [hash_leaf toy_digest [3]]
          else [hash_leaf toy_digest [3]]))
       (merkle_messages toy_digest three_leaves))"
  by (rule consistency_sound [OF two_of_three_accepted]) (simp add: three_leaves_def)

lemma consistency_complete_witness:
  "verify_consistency (empty_root toy_digest) (hash_children toy_digest) (of_nat 2) (of_nat 3)
     (consistency_proof (empty_root toy_digest) (hash_leaf toy_digest) (hash_children toy_digest) 2 three_leaves)
     (merkle_root toy_digest (take 2 three_leaves)) (merkle_root toy_digest three_leaves) = Inr ()"
  using consistency_complete [of 2 three_leaves toy_digest] by (simp add: three_leaves_def)

end
