(* ===== verification/Errors.thy ===== *)
theory Errors
  imports Prelude
begin

text \<open>
  \<open>error.rs\<close>: the crate's error type with the source's variants and its classification, and
  the partial operations whose failure is a panic. The payload of a variant is the text of
  the \<open>format!\<close> literal with its arguments left out; \<open>Panic\<close> is not a variant of the source
  but the outcome of a slice, an index or an \<open>expect\<close> that fails.
\<close>

record api_error =
  status_code :: nat
  error_message :: str
  error_param :: "str option"
  error_type :: "str option"
  error_code :: "str option"

datatype openai_error = Reqwest str | ApiError api_error | OtherOpenAIError str

datatype error =
    Configuration str
  | Api openai_error
  | AttestationFetch str
  | AttestationVerification str
  | CertificateMismatch
  | SigstoreVerification str
  | GitHub str
  | MeasurementMismatch str str
  | Tls str
  | Ehbp str
  | EhbpKeyMismatch str
  | Network str
  | UnsupportedFormat str
  | Http str
  | Json str
  | Base64 str
  | Io str
  | Panic str

type_synonym 'a res = "error + 'a"

section \<open>Classification\<close>

fun is_configuration :: "error \<Rightarrow> bool" where
  "is_configuration (Configuration _) = True"
| "is_configuration _ = False"

fun is_fetch :: "error \<Rightarrow> bool" where
  "is_fetch (AttestationFetch _) = True"
| "is_fetch (Network _) = True"
| "is_fetch (Http _) = True"
| "is_fetch (GitHub _) = True"
| "is_fetch (Io _) = True"
| "is_fetch _ = False"

fun is_attestation :: "error \<Rightarrow> bool" where
  "is_attestation (AttestationVerification _) = True"
| "is_attestation CertificateMismatch = True"
| "is_attestation (SigstoreVerification _) = True"
| "is_attestation (MeasurementMismatch _ _) = True"
| "is_attestation (Tls _) = True"
| "is_attestation (Ehbp _) = True"
| "is_attestation (EhbpKeyMismatch _) = True"
| "is_attestation (UnsupportedFormat _) = True"
| "is_attestation (Json _) = True"
| "is_attestation (Base64 _) = True"
| "is_attestation _ = False"

fun is_api :: "error \<Rightarrow> bool" where
  "is_api (Api _) = True"
| "is_api _ = False"

fun is_ehbp_key_mismatch :: "error \<Rightarrow> bool" where
  "is_ehbp_key_mismatch (EhbpKeyMismatch _) = True"
| "is_ehbp_key_mismatch _ = False"

definition INSUFFICIENT_QUOTA :: str where
  "INSUFFICIENT_QUOTA = ''insufficient_quota''"

fun is_retryable_openai_error :: "openai_error \<Rightarrow> bool" where
  "is_retryable_openai_error (Reqwest _) = True"
| "is_retryable_openai_error (ApiError api) =
     (if status_code api = 429
      then \<not> (error_type api = Some INSUFFICIENT_QUOTA \<or> error_code api = Some INSUFFICIENT_QUOTA)
      else (500 \<le> status_code api \<and> status_code api < 600) \<or> status_code api = 408)"
| "is_retryable_openai_error (OtherOpenAIError _) = False"

definition is_retryable :: "error \<Rightarrow> bool" where
  "is_retryable e =
     (if is_fetch e then True
      else case e of Api api \<Rightarrow> is_retryable_openai_error api | _ \<Rightarrow> False)"

text \<open>Every variant of the source is in exactly one of the four categories.\<close>

lemma error_categories:
  "(\<forall>p. e \<noteq> Panic p) \<Longrightarrow>
     length (filter id [is_configuration e, is_fetch e, is_attestation e, is_api e]) = 1"
  by (cases e) auto

section \<open>Operations that panic\<close>

text \<open>\<open>&xs[a..b]\<close>, \<open>&xs[a..]\<close> and \<open>xs[i]\<close>.\<close>

definition slice :: "nat \<Rightarrow> nat \<Rightarrow> 'a list \<Rightarrow> 'a list res" where
  "slice a b xs =
     (if a \<le> b \<and> b \<le> length xs then Inr (take (b - a) (drop a xs))
      else Inl (Panic ''slice index out of range''))"

definition slice_from :: "nat \<Rightarrow> 'a list \<Rightarrow> 'a list res" where
  "slice_from a xs = slice a (length xs) xs"

definition index_at :: "'a list \<Rightarrow> nat \<Rightarrow> 'a res" where
  "index_at xs i =
     (if i < length xs then Inr (xs ! i) else Inl (Panic ''index out of bounds''))"

lemma slice_Inr_iff [result_inv]:
  "slice a b xs = Inr ys \<longleftrightarrow> a \<le> b \<and> b \<le> length xs \<and> ys = take (b - a) (drop a xs)"
  by (auto simp: slice_def)

lemma slice_from_Inr_iff [result_inv]:
  "slice_from a xs = Inr ys \<longleftrightarrow> a \<le> length xs \<and> ys = drop a xs"
  by (auto simp: slice_from_def slice_def)

lemma index_at_Inr_iff [result_inv]:
  "index_at xs i = Inr x \<longleftrightarrow> i < length xs \<and> x = xs ! i"
  by (auto simp: index_at_def)

text \<open>A result that is not a panic, and its propagation through \<open>?\<close>.\<close>

definition no_panic :: "'a res \<Rightarrow> bool" where
  "no_panic m = (case m of Inl (Panic _) \<Rightarrow> False | _ \<Rightarrow> True)"

lemma no_panic_simps [simp]:
  "no_panic (Inr x)"
  "no_panic (Inl e) \<longleftrightarrow> (\<forall>p. e \<noteq> Panic p)"
  by (auto simp: no_panic_def split: error.splits)

lemma no_panic_bind [intro]:
  "no_panic m \<Longrightarrow> (\<And>x. m = Inr x \<Longrightarrow> no_panic (f x)) \<Longrightarrow> no_panic (try_bind m f)"
  by (cases m) auto

lemma no_panic_map_err [simp]:
  "(\<And>e. m = Inl e \<Longrightarrow> \<forall>p. g e \<noteq> Panic p) \<Longrightarrow> no_panic (map_err g m)"
  by (cases m) auto

lemma no_panic_ok_or [simp]: "(\<forall>p. e \<noteq> Panic p) \<Longrightarrow> no_panic (ok_or e v)"
  by (cases v) auto

lemma no_panic_slice [simp]: "a \<le> b \<Longrightarrow> b \<le> length xs \<Longrightarrow> no_panic (slice a b xs)"
  by (simp add: slice_def)

lemma no_panic_index_at [simp]: "i < length xs \<Longrightarrow> no_panic (index_at xs i)"
  by (simp add: index_at_def)

lemma no_panic_if [simp]:
  "(b \<Longrightarrow> no_panic m) \<Longrightarrow> (\<not> b \<Longrightarrow> no_panic m') \<Longrightarrow> no_panic (if b then m else m')"
  by auto

end
