(* ===== verification/Text.thy ===== *)
theory Text
  imports Prelude
begin

text \<open>
  The parts of the standard library's text handling the source relies on: decimal and
  hexadecimal formatting, \<open>str::parse::<u64>\<close>, prefixes and suffixes, splitting at a separator,
  trimming, and case. Text is ASCII where a character is inspected; other bytes pass through.
\<close>

section \<open>Numbers as text\<close>

definition digit_char :: "nat \<Rightarrow> char" where
  "digit_char n = char_of (if n < 10 then 48 + n else 87 + n)"

fun to_base :: "nat \<Rightarrow> nat \<Rightarrow> str" where
  "to_base b n = (if b \<le> 1 \<or> n < b then [digit_char n] else to_base b (n div b) @ [digit_char (n mod b)])"

declare to_base.simps [simp del]

definition dec_str :: "nat \<Rightarrow> str" where
  "dec_str n = to_base 10 n"

text \<open>\<open>{:016x}\<close>\<close>

definition hex_padded :: "nat \<Rightarrow> nat \<Rightarrow> str" where
  "hex_padded width n = (let s = to_base 16 n in replicate (width - length s) CHR ''0'' @ s)"

definition is_ascii_digit :: "char \<Rightarrow> bool" where
  "is_ascii_digit c = (48 \<le> (of_char c :: nat) \<and> (of_char c :: nat) \<le> 57)"

definition is_ascii_hexdigit :: "char \<Rightarrow> bool" where
  "is_ascii_hexdigit c =
     (is_ascii_digit c \<or> 65 \<le> (of_char c :: nat) \<and> (of_char c :: nat) \<le> 70
      \<or> 97 \<le> (of_char c :: nat) \<and> (of_char c :: nat) \<le> 102)"

definition dec_value :: "str \<Rightarrow> nat" where
  "dec_value s = foldl (\<lambda>a c. 10 * a + (of_char c - 48)) 0 s"

text \<open>\<open>str::parse::<u64>\<close>: an optional plus sign, at least one digit, no overflow.\<close>

definition parse_u64 :: "str \<Rightarrow> u64 option" where
  "parse_u64 s =
     (let digits = (case s of [] \<Rightarrow> [] | c # cs \<Rightarrow> if c = CHR ''+'' \<and> cs \<noteq> [] then cs else s)
      in if digits = [] \<or> \<not> list_all is_ascii_digit digits then None
         else if 2 ^ 64 \<le> dec_value digits then None
         else Some (of_nat (dec_value digits)))"

text \<open>\<open>str::parse::<i64>\<close>: a minus sign is accepted too.\<close>

definition parse_i64 :: "str \<Rightarrow> int option" where
  "parse_i64 s =
     (let neg = (case s of c # cs \<Rightarrow> c = CHR ''-'' \<and> cs \<noteq> [] | [] \<Rightarrow> False);
          digits = (case s of [] \<Rightarrow> []
                    | c # cs \<Rightarrow> if (c = CHR ''+'' \<or> c = CHR ''-'') \<and> cs \<noteq> [] then cs else s)
      in if digits = [] \<or> \<not> list_all is_ascii_digit digits then None
         else let v = (if neg then - int (dec_value digits) else int (dec_value digits))
              in if v < - (2 ^ 63) \<or> 2 ^ 63 \<le> v then None else Some v)"

lemma of_char_digit_char: "n < 10 \<Longrightarrow> (of_char (digit_char n) :: nat) = 48 + n"
  by (simp add: digit_char_def)

lemma is_digit_digit_char: "n < 10 \<Longrightarrow> is_ascii_digit (digit_char n)"
  by (simp add: is_ascii_digit_def of_char_digit_char)

lemma dec_value_snoc [simp]: "dec_value (s @ [c]) = 10 * dec_value s + (of_char c - 48)"
  by (simp add: dec_value_def)

lemma dec_str_props:
  "dec_value (dec_str n) = n" "list_all is_ascii_digit (dec_str n)" "dec_str n \<noteq> []"
proof -
  have "dec_value (dec_str n) = n \<and> list_all is_ascii_digit (dec_str n) \<and> dec_str n \<noteq> []"
  proof (induction n rule: less_induct)
    case (less n)
    show ?case
    proof (cases "n < 10")
      case True
      then show ?thesis
        by (simp add: dec_str_def to_base.simps dec_value_def of_char_digit_char is_digit_digit_char)
    next
      case False
      then have "dec_str n = dec_str (n div 10) @ [digit_char (n mod 10)]"
        by (subst dec_str_def, subst to_base.simps) (simp add: dec_str_def)
      then show ?thesis
        using less.IH [of "n div 10"] False by (simp add: of_char_digit_char is_digit_digit_char)
    qed
  qed
  then show "dec_value (dec_str n) = n" "list_all is_ascii_digit (dec_str n)" "dec_str n \<noteq> []" by auto
qed

text \<open>Printing and parsing agree.\<close>

lemma parse_u64_dec_str: "parse_u64 (dec_str (unat w)) = Some w"
proof -
  have "unat w < 2 ^ 64" using unsigned_less [of w, where 'a = nat] by simp
  moreover have "CHR ''+'' \<notin> set (dec_str (unat w))"
    using dec_str_props(2) [of "unat w"] by (auto simp: list_all_iff is_ascii_digit_def)
  ultimately show ?thesis
    using dec_str_props [of "unat w"]
    by (auto simp: parse_u64_def Let_def split: list.splits)
qed

lemma dec_str_inject [simp]: "dec_str m = dec_str n \<longleftrightarrow> m = n"
  by (metis dec_str_props(1))

lemma dec_str_no_sep:
  "\<not> is_ascii_digit c \<Longrightarrow> c \<notin> set (dec_str n)"
  using dec_str_props(2) [of n] by (auto simp: list_all_iff)

section \<open>Prefixes, separators, case\<close>

definition starts_with :: "'a list \<Rightarrow> 'a list \<Rightarrow> bool" where
  "starts_with s p = (take (length p) s = p)"

definition ends_with :: "'a list \<Rightarrow> 'a list \<Rightarrow> bool" where
  "ends_with s p = starts_with (rev s) (rev p)"

definition strip_prefix :: "'a list \<Rightarrow> 'a list \<Rightarrow> 'a list option" where
  "strip_prefix s p = (if starts_with s p then Some (drop (length p) s) else None)"

lemma strip_prefix_Some_iff: "strip_prefix s p = Some r \<longleftrightarrow> s = p @ r"
  by (auto simp: strip_prefix_def starts_with_def) (metis append_take_drop_id)

lemma starts_with_append [simp]: "starts_with (p @ r) p"
  by (simp add: starts_with_def)

lemma starts_with_iff: "starts_with s p \<longleftrightarrow> (\<exists>r. s = p @ r)"
  by (metis append_take_drop_id starts_with_append starts_with_def)

text \<open>\<open>str::split\<close> on a character: always at least one piece.\<close>

fun split_on :: "'a \<Rightarrow> 'a list \<Rightarrow> 'a list list" where
  "split_on c [] = [[]]"
| "split_on c (x # xs) =
     (if x = c then [] # split_on c xs
      else case split_on c xs of [] \<Rightarrow> [[x]] | p # ps \<Rightarrow> (x # p) # ps)"

lemma split_on_neq_Nil [simp]: "split_on c xs \<noteq> []"
  by (induction xs) (auto split: list.split)

lemma split_on_no_sep: "c \<notin> set xs \<Longrightarrow> split_on c xs = [xs]"
  by (induction xs) auto

lemma split_on_append:
  "c \<notin> set xs \<Longrightarrow> split_on c (xs @ c # ys) = xs # split_on c ys"
  by (induction xs) auto

text \<open>\<open>split_once\<close>: around the first separator.\<close>

fun split_once :: "'a \<Rightarrow> 'a list \<Rightarrow> ('a list \<times> 'a list) option" where
  "split_once c [] = None"
| "split_once c (x # xs) =
     (if x = c then Some ([], xs)
      else case split_once c xs of None \<Rightarrow> None | Some (a, b) \<Rightarrow> Some (x # a, b))"

lemma split_once_Some_iff:
  "split_once c s = Some (a, b) \<longleftrightarrow> s = a @ c # b \<and> c \<notin> set a"
proof (induction s arbitrary: a)
  case Nil
  then show ?case by simp
next
  case (Cons x s)
  show ?case
  proof (cases a)
    case Nil
    then show ?thesis by (cases "split_once c s") auto
  next
    case (Cons y ys)
    then show ?thesis
      using Cons.IH [of ys] by (cases "split_once c s") auto
  qed
qed

text \<open>\<open>split_once\<close> on a string separator.\<close>

fun split_once_str :: "'a list \<Rightarrow> 'a list \<Rightarrow> ('a list \<times> 'a list) option" where
  "split_once_str p [] = (if p = [] then Some ([], []) else None)"
| "split_once_str p (x # xs) =
     (if starts_with (x # xs) p then Some ([], drop (length p) (x # xs))
      else map_option (\<lambda>(a, b). (x # a, b)) (split_once_str p xs))"

lemma split_once_str_Some: "split_once_str p s = Some (a, b) \<Longrightarrow> s = a @ p @ b"
proof (induction s arbitrary: a)
  case Nil
  then show ?case by (simp split: if_splits)
next
  case (Cons x xs)
  show ?case
  proof (cases "starts_with (x # xs) p")
    case True
    with Cons.prems have "a = []" "b = drop (length p) (x # xs)" by simp_all
    moreover have "take (length p) (x # xs) = p" using True by (simp only: starts_with_def)
    ultimately show ?thesis using append_take_drop_id [of "length p" "x # xs"] by simp
  next
    case False
    then obtain a' where "a = x # a'" "split_once_str p xs = Some (a', b)"
      using Cons.prems by (auto simp: map_option_case split: option.splits)
    then show ?thesis using Cons.IH by simp
  qed
qed

lemma split_once_str_minimal:
  "split_once_str p s = Some (a, b) \<Longrightarrow> p \<noteq> [] \<Longrightarrow> split_once_str p a = None"
proof (induction s arbitrary: a)
  case (Cons y ys)
  show ?case
  proof (cases "starts_with (y # ys) p")
    case True
    with Cons.prems show ?thesis by simp
  next
    case False
    then obtain a' where a: "a = y # a'" "split_once_str p ys = Some (a', b)"
      using Cons.prems by (auto simp: map_option_case split: option.splits)
    have "y # ys = a @ p @ b" using Cons.prems(1) split_once_str_Some by blast
    then have "\<not> starts_with a p" using False by (auto simp: starts_with_iff)
    then show ?thesis using a Cons.IH Cons.prems(2) by simp
  qed
qed simp

lemma split_once_str_skip:
  "c \<notin> set l \<Longrightarrow> split_once_str (c # p) (l @ t) = map_option (\<lambda>(a, b). (l @ a, b)) (split_once_str (c # p) t)"
  by (induction l) (auto simp: starts_with_def option.map_comp comp_def case_prod_unfold option.map_ident)

lemma split_on_pieces: "p \<in> set (split_on c xs) \<Longrightarrow> c \<notin> set p \<and> set p \<subseteq> set xs"
proof (induction xs arbitrary: p)
  case (Cons a xs)
  obtain q qs where q: "split_on c xs = q # qs" by (cases "split_on c xs") simp_all
  have "c \<notin> set r \<and> set r \<subseteq> set xs" if "r \<in> set (q # qs)" for r
    using Cons.IH [of r] q that by simp
  then show ?case using Cons.prems q by (fastforce split: if_splits)
qed simp

definition contains :: "'a list \<Rightarrow> 'a list \<Rightarrow> bool" where
  "contains s p = (split_once_str p s \<noteq> None)"

text \<open>\<open>trim\<close>: the Unicode white space characters in UTF-8.\<close>

definition white_space :: "str list" where
  "white_space =
     [[CHR 0x09], [CHR 0x0A], [CHR 0x0B], [CHR 0x0C], [CHR 0x0D], [CHR 0x20],
      [CHR 0xC2, CHR 0x85], [CHR 0xC2, CHR 0xA0], [CHR 0xE1, CHR 0x9A, CHR 0x80],
      [CHR 0xE2, CHR 0x80, CHR 0x80], [CHR 0xE2, CHR 0x80, CHR 0x81], [CHR 0xE2, CHR 0x80, CHR 0x82],
      [CHR 0xE2, CHR 0x80, CHR 0x83], [CHR 0xE2, CHR 0x80, CHR 0x84], [CHR 0xE2, CHR 0x80, CHR 0x85],
      [CHR 0xE2, CHR 0x80, CHR 0x86], [CHR 0xE2, CHR 0x80, CHR 0x87], [CHR 0xE2, CHR 0x80, CHR 0x88],
      [CHR 0xE2, CHR 0x80, CHR 0x89], [CHR 0xE2, CHR 0x80, CHR 0x8A], [CHR 0xE2, CHR 0x80, CHR 0xA8],
      [CHR 0xE2, CHR 0x80, CHR 0xA9], [CHR 0xE2, CHR 0x80, CHR 0xAF], [CHR 0xE2, CHR 0x81, CHR 0x9F],
      [CHR 0xE3, CHR 0x80, CHR 0x80]]"

fun trim_with :: "nat \<Rightarrow> str list \<Rightarrow> str \<Rightarrow> str" where
  "trim_with 0 ws s = s"
| "trim_with (Suc n) ws s =
     (case find (\<lambda>p. starts_with s p) ws of
        None \<Rightarrow> s
      | Some p \<Rightarrow> trim_with n ws (drop (length p) s))"

definition trim_start :: "str \<Rightarrow> str" where
  "trim_start s = trim_with (length s) white_space s"

definition trim_end :: "str \<Rightarrow> str" where
  "trim_end s = rev (trim_with (length s) (map rev white_space) (rev s))"

definition trim :: "str \<Rightarrow> str" where
  "trim s = trim_end (trim_start s)"

text \<open>Printable ASCII other than the space is never trimmed.\<close>

definition is_graphic :: "char \<Rightarrow> bool" where
  "is_graphic c = (33 \<le> (of_char c :: nat) \<and> (of_char c :: nat) < 127)"

lemma trim_with_graphic:
  assumes "s = [] \<or> is_graphic (hd s)" and "\<And>p. p \<in> set ws \<Longrightarrow> p \<noteq> [] \<and> \<not> is_graphic (hd p)"
  shows "trim_with n ws s = s"
proof (cases n)
  case (Suc m)
  have "\<not> starts_with s p" if "p \<in> set ws" for p
    using assms(1) assms(2) [OF that] by (cases s; cases p) (auto simp: starts_with_def)
  then have "find (\<lambda>p. starts_with s p) ws = None" by (auto simp: find_None_iff)
  then show ?thesis using Suc by simp
qed simp

lemma white_space_graphic:
  "p \<in> set white_space \<Longrightarrow> p \<noteq> [] \<and> \<not> is_graphic (hd p)"
  "p \<in> set (map rev white_space) \<Longrightarrow> p \<noteq> [] \<and> \<not> is_graphic (hd p)"
  by (auto simp: white_space_def is_graphic_def)

lemma trim_end_graphic: "s = [] \<or> is_graphic (last s) \<Longrightarrow> trim_end s = s"
  unfolding trim_end_def
  by (subst trim_with_graphic) (use white_space_graphic in \<open>auto simp: hd_rev\<close>)

lemma trim_graphic: "s = [] \<or> is_graphic (hd s) \<and> is_graphic (last s) \<Longrightarrow> trim s = s"
  unfolding trim_def trim_start_def
  by (subst trim_with_graphic) (use white_space_graphic in \<open>auto simp: trim_end_graphic\<close>)

text \<open>
  \<open>str::lines\<close>: pieces at newlines, a carriage return before the newline dropped, no empty last
  piece. A last piece that no newline ends keeps its carriage return.
\<close>

definition strip_cr :: "str \<Rightarrow> str" where
  "strip_cr s = (if s \<noteq> [] \<and> last s = CHR 0x0D then butlast s else s)"

definition lines :: "str \<Rightarrow> str list" where
  "lines s =
     (let ps = split_on (CHR 0x0A) s in
      map strip_cr (butlast ps) @ (if last ps = [] then [] else [last ps]))"

definition to_ascii_lowercase :: "str \<Rightarrow> str" where
  "to_ascii_lowercase s =
     map (\<lambda>c. if 65 \<le> (of_char c :: nat) \<and> (of_char c :: nat) \<le> 90 then char_of ((of_char c :: nat) + 32) else c) s"

definition eq_ignore_ascii_case :: "str \<Rightarrow> str \<Rightarrow> bool" where
  "eq_ignore_ascii_case a b = (to_ascii_lowercase a = to_ascii_lowercase b)"

text \<open>\<open>join\<close> with a separator.\<close>

definition join :: "'a list \<Rightarrow> 'a list list \<Rightarrow> 'a list" where
  "join sep xss = (case xss of [] \<Rightarrow> [] | xs # yss \<Rightarrow> xs @ concat (map ((@) sep) yss))"

lemma split_on_join:
  "xss \<noteq> [] \<Longrightarrow> (\<And>xs. xs \<in> set xss \<Longrightarrow> c \<notin> set xs) \<Longrightarrow> split_on c (join [c] xss) = xss"
proof (induction xss)
  case (Cons xs xss)
  then show ?case
    by (cases xss) (auto simp: join_def split_on_no_sep split_on_append)
qed simp

text \<open>\<open>Path::file_name\<close> on Unix.\<close>

definition file_name :: "str \<Rightarrow> str option" where
  "file_name path = (let cs = filter (\<lambda>c. c \<noteq> [] \<and> c \<noteq> ''.'') (split_on (CHR ''/'') path) in
     if cs = [] \<or> last cs = ''..'' then None else Some (last cs))"

section \<open>UTF-8\<close>

text \<open>\<open>String::from_utf8\<close>: the well-formed byte sequences of Unicode, table 3-7.\<close>

fun utf8_ok :: "nat list \<Rightarrow> bool" where
  "utf8_ok [] = True"
| "utf8_ok (a # bs) =
     (let cont = (\<lambda>b. 128 \<le> b \<and> b \<le> 191) in
      if a < 128 then utf8_ok bs
      else (case bs of
        [] \<Rightarrow> False
      | b # cs \<Rightarrow>
          if 194 \<le> a \<and> a \<le> 223 then cont b \<and> utf8_ok cs
          else (case cs of
            [] \<Rightarrow> False
          | c # ds \<Rightarrow>
              if 224 \<le> a \<and> a \<le> 239 then
                cont b \<and> cont c \<and> (a = 224 \<longrightarrow> 160 \<le> b) \<and> (a = 237 \<longrightarrow> b \<le> 159) \<and> utf8_ok ds
              else (case ds of
                [] \<Rightarrow> False
              | d # es \<Rightarrow>
                  240 \<le> a \<and> a \<le> 244 \<and> cont b \<and> cont c \<and> cont d \<and> (a = 240 \<longrightarrow> 144 \<le> b) \<and>
                  (a = 244 \<longrightarrow> b \<le> 143) \<and> utf8_ok es))))"

definition from_utf8 :: "bytes \<Rightarrow> str option" where
  "from_utf8 bs = (if utf8_ok (map unat bs) then Some (from_bytes bs) else None)"

lemma utf8_ok_ascii: "\<forall>n \<in> set ns. n < 128 \<Longrightarrow> utf8_ok ns"
  by (induction ns) auto

lemma from_utf8_graphic: "list_all is_graphic s \<Longrightarrow> from_utf8 (as_bytes s) = Some s"
proof -
  assume g: "list_all is_graphic s"
  have "unat (of_char c :: u8) < 128" if "c \<in> set s" for c
    using g that by (auto simp: list_all_iff is_graphic_def unat_of_char_word)
  then have "utf8_ok (map unat (as_bytes s))" by (intro utf8_ok_ascii) (auto simp: as_bytes_def)
  then show ?thesis by (simp add: from_utf8_def)
qed

end
