(* ===== verification/Json.thy ===== *)
theory Json
  imports Errors Text
begin

text \<open>
  \<open>serde_json::Value\<close> as a datatype, with the accessors the source calls. Parsing and printing
  belong to the crate and are parameters where they are used. Object keys are unique, as in
  the crate's map, so an association list is read by its first match.
\<close>

datatype json_number = PosInt u64 | NegInt int | Float str

datatype json =
    JNull
  | JBool bool
  | JNumber json_number
  | JString str
  | JArray "json list"
  | JObject "(str \<times> json) list"

fun jget :: "json \<Rightarrow> str \<Rightarrow> json option" where
  "jget (JObject kvs) k = map_of kvs k"
| "jget _ _ = None"

fun as_str :: "json \<Rightarrow> str option" where
  "as_str (JString s) = Some s"
| "as_str _ = None"

fun as_array :: "json \<Rightarrow> json list option" where
  "as_array (JArray xs) = Some xs"
| "as_array _ = None"

fun as_object :: "json \<Rightarrow> (str \<times> json) list option" where
  "as_object (JObject kvs) = Some kvs"
| "as_object _ = None"

fun as_i64 :: "json \<Rightarrow> int option" where
  "as_i64 (JNumber (PosInt n)) = (if n < 2 ^ 63 then Some (uint n) else None)"
| "as_i64 (JNumber (NegInt i)) = Some i"
| "as_i64 _ = None"

fun as_u64 :: "json \<Rightarrow> u64 option" where
  "as_u64 (JNumber (PosInt n)) = Some n"
| "as_u64 _ = None"

text \<open>\<open>v.get(k1).and_then(|v| v.get(k2))...\<close>\<close>

fun jpath :: "json \<Rightarrow> str list \<Rightarrow> json option" where
  "jpath v [] = Some v"
| "jpath v (k # ks) = Option.bind (jget v k) (\<lambda>w. jpath w ks)"

definition jstr :: "json \<Rightarrow> str list \<Rightarrow> str option" where
  "jstr v ks = Option.bind (jpath v ks) as_str"

definition jarray :: "json \<Rightarrow> str list \<Rightarrow> json list option" where
  "jarray v ks = Option.bind (jpath v ks) as_array"

text \<open>Indexing \<open>v[k]\<close>: \<open>Null\<close> where there is no such member.\<close>

definition jindex :: "json \<Rightarrow> str \<Rightarrow> json" where
  "jindex v k = (case jget v k of Some w \<Rightarrow> w | None \<Rightarrow> JNull)"

lemma jpath_append: "jpath v (ks @ ks') = Option.bind (jpath v ks) (\<lambda>w. jpath w ks')"
  by (induction ks arbitrary: v) (auto split: bind_splits)

end
