(* ===== verification/Sev_Constants.thy ===== *)
theory Sev_Constants
  imports Errors
begin

text \<open>
  \<open>attestation/constants.rs\<close>: offsets and sizes of the fields of an SEV-SNP report, object
  identifiers (as dotted strings) and the pinned fingerprint of the AMD root key.
\<close>

definition REPORT_SIZE :: nat where
  "REPORT_SIZE = 1184"

definition GUEST_SVN_OFFSET :: nat where
  "GUEST_SVN_OFFSET = 0x04"

definition POLICY_OFFSET :: nat where
  "POLICY_OFFSET = 8"

definition FAMILY_ID_OFFSET :: nat where
  "FAMILY_ID_OFFSET = 0x10"

definition FAMILY_ID_SIZE :: nat where
  "FAMILY_ID_SIZE = 16"

definition IMAGE_ID_OFFSET :: nat where
  "IMAGE_ID_OFFSET = 0x20"

definition IMAGE_ID_SIZE :: nat where
  "IMAGE_ID_SIZE = 16"

definition VMPL_OFFSET :: nat where
  "VMPL_OFFSET = 0x30"

definition SIGNATURE_ALGO_OFFSET :: nat where
  "SIGNATURE_ALGO_OFFSET = 0x34"

definition SIGNATURE_ALGO_ECDSA_P384_SHA384 :: u32 where
  "SIGNATURE_ALGO_ECDSA_P384_SHA384 = 1"

definition CURRENT_TCB_OFFSET :: nat where
  "CURRENT_TCB_OFFSET = 0x38"

definition PLATFORM_INFO_OFFSET :: nat where
  "PLATFORM_INFO_OFFSET = 0x40"

definition SIGNER_INFO_OFFSET :: nat where
  "SIGNER_INFO_OFFSET = 0x48"

definition REPORT_DATA_OFFSET :: nat where
  "REPORT_DATA_OFFSET = 80"

definition REPORT_DATA_SIZE :: nat where
  "REPORT_DATA_SIZE = 64"

definition HOST_DATA_OFFSET :: nat where
  "HOST_DATA_OFFSET = 0xC0"

definition HOST_DATA_SIZE :: nat where
  "HOST_DATA_SIZE = 32"

definition MEASUREMENT_OFFSET :: nat where
  "MEASUREMENT_OFFSET = 144"

definition MEASUREMENT_SIZE :: nat where
  "MEASUREMENT_SIZE = 48"

definition REPORT_ID_OFFSET :: nat where
  "REPORT_ID_OFFSET = 0x140"

definition REPORT_ID_SIZE :: nat where
  "REPORT_ID_SIZE = 32"

definition REPORT_ID_MA_OFFSET :: nat where
  "REPORT_ID_MA_OFFSET = 0x160"

definition REPORT_ID_MA_SIZE :: nat where
  "REPORT_ID_MA_SIZE = 32"

definition REPORTED_TCB_OFFSET :: nat where
  "REPORTED_TCB_OFFSET = 384"

definition CHIP_ID_OFFSET :: nat where
  "CHIP_ID_OFFSET = 416"

definition CHIP_ID_SIZE :: nat where
  "CHIP_ID_SIZE = 64"

definition COMMITTED_TCB_OFFSET :: nat where
  "COMMITTED_TCB_OFFSET = 0x1E0"

definition COMMITTED_BUILD_OFFSET :: nat where
  "COMMITTED_BUILD_OFFSET = 0x1EC"

definition COMMITTED_MINOR_OFFSET :: nat where
  "COMMITTED_MINOR_OFFSET = 0x1ED"

definition COMMITTED_MAJOR_OFFSET :: nat where
  "COMMITTED_MAJOR_OFFSET = 0x1EE"

definition CURRENT_BUILD_OFFSET :: nat where
  "CURRENT_BUILD_OFFSET = 488"

definition CURRENT_MINOR_OFFSET :: nat where
  "CURRENT_MINOR_OFFSET = 489"

definition CURRENT_MAJOR_OFFSET :: nat where
  "CURRENT_MAJOR_OFFSET = 490"

definition LAUNCH_TCB_OFFSET :: nat where
  "LAUNCH_TCB_OFFSET = 0x1F0"

definition SIGNATURE_OFFSET :: nat where
  "SIGNATURE_OFFSET = 672"

definition SIGNATURE_SIZE :: nat where
  "SIGNATURE_SIZE = 512"

definition ECDSA_P384_SIGNATURE_SIZE :: nat where
  "ECDSA_P384_SIGNATURE_SIZE = 144"

definition SIG_COMPONENT_SIZE :: nat where
  "SIG_COMPONENT_SIZE = 72"

definition SIG_VALUE_SIZE :: nat where
  "SIG_VALUE_SIZE = 48"

definition POLICY_RESERVED_BIT_17 :: u64 where
  "POLICY_RESERVED_BIT_17 = push_bit 17 1"

definition OID_BL_SPL :: str where
  "OID_BL_SPL = ''1.3.6.1.4.1.3704.1.3.1''"

definition OID_TEE_SPL :: str where
  "OID_TEE_SPL = ''1.3.6.1.4.1.3704.1.3.2''"

definition OID_SNP_SPL :: str where
  "OID_SNP_SPL = ''1.3.6.1.4.1.3704.1.3.3''"

definition OID_UCODE_SPL :: str where
  "OID_UCODE_SPL = ''1.3.6.1.4.1.3704.1.3.8''"

definition OID_HWID :: str where
  "OID_HWID = ''1.3.6.1.4.1.3704.1.4''"

definition OID_PRODUCT_NAME :: str where
  "OID_PRODUCT_NAME = ''1.3.6.1.4.1.3704.1.2''"

definition OID_CSP_ID :: str where
  "OID_CSP_ID = ''1.3.6.1.4.1.3704.1.5''"

definition AMD_ARK_GENOA_SPKI_FINGERPRINT :: str where
  "AMD_ARK_GENOA_SPKI_FINGERPRINT = ''429a69c9422aa258ee4d8db5fcda9c6470ef15f8cd5a9cebd6cbc7d90b863831''"

text \<open>The layout, for the proofs about reads.\<close>

lemmas offsets =
  REPORT_SIZE_def GUEST_SVN_OFFSET_def
  POLICY_OFFSET_def FAMILY_ID_OFFSET_def
  FAMILY_ID_SIZE_def IMAGE_ID_OFFSET_def
  IMAGE_ID_SIZE_def VMPL_OFFSET_def
  SIGNATURE_ALGO_OFFSET_def CURRENT_TCB_OFFSET_def
  PLATFORM_INFO_OFFSET_def SIGNER_INFO_OFFSET_def
  REPORT_DATA_OFFSET_def REPORT_DATA_SIZE_def
  HOST_DATA_OFFSET_def HOST_DATA_SIZE_def
  MEASUREMENT_OFFSET_def MEASUREMENT_SIZE_def
  REPORT_ID_OFFSET_def REPORT_ID_SIZE_def
  REPORT_ID_MA_OFFSET_def REPORT_ID_MA_SIZE_def
  REPORTED_TCB_OFFSET_def CHIP_ID_OFFSET_def
  CHIP_ID_SIZE_def COMMITTED_TCB_OFFSET_def
  COMMITTED_BUILD_OFFSET_def COMMITTED_MINOR_OFFSET_def
  COMMITTED_MAJOR_OFFSET_def CURRENT_BUILD_OFFSET_def
  CURRENT_MINOR_OFFSET_def CURRENT_MAJOR_OFFSET_def
  LAUNCH_TCB_OFFSET_def SIGNATURE_OFFSET_def
  SIGNATURE_SIZE_def ECDSA_P384_SIGNATURE_SIZE_def
  SIG_COMPONENT_SIZE_def SIG_VALUE_SIZE_def

end
