(* ===== verification/Sev_Report.thy ===== *)
theory Sev_Report
  imports Sev_Constants
begin

text \<open>
  \<open>sev/report.rs\<close>: decoding of the attestation body, the structure check, the fields that
  must be zero, and the signer info. Reads are slices of the report that panic when it is too
  short; \<open>validate_report_structure\<close> is what rules that out. Base64 and gzip are parameters:
  \<open>gz_take n\<close> is \<open>read_to_end\<close> on a decoder limited to \<open>n\<close> bytes.
\<close>

definition MAX_DECOMPRESSED_SIZE :: nat where
  "MAX_DECOMPRESSED_SIZE = 10 * 1024 * 1024"

definition decode_report ::
  "(str \<Rightarrow> bytes option) \<Rightarrow> (nat \<Rightarrow> bytes \<Rightarrow> bytes option) \<Rightarrow> str \<Rightarrow> bytes res" where
  "decode_report decode_b64 gz_take bdy =
     try_bind (ok_or (AttestationVerification ''Base64 decode failed'') (decode_b64 bdy)) (\<lambda>compressed.
     try_bind (ok_or (AttestationVerification ''Gzip decompress failed'')
                 (gz_take (MAX_DECOMPRESSED_SIZE + 1) compressed)) (\<lambda>report_bytes.
     if MAX_DECOMPRESSED_SIZE < length report_bytes
     then Inl (AttestationVerification ''Decompressed attestation exceeds maximum size'')
     else Inr report_bytes))"

section \<open>Reads\<close>

definition read_u32 :: "bytes \<Rightarrow> nat \<Rightarrow> u32 res" where
  "read_u32 report off = try_bind (slice off (off + 4) report) (\<lambda>bs. Inr (from_le_bytes bs))"

definition read_u64 :: "bytes \<Rightarrow> nat \<Rightarrow> u64 res" where
  "read_u64 report off = try_bind (slice off (off + 8) report) (\<lambda>bs. Inr (from_le_bytes bs))"

text \<open>The values the reads return, for statements about accepted reports.\<close>

definition u32_at :: "bytes \<Rightarrow> nat \<Rightarrow> u32" where
  "u32_at report off = from_le_bytes (take 4 (drop off report))"

definition u64_at :: "bytes \<Rightarrow> nat \<Rightarrow> u64" where
  "u64_at report off = from_le_bytes (take 8 (drop off report))"

lemma read_u32_Inr_iff [result_inv]:
  "read_u32 report off = Inr v \<longleftrightarrow> off + 4 \<le> length report \<and> v = u32_at report off"
  by (auto simp: read_u32_def u32_at_def result_inv)

lemma read_u64_Inr_iff [result_inv]:
  "read_u64 report off = Inr v \<longleftrightarrow> off + 8 \<le> length report \<and> v = u64_at report off"
  by (auto simp: read_u64_def u64_at_def result_inv)

lemma read_in_range [field_read]:
  "off + 4 \<le> length report \<Longrightarrow> read_u32 report off = Inr (u32_at report off)"
  "off + 8 \<le> length report \<Longrightarrow> read_u64 report off = Inr (u64_at report off)"
  "i < length report \<Longrightarrow> index_at report i = Inr (report ! i)"
  "a \<le> b \<Longrightarrow> b \<le> length report \<Longrightarrow> slice a b report = Inr (take (b - a) (drop a report))"
  by (simp_all add: result_inv)

section \<open>Structure\<close>

definition validate_report_structure :: "bytes \<Rightarrow> unit res" where
  "validate_report_structure report =
     (if length report < REPORT_SIZE then Inl (AttestationVerification ''Report too small'')
      else try_bind (read_u32 report 0) (\<lambda>version.
        if version = 2 \<or> version = 3 \<or> version = 5 then Inr ()
        else Inl (AttestationVerification ''Unsupported report version'')))"

lemma validate_report_structure_Inr [result_inv]:
  "validate_report_structure report = Inr u \<longleftrightarrow>
     REPORT_SIZE \<le> length report \<and> u32_at report 0 \<in> {2, 3, 5}"
  by (auto simp: validate_report_structure_def field_read REPORT_SIZE_def result_inv not_less)

section \<open>Must be zero\<close>

definition validate_mbz_bytes :: "bytes \<Rightarrow> nat \<Rightarrow> nat \<Rightarrow> str \<Rightarrow> unit res" where
  "validate_mbz_bytes report start stop field_name =
     try_bind (slice start stop report) (\<lambda>bs.
     if list_ex (\<lambda>b. b \<noteq> 0) bs
     then Inl (AttestationVerification (''MBZ field '' @ field_name @ '' contains non-zero bytes''))
     else Inr ())"

definition validate_tcb_mbz :: "u64 \<Rightarrow> str \<Rightarrow> unit res" where
  "validate_tcb_mbz tcb field_name =
     (let reserved_bits = drop_bit 16 tcb AND 0xFFFFFFFF in
      if reserved_bits \<noteq> 0
      then Inl (AttestationVerification (field_name @ '' has non-zero reserved bits 47-16''))
      else Inr ())"

definition validate_mbz_fields :: "bytes \<Rightarrow> unit res" where
  "validate_mbz_fields report =
     try_bind (read_u32 report 0) (\<lambda>version.
     try_bind (validate_mbz_bytes report 0x4C 0x50 ''reserved_after_signer_info'') (\<lambda>_.
     try_bind (if 3 \<le> version then validate_mbz_bytes report 0x18B 0x1A0 ''reserved_v3''
               else validate_mbz_bytes report 0x188 0x1A0 ''reserved_v2'') (\<lambda>_.
     try_bind (validate_mbz_bytes report 0x1EB 0x1EC ''reserved_after_current_version'') (\<lambda>_.
     try_bind (validate_mbz_bytes report 0x1EF 0x1F0 ''reserved_after_committed_version'') (\<lambda>_.
     try_bind (validate_mbz_bytes report (if 5 \<le> version then 0x208 else 0x1F8) 0x2A0
                 ''reserved_before_signature'') (\<lambda>_.
     try_bind (validate_mbz_bytes report (SIGNATURE_OFFSET + ECDSA_P384_SIGNATURE_SIZE) REPORT_SIZE
                 ''signature_padding'') (\<lambda>_.
     try_bind (read_u64 report CURRENT_TCB_OFFSET) (\<lambda>current_tcb.
     try_bind (validate_tcb_mbz current_tcb ''current_tcb'') (\<lambda>_.
     try_bind (read_u64 report REPORTED_TCB_OFFSET) (\<lambda>reported_tcb.
     try_bind (validate_tcb_mbz reported_tcb ''reported_tcb'') (\<lambda>_.
     try_bind (read_u64 report COMMITTED_TCB_OFFSET) (\<lambda>committed_tcb.
     try_bind (validate_tcb_mbz committed_tcb ''committed_tcb'') (\<lambda>_.
     try_bind (read_u64 report LAUNCH_TCB_OFFSET) (\<lambda>launch_tcb.
     validate_tcb_mbz launch_tcb ''launch_tcb''))))))))))))))"

lemma validate_mbz_bytes_Inr [result_inv]:
  "validate_mbz_bytes report a b name = Inr u \<longleftrightarrow>
     a \<le> b \<and> b \<le> length report \<and> (\<forall>i. a \<le> i \<and> i < b \<longrightarrow> report ! i = 0)"
proof (cases "a \<le> b \<and> b \<le> length report")
  case True
  have "list_ex (\<lambda>x. x \<noteq> 0) (take (b - a) (drop a report)) \<longleftrightarrow> (\<exists>i<b - a. report ! (a + i) \<noteq> 0)"
    using True by (simp add: list_ex_length min_absorb2 diff_le_mono cong: conj_cong)
  also have "\<dots> \<longleftrightarrow> (\<exists>i. a \<le> i \<and> i < b \<and> report ! i \<noteq> 0)"
    by (metis add_diff_inverse_nat le_add1 less_diff_conv2 not_le add.commute True le_iff_add nat_add_left_cancel_less)
  finally show ?thesis
    using True by (auto simp: validate_mbz_bytes_def result_inv)
next
  case False
  then show ?thesis by (auto simp: validate_mbz_bytes_def result_inv)
qed

section \<open>Signer info\<close>

definition validate_signer_info :: "bytes \<Rightarrow> bool res" where
  "validate_signer_info report =
     try_bind (read_u32 report SIGNER_INFO_OFFSET) (\<lambda>signer_info.
     if drop_bit 5 signer_info \<noteq> 0
     then Inl (AttestationVerification ''Signer info bits 31-5 must be zero'')
     else let signing_key = drop_bit 2 signer_info AND 0x7 in
       if signing_key \<noteq> 0
       then Inl (AttestationVerification ''Only VCEK-signed reports are supported'')
       else let mask_chip_key = (signer_info AND 0x2 \<noteq> 0) in Inr mask_chip_key)"

lemma validate_signer_info_Inr [result_inv]:
  "validate_signer_info report = Inr m \<longleftrightarrow> SIGNER_INFO_OFFSET + 4 \<le> length report \<and>
     drop_bit 5 (u32_at report SIGNER_INFO_OFFSET) = 0 \<and>
     drop_bit 2 (u32_at report SIGNER_INFO_OFFSET) AND 0x7 = 0 \<and>
     m = (u32_at report SIGNER_INFO_OFFSET AND 0x2 \<noteq> 0)"
  by (auto simp: validate_signer_info_def result_inv Let_def)

lemma validate_tcb_mbz_Inr [result_inv]:
  "validate_tcb_mbz tcb name = Inr u \<longleftrightarrow> drop_bit 16 tcb AND 0xFFFFFFFF = 0"
  by (simp add: validate_tcb_mbz_def Let_def)

lemma validate_mbz_fields_tcb:
  assumes "validate_mbz_fields report = Inr u"
  shows "drop_bit 16 (u64_at report CURRENT_TCB_OFFSET) AND 0xFFFFFFFF = 0"
    and "drop_bit 16 (u64_at report REPORTED_TCB_OFFSET) AND 0xFFFFFFFF = 0"
    and "drop_bit 16 (u64_at report COMMITTED_TCB_OFFSET) AND 0xFFFFFFFF = 0"
    and "drop_bit 16 (u64_at report LAUNCH_TCB_OFFSET) AND 0xFFFFFFFF = 0"
  using assms unfolding validate_mbz_fields_def by (auto simp: result_inv)

section \<open>No panic after the structure check\<close>

lemma no_panic_mbz_bytes [simp]:
  "a \<le> b \<Longrightarrow> b \<le> length report \<Longrightarrow> no_panic (validate_mbz_bytes report a b name)"
  by (simp add: validate_mbz_bytes_def field_read)

lemma no_panic_tcb_mbz [simp]: "no_panic (validate_tcb_mbz tcb name)"
  by (simp add: validate_tcb_mbz_def Let_def)

lemma no_panic_mbz_fields:
  "REPORT_SIZE \<le> length report \<Longrightarrow> no_panic (validate_mbz_fields report)"
  unfolding validate_mbz_fields_def
  by (intro no_panic_bind no_panic_if) (simp_all add: field_read offsets)

lemma no_panic_signer_info:
  "REPORT_SIZE \<le> length report \<Longrightarrow> no_panic (validate_signer_info report)"
  by (simp add: validate_signer_info_def field_read offsets Let_def)

end
