(* ===== verification/Attestation_Types.thy ===== *)
theory Attestation_Types
  imports Errors Rfc6962
begin

text \<open>
  \<open>attestation/types.rs\<close>: predicate types, measurements with their comparison and
  fingerprints, the decoded policy, platform and TCB fields, and the validation options with
  their defaults. \<open>hex\<close> is \<open>hex::encode\<close>, \<open>sha256\<close> is \<open>Sha256::digest\<close>.
\<close>

datatype predicate_type = SevGuestV2 | TdxGuestV2 | SnpTdxMultiPlatformV1 | UnknownPredicate

fun as_url :: "predicate_type \<Rightarrow> str" where
  "as_url SevGuestV2 = ''https://tinfoil.sh/predicate/sev-snp-guest/v2''"
| "as_url TdxGuestV2 = ''https://tinfoil.sh/predicate/tdx-guest/v2''"
| "as_url SnpTdxMultiPlatformV1 = ''https://tinfoil.sh/predicate/snp-tdx-multiplatform/v1''"
| "as_url UnknownPredicate = ''unknown''"

text \<open>The serde names: what a predicate type is read from; anything else is \<open>Unknown\<close>.\<close>

definition predicate_from_url :: "str \<Rightarrow> predicate_type" where
  "predicate_from_url s =
     (if s = ''https://tinfoil.sh/predicate/sev-snp-guest/v2'' then SevGuestV2
      else if s = ''https://tinfoil.sh/predicate/tdx-guest/v2'' then TdxGuestV2
      else if s = ''https://tinfoil.sh/predicate/snp-tdx-multiplatform/v1'' then SnpTdxMultiPlatformV1
      else UnknownPredicate)"

lemma predicate_from_as_url: "p \<noteq> UnknownPredicate \<Longrightarrow> predicate_from_url (as_url p) = p"
  by (cases p) (simp_all add: predicate_from_url_def)

record attestation_document =
  doc_format :: predicate_type
  doc_body :: str

definition document_hash :: "(bytes \<Rightarrow> digest) \<Rightarrow> (bytes \<Rightarrow> str) \<Rightarrow> attestation_document \<Rightarrow> str" where
  "document_hash sha256 hex doc =
     hex (digest_bytes (sha256 (as_bytes (as_url (doc_format doc) @ doc_body doc))))"

section \<open>Measurements\<close>

record measurement =
  m_type :: predicate_type
  registers :: "str list"

datatype measurement_error =
  FormatMismatch | RegisterMismatch | TooFewRegisters | SnpMismatch
  | Rtmr1Mismatch | Rtmr2Mismatch | Rtmr3Mismatch

definition rtmr3_zero :: str where
  "rtmr3_zero = replicate 96 CHR ''0''"

definition compare_multiplatform :: "measurement \<Rightarrow> measurement \<Rightarrow> measurement_error + unit" where
  "compare_multiplatform self other =
     (if length (registers self) < 3 then Inl TooFewRegisters
      else case m_type other of
        SnpTdxMultiPlatformV1 \<Rightarrow>
          if registers self \<noteq> registers other then Inl RegisterMismatch else Inr ()
      | SevGuestV2 \<Rightarrow>
          (case registers other of
             [] \<Rightarrow> Inl TooFewRegisters
           | actual_snp # _ \<Rightarrow>
               if registers self ! 0 \<noteq> actual_snp then Inl SnpMismatch else Inr ())
      | TdxGuestV2 \<Rightarrow>
          if length (registers other) < 5 then Inl TooFewRegisters
          else if registers self ! 1 \<noteq> registers other ! 2 then Inl Rtmr1Mismatch
          else if registers self ! 2 \<noteq> registers other ! 3 then Inl Rtmr2Mismatch
          else if registers other ! 4 \<noteq> rtmr3_zero then Inl Rtmr3Mismatch
          else Inr ()
      | UnknownPredicate \<Rightarrow> Inl FormatMismatch)"

definition equals :: "measurement \<Rightarrow> measurement \<Rightarrow> measurement_error + unit" where
  "equals self other =
     (if m_type self = SnpTdxMultiPlatformV1 then compare_multiplatform self other
      else if m_type other = SnpTdxMultiPlatformV1 then compare_multiplatform other self
      else if m_type self \<noteq> m_type other then Inl FormatMismatch
      else if registers self \<noteq> registers other then Inl RegisterMismatch
      else Inr ())"

definition fingerprint_registers :: "measurement \<Rightarrow> predicate_type \<Rightarrow> str list" where
  "fingerprint_registers self target_type =
     (case (m_type self, target_type) of
        (SnpTdxMultiPlatformV1, SevGuestV2) \<Rightarrow> [case registers self of [] \<Rightarrow> [] | r # _ \<Rightarrow> r]
      | (SevGuestV2, _) \<Rightarrow> [case registers self of [] \<Rightarrow> [] | r # _ \<Rightarrow> r]
      | (TdxGuestV2, _) \<Rightarrow> registers self
      | _ \<Rightarrow> registers self)"

definition fingerprint_for_target ::
  "(bytes \<Rightarrow> digest) \<Rightarrow> (bytes \<Rightarrow> str) \<Rightarrow> measurement \<Rightarrow> predicate_type \<Rightarrow> str" where
  "fingerprint_for_target sha256 hex self target_type =
     (let rs = fingerprint_registers self target_type in
      if length rs = 1 then rs ! 0
      else let all_data = as_url (m_type self) @ concat rs
           in hex (digest_bytes (sha256 (as_bytes all_data))))"

definition fingerprint :: "(bytes \<Rightarrow> digest) \<Rightarrow> (bytes \<Rightarrow> str) \<Rightarrow> measurement \<Rightarrow> str" where
  "fingerprint sha256 hex self = fingerprint_for_target sha256 hex self (m_type self)"

record verification =
  v_measurement :: measurement
  v_tls_public_key_fp :: str
  v_hpke_public_key :: "str option"

section \<open>Policy, platform and TCB\<close>

record snp_policy =
  abi_minor :: u8
  abi_major :: u8
  smt :: bool
  migrate_ma :: bool
  debug :: bool
  single_socket :: bool
  cxl_allowed :: bool
  mem_aes256_xts :: bool
  rapl_dis :: bool
  ciphertext_hiding_dram :: bool
  page_swap_disabled :: bool

definition policy_from_u64 :: "u64 \<Rightarrow> snp_policy" where
  "policy_from_u64 value = \<lparr>
     abi_minor = ucast (value AND 0xFF),
     abi_major = ucast (drop_bit 8 value AND 0xFF),
     smt = (value AND push_bit 16 1 \<noteq> 0),
     migrate_ma = (value AND push_bit 18 1 \<noteq> 0),
     debug = (value AND push_bit 19 1 \<noteq> 0),
     single_socket = (value AND push_bit 20 1 \<noteq> 0),
     cxl_allowed = (value AND push_bit 21 1 \<noteq> 0),
     mem_aes256_xts = (value AND push_bit 22 1 \<noteq> 0),
     rapl_dis = (value AND push_bit 23 1 \<noteq> 0),
     ciphertext_hiding_dram = (value AND push_bit 24 1 \<noteq> 0),
     page_swap_disabled = (value AND push_bit 25 1 \<noteq> 0)\<rparr>"

record snp_platform_info =
  smt_enabled :: bool
  tsme_enabled :: bool
  ecc_enabled :: bool
  rapl_disabled :: bool
  ciphertext_hiding_dram_enabled :: bool
  alias_check_complete :: bool
  tio_enabled :: bool

definition platform_from_u64 :: "u64 \<Rightarrow> snp_platform_info" where
  "platform_from_u64 value = \<lparr>
     smt_enabled = (value AND push_bit 0 1 \<noteq> 0),
     tsme_enabled = (value AND push_bit 1 1 \<noteq> 0),
     ecc_enabled = (value AND push_bit 2 1 \<noteq> 0),
     rapl_disabled = (value AND push_bit 3 1 \<noteq> 0),
     ciphertext_hiding_dram_enabled = (value AND push_bit 4 1 \<noteq> 0),
     alias_check_complete = (value AND push_bit 5 1 \<noteq> 0),
     tio_enabled = (value AND push_bit 7 1 \<noteq> 0)\<rparr>"

record tcb_parts =
  bl_spl :: u8
  tee_spl :: u8
  snp_spl :: u8
  ucode_spl :: u8

definition tcb_from_u64 :: "u64 \<Rightarrow> tcb_parts" where
  "tcb_from_u64 tcb = \<lparr>
     bl_spl = ucast (tcb AND 0xFF),
     tee_spl = ucast (drop_bit 8 tcb AND 0xFF),
     snp_spl = ucast (drop_bit 48 tcb AND 0xFF),
     ucode_spl = ucast (drop_bit 56 tcb AND 0xFF)\<rparr>"

definition meets_minimum :: "tcb_parts \<Rightarrow> tcb_parts \<Rightarrow> bool" where
  "meets_minimum self m =
     (bl_spl m \<le> bl_spl self \<and> tee_spl m \<le> tee_spl self
      \<and> snp_spl m \<le> snp_spl self \<and> ucode_spl m \<le> ucode_spl self)"

lemma flag_bit [simp]: "(w :: 'a::len word) AND push_bit n 1 \<noteq> 0 \<longleftrightarrow> bit w n"
  by (auto simp: push_bit_eq_mult and_exp_eq_0_iff_not_bit)

lemma policy_from_u64_bits:
  "smt (policy_from_u64 v) = bit v 16" "migrate_ma (policy_from_u64 v) = bit v 18"
  "debug (policy_from_u64 v) = bit v 19" "single_socket (policy_from_u64 v) = bit v 20"
  "cxl_allowed (policy_from_u64 v) = bit v 21" "mem_aes256_xts (policy_from_u64 v) = bit v 22"
  "rapl_dis (policy_from_u64 v) = bit v 23" "ciphertext_hiding_dram (policy_from_u64 v) = bit v 24"
  "page_swap_disabled (policy_from_u64 v) = bit v 25"
  unfolding policy_from_u64_def snp_policy.simps by (rule flag_bit)+

lemma platform_from_u64_bits:
  "smt_enabled (platform_from_u64 v) = bit v 0" "tsme_enabled (platform_from_u64 v) = bit v 1"
  "ecc_enabled (platform_from_u64 v) = bit v 2" "rapl_disabled (platform_from_u64 v) = bit v 3"
  "ciphertext_hiding_dram_enabled (platform_from_u64 v) = bit v 4"
  "alias_check_complete (platform_from_u64 v) = bit v 5" "tio_enabled (platform_from_u64 v) = bit v 7"
  unfolding platform_from_u64_def snp_platform_info.simps by (rule flag_bit)+

lemma ucast_byte: "bit (ucast ((w :: u64) AND 0xFF) :: u8) i \<longleftrightarrow> i < 8 \<and> bit w i"
proof -
  have "(0xFF :: u64) = mask 8" by (simp add: mask_eq_exp_minus_1)
  show ?thesis unfolding \<open>0xFF = mask 8\<close> by (auto simp: bit_simps)
qed

lemma tcb_from_u64_bits:
  "bit (bl_spl (tcb_from_u64 w)) i \<longleftrightarrow> i < 8 \<and> bit w i"
  "bit (tee_spl (tcb_from_u64 w)) i \<longleftrightarrow> i < 8 \<and> bit w (8 + i)"
  "bit (snp_spl (tcb_from_u64 w)) i \<longleftrightarrow> i < 8 \<and> bit w (48 + i)"
  "bit (ucode_spl (tcb_from_u64 w)) i \<longleftrightarrow> i < 8 \<and> bit w (56 + i)"
  by (simp_all add: tcb_from_u64_def ucast_byte bit_drop_bit_eq)

text \<open>TCB versions are ordered by their four components; meeting a minimum is being above it.\<close>

instantiation tcb_parts_ext :: (order) order
begin

definition less_eq_tcb_parts_ext :: "'a tcb_parts_ext \<Rightarrow> 'a tcb_parts_ext \<Rightarrow> bool" where
  "s \<le> t \<longleftrightarrow> bl_spl s \<le> bl_spl t \<and> tee_spl s \<le> tee_spl t \<and> snp_spl s \<le> snp_spl t \<and>
     ucode_spl s \<le> ucode_spl t \<and> tcb_parts.more s \<le> tcb_parts.more t"

definition less_tcb_parts_ext :: "'a tcb_parts_ext \<Rightarrow> 'a tcb_parts_ext \<Rightarrow> bool" where
  "s < t \<longleftrightarrow> s \<le> t \<and> \<not> t \<le> (s :: 'a tcb_parts_ext)"

instance
proof
  fix s t u :: "'a tcb_parts_ext"
  show "s < t \<longleftrightarrow> s \<le> t \<and> \<not> t \<le> s" by (rule less_tcb_parts_ext_def)
  show "s \<le> s" by (simp add: less_eq_tcb_parts_ext_def)
  show "s \<le> u" if "s \<le> t" "t \<le> u" using that by (auto simp: less_eq_tcb_parts_ext_def)
  show "s = t" if "s \<le> t" "t \<le> s" using that by (cases s; cases t) (auto simp: less_eq_tcb_parts_ext_def)
qed

end

lemma meets_minimum_le: "meets_minimum self m \<longleftrightarrow> m \<le> self"
  by (simp add: meets_minimum_def less_eq_tcb_parts_ext_def)

lemma meets_minimum_refl [simp]: "meets_minimum t t"
  by (simp add: meets_minimum_le)

lemma meets_minimum_trans: "meets_minimum a b \<Longrightarrow> meets_minimum b c \<Longrightarrow> meets_minimum a c"
  by (simp add: meets_minimum_le)

section \<open>Validation options\<close>

record validation_options =
  guest_policy :: "snp_policy option"
  minimum_guest_svn :: "u32 option"
  minimum_build :: "u8 option"
  minimum_version :: "u16 option"
  minimum_tcb :: "tcb_parts option"
  minimum_launch_tcb :: "tcb_parts option"
  permit_provisional_firmware :: bool
  o_platform_info :: "snp_platform_info option"
  o_vmpl :: "u8 option"
  o_report_data :: "bytes option"
  o_host_data :: "bytes option"
  o_image_id :: "bytes option"
  o_family_id :: "bytes option"
  o_report_id :: "bytes option"
  o_report_id_ma :: "bytes option"
  o_measurement :: "bytes option"
  o_chip_id :: "bytes option"

definition default_policy :: snp_policy where
  "default_policy = \<lparr>abi_minor = 0, abi_major = 0, smt = True, migrate_ma = False, debug = False,
     single_socket = False, cxl_allowed = False, mem_aes256_xts = False, rapl_dis = False,
     ciphertext_hiding_dram = False, page_swap_disabled = False\<rparr>"

definition default_tcb :: tcb_parts where
  "default_tcb = \<lparr>bl_spl = 0x7, tee_spl = 0, snp_spl = 0xe, ucode_spl = 0x48\<rparr>"

definition default_options :: validation_options where
  "default_options = \<lparr>
     guest_policy = Some default_policy,
     minimum_guest_svn = Some 0,
     minimum_build = Some 21,
     minimum_version = Some (push_bit 8 1 OR 55),
     minimum_tcb = Some default_tcb,
     minimum_launch_tcb = Some default_tcb,
     permit_provisional_firmware = False,
     o_platform_info = Some \<lparr>smt_enabled = True, tsme_enabled = True, ecc_enabled = False,
       rapl_disabled = False, ciphertext_hiding_dram_enabled = False,
       alias_check_complete = False, tio_enabled = False\<rparr>,
     o_vmpl = Some 0,
     o_report_data = None, o_host_data = None, o_image_id = None, o_family_id = None,
     o_report_id = None, o_report_id_ma = None, o_measurement = None, o_chip_id = None\<rparr>"

record software_identity =
  sw_name :: str
  sw_version :: str

record ground_truth =
  config_repo :: str
  release_tag :: "str option"
  release_digest :: str
  tls_public_key :: "str option"
  hpke_public_key :: "str option"
  code_measurement :: measurement
  enclave_measurement :: measurement
  code_fingerprint :: str
  enclave_fingerprint :: str
  gt_verifier :: software_identity
  verified_at :: str

definition unknown_verifier_identity :: software_identity where
  "unknown_verifier_identity = \<lparr>sw_name = ''unknown'', sw_version = ''unknown''\<rparr>"

end
