(* ===== verification/Sev_Validation.thy ===== *)
theory Sev_Validation
  imports Sev_Report Attestation_Types
begin

text \<open>
  \<open>sev/validation.rs\<close>: the checks of report fields against the validation options, one
  definition per group of the long function \<open>validate_report_fields_with_options\<close>, in the
  order the source runs them. The VCEK check of \<open>validate_report_with_chain\<close> is in
  \<open>Cert_Chain\<close>.
\<close>

definition validate_committed_tcb :: "bytes \<Rightarrow> unit res" where
  "validate_committed_tcb report =
     try_bind (read_u64 report COMMITTED_TCB_OFFSET) (\<lambda>committed_tcb.
     try_bind (read_u64 report CURRENT_TCB_OFFSET) (\<lambda>current_tcb.
     if committed_tcb \<noteq> current_tcb
     then Inl (AttestationVerification ''Provisional firmware not allowed: committed_tcb != current_tcb'')
     else
     try_bind (index_at report COMMITTED_BUILD_OFFSET) (\<lambda>committed_build.
     try_bind (index_at report CURRENT_BUILD_OFFSET) (\<lambda>current_build.
     if committed_build \<noteq> current_build
     then Inl (AttestationVerification ''Provisional firmware: committed_build != current_build'')
     else
     try_bind (index_at report COMMITTED_MINOR_OFFSET) (\<lambda>committed_minor.
     try_bind (index_at report CURRENT_MINOR_OFFSET) (\<lambda>current_minor.
     if committed_minor \<noteq> current_minor
     then Inl (AttestationVerification ''Provisional firmware: committed_minor != current_minor'')
     else
     try_bind (index_at report COMMITTED_MAJOR_OFFSET) (\<lambda>committed_major.
     try_bind (index_at report CURRENT_MAJOR_OFFSET) (\<lambda>current_major.
     if committed_major \<noteq> current_major
     then Inl (AttestationVerification ''Provisional firmware: committed_major != current_major'')
     else Inr ()))))))))"

definition version_word :: "u8 \<Rightarrow> u8 \<Rightarrow> u16" where
  "version_word major minor = push_bit 8 (ucast major) OR ucast minor"

definition validate_policy :: "snp_policy \<Rightarrow> snp_policy \<Rightarrow> unit res" where
  "validate_policy report_policy required =
     (let required_version = version_word (abi_major required) (abi_minor required);
          report_version = version_word (abi_major report_policy) (abi_minor report_policy)
      in if report_version < required_version
         then Inl (AttestationVerification ''Required ABI version is greater than the ABI version of the report'')
      else if \<not> migrate_ma required \<and> migrate_ma report_policy
         then Inl (AttestationVerification ''Unauthorized migration agent capability'')
      else if \<not> debug required \<and> debug report_policy
         then Inl (AttestationVerification ''Debug mode not allowed'')
      else if \<not> smt required \<and> smt report_policy
         then Inl (AttestationVerification ''Unauthorized SMT capability'')
      else if \<not> cxl_allowed required \<and> cxl_allowed report_policy
         then Inl (AttestationVerification ''Unauthorized CXL capability'')
      else if \<not> mem_aes256_xts required \<and> mem_aes256_xts report_policy
         then Inl (AttestationVerification ''Unauthorized memory encryption mode (AES-256-XTS)'')
      else if mem_aes256_xts required \<and> \<not> mem_aes256_xts report_policy
         then Inl (AttestationVerification ''AES-256-XTS memory encryption required but not present'')
      else if single_socket required \<and> \<not> single_socket report_policy
         then Inl (AttestationVerification ''Single socket restriction required but not present'')
      else if rapl_dis required \<and> \<not> rapl_dis report_policy
         then Inl (AttestationVerification ''RAPL disabled required but not present'')
      else if ciphertext_hiding_dram required \<and> \<not> ciphertext_hiding_dram report_policy
         then Inl (AttestationVerification ''Ciphertext hiding in DRAM required but not enforced'')
      else if page_swap_disabled required \<and> \<not> page_swap_disabled report_policy
         then Inl (AttestationVerification ''Page swap disabled required but not present'')
      else Inr ())"

definition validate_platform_info :: "snp_platform_info \<Rightarrow> snp_platform_info \<Rightarrow> unit res" where
  "validate_platform_info report_info required =
     (if smt_enabled report_info \<and> \<not> smt_enabled required
      then Inl (AttestationVerification ''Unauthorized platform feature SMT enabled'')
      else if tsme_enabled required \<and> \<not> tsme_enabled report_info
      then Inl (AttestationVerification ''TSME required but not enabled on platform'')
      else if ecc_enabled required \<and> \<not> ecc_enabled report_info
      then Inl (AttestationVerification ''ECC required but not enabled on platform'')
      else if rapl_disabled required \<and> \<not> rapl_disabled report_info
      then Inl (AttestationVerification ''RAPL disabled required but RAPL is enabled on platform'')
      else if ciphertext_hiding_dram_enabled required \<and> \<not> ciphertext_hiding_dram_enabled report_info
      then Inl (AttestationVerification ''Ciphertext hiding in DRAM required but not enabled on platform'')
      else if alias_check_complete required \<and> \<not> alias_check_complete report_info
      then Inl (AttestationVerification ''Alias check completion required but not complete on platform'')
      else if tio_enabled required \<and> \<not> tio_enabled report_info
      then Inl (AttestationVerification ''TIO required but not enabled on platform'')
      else Inr ())"

definition validate_vmpl :: "bytes \<Rightarrow> u8 option \<Rightarrow> unit res" where
  "validate_vmpl report expected_vmpl =
     try_bind (read_u32 report VMPL_OFFSET) (\<lambda>vmpl.
     if 3 < vmpl then Inl (AttestationVerification ''VMPL is not in valid range 0-3'')
     else case expected_vmpl of
       Some expd \<Rightarrow>
         if vmpl \<noteq> ucast expd then Inl (AttestationVerification ''VMPL mismatch'') else Inr ()
     | None \<Rightarrow> Inr ())"

section \<open>The groups of \<open>validate_report_fields_with_options\<close>\<close>

text \<open>The checks that are always made: lines 254 to 300. Returns the mask flag and the raw policy.\<close>

definition validate_fixed_fields :: "bytes \<Rightarrow> validation_options \<Rightarrow> (bool \<times> u64) res" where
  "validate_fixed_fields report options =
     try_bind (validate_mbz_fields report) (\<lambda>_.
     try_bind (read_u32 report SIGNATURE_ALGO_OFFSET) (\<lambda>signature_algo.
     if signature_algo \<noteq> SIGNATURE_ALGO_ECDSA_P384_SHA384
     then Inl (AttestationVerification ''Unsupported signature algorithm'')
     else
     try_bind (validate_signer_info report) (\<lambda>mask_chip_key.
     if permit_provisional_firmware options
     then Inl (AttestationVerification ''permit_provisional_firmware=true is not supported'')
     else
     try_bind (validate_committed_tcb report) (\<lambda>_.
     try_bind (read_u64 report POLICY_OFFSET) (\<lambda>policy_raw.
     if policy_raw AND POLICY_RESERVED_BIT_17 = 0
     then Inl (AttestationVerification ''Policy bit 17 must be 1 (reserved)'')
     else if drop_bit 26 policy_raw \<noteq> 0
     then Inl (AttestationVerification ''Policy bits 63-26 must be zero'')
     else Inr (mask_chip_key, policy_raw))))))"

definition validate_policy_svn :: "bytes \<Rightarrow> validation_options \<Rightarrow> u64 \<Rightarrow> unit res" where
  "validate_policy_svn report options policy_raw =
     try_bind (case guest_policy options of
         Some required_policy \<Rightarrow> validate_policy (policy_from_u64 policy_raw) required_policy
       | None \<Rightarrow> Inr ()) (\<lambda>_.
     case minimum_guest_svn options of
       Some min_guest_svn \<Rightarrow>
         try_bind (read_u32 report GUEST_SVN_OFFSET) (\<lambda>guest_svn.
         if guest_svn < min_guest_svn
         then Inl (AttestationVerification ''Guest SVN is below minimum'') else Inr ())
     | None \<Rightarrow> Inr ())"

definition validate_build_version :: "bytes \<Rightarrow> validation_options \<Rightarrow> unit res" where
  "validate_build_version report options =
     try_bind (index_at report CURRENT_BUILD_OFFSET) (\<lambda>build.
     try_bind (index_at report CURRENT_MINOR_OFFSET) (\<lambda>minor.
     try_bind (index_at report CURRENT_MAJOR_OFFSET) (\<lambda>major.
     try_bind (case minimum_build options of
         Some min_build \<Rightarrow>
           if build < min_build
           then Inl (AttestationVerification ''Current firmware build is below minimum'')
           else try_bind (index_at report COMMITTED_BUILD_OFFSET) (\<lambda>committed_build.
             if committed_build < min_build
             then Inl (AttestationVerification ''Committed firmware build is below minimum'')
             else Inr ())
       | None \<Rightarrow> Inr ()) (\<lambda>_.
     case minimum_version options of
       Some min_version \<Rightarrow>
         if version_word major minor < min_version
         then Inl (AttestationVerification ''Current firmware version is below minimum'')
         else
           try_bind (index_at report COMMITTED_MAJOR_OFFSET) (\<lambda>committed_major.
           try_bind (index_at report COMMITTED_MINOR_OFFSET) (\<lambda>committed_minor.
           if version_word committed_major committed_minor < min_version
           then Inl (AttestationVerification ''Committed firmware version is below minimum'')
           else Inr ()))
     | None \<Rightarrow> Inr ()))))"

definition validate_tcbs :: "bytes \<Rightarrow> validation_options \<Rightarrow> unit res" where
  "validate_tcbs report options =
     try_bind (case minimum_tcb options of
         Some min_tcb \<Rightarrow>
           try_bind (read_u64 report REPORTED_TCB_OFFSET) (\<lambda>reported_tcb.
           if \<not> meets_minimum (tcb_from_u64 reported_tcb) min_tcb
           then Inl (AttestationVerification ''Reported TCB below minimum'')
           else
           try_bind (read_u64 report CURRENT_TCB_OFFSET) (\<lambda>current_tcb.
           if \<not> meets_minimum (tcb_from_u64 current_tcb) min_tcb
           then Inl (AttestationVerification ''Current TCB below minimum'')
           else
           try_bind (read_u64 report COMMITTED_TCB_OFFSET) (\<lambda>committed_tcb.
           if \<not> meets_minimum (tcb_from_u64 committed_tcb) min_tcb
           then Inl (AttestationVerification ''Committed TCB below minimum'')
           else Inr ())))
       | None \<Rightarrow> Inr ()) (\<lambda>_.
     case minimum_launch_tcb options of
       Some min_launch_tcb \<Rightarrow>
         try_bind (read_u64 report LAUNCH_TCB_OFFSET) (\<lambda>launch_tcb.
         if \<not> meets_minimum (tcb_from_u64 launch_tcb) min_launch_tcb
         then Inl (AttestationVerification ''Launch TCB below minimum'') else Inr ())
     | None \<Rightarrow> Inr ())"

definition PLATFORM_INFO_VALID_MASK :: u64 where
  "PLATFORM_INFO_VALID_MASK = 0b10111111"

definition validate_platform :: "bytes \<Rightarrow> validation_options \<Rightarrow> unit res" where
  "validate_platform report options =
     (case o_platform_info options of
       Some required_platform_info \<Rightarrow>
         try_bind (read_u64 report PLATFORM_INFO_OFFSET) (\<lambda>platform_info_raw.
         if platform_info_raw AND NOT PLATFORM_INFO_VALID_MASK \<noteq> 0
         then Inl (AttestationVerification ''Platform info has non-zero reserved bits'')
         else validate_platform_info (platform_from_u64 platform_info_raw) required_platform_info)
     | None \<Rightarrow> Inr ())"

text \<open>One of the eight optional field comparisons at the end of the function.\<close>

definition validate_field :: "bytes \<Rightarrow> bytes option \<Rightarrow> nat \<Rightarrow> nat \<Rightarrow> str \<Rightarrow> unit res" where
  "validate_field report wanted off sz name =
     (case wanted of
       Some expd \<Rightarrow>
         try_bind (slice off (off + sz) report) (\<lambda>actual.
         if actual \<noteq> expd then Inl (AttestationVerification (name @ '' mismatch'')) else Inr ())
     | None \<Rightarrow> Inr ())"

definition validate_equalities :: "bytes \<Rightarrow> validation_options \<Rightarrow> unit res" where
  "validate_equalities report options =
     try_bind (validate_field report (o_report_data options) REPORT_DATA_OFFSET REPORT_DATA_SIZE ''report_data'') (\<lambda>_.
     try_bind (validate_field report (o_host_data options) HOST_DATA_OFFSET HOST_DATA_SIZE ''host_data'') (\<lambda>_.
     try_bind (validate_field report (o_image_id options) IMAGE_ID_OFFSET IMAGE_ID_SIZE ''image_id'') (\<lambda>_.
     try_bind (validate_field report (o_family_id options) FAMILY_ID_OFFSET FAMILY_ID_SIZE ''family_id'') (\<lambda>_.
     try_bind (validate_field report (o_report_id options) REPORT_ID_OFFSET REPORT_ID_SIZE ''report_id'') (\<lambda>_.
     try_bind (validate_field report (o_report_id_ma options) REPORT_ID_MA_OFFSET REPORT_ID_MA_SIZE ''report_id_ma'') (\<lambda>_.
     try_bind (validate_field report (o_measurement options) MEASUREMENT_OFFSET MEASUREMENT_SIZE ''measurement'') (\<lambda>_.
     validate_field report (o_chip_id options) CHIP_ID_OFFSET CHIP_ID_SIZE ''chip_id'')))))))"

definition validate_report_fields_with_options :: "bytes \<Rightarrow> validation_options \<Rightarrow> bool res" where
  "validate_report_fields_with_options report options =
     try_bind (validate_fixed_fields report options) (\<lambda>(mask_chip_key, policy_raw).
     try_bind (validate_policy_svn report options policy_raw) (\<lambda>_.
     try_bind (validate_build_version report options) (\<lambda>_.
     try_bind (validate_tcbs report options) (\<lambda>_.
     try_bind (validate_platform report options) (\<lambda>_.
     try_bind (validate_vmpl report (o_vmpl options)) (\<lambda>_.
     try_bind (validate_equalities report options) (\<lambda>_.
     Inr mask_chip_key)))))))"

section \<open>What success means\<close>

lemma validate_committed_tcb_Inr [result_inv]:
  "validate_committed_tcb report = Inr u \<longleftrightarrow> 0x1EF \<le> length report \<and>
     u64_at report COMMITTED_TCB_OFFSET = u64_at report CURRENT_TCB_OFFSET \<and>
     report ! COMMITTED_BUILD_OFFSET = report ! CURRENT_BUILD_OFFSET \<and>
     report ! COMMITTED_MINOR_OFFSET = report ! CURRENT_MINOR_OFFSET \<and>
     report ! COMMITTED_MAJOR_OFFSET = report ! CURRENT_MAJOR_OFFSET"
  by (auto simp: validate_committed_tcb_def result_inv offsets)

lemma validate_policy_Inr [result_inv]:
  "validate_policy p q = Inr u \<longleftrightarrow>
     version_word (abi_major q) (abi_minor q) \<le> version_word (abi_major p) (abi_minor p) \<and>
     (migrate_ma p \<longrightarrow> migrate_ma q) \<and> (debug p \<longrightarrow> debug q) \<and> (smt p \<longrightarrow> smt q) \<and>
     (cxl_allowed p \<longrightarrow> cxl_allowed q) \<and> (mem_aes256_xts p \<longleftrightarrow> mem_aes256_xts q) \<and>
     (single_socket q \<longrightarrow> single_socket p) \<and> (rapl_dis q \<longrightarrow> rapl_dis p) \<and>
     (ciphertext_hiding_dram q \<longrightarrow> ciphertext_hiding_dram p) \<and>
     (page_swap_disabled q \<longrightarrow> page_swap_disabled p)"
  by (auto simp: validate_policy_def Let_def not_less)

lemma validate_platform_info_Inr [result_inv]:
  "validate_platform_info p q = Inr u \<longleftrightarrow>
     (smt_enabled p \<longrightarrow> smt_enabled q) \<and> (tsme_enabled q \<longrightarrow> tsme_enabled p) \<and>
     (ecc_enabled q \<longrightarrow> ecc_enabled p) \<and> (rapl_disabled q \<longrightarrow> rapl_disabled p) \<and>
     (ciphertext_hiding_dram_enabled q \<longrightarrow> ciphertext_hiding_dram_enabled p) \<and>
     (alias_check_complete q \<longrightarrow> alias_check_complete p) \<and> (tio_enabled q \<longrightarrow> tio_enabled p)"
  by (auto simp: validate_platform_info_def)

lemma validate_field_Inr [result_inv]:
  "validate_field report w off n name = Inr u \<longleftrightarrow>
     (\<forall>e. w = Some e \<longrightarrow> off + n \<le> length report \<and> take n (drop off report) = e)"
  by (cases w) (auto simp: validate_field_def result_inv)

lemma validate_vmpl_Inr [result_inv]:
  "validate_vmpl report w = Inr u \<longleftrightarrow> VMPL_OFFSET + 4 \<le> length report \<and>
     u32_at report VMPL_OFFSET \<le> 3 \<and> (\<forall>e. w = Some e \<longrightarrow> u32_at report VMPL_OFFSET = ucast e)"
  by (cases w) (auto simp: validate_vmpl_def result_inv not_less)

lemma policy_bit_17: "p AND POLICY_RESERVED_BIT_17 = 0 \<longleftrightarrow> \<not> bit p 17"
  unfolding POLICY_RESERVED_BIT_17_def using flag_bit [of p 17] by blast

lemma validate_fixed_fields_Inr:
  "validate_fixed_fields report options = Inr (m, p) \<Longrightarrow>
     validate_mbz_fields report = Inr () \<and> validate_signer_info report = Inr m \<and>
     validate_committed_tcb report = Inr () \<and> p = u64_at report POLICY_OFFSET \<and>
     u32_at report SIGNATURE_ALGO_OFFSET = SIGNATURE_ALGO_ECDSA_P384_SHA384 \<and>
     bit p 17 \<and> drop_bit 26 p = 0"
  by (auto simp: validate_fixed_fields_def result_inv policy_bit_17)

lemma validate_policy_svn_Inr:
  "validate_policy_svn report options p = Inr u \<Longrightarrow>
     (\<forall>q. guest_policy options = Some q \<longrightarrow> validate_policy (policy_from_u64 p) q = Inr ()) \<and>
     (\<forall>n. minimum_guest_svn options = Some n \<longrightarrow> n \<le> u32_at report GUEST_SVN_OFFSET)"
  by (auto simp: validate_policy_svn_def result_inv not_less split: option.splits)

lemma validate_build_version_Inr:
  "validate_build_version report options = Inr u \<Longrightarrow>
     (\<forall>n. minimum_build options = Some n \<longrightarrow>
        n \<le> report ! CURRENT_BUILD_OFFSET \<and> n \<le> report ! COMMITTED_BUILD_OFFSET) \<and>
     (\<forall>n. minimum_version options = Some n \<longrightarrow>
        n \<le> version_word (report ! CURRENT_MAJOR_OFFSET) (report ! CURRENT_MINOR_OFFSET) \<and>
        n \<le> version_word (report ! COMMITTED_MAJOR_OFFSET) (report ! COMMITTED_MINOR_OFFSET))"
  by (auto simp: validate_build_version_def result_inv not_less split: option.splits)

lemma validate_tcbs_Inr:
  "validate_tcbs report options = Inr u \<Longrightarrow>
     (\<forall>t. minimum_tcb options = Some t \<longrightarrow>
        (\<forall>off\<in>{REPORTED_TCB_OFFSET, CURRENT_TCB_OFFSET, COMMITTED_TCB_OFFSET}.
           meets_minimum (tcb_from_u64 (u64_at report off)) t)) \<and>
     (\<forall>t. minimum_launch_tcb options = Some t \<longrightarrow>
        meets_minimum (tcb_from_u64 (u64_at report LAUNCH_TCB_OFFSET)) t)"
  by (auto simp: validate_tcbs_def result_inv split: option.splits)

lemma validate_platform_Inr:
  "validate_platform report options = Inr u \<Longrightarrow>
     (\<forall>q. o_platform_info options = Some q \<longrightarrow>
        u64_at report PLATFORM_INFO_OFFSET AND NOT PLATFORM_INFO_VALID_MASK = 0 \<and>
        validate_platform_info (platform_from_u64 (u64_at report PLATFORM_INFO_OFFSET)) q = Inr ())"
  by (auto simp: validate_platform_def result_inv split: option.splits)

lemma validate_report_fields_Inr:
  assumes "validate_report_fields_with_options report options = Inr m"
  obtains p where "validate_fixed_fields report options = Inr (m, p)"
    "validate_policy_svn report options p = Inr ()" "validate_build_version report options = Inr ()"
    "validate_tcbs report options = Inr ()" "validate_platform report options = Inr ()"
    "validate_vmpl report (o_vmpl options) = Inr ()" "validate_equalities report options = Inr ()"
  using assms that by (auto simp: validate_report_fields_with_options_def result_inv)

section \<open>No panic after the structure check\<close>

lemma no_panic_policy: "no_panic (validate_policy p q)"
  by (simp add: validate_policy_def Let_def)

lemma no_panic_platform_info: "no_panic (validate_platform_info p q)"
  by (simp add: validate_platform_info_def)

lemma no_panic_field:
  "off + n \<le> length report \<Longrightarrow> no_panic (validate_field report w off n name)"
  by (cases w) (simp_all add: validate_field_def field_read)

lemma no_panic_committed:
  "REPORT_SIZE \<le> length report \<Longrightarrow> no_panic (validate_committed_tcb report)"
  by (simp add: validate_committed_tcb_def field_read offsets)

lemma no_panic_fixed:
  "REPORT_SIZE \<le> length report \<Longrightarrow> no_panic (validate_fixed_fields report options)"
  unfolding validate_fixed_fields_def
  by (intro no_panic_bind no_panic_if no_panic_mbz_fields no_panic_signer_info no_panic_committed)
    (simp_all add: field_read offsets)

lemma no_panic_policy_svn:
  "REPORT_SIZE \<le> length report \<Longrightarrow> no_panic (validate_policy_svn report options p)"
  unfolding validate_policy_svn_def
  by (intro no_panic_bind) (auto simp: field_read offsets no_panic_policy split: option.split)

lemma no_panic_build_version:
  "REPORT_SIZE \<le> length report \<Longrightarrow> no_panic (validate_build_version report options)"
  unfolding validate_build_version_def
  by (intro no_panic_bind) (auto simp: field_read offsets split: option.split)

lemma no_panic_tcbs: "REPORT_SIZE \<le> length report \<Longrightarrow> no_panic (validate_tcbs report options)"
  unfolding validate_tcbs_def
  by (intro no_panic_bind) (auto simp: field_read offsets split: option.split)

lemma no_panic_platform: "REPORT_SIZE \<le> length report \<Longrightarrow> no_panic (validate_platform report options)"
  by (auto simp: validate_platform_def field_read offsets no_panic_platform_info split: option.split)

lemma no_panic_vmpl: "REPORT_SIZE \<le> length report \<Longrightarrow> no_panic (validate_vmpl report w)"
  by (auto simp: validate_vmpl_def field_read offsets split: option.split)

lemma no_panic_equalities:
  "REPORT_SIZE \<le> length report \<Longrightarrow> no_panic (validate_equalities report options)"
  unfolding validate_equalities_def by (intro no_panic_bind no_panic_field) (simp_all add: offsets)

lemma no_panic_report_fields:
  assumes "REPORT_SIZE \<le> length report"
  shows "no_panic (validate_report_fields_with_options report options)"
  unfolding validate_report_fields_with_options_def
  using assms
  by (auto intro!: no_panic_bind no_panic_fixed no_panic_policy_svn no_panic_build_version
      no_panic_tcbs no_panic_platform no_panic_vmpl no_panic_equalities)

end
