(* ===== verification/Http_Util.thy ===== *)
theory Http_Util
  imports Errors Text
begin

text \<open>
  \<open>verifier/util.rs\<close>: the bounded retry loop every unpinned request of the crate goes
  through. \<open>send k\<close> is the outcome of the \<open>k\<close>-th attempt; the waits between attempts, in
  milliseconds, are part of the result.
\<close>

record http_response =
  status :: nat
  retry_after_header :: "str option"
  resp_body :: "bytes option"

definition is_success :: "http_response \<Rightarrow> bool" where
  "is_success r = (200 \<le> status r \<and> status r < 300)"

definition is_server_error :: "http_response \<Rightarrow> bool" where
  "is_server_error r = (500 \<le> status r \<and> status r < 600)"

definition MAX_RETRIES :: nat where "MAX_RETRIES = 2"

definition INITIAL_BACKOFF_MS :: nat where "INITIAL_BACKOFF_MS = 500"

definition MAX_RETRY_AFTER_MS :: nat where "MAX_RETRY_AFTER_MS = 10000"

text \<open>\<open>retry_after_header\<close> is the header value where \<open>to_str\<close> accepts it.\<close>

definition parse_retry_after :: "http_response \<Rightarrow> nat option" where
  "parse_retry_after response =
     (case retry_after_header response of
        None \<Rightarrow> None
      | Some header \<Rightarrow>
        (case parse_u64 (trim header) of
           None \<Rightarrow> None
         | Some seconds \<Rightarrow> Some (min (min (unat seconds * 1000) (2 ^ 64 - 1)) MAX_RETRY_AFTER_MS)))"

datatype attempt = Response http_response | Failed str

definition retry_status :: "http_response \<Rightarrow> bool" where
  "retry_status r = (is_server_error r \<or> status r = 429)"

definition backoff :: "nat \<Rightarrow> nat" where
  "backoff k = INITIAL_BACKOFF_MS * 2 ^ k"

fun retry_loop ::
  "(nat \<Rightarrow> attempt) \<Rightarrow> nat list \<Rightarrow> http_response option \<Rightarrow> str option \<Rightarrow> nat list \<Rightarrow>
     (str + http_response) \<times> nat list" where
  "retry_loop send [] last_response last_err waits =
     (case last_response of Some r \<Rightarrow> (Inr r, waits) | None \<Rightarrow> (Inl (the last_err), waits))"
| "retry_loop send (k # ks) last_response last_err waits =
     (case send k of
        Response r \<Rightarrow>
          if retry_status r then
            retry_loop send ks (Some r) None
              (if k < MAX_RETRIES then
                 waits @ [case parse_retry_after r of Some d \<Rightarrow> d | None \<Rightarrow> backoff k] else waits)
          else (Inr r, waits)
      | Failed e \<Rightarrow>
          retry_loop send ks None (Some e)
            (if k < MAX_RETRIES then waits @ [backoff k] else waits))"

definition fetch_with_retry :: "str + unit \<Rightarrow> (nat \<Rightarrow> attempt) \<Rightarrow> (str + http_response) \<times> nat list" where
  "fetch_with_retry build send =
     (case build of Inl e \<Rightarrow> (Inl e, [])
      | Inr _ \<Rightarrow> retry_loop send [0..<MAX_RETRIES + 1] None None [])"

section \<open>Properties\<close>

lemma parse_retry_after_le: "parse_retry_after r = Some d \<Longrightarrow> d \<le> MAX_RETRY_AFTER_MS"
  by (auto simp: parse_retry_after_def split: option.splits)

lemma upt_3: "[0..<MAX_RETRIES + 1] = [0, 1, 2]"
  by (simp add: MAX_RETRIES_def numeral_3_eq_3 numeral_2_eq_2)

definition wait_after :: "(nat \<Rightarrow> attempt) \<Rightarrow> nat \<Rightarrow> nat" where
  "wait_after send k =
     (case send k of
        Response r \<Rightarrow> (case parse_retry_after r of Some d \<Rightarrow> d | None \<Rightarrow> backoff k)
      | Failed _ \<Rightarrow> backoff k)"

definition retryable :: "attempt \<Rightarrow> bool" where
  "retryable a = (case a of Response r \<Rightarrow> retry_status r | Failed _ \<Rightarrow> True)"

definition outcome :: "attempt \<Rightarrow> str + http_response" where
  "outcome a = (case a of Response r \<Rightarrow> Inr r | Failed e \<Rightarrow> Inl e)"

text \<open>
  The retry loop is the first of at most three attempts that is neither a failed request
  nor a 5xx or 429 response, or the third one whatever it is, with one wait before every
  attempt after the first.
\<close>

theorem fetch_with_retry_spec:
  "fetch_with_retry (Inr ()) send =
     (if \<not> retryable (send 0) then (outcome (send 0), [])
      else if \<not> retryable (send 1) then (outcome (send 1), [wait_after send 0])
      else (outcome (send 2), [wait_after send 0, wait_after send 1]))"
  unfolding fetch_with_retry_def upt_3
  by (auto simp: MAX_RETRIES_def wait_after_def retryable_def outcome_def
      split: attempt.splits option.splits)

text \<open>
  No response can stall the client: at most two waits, each at most ten seconds,
  whatever \<open>Retry-After\<close> the server sends.
\<close>

theorem fetch_with_retry_waits:
  "fetch_with_retry build send = (r, waits) \<Longrightarrow>
     length waits \<le> 2 \<and> (\<forall>w\<in>set waits. w \<le> MAX_RETRY_AFTER_MS)"
proof -
  assume run: "fetch_with_retry build send = (r, waits)"
  have w: "wait_after send k \<le> MAX_RETRY_AFTER_MS" if "k < 2" for k
    using that parse_retry_after_le
    by (auto simp: wait_after_def backoff_def INITIAL_BACKOFF_MS_def MAX_RETRY_AFTER_MS_def less_2_cases_iff
        split: attempt.splits option.splits)
  show ?thesis
  proof (cases build)
    case (Inl e)
    with run show ?thesis by (auto simp: fetch_with_retry_def)
  next
    case (Inr u)
    with run have "waits \<in> {[], [wait_after send 0], [wait_after send 0, wait_after send 1]}"
      unfolding fetch_with_retry_def upt_3
      by (auto simp: MAX_RETRIES_def wait_after_def split: attempt.splits option.splits if_splits)
    then show ?thesis using w [of 0] w [of 1] by auto
  qed
qed

lemma fetch_with_retry_waits_witness:
  "fetch_with_retry (Inr ()) (\<lambda>_. Response \<lparr>status = 503, retry_after_header = None, resp_body = None\<rparr>)
     = (Inr \<lparr>status = 503, retry_after_header = None, resp_body = None\<rparr>, [500, 1000]) \<and>
   length [500, 1000 :: nat] \<le> 2 \<and> 1000 \<le> MAX_RETRY_AFTER_MS"
proof -
  have run: "fetch_with_retry (Inr ()) (\<lambda>_. Response \<lparr>status = 503, retry_after_header = None, resp_body = None\<rparr>)
     = (Inr \<lparr>status = 503, retry_after_header = None, resp_body = None\<rparr>, [500, 1000])"
    unfolding fetch_with_retry_def upt_3
    by (simp add: retry_status_def is_server_error_def MAX_RETRIES_def parse_retry_after_def backoff_def INITIAL_BACKOFF_MS_def)
  show ?thesis using run fetch_with_retry_waits [OF run] by simp
qed

end
