(* ===== verification/Cert_Chain.thy ===== *)
theory Cert_Chain
  imports Sev_Validation Http_Util
begin

text \<open>
  \<open>sev/cert_chain.rs\<close> and \<open>sev/signature.rs\<close>: the VCEK cache, the VCEK extensions, the chain
  VCEK - ASK - ARK, and the report signature. An X.509 certificate is the record of the fields
  the source reads; parsing, encoding and the signature algorithms of the crates are the fields
  of \<open>sev_crypto\<close>, object identifiers are dotted strings.
\<close>

section \<open>Certificates\<close>

datatype der_tag = Utf8String | PrintableString | Ia5String | TeletexString | OtherTag nat

record der_any =
  any_tag :: der_tag
  any_value :: bytes

record attribute_value =
  atv_oid :: str
  atv_value :: der_any

type_synonym name = "attribute_value list list"

record algorithm_identifier =
  alg_oid :: str
  alg_parameters :: "der_any option"

record extension =
  extn_id :: str
  extn_value :: bytes

record pss_params =
  pss_hash_oid :: str
  pss_mgf_oid :: str
  pss_mgf_hash_oid :: "str option"
  pss_salt_len :: nat

text \<open>
  \<open>basic_constraints\<close> is the result of \<open>get::<BasicConstraints>()\<close>: an error, absent, or the
  \<open>ca\<close> flag; \<open>x_version\<close> is 3 for \<open>Version::V3\<close>.
\<close>

record certificate =
  x_version :: nat
  x_issuer :: name
  x_subject :: name
  x_not_before :: nat
  x_not_after :: nat
  x_spki_algorithm :: algorithm_identifier
  x_public_key :: bytes
  x_extensions :: "extension list option"
  x_basic_constraints :: "str + bool option"
  x_tbs_signature :: algorithm_identifier
  x_signature_algorithm :: algorithm_identifier
  x_signature :: bytes

text \<open>Third-party operations: \<open>None\<close> and \<open>False\<close> are their errors.\<close>

record sev_crypto =
  cert_from_der :: "bytes \<Rightarrow> certificate option"
  spki_to_der :: "certificate \<Rightarrow> bytes option"
  tbs_to_der :: "certificate \<Rightarrow> bytes option"
  pem_parse_many :: "bytes \<Rightarrow> bytes list option"
  uint_from_der :: "bytes \<Rightarrow> bytes option"
  ia5_from_der :: "bytes \<Rightarrow> str option"
  decode_as_oid :: "der_any \<Rightarrow> str option"
  string_ref :: "der_any \<Rightarrow> str option"
  any_to_der :: "der_any \<Rightarrow> bytes option"
  pss_params_from_der :: "bytes \<Rightarrow> pss_params option"
  rsa_key_from_der :: "bytes \<Rightarrow> bool"
  rsa_signature_ok :: "bytes \<Rightarrow> bool"
  pss_sha384_verify :: "bytes \<Rightarrow> nat \<Rightarrow> bytes \<Rightarrow> bytes \<Rightarrow> bool"
  p384_signature_ok :: "bytes \<Rightarrow> bool"
  p384_key_ok :: "bytes \<Rightarrow> bool"
  p384_verify :: "bytes \<Rightarrow> bytes \<Rightarrow> bytes \<Rightarrow> bool"
  c_sha256 :: "bytes \<Rightarrow> digest"
  c_hex :: "bytes \<Rightarrow> str"

section \<open>The VCEK cache\<close>

text \<open>
  The cache directory is a map from paths to file contents. \<open>failed_write\<close> is what a failed
  write leaves at the temporary path; the results of creating the directory and of removing a
  file are ignored by the source, and a removal that fails changes nothing.
\<close>

type_synonym disk = "str \<Rightarrow> bytes option"

record disk_io =
  cache_dir :: "str option"
  read_ok :: bool
  remove_ok :: bool
  write_ok :: bool
  failed_write :: "bytes option"
  rename_ok :: bool

definition KDS_PROXY :: str where
  "KDS_PROXY = ''https://kds-proxy.tinfoil.sh''"

definition vcek_cache_stem :: "str \<Rightarrow> str \<Rightarrow> str \<Rightarrow> u64 \<Rightarrow> str" where
  "vcek_cache_stem dir product chip_id_hex reported_tcb =
     dir @ ''/tinfoil/'' @ ''VCEK_'' @ product @ ''_'' @ chip_id_hex @ ''_'' @ hex_padded 16 (unat reported_tcb)"

definition vcek_cache_path :: "disk_io \<Rightarrow> str \<Rightarrow> str \<Rightarrow> u64 \<Rightarrow> str option" where
  "vcek_cache_path io product chip_id_hex reported_tcb =
     map_option (\<lambda>dir. vcek_cache_stem dir product chip_id_hex reported_tcb @ ''.der'') (cache_dir io)"

definition vcek_tmp_path :: "disk_io \<Rightarrow> str \<Rightarrow> str \<Rightarrow> u64 \<Rightarrow> str option" where
  "vcek_tmp_path io product chip_id_hex reported_tcb =
     map_option (\<lambda>dir. vcek_cache_stem dir product chip_id_hex reported_tcb @ ''.tmp'') (cache_dir io)"

definition remove_file :: "disk_io \<Rightarrow> str \<Rightarrow> disk \<Rightarrow> disk" where
  "remove_file io path d = (if remove_ok io then d(path := None) else d)"

definition vcek_url :: "str \<Rightarrow> tcb_parts \<Rightarrow> str" where
  "vcek_url chip_id_hex t =
     KDS_PROXY @ ''/vcek/v1/Genoa/'' @ chip_id_hex
     @ ''?blSPL='' @ dec_str (unat (bl_spl t)) @ ''&teeSPL='' @ dec_str (unat (tee_spl t))
     @ ''&snpSPL='' @ dec_str (unat (snp_spl t)) @ ''&ucodeSPL='' @ dec_str (unat (ucode_spl t))"

text \<open>Write to the temporary path, then rename it over the cache path.\<close>

definition write_cache :: "disk_io \<Rightarrow> str \<Rightarrow> str \<Rightarrow> bytes \<Rightarrow> disk \<Rightarrow> disk" where
  "write_cache io path tmp vcek_der d =
     (if write_ok io then
        let d = d(tmp \<mapsto> vcek_der) in
        if rename_ok io then d(path \<mapsto> vcek_der, tmp := None) else remove_file io tmp d
      else d(tmp := failed_write io))"

definition fetch_vcek_network ::
  "disk_io \<Rightarrow> str option \<Rightarrow> str option \<Rightarrow> str + http_response \<Rightarrow> disk \<Rightarrow> disk \<times> bytes res" where
  "fetch_vcek_network io cache_path tmp_path fetched d =
     (case fetched of
        Inl _ \<Rightarrow> (d, Inl (AttestationVerification ''Failed to fetch VCEK''))
      | Inr response \<Rightarrow>
          if \<not> is_success response
          then (d, Inl (AttestationVerification ''VCEK fetch failed: HTTP''))
          else case resp_body response of
            None \<Rightarrow> (d, Inl (AttestationVerification ''Failed to read VCEK''))
          | Some vcek_der \<Rightarrow>
              (case (cache_path, tmp_path) of
                 (Some path, Some tmp) \<Rightarrow> (write_cache io path tmp vcek_der d, Inr vcek_der)
               | _ \<Rightarrow> (d, Inr vcek_der)))"

definition fetch_vcek ::
  "sev_crypto \<Rightarrow> disk_io \<Rightarrow> (str \<Rightarrow> str + http_response) \<Rightarrow> bytes \<Rightarrow> bytes \<Rightarrow> disk \<Rightarrow> disk \<times> bytes res" where
  "fetch_vcek c io http chip_id tcb d =
     (if length tcb \<noteq> 8 then (d, Inl (Panic ''slice is not 8 bytes'')) else
      let tcb_val = from_le_bytes tcb;
          parts = tcb_from_u64 tcb_val;
          chip_id_hex = c_hex c chip_id;
          cache_path = vcek_cache_path io ''Genoa'' chip_id_hex tcb_val;
          tmp_path = vcek_tmp_path io ''Genoa'' chip_id_hex tcb_val;
          url = vcek_url chip_id_hex parts
      in case cache_path of
           None \<Rightarrow> fetch_vcek_network io cache_path tmp_path (http url) d
         | Some path \<Rightarrow>
             (case (if read_ok io then d path else None) of
                None \<Rightarrow> fetch_vcek_network io cache_path tmp_path (http url) d
              | Some cached \<Rightarrow>
                  if cert_from_der c cached \<noteq> None then (d, Inr cached)
                  else fetch_vcek_network io cache_path tmp_path (http url) (remove_file io path d)))"

section \<open>Reading certificates\<close>

definition parse_pem_chain :: "sev_crypto \<Rightarrow> bytes \<Rightarrow> bytes list res" where
  "parse_pem_chain c chain_pem =
     ok_or (AttestationVerification ''Failed to parse PEM chain'') (pem_parse_many c chain_pem)"

definition extract_pubkey_from_cert :: "sev_crypto \<Rightarrow> certificate \<Rightarrow> bytes res" where
  "extract_pubkey_from_cert c cert =
     ok_or (AttestationVerification ''Failed to encode SPKI'') (spki_to_der c cert)"

definition compute_spki_fingerprint :: "sev_crypto \<Rightarrow> certificate \<Rightarrow> str res" where
  "compute_spki_fingerprint c cert =
     try_bind (ok_or (AttestationVerification ''Failed to encode SPKI'') (spki_to_der c cert)) (\<lambda>spki_der.
     Inr (c_hex c (digest_bytes (c_sha256 c spki_der))))"

definition extract_tbs_from_cert :: "sev_crypto \<Rightarrow> certificate \<Rightarrow> bytes res" where
  "extract_tbs_from_cert c cert =
     ok_or (AttestationVerification ''Failed to encode TBS'') (tbs_to_der c cert)"

definition decode_der_integer :: "sev_crypto \<Rightarrow> bytes \<Rightarrow> u8 res" where
  "decode_der_integer c data =
     try_bind (ok_or (AttestationVerification ''Invalid DER INTEGER'') (uint_from_der c data)) (\<lambda>bs.
     case bs of
       [] \<Rightarrow> Inr 0
     | [b] \<Rightarrow> Inr b
     | _ \<Rightarrow> Inl (AttestationVerification ''DER INTEGER value does not fit in u8''))"

definition get_vcek_extension :: "sev_crypto \<Rightarrow> bytes \<Rightarrow> str \<Rightarrow> bytes option res" where
  "get_vcek_extension c vcek_der target_oid =
     try_bind (ok_or (AttestationVerification ''Failed to parse VCEK'') (cert_from_der c vcek_der)) (\<lambda>cert.
     Inr (case x_extensions cert of
            None \<Rightarrow> None
          | Some exts \<Rightarrow> map_option extn_value (find (\<lambda>ext. extn_id ext = target_oid) exts)))"

definition validate_vcek_hwid :: "sev_crypto \<Rightarrow> bytes \<Rightarrow> bytes \<Rightarrow> bool \<Rightarrow> unit res" where
  "validate_vcek_hwid c vcek_der chip_id mask_chip_key =
     (if mask_chip_key then
        if list_ex (\<lambda>b. b \<noteq> 0) chip_id
        then Inl (AttestationVerification ''maskChipKey is set but CHIP_ID is not zeroed'')
        else Inr ()
      else
        try_bind (get_vcek_extension c vcek_der OID_HWID) (\<lambda>e.
        try_bind (ok_or (AttestationVerification ''Missing HWID in VCEK'') e) (\<lambda>hwid.
        if length hwid \<noteq> 64 then Inl (AttestationVerification ''VCEK HWID length is not 64 bytes'')
        else if hwid \<noteq> chip_id
        then Inl (AttestationVerification ''VCEK HWID does not match report CHIP_ID'')
        else Inr ())))"

text \<open>One of the four SPL comparisons of \<open>validate_vcek_extensions\<close>.\<close>

definition validate_spl :: "sev_crypto \<Rightarrow> bytes \<Rightarrow> str \<Rightarrow> str \<Rightarrow> u8 \<Rightarrow> unit res" where
  "validate_spl c vcek_der oid label spl =
     try_bind (get_vcek_extension c vcek_der oid) (\<lambda>e.
     try_bind (ok_or (AttestationVerification (''Missing '' @ label @ '' in VCEK'')) e) (\<lambda>v.
     try_bind (decode_der_integer c v) (\<lambda>val.
     if val \<noteq> spl then Inl (AttestationVerification (''VCEK '' @ label @ '' does not match report''))
     else Inr ())))"

definition validate_vcek_extensions :: "sev_crypto \<Rightarrow> bytes \<Rightarrow> bytes \<Rightarrow> unit res" where
  "validate_vcek_extensions c vcek_der reported_tcb =
     (if length reported_tcb \<noteq> 8 then Inl (Panic ''slice is not 8 bytes'') else
      let parts = tcb_from_u64 (from_le_bytes reported_tcb) in
      try_bind (validate_spl c vcek_der OID_BL_SPL ''BL_SPL'' (bl_spl parts)) (\<lambda>_.
      try_bind (validate_spl c vcek_der OID_TEE_SPL ''TEE_SPL'' (tee_spl parts)) (\<lambda>_.
      try_bind (validate_spl c vcek_der OID_SNP_SPL ''SNP_SPL'' (snp_spl parts)) (\<lambda>_.
      try_bind (validate_spl c vcek_der OID_UCODE_SPL ''UCODE_SPL'' (ucode_spl parts)) (\<lambda>_.
      try_bind (get_vcek_extension c vcek_der OID_PRODUCT_NAME) (\<lambda>e.
      try_bind (ok_or (AttestationVerification ''Missing PRODUCT_NAME in VCEK'') e) (\<lambda>vcek_product.
      try_bind (ok_or (AttestationVerification ''Invalid PRODUCT_NAME encoding'') (ia5_from_der c vcek_product)) (\<lambda>product_name.
      if product_name \<noteq> ''Genoa'' then Inl (AttestationVerification ''VCEK PRODUCT_NAME is not Genoa'')
      else try_bind (get_vcek_extension c vcek_der OID_CSP_ID) (\<lambda>csp.
        if csp \<noteq> None then Inl (AttestationVerification ''VCEK contains unexpected CSP_ID extension'')
        else Inr ())))))))))"

definition validate_report_with_chain ::
  "sev_crypto \<Rightarrow> bytes \<Rightarrow> bytes \<Rightarrow> validation_options \<Rightarrow> bool res" where
  "validate_report_with_chain c report vcek options =
     try_bind (validate_report_fields_with_options report options) (\<lambda>mask_chip_key.
     try_bind (slice REPORTED_TCB_OFFSET (REPORTED_TCB_OFFSET + 8) report) (\<lambda>reported_tcb.
     try_bind (validate_vcek_extensions c vcek reported_tcb) (\<lambda>_.
     Inr mask_chip_key)))"

end
