(* ===== verification/Sigstore_Base.thy ===== *)
theory Sigstore_Base
  imports Json Cert_Chain
begin

text \<open>
  What the sigstore modules share: the certificate fields they read beyond those of
  \<open>Cert_Chain\<close>, the third-party operations they call (\<open>base64\<close>, \<open>hex\<close>, \<open>sha2\<close>,
  \<open>serde_json\<close>, \<open>x509-cert\<close>, \<open>p256\<close>, \<open>p384\<close>, \<open>ed25519-dalek\<close>, \<open>pem\<close>, \<open>time\<close>, \<open>tls_codec\<close>) as the
  fields of a record, and the path of a certificate in a bundle.
\<close>

text \<open>
  \<open>c_key_usage\<close> is \<open>get::<KeyUsage>()\<close> with its digitalSignature bit, \<open>c_ext_key_usage\<close>
  is \<open>get::<ExtendedKeyUsage>()\<close> with its critical flag and purposes, \<open>c_ski\<close> the subject key
  identifier: an error, absent, or a value.
\<close>

record sig_cert = certificate +
  c_serial :: bytes
  c_key_usage :: "str + bool option"
  c_ext_key_usage :: "str + (bool \<times> str list) option"
  c_ski :: "str + bytes option"

text \<open>A signed certificate timestamp as \<open>x509-cert\<close> parses it.\<close>

record sct =
  sct_log_id :: digest
  sct_timestamp :: u64
  sct_extensions :: bytes
  sct_signature :: bytes

text \<open>The errors of \<open>x509-cert\<close>'s SCT parser.\<close>

datatype x509_sct_error = SctDer | SctTls str

text \<open>A SubjectPublicKeyInfo on its own, as the CT log keyring reads it.\<close>

record spki =
  spki_algorithm :: algorithm_identifier
  spki_public_key :: bytes

text \<open>
  The structures \<open>trusted_root.json\<close> deserialises to (\<open>trust.rs\<close>): \<open>Vec<CertificateEntry>\<close>
  is the list of the base64 strings, and the defaulted fields are filled in.
\<close>

record validity_period =
  vp_start :: str
  vp_end :: "str option"

record public_key_info =
  pk_raw_bytes :: str
  pk_key_details :: str
  pk_valid_for :: "validity_period option"

record tlog =
  tlog_base_url :: str
  tlog_public_key :: public_key_info
  tlog_key_id :: str

record certificate_authority =
  ca_cert_chain :: "str list"
  ca_valid_for :: validity_period

record ct_log =
  ct_public_key :: public_key_info
  ct_log_id :: str

record timestamp_authority_entry =
  tsa_cert_chain :: "str list"
  tsa_valid_for :: "validity_period option"

record trusted_root =
  tr_tlogs :: "tlog list"
  tr_certificate_authorities :: "certificate_authority list"
  tr_ctlogs :: "ct_log list"
  tr_timestamp_authorities :: "timestamp_authority_entry list"

text \<open>
  \<open>s_root_json\<close> is the embedded asset \<open>trusted_root.json\<close> and \<open>s_trusted_root\<close> the
  deserialiser \<open>serde\<close> derives for it;
  \<open>s_json\<close> gives a value whose members are distinct, \<open>s_json_raw\<close> the members as
  written. Keys and signatures are the byte strings their parsers accept: \<open>s_p256_sig_der\<close> and
  \<open>s_p256_sig_raw\<close> return the same fixed-size form, which \<open>s_p256_verify\<close> takes.
\<close>

record sig_ext =
  s_b64_decode :: "str \<Rightarrow> bytes option"
  s_b64_encode :: "bytes \<Rightarrow> str"
  s_hex :: "bytes \<Rightarrow> str"
  s_sha256 :: "bytes \<Rightarrow> digest"
  s_sha384 :: "bytes \<Rightarrow> bytes"
  s_sha512 :: "bytes \<Rightarrow> bytes"
  s_json :: "bytes \<Rightarrow> json option"
  s_json_raw :: "bytes \<Rightarrow> json option"
  s_utf8 :: "bytes \<Rightarrow> str option"
  s_pem :: "str \<Rightarrow> bytes option"
  s_cert :: "bytes \<Rightarrow> sig_cert option"
  s_spki_der :: "sig_cert \<Rightarrow> bytes option"
  s_tbs_der :: "sig_cert \<Rightarrow> bytes option"
  s_curve_oid :: "der_any \<Rightarrow> str option"
  s_der_string :: "nat \<Rightarrow> bytes \<Rightarrow> str option"
  s_sct_list_der :: "bytes \<Rightarrow> bytes option"
  s_sct_list :: "bytes \<Rightarrow> x509_sct_error + bytes list"
  s_sct :: "bytes \<Rightarrow> x509_sct_error + sct"
  s_p256_sec1 :: "bytes \<Rightarrow> bytes option"
  s_p256_spki :: "bytes \<Rightarrow> bytes option"
  s_p256_sig_der :: "bytes \<Rightarrow> bytes option"
  s_p256_sig_raw :: "bytes \<Rightarrow> bytes option"
  s_p256_verify :: "bytes \<Rightarrow> bytes \<Rightarrow> bytes \<Rightarrow> bool"
  s_p256_verify_prehash :: "bytes \<Rightarrow> bytes \<Rightarrow> bytes \<Rightarrow> bool"
  s_p384_sec1 :: "bytes \<Rightarrow> bytes option"
  s_p384_sig_der :: "bytes \<Rightarrow> bytes option"
  s_p384_verify_prehash :: "bytes \<Rightarrow> bytes \<Rightarrow> bytes \<Rightarrow> bool"
  s_ed25519_key :: "bytes \<Rightarrow> bytes option"
  s_ed25519_sig :: "bytes \<Rightarrow> bytes option"
  s_ed25519_verify :: "bytes \<Rightarrow> bytes \<Rightarrow> bytes \<Rightarrow> bool"
  s_root_json :: str
  s_trusted_root :: "str \<Rightarrow> trusted_root option"
  s_spki :: "bytes \<Rightarrow> spki option"
  s_spki_encode :: "spki \<Rightarrow> bytes"
  s_rfc3339 :: "str \<Rightarrow> int option"

abbreviation sig_err :: "str \<Rightarrow> error" where
  "sig_err \<equiv> SigstoreVerification"

text \<open>\<open>decode_b64(...).map_err(...)\<close>\<close>

definition decode_b64 :: "sig_ext \<Rightarrow> str \<Rightarrow> str \<Rightarrow> bytes res" where
  "decode_b64 x msg s = ok_or (sig_err msg) (s_b64_decode x s)"

lemma decode_b64_Inr [result_inv]: "decode_b64 x msg s = Inr b \<longleftrightarrow> s_b64_decode x s = Some b"
  by (simp add: decode_b64_def result_inv)

text \<open>\<open>serde_json\<close>'s pointer: an array is indexed by a canonical decimal.\<close>

definition parse_index :: "str \<Rightarrow> nat option" where
  "parse_index s =
     (if starts_with s ''+'' \<or> starts_with s ''0'' \<and> length s \<noteq> 1 then None
      else map_option unat (parse_u64 s))"

fun jpointer :: "json \<Rightarrow> str list \<Rightarrow> json option" where
  "jpointer v [] = Some v"
| "jpointer v (k # ks) =
     (case v of
        JObject kvs \<Rightarrow> Option.bind (map_of kvs k) (\<lambda>w. jpointer w ks)
      | JArray xs \<Rightarrow>
          Option.bind (parse_index k) (\<lambda>i. if i < length xs then jpointer (xs ! i) ks else None)
      | _ \<Rightarrow> None)"

definition jpointer_str :: "json \<Rightarrow> str list \<Rightarrow> str option" where
  "jpointer_str v ks = Option.bind (jpointer v ks) as_str"

text \<open>The signing certificate of a bundle, read the same way in four places.\<close>

definition bundle_cert_b64 :: "json \<Rightarrow> str res" where
  "bundle_cert_b64 bundle =
     ok_or (sig_err ''No certificate in bundle'')
       (jstr bundle [''verificationMaterial'', ''certificate'', ''rawBytes''])"

definition bundle_cert_der :: "sig_ext \<Rightarrow> json \<Rightarrow> bytes res" where
  "bundle_cert_der x bundle =
     try_bind (bundle_cert_b64 bundle) (\<lambda>cert_b64.
     decode_b64 x ''Failed to decode certificate'' cert_b64)"

definition bundle_cert :: "sig_ext \<Rightarrow> json \<Rightarrow> (bytes \<times> sig_cert) res" where
  "bundle_cert x bundle =
     try_bind (bundle_cert_der x bundle) (\<lambda>cert_der.
     try_bind (ok_or (sig_err ''Failed to parse certificate'') (s_cert x cert_der)) (\<lambda>cert.
     Inr (cert_der, cert)))"

lemma bundle_cert_Inr [result_inv]:
  "bundle_cert x bundle = Inr (der, cert) \<longleftrightarrow> bundle_cert_der x bundle = Inr der \<and> s_cert x der = Some cert"
  by (auto simp: bundle_cert_def result_inv)

end
