(* ===== verification/Keyring.thy ===== *)
theory Keyring
  imports Sigstore_Base
begin

text \<open>
  \<open>sigstore/keyring.rs\<close>: the keys of the certificate transparency logs, found by the SHA-256
  of their SubjectPublicKeyInfo, with the time window in which each may sign. Times are Unix seconds.
\<close>

section \<open>Validity windows\<close>

text \<open>The same two bounds, either of them optional, guard the keys of CT logs, of Rekor and the
  authorities: both ends are inclusive.\<close>

definition before_window :: "nat option \<Rightarrow> nat \<Rightarrow> bool" where
  "before_window lo t = (case lo of Some l \<Rightarrow> t < l | None \<Rightarrow> False)"

definition after_window :: "nat option \<Rightarrow> nat \<Rightarrow> bool" where
  "after_window hi t = (case hi of Some h \<Rightarrow> h < t | None \<Rightarrow> False)"

definition within :: "nat option \<Rightarrow> nat option \<Rightarrow> nat \<Rightarrow> bool" where
  "within lo hi t = (\<not> before_window lo t \<and> \<not> after_window hi t)"

lemma within_simps [simp]:
  "within None None t" "within (Some l) None t \<longleftrightarrow> l \<le> t" "within None (Some h) t \<longleftrightarrow> t \<le> h"
  "within (Some l) (Some h) t \<longleftrightarrow> l \<le> t \<and> t \<le> h"
  by (auto simp: within_def before_window_def after_window_def)

lemma within_iff: "within lo hi t \<longleftrightarrow> (\<forall>l. lo = Some l \<longrightarrow> l \<le> t) \<and> (\<forall>h. hi = Some h \<longrightarrow> t \<le> h)"
  by (cases lo; cases hi) auto

lemma within_convex: "within lo hi s \<Longrightarrow> within lo hi u \<Longrightarrow> s \<le> t \<Longrightarrow> t \<le> u \<Longrightarrow> within lo hi t"
  by (cases lo; cases hi) auto

section \<open>Keys\<close>

datatype keyring_error =
  KeyMalformed | AlgoUnsupported | KeyNotFound | KeyNotValidAtTime | VerificationFailed

fun keyring_error_str :: "keyring_error \<Rightarrow> str" where
  "keyring_error_str KeyMalformed = ''malformed key''"
| "keyring_error_str AlgoUnsupported = ''unsupported algorithm''"
| "keyring_error_str KeyNotFound = ''requested key not in keyring''"
| "keyring_error_str KeyNotValidAtTime = ''key not valid at requested time''"
| "keyring_error_str VerificationFailed = ''verification failed''"

record log_key =
  key_inner :: bytes
  log_fingerprint :: digest
  key_valid_from :: "nat option"
  key_valid_until :: "nat option"

definition ID_EC_PUBLIC_KEY :: str where "ID_EC_PUBLIC_KEY = ''1.2.840.10045.2.1''"

definition SECP_256_R_1 :: str where "SECP_256_R_1 = ''1.2.840.10045.3.1.7''"

definition key_new :: "sig_ext \<Rightarrow> bytes \<Rightarrow> keyring_error + log_key" where
  "key_new x spki_bytes =
     try_bind (ok_or KeyMalformed (s_spki x spki_bytes)) (\<lambda>spki.
     try_bind (ok_or AlgoUnsupported (alg_parameters (spki_algorithm spki))) (\<lambda>params.
     try_bind (ok_or AlgoUnsupported (s_curve_oid x params)) (\<lambda>params_oid.
     if alg_oid (spki_algorithm spki) \<noteq> ID_EC_PUBLIC_KEY \<or> params_oid \<noteq> SECP_256_R_1
     then Inl AlgoUnsupported
     else
     try_bind (ok_or AlgoUnsupported (s_p256_sec1 x (spki_public_key spki))) (\<lambda>inner.
     Inr \<lparr>key_inner = inner, log_fingerprint = s_sha256 x (s_spki_encode x spki),
          key_valid_from = None, key_valid_until = None\<rparr>))))"

definition with_validity :: "log_key \<Rightarrow> nat option \<Rightarrow> nat option \<Rightarrow> log_key" where
  "with_validity k lo hi = k\<lparr>key_valid_from := lo, key_valid_until := hi\<rparr>"

section \<open>The keyring\<close>

text \<open>Collecting pairs into a \<open>HashMap\<close>: a later key with the same fingerprint replaces.\<close>

type_synonym keyring = "digest \<rightharpoonup> log_key"

definition collect_keys :: "log_key list \<Rightarrow> keyring" where
  "collect_keys ks = foldl (\<lambda>m k. m(log_fingerprint k \<mapsto> k)) Map.empty ks"

definition keyring_new :: "sig_ext \<Rightarrow> bytes list \<Rightarrow> keyring_error + keyring" where
  "keyring_new x ders =
     try_bind (try_map (key_new x) ders) (\<lambda>parsed. Inr (collect_keys parsed))"

definition new_with_validity ::
  "sig_ext \<Rightarrow> (bytes \<times> nat option \<times> nat option) list \<Rightarrow> keyring_error + keyring" where
  "new_with_validity x items =
     try_bind (try_map (\<lambda>(der, lo, hi).
         try_bind (key_new x der) (\<lambda>k. Inr (with_validity k lo hi))) items) (\<lambda>parsed.
     Inr (collect_keys parsed))"

definition check_signature :: "sig_ext \<Rightarrow> log_key \<Rightarrow> bytes \<Rightarrow> bytes \<Rightarrow> keyring_error + unit" where
  "check_signature x key signature msg =
     try_bind (ok_or VerificationFailed (s_p256_sig_der x signature)) (\<lambda>sg.
     if s_p256_verify x (key_inner key) msg sg then Inr () else Inl VerificationFailed)"

definition keyring_verify ::
  "sig_ext \<Rightarrow> keyring \<Rightarrow> digest \<Rightarrow> bytes \<Rightarrow> bytes \<Rightarrow> keyring_error + unit" where
  "keyring_verify x kr key_id signature msg =
     try_bind (ok_or KeyNotFound (kr key_id)) (\<lambda>key. check_signature x key signature msg)"

definition verify_at ::
  "sig_ext \<Rightarrow> keyring \<Rightarrow> digest \<Rightarrow> bytes \<Rightarrow> bytes \<Rightarrow> nat \<Rightarrow> keyring_error + unit" where
  "verify_at x kr key_id signature msg timestamp_secs =
     try_bind (ok_or KeyNotFound (kr key_id)) (\<lambda>key.
     if before_window (key_valid_from key) timestamp_secs then Inl KeyNotValidAtTime
     else if after_window (key_valid_until key) timestamp_secs then Inl KeyNotValidAtTime
     else check_signature x key signature msg)"

section \<open>What the keyring promises\<close>

definition ct_signed :: "sig_ext \<Rightarrow> bytes \<Rightarrow> bytes \<Rightarrow> bytes \<Rightarrow> bool" where
  "ct_signed x key msg signature =
     (\<exists>sg. s_p256_sig_der x signature = Some sg \<and> s_p256_verify x key msg sg)"

lemma check_signature_Inr [result_inv]:
  "check_signature x key signature msg = Inr u \<longleftrightarrow> ct_signed x (key_inner key) msg signature"
  by (auto simp: check_signature_def ct_signed_def result_inv)

lemma verify_at_Inr [result_inv]:
  "verify_at x kr key_id signature msg t = Inr u \<longleftrightarrow>
     (\<exists>key. kr key_id = Some key \<and> within (key_valid_from key) (key_valid_until key) t \<and>
        ct_signed x (key_inner key) msg signature)"
  by (auto simp: verify_at_def within_def result_inv)

lemma collect_keys_snoc: "collect_keys (ks @ [k]) = (collect_keys ks)(log_fingerprint k \<mapsto> k)"
  by (simp add: collect_keys_def)

lemma collect_keys_Some:
  "collect_keys ks d = Some k \<Longrightarrow> k \<in> set ks \<and> log_fingerprint k = d"
  by (induction ks rule: rev_induct) (auto simp: collect_keys_snoc split: if_splits, simp add: collect_keys_def)

lemma collect_keys_dom: "dom (collect_keys ks) = log_fingerprint ` set ks"
  by (induction ks rule: rev_induct) (auto simp: collect_keys_snoc, auto simp: collect_keys_def)

lemma key_new_Inr:
  "key_new x der = Inr k \<Longrightarrow>
     \<exists>spki params. s_spki x der = Some spki \<and> alg_oid (spki_algorithm spki) = ID_EC_PUBLIC_KEY \<and>
       alg_parameters (spki_algorithm spki) = Some params \<and> s_curve_oid x params = Some SECP_256_R_1 \<and>
       s_p256_sec1 x (spki_public_key spki) = Some (key_inner k) \<and>
       log_fingerprint k = s_sha256 x (s_spki_encode x spki)"
  by (auto simp: key_new_def result_inv split: if_splits)

text \<open>A key is found under the hash of its own SubjectPublicKeyInfo, with the window it came with.\<close>

lemma new_with_validity_Some:
  assumes "new_with_validity x items = Inr kr" and "kr d = Some k"
  obtains der lo hi spki where "(der, lo, hi) \<in> set items" "s_spki x der = Some spki"
    "d = s_sha256 x (s_spki_encode x spki)" "s_p256_sec1 x (spki_public_key spki) = Some (key_inner k)"
    "key_valid_from k = lo" "key_valid_until k = hi"
proof -
  obtain ks where ks: "kr = collect_keys ks"
    "list_all2 (\<lambda>(der, lo, hi) k. \<exists>k0. key_new x der = Inr k0 \<and> with_validity k0 lo hi = k) items ks"
    using assms(1) by (auto simp: new_with_validity_def result_inv case_prod_unfold)
  have k: "k \<in> set ks" "log_fingerprint k = d" using collect_keys_Some assms(2) ks(1) by auto
  then obtain i where "i < length ks" "ks ! i = k" by (auto simp: in_set_conv_nth)
  then obtain der lo hi k0 where it: "(der, lo, hi) \<in> set items" "key_new x der = Inr k0"
      "k = with_validity k0 lo hi"
    using ks(2) by (auto simp: list_all2_conv_all_nth case_prod_unfold) (metis nth_mem prod.collapse)
  show thesis using that it k(2) key_new_Inr [OF it(2)] by (auto simp: with_validity_def)
qed

end
