(* ===== verification/Trust.thy ===== *)
theory Trust
  imports Keyring
begin

text \<open>
  \<open>sigstore/trust.rs\<close>: what is read from the embedded trusted root. Each loader also exists
  for a JSON text given by the caller.
\<close>

record fulcio_ca =
  fca_chain_der :: "bytes list"
  fca_valid_from :: nat
  fca_valid_until :: "nat option"

record rekor_key =
  rk_key_id :: str
  rk_host :: str
  rk_key_der :: bytes
  rk_key_type :: str
  rk_valid_from :: "nat option"
  rk_valid_until :: "nat option"

record timestamp_authority =
  tsa_chain_der :: "bytes list"
  tsa_valid_from :: "nat option"
  tsa_valid_until :: "nat option"

section \<open>Times\<close>

definition parse_rfc3339_to_unix :: "sig_ext \<Rightarrow> str \<Rightarrow> nat res" where
  "parse_rfc3339_to_unix x s =
     try_bind (ok_or (sig_err (''Invalid RFC3339 timestamp '' @ s)) (s_rfc3339 x s)) (\<lambda>ts.
     if ts < 0 then Inl (sig_err (''Timestamp before Unix epoch: '' @ s)) else Inr (nat ts))"

definition parse_end :: "sig_ext \<Rightarrow> str option \<Rightarrow> nat option res" where
  "parse_end x e =
     (case e of None \<Rightarrow> Inr None | Some s \<Rightarrow> try_bind (parse_rfc3339_to_unix x s) (\<lambda>t. Inr (Some t)))"

definition parse_validity :: "sig_ext \<Rightarrow> validity_period option \<Rightarrow> (nat option \<times> nat option) res" where
  "parse_validity x vf =
     (case vf of
        Some v \<Rightarrow>
          try_bind (parse_rfc3339_to_unix x (vp_start v)) (\<lambda>lo.
          try_bind (parse_end x (vp_end v)) (\<lambda>hi.
          Inr (Some lo, hi)))
      | None \<Rightarrow> Inr (None, None))"

section \<open>Loaders\<close>

definition parse_root :: "sig_ext \<Rightarrow> str \<Rightarrow> trusted_root res" where
  "parse_root x js = ok_or (sig_err ''Failed to parse trusted root'') (s_trusted_root x js)"

definition load_timestamp_authority ::
  "sig_ext \<Rightarrow> timestamp_authority_entry \<Rightarrow> timestamp_authority res" where
  "load_timestamp_authority x e =
     try_bind (try_map (decode_b64 x ''Failed to decode TSA cert'') (tsa_cert_chain e)) (\<lambda>chain.
     try_bind (parse_validity x (tsa_valid_for e)) (\<lambda>(lo, hi).
     Inr \<lparr>tsa_chain_der = chain, tsa_valid_from = lo, tsa_valid_until = hi\<rparr>))"

definition load_timestamp_authorities_from_json :: "sig_ext \<Rightarrow> str \<Rightarrow> timestamp_authority list res" where
  "load_timestamp_authorities_from_json x js =
     try_bind (parse_root x js) (\<lambda>root.
     try_map (load_timestamp_authority x) (tr_timestamp_authorities root))"

definition load_timestamp_authorities :: "sig_ext \<Rightarrow> timestamp_authority list res" where
  "load_timestamp_authorities x = load_timestamp_authorities_from_json x (s_root_json x)"

text \<open>The host is what follows the last \<open>://\<close>, up to the first slash.\<close>

function split_str :: "str \<Rightarrow> str \<Rightarrow> str list" where
  "split_str p s =
     (case split_once_str p s of
        None \<Rightarrow> [s]
      | Some (a, b) \<Rightarrow> if p = [] then [s] else a # split_str p b)"
  by pat_completeness auto

termination
proof (relation "measure (\<lambda>(p, s). length s)", goal_cases)
  case (2 p s ab a b)
  then show ?case using split_once_str_Some [of p s a b] by (cases p) auto
qed simp

declare split_str.simps [simp del]

definition host_of :: "str \<Rightarrow> str" where
  "host_of base_url = hd (split_on (CHR ''/'') (last (split_str ''://'' base_url)))"

definition load_rekor_key :: "sig_ext \<Rightarrow> tlog \<Rightarrow> rekor_key res" where
  "load_rekor_key x tg =
     try_bind (decode_b64 x ''Failed to decode Rekor key'' (pk_raw_bytes (tlog_public_key tg))) (\<lambda>key_der.
     try_bind (parse_validity x (pk_valid_for (tlog_public_key tg))) (\<lambda>(lo, hi).
     Inr \<lparr>rk_key_id = tlog_key_id tg, rk_host = host_of (tlog_base_url tg), rk_key_der = key_der,
          rk_key_type = pk_key_details (tlog_public_key tg), rk_valid_from = lo, rk_valid_until = hi\<rparr>))"

definition load_rekor_keys_from_json :: "sig_ext \<Rightarrow> str \<Rightarrow> rekor_key list res" where
  "load_rekor_keys_from_json x js =
     try_bind (parse_root x js) (\<lambda>root. try_map (load_rekor_key x) (tr_tlogs root))"

definition load_rekor_keys :: "sig_ext \<Rightarrow> rekor_key list res" where
  "load_rekor_keys x = load_rekor_keys_from_json x (s_root_json x)"

text \<open>Only P-256 keys enter the CT keyring; an undecodable key of another type is not an error.\<close>

definition load_ct_key :: "sig_ext \<Rightarrow> ct_log \<Rightarrow> (bytes \<times> nat option \<times> nat option) res" where
  "load_ct_key x ct =
     try_bind (decode_b64 x ''Failed to decode CT log key'' (pk_raw_bytes (ct_public_key ct))) (\<lambda>der.
     try_bind (parse_validity x (pk_valid_for (ct_public_key ct))) (\<lambda>(lo, hi).
     Inr (der, lo, hi)))"

definition load_ctlog_keyring_from_json :: "sig_ext \<Rightarrow> str \<Rightarrow> keyring res" where
  "load_ctlog_keyring_from_json x js =
     try_bind (parse_root x js) (\<lambda>root.
     try_bind (try_map (load_ct_key x)
         (filter (\<lambda>ct. pk_key_details (ct_public_key ct) = ''PKIX_ECDSA_P256_SHA_256'') (tr_ctlogs root))) (\<lambda>keys.
     map_err (\<lambda>e. sig_err (''Failed to create CT log keyring: '' @ keyring_error_str e))
       (new_with_validity x keys)))"

definition load_ctlog_keyring :: "sig_ext \<Rightarrow> keyring res" where
  "load_ctlog_keyring x = load_ctlog_keyring_from_json x (s_root_json x)"

definition load_fulcio_ca :: "sig_ext \<Rightarrow> certificate_authority \<Rightarrow> fulcio_ca res" where
  "load_fulcio_ca x ca =
     try_bind (try_map (decode_b64 x ''Failed to decode Fulcio cert'') (ca_cert_chain ca)) (\<lambda>chain.
     try_bind (parse_rfc3339_to_unix x (vp_start (ca_valid_for ca))) (\<lambda>lo.
     try_bind (parse_end x (vp_end (ca_valid_for ca))) (\<lambda>hi.
     Inr \<lparr>fca_chain_der = chain, fca_valid_from = lo, fca_valid_until = hi\<rparr>)))"

definition load_fulcio_cas_from_json :: "sig_ext \<Rightarrow> str \<Rightarrow> fulcio_ca list res" where
  "load_fulcio_cas_from_json x js =
     try_bind (parse_root x js) (\<lambda>root. try_map (load_fulcio_ca x) (tr_certificate_authorities root))"

definition load_fulcio_cas :: "sig_ext \<Rightarrow> fulcio_ca list res" where
  "load_fulcio_cas x = load_fulcio_cas_from_json x (s_root_json x)"

section \<open>What the loaded entries are\<close>

lemma try_map_element:
  assumes "try_map f xs = Inr ys" "y \<in> set ys"
  obtains e where "e \<in> set xs" "f e = Inr y"
proof -
  have "list_all2 (\<lambda>x y. f x = Inr y) xs ys" using assms(1) by (simp add: result_inv)
  moreover obtain i where "i < length ys" "ys ! i = y" using assms(2) by (auto simp: in_set_conv_nth)
  ultimately have "f (xs ! i) = Inr y" "xs ! i \<in> set xs" by (auto simp: list_all2_conv_all_nth)
  then show thesis using that by blast
qed

text \<open>A validity window is empty of constraints only where the trusted root gives no period.\<close>

lemma parse_validity_None:
  "parse_validity x vf = Inr (None, hi) \<Longrightarrow> vf = None \<and> hi = None"
  by (auto simp: parse_validity_def result_inv split: option.splits)

lemma parse_validity_Some:
  "parse_validity x (Some v) = Inr (lo, hi) \<Longrightarrow> lo \<noteq> None \<and> (hi = None \<longleftrightarrow> vp_end v = None)"
  by (auto simp: parse_validity_def parse_end_def result_inv split: option.splits)

text \<open>The host of a base URL is the authority between the scheme and the path.\<close>

lemma host_of_url:
  assumes "CHR '':'' \<notin> set scheme" and "CHR ''/'' \<notin> set h" and "\<not> contains (h @ ''/'' @ p) ''://''"
  shows "host_of (scheme @ ''://'' @ h @ ''/'' @ p) = h"
proof -
  have "split_str ''://'' (h @ ''/'' @ p) = [h @ ''/'' @ p]"
    using assms(3) by (subst split_str.simps) (simp add: contains_def split: option.split)
  moreover have "split_once_str ''://'' (scheme @ ''://'' @ h @ ''/'' @ p) = Some (scheme, h @ ''/'' @ p)"
    using assms(1) by (simp add: split_once_str_skip starts_with_def)
  ultimately have "split_str ''://'' (scheme @ ''://'' @ h @ ''/'' @ p) = [scheme, h @ ''/'' @ p]"
    by (subst split_str.simps) simp
  then show ?thesis using assms(2) by (simp add: host_of_def split_on_append)
qed

end
