(* ===== verification/Fulcio.thy ===== *)
theory Fulcio
  imports Trust
begin

text \<open>
  \<open>sigstore/fulcio.rs\<close>: the walk from a signing certificate through a certificate authority of the
  trusted root to its self-signed root. The same walk serves the timestamp authorities.
\<close>

definition OID_SECP256R1 :: str where "OID_SECP256R1 = ''1.2.840.10045.3.1.7''"

definition OID_SECP384R1 :: str where "OID_SECP384R1 = ''1.3.132.0.34''"

definition OID_ECDSA_SHA256 :: str where "OID_ECDSA_SHA256 = ''1.2.840.10045.4.3.2''"

definition OID_ECDSA_SHA384 :: str where "OID_ECDSA_SHA384 = ''1.2.840.10045.4.3.3''"

definition OID_ECDSA_SHA512 :: str where "OID_ECDSA_SHA512 = ''1.2.840.10045.4.3.4''"

section \<open>Finding the issuer\<close>

fun find_issuer :: "sig_ext \<Rightarrow> sig_cert \<Rightarrow> fulcio_ca list \<Rightarrow> bytes res" where
  "find_issuer x cert [] = Inl (sig_err ''Could not find issuer certificate for SCT verification'')"
| "find_issuer x cert (ca # cas) =
     (case fca_chain_der ca of
        [] \<Rightarrow> find_issuer x cert cas
      | der # _ \<Rightarrow>
          (case s_cert x der of
             None \<Rightarrow> find_issuer x cert cas
           | Some issuer_cert \<Rightarrow>
               if x_issuer cert = x_subject issuer_cert
               then ok_or (sig_err ''Failed to encode issuer SPKI'') (s_spki_der x issuer_cert)
               else find_issuer x cert cas))"

definition find_issuer_spki :: "sig_ext \<Rightarrow> sig_cert \<Rightarrow> bytes res" where
  "find_issuer_spki x cert =
     try_bind (load_fulcio_cas x) (\<lambda>cas. find_issuer x cert cas)"

section \<open>One certificate signed by another\<close>

definition ecdsa_p256_ok :: "sig_ext \<Rightarrow> bytes \<Rightarrow> bytes \<Rightarrow> bytes \<Rightarrow> bool" where
  "ecdsa_p256_ok x digest sig_bytes pubkey_bytes =
     (case s_p256_sec1 x pubkey_bytes of None \<Rightarrow> False
      | Some key \<Rightarrow> (case s_p256_sig_der x sig_bytes of None \<Rightarrow> False
      | Some sg \<Rightarrow> s_p256_verify_prehash x key digest sg))"

definition ecdsa_p384_ok :: "sig_ext \<Rightarrow> bytes \<Rightarrow> bytes \<Rightarrow> bytes \<Rightarrow> bool" where
  "ecdsa_p384_ok x digest sig_bytes pubkey_bytes =
     (case s_p384_sec1 x pubkey_bytes of None \<Rightarrow> False
      | Some key \<Rightarrow> (case s_p384_sig_der x sig_bytes of None \<Rightarrow> False
      | Some sg \<Rightarrow> s_p384_verify_prehash x key digest sg))"

definition curve_oid :: "sig_ext \<Rightarrow> sig_cert \<Rightarrow> str option" where
  "curve_oid x issuer = Option.bind (alg_parameters (x_spki_algorithm issuer)) (s_curve_oid x)"

definition tbs_digest :: "sig_ext \<Rightarrow> str \<Rightarrow> str \<Rightarrow> bytes \<Rightarrow> bytes res" where
  "tbs_digest x context_name oid tbs =
     (if oid = OID_ECDSA_SHA256 then Inr (digest_bytes (s_sha256 x tbs))
      else if oid = OID_ECDSA_SHA384 then Inr (s_sha384 x tbs)
      else if oid = OID_ECDSA_SHA512 then Inr (s_sha512 x tbs)
      else Inl (sig_err (context_name @ '' uses unsupported signature algorithm '' @ oid)))"

definition verify_issued_by :: "sig_ext \<Rightarrow> sig_cert \<Rightarrow> sig_cert \<Rightarrow> str \<Rightarrow> unit res" where
  "verify_issued_by x child issuer context_name =
     (if x_issuer child \<noteq> x_subject issuer
      then Inl (sig_err (context_name @ '' issuer DN does not match issuer subject''))
      else
      try_bind (ok_or (sig_err ''Failed to encode TBS'') (s_tbs_der x child)) (\<lambda>tbs.
      if x_signature_algorithm child \<noteq> x_tbs_signature child
      then Inl (sig_err (context_name @ '' outer signature algorithm does not match tbs.signature''))
      else
      try_bind (tbs_digest x context_name (alg_oid (x_signature_algorithm child)) tbs) (\<lambda>dig.
      try_bind
        (if curve_oid x issuer = Some OID_SECP256R1
         then Inr (ecdsa_p256_ok x dig (x_signature child) (x_public_key issuer))
         else if curve_oid x issuer = Some OID_SECP384R1
         then Inr (ecdsa_p384_ok x dig (x_signature child) (x_public_key issuer))
         else Inl (sig_err (context_name @ '' issuer uses unsupported curve''))) (\<lambda>verified.
      if \<not> verified
      then Inl (sig_err (context_name @ '' signature did not verify against issuer''))
      else Inr ()))))"

section \<open>The chain\<close>

fun walk_chain :: "sig_ext \<Rightarrow> sig_cert list \<Rightarrow> unit res" where
  "walk_chain x (c # d # cs) =
     try_bind (verify_issued_by x c d ''Fulcio chain certificate'') (\<lambda>_. walk_chain x (d # cs))"
| "walk_chain x cs = Inr ()"

definition parse_chain :: "sig_ext \<Rightarrow> str \<Rightarrow> bytes list \<Rightarrow> sig_cert list res" where
  "parse_chain x msg ders = try_map (\<lambda>der. ok_or (sig_err msg) (s_cert x der)) ders"

definition verify_against_chain :: "sig_ext \<Rightarrow> sig_cert \<Rightarrow> bytes list \<Rightarrow> unit res" where
  "verify_against_chain x leaf chain_der =
     try_bind (parse_chain x ''Failed to parse Fulcio chain cert'' chain_der) (\<lambda>chain_certs.
     try_bind (index_at chain_certs 0) (\<lambda>first.
     try_bind (verify_issued_by x leaf first ''signing certificate'') (\<lambda>_.
     try_bind (walk_chain x chain_certs) (\<lambda>_.
     let root = last chain_certs in
     if x_subject root \<noteq> x_issuer root
     then Inl (sig_err ''Fulcio chain does not end in a self-signed root'')
     else verify_issued_by x root root ''Fulcio root certificate''))))"

text \<open>The loop over the authorities: an error passes to the next one, a panic does not.\<close>

fun try_cas :: "sig_ext \<Rightarrow> sig_cert \<Rightarrow> nat \<Rightarrow> fulcio_ca list \<Rightarrow> unit res" where
  "try_cas x cert t [] = Inl (sig_err ''Certificate not issued by any trusted Fulcio CA'')"
| "try_cas x cert t (ca # cas) =
     (if t < fca_valid_from ca then try_cas x cert t cas
      else if after_window (fca_valid_until ca) t then try_cas x cert t cas
      else if fca_chain_der ca = [] then try_cas x cert t cas
      else (case verify_against_chain x cert (fca_chain_der ca) of
              Inr u \<Rightarrow> Inr ()
            | Inl (Panic p) \<Rightarrow> Inl (Panic p)
            | Inl e \<Rightarrow> try_cas x cert t cas))"

definition verify_fulcio_chain :: "sig_ext \<Rightarrow> bytes \<Rightarrow> nat \<Rightarrow> unit res" where
  "verify_fulcio_chain x cert_der cert_not_before =
     try_bind (ok_or (sig_err ''Failed to parse signing certificate'') (s_cert x cert_der)) (\<lambda>signing_cert.
     try_bind (load_fulcio_cas x) (\<lambda>cas. try_cas x signing_cert cert_not_before cas))"

section \<open>Issuance as a relation\<close>

text \<open>
  What every chain walk of the library relies on: a relation between a certificate and the one that
  issued it, in which the names agree.
\<close>

locale issuance =
  fixes issued :: "'c \<Rightarrow> 'c \<Rightarrow> bool"
    and subject_of :: "'c \<Rightarrow> 'n" and issuer_of :: "'c \<Rightarrow> 'n"
  assumes names_agree: "issued c i \<Longrightarrow> issuer_of c = subject_of i"
begin

lemma chain_reaches_last: "successively issued (c # cs) \<Longrightarrow> issued\<^sup>*\<^sup>* c (last (c # cs))"
proof (induction cs arbitrary: c)
  case (Cons d cs)
  then have "issued c d" "issued\<^sup>*\<^sup>* d (last (d # cs))" by simp_all
  then show ?case by simp
qed simp

lemma chain_names:
  "successively issued cs \<Longrightarrow> Suc i < length cs \<Longrightarrow> issuer_of (cs ! i) = subject_of (cs ! Suc i)"
  by (auto simp: successively_conv_nth dest: names_agree)

lemma self_issued: "issued c c \<Longrightarrow> issuer_of c = subject_of c"
  by (rule names_agree)

text \<open>Below a self-issued certificate every member of the chain descends from it.\<close>

lemma chain_member_reaches_last:
  "successively issued cs \<Longrightarrow> c \<in> set cs \<Longrightarrow> issued\<^sup>*\<^sup>* c (last cs)"
proof -
  assume s: "successively issued cs" and "c \<in> set cs"
  then obtain as bs where cs: "cs = as @ c # bs" by (auto simp: in_set_conv_decomp)
  then have "successively issued (c # bs)" using s by (simp add: successively_append_iff)
  then show ?thesis using chain_reaches_last cs by fastforce
qed

end

text \<open>What \<open>verify_issued_by\<close> establishes.\<close>

definition issued_by :: "sig_ext \<Rightarrow> sig_cert \<Rightarrow> sig_cert \<Rightarrow> bool" where
  "issued_by x child issuer =
     (x_issuer child = x_subject issuer \<and> x_signature_algorithm child = x_tbs_signature child \<and>
      (\<exists>tbs dig. s_tbs_der x child = Some tbs \<and>
         tbs_digest x [] (alg_oid (x_signature_algorithm child)) tbs = Inr dig \<and>
         (curve_oid x issuer = Some OID_SECP256R1 \<and> ecdsa_p256_ok x dig (x_signature child) (x_public_key issuer)
          \<or> curve_oid x issuer = Some OID_SECP384R1 \<and> ecdsa_p384_ok x dig (x_signature child) (x_public_key issuer))))"

lemma tbs_digest_context: "tbs_digest x ctx oid tbs = Inr d \<longleftrightarrow> tbs_digest x ctx' oid tbs = Inr d"
  by (auto simp: tbs_digest_def)

lemma secp_distinct [simp]: "OID_SECP256R1 \<noteq> OID_SECP384R1" "OID_SECP384R1 \<noteq> OID_SECP256R1"
  by (simp_all add: OID_SECP256R1_def OID_SECP384R1_def)

lemma verify_issued_by_Inr [result_inv]:
  "verify_issued_by x child issuer ctx = Inr u \<longleftrightarrow> issued_by x child issuer"
  unfolding verify_issued_by_def issued_by_def
  by (auto simp: result_inv tbs_digest_context [of _ ctx _ _ _ "[]"])

interpretation fulcio: issuance "issued_by x" x_subject x_issuer for x :: sig_ext
  by unfold_locales (simp add: issued_by_def)

text \<open>A leaf, a non-empty chain in which each certificate issued the one before, a self-signed root.\<close>

definition chain_ok :: "sig_ext \<Rightarrow> sig_cert \<Rightarrow> sig_cert list \<Rightarrow> bool" where
  "chain_ok x leaf certs =
     (certs \<noteq> [] \<and> successively (issued_by x) (leaf # certs) \<and> issued_by x (last certs) (last certs))"

lemma walk_chain_Inr [result_inv]: "walk_chain x cs = Inr u \<longleftrightarrow> successively (issued_by x) cs"
  by (induction x cs rule: walk_chain.induct) (auto simp: result_inv)

lemma verify_against_chain_Inr [result_inv]:
  "verify_against_chain x leaf ders = Inr u \<longleftrightarrow>
     (\<exists>certs. list_all2 (\<lambda>der c. s_cert x der = Some c) ders certs \<and> chain_ok x leaf certs)"
proof -
  have "x_subject c = x_issuer c" if "issued_by x c c" for c
    using fulcio.self_issued [OF that] by simp
  moreover have "successively (issued_by x) (leaf # certs) \<longleftrightarrow>
      issued_by x leaf (certs ! 0) \<and> successively (issued_by x) certs" if "certs \<noteq> []" for certs
    using that by (cases certs) auto
  ultimately show ?thesis
    by (auto simp: verify_against_chain_def parse_chain_def chain_ok_def result_inv Let_def)
qed

lemma no_panic_verify_issued_by [simp]: "no_panic (verify_issued_by x c i ctx)"
  by (auto simp: verify_issued_by_def tbs_digest_def intro!: no_panic_bind)

lemma no_panic_walk_chain [simp]: "no_panic (walk_chain x cs)"
  by (induction x cs rule: walk_chain.induct) auto

text \<open>The walk panics on an empty chain only.\<close>

lemma no_panic_try_map:
  "(\<And>a. a \<in> set as \<Longrightarrow> no_panic (f a)) \<Longrightarrow> no_panic (try_map f as)"
  by (induction as) (auto intro!: no_panic_bind)

lemma no_panic_verify_against_chain: "ders \<noteq> [] \<Longrightarrow> no_panic (verify_against_chain x leaf ders)"
proof -
  assume ne: "ders \<noteq> []"
  have "0 < length certs" if "parse_chain x msg ders = Inr certs" for msg certs
    using that ne by (auto simp: parse_chain_def result_inv dest: list_all2_lengthD)
  moreover have "no_panic (parse_chain x ''Failed to parse Fulcio chain cert'' ders)"
    unfolding parse_chain_def by (rule no_panic_try_map) simp
  ultimately show ?thesis
    unfolding verify_against_chain_def by (auto intro!: no_panic_bind simp: Let_def)
qed

section \<open>The signing certificate\<close>

text \<open>An authority of the trusted root that was valid at a time and whose chain the certificate ends.\<close>

definition fulcio_vouches :: "sig_ext \<Rightarrow> sig_cert \<Rightarrow> nat \<Rightarrow> fulcio_ca \<Rightarrow> bool" where
  "fulcio_vouches x cert t ca =
     (within (Some (fca_valid_from ca)) (fca_valid_until ca) t \<and>
      (\<exists>certs. list_all2 (\<lambda>der c. s_cert x der = Some c) (fca_chain_der ca) certs \<and> chain_ok x cert certs))"

lemma chain_ok_ne: "chain_ok x leaf certs \<Longrightarrow> certs \<noteq> []"
  by (simp add: chain_ok_def)

lemma try_cas_Inr: "try_cas x cert t cas = Inr () \<longleftrightarrow> (\<exists>ca \<in> set cas. fulcio_vouches x cert t ca)"
proof (induction cas)
  case (Cons ca cas)
  let ?v = "verify_against_chain x cert (fca_chain_der ca)"
  show ?case
  proof (cases "\<not> within (Some (fca_valid_from ca)) (fca_valid_until ca) t \<or> fca_chain_der ca = []")
    case True
    then have "\<not> fulcio_vouches x cert t ca" by (auto simp: fulcio_vouches_def dest: chain_ok_ne)
    moreover have "try_cas x cert t (ca # cas) = try_cas x cert t cas"
      using True by (auto simp: within_def before_window_def not_less)
    ultimately show ?thesis using Cons.IH by simp
  next
    case False
    then have w: "within (Some (fca_valid_from ca)) (fca_valid_until ca) t" "fca_chain_der ca \<noteq> []" by simp_all
    then have np: "no_panic ?v" by (simp add: no_panic_verify_against_chain)
    have "try_cas x cert t (ca # cas) = (case ?v of Inr u \<Rightarrow> Inr () | Inl e \<Rightarrow> try_cas x cert t cas)"
      using w np by (auto simp: within_def before_window_def no_panic_def split: sum.splits error.splits)
    moreover have "?v = Inr () \<longleftrightarrow> fulcio_vouches x cert t ca"
      using w(1) by (simp add: fulcio_vouches_def result_inv)
    ultimately show ?thesis using Cons.IH by (cases ?v) auto
  qed
qed simp

lemma verify_fulcio_chain_Inr [result_inv]:
  "verify_fulcio_chain x cert_der t = Inr () \<longleftrightarrow>
     (\<exists>cert cas ca. s_cert x cert_der = Some cert \<and> load_fulcio_cas x = Inr cas \<and> ca \<in> set cas \<and>
        fulcio_vouches x cert t ca)"
  by (auto simp: verify_fulcio_chain_def result_inv try_cas_Inr)

text \<open>
  A signing certificate is accepted exactly when some certificate authority of the embedded
  trusted root was valid when the certificate was issued and its whole chain holds: the certificate
  is signed by the first member under matching names, every member by the next, and the last is
  self-signed. A failing authority never hides a later good one.
\<close>

theorem fulcio_accepted_iff:
  "verify_fulcio_chain x cert_der t = Inr () \<longleftrightarrow>
     (\<exists>cert cas ca. s_cert x cert_der = Some cert \<and> load_fulcio_cas x = Inr cas \<and> ca \<in> set cas \<and>
        fulcio_vouches x cert t ca)"
  by (rule verify_fulcio_chain_Inr)

lemma fulcio_vouches_descends:
  assumes "fulcio_vouches x cert t ca"
  obtains root where "(issued_by x)\<^sup>*\<^sup>* cert root" "issued_by x root root"
    "\<exists>der \<in> set (fca_chain_der ca). s_cert x der = Some root"
proof -
  obtain certs where c: "list_all2 (\<lambda>der c. s_cert x der = Some c) (fca_chain_der ca) certs" "chain_ok x cert certs"
    using assms by (auto simp: fulcio_vouches_def)
  then have ne: "certs \<noteq> []" by (simp add: chain_ok_ne)
  then have "(issued_by x)\<^sup>*\<^sup>* cert (last certs)"
    using c(2) fulcio.chain_reaches_last [of x cert certs] by (simp add: chain_ok_def)
  moreover have "issued_by x (last certs) (last certs)" using c(2) by (simp add: chain_ok_def)
  moreover have "\<exists>der \<in> set (fca_chain_der ca). s_cert x der = Some (last certs)"
    using c(1) ne by (auto simp: list_all2_conv_all_nth last_conv_nth) (metis Suc_pred length_greater_0_conv lessI nth_mem)
  ultimately show thesis using that by blast
qed

end
