(* ===== verification/Tsa.thy ===== *)
theory Tsa
  imports Fulcio
begin

text \<open>
  \<open>sigstore/tsa.rs\<close>: RFC 3161 timestamps of the bundle's signature, as CMS structures signed by a
  timestamp authority of the trusted root.
\<close>

section \<open>The structures\<close>

record message_imprint =
  mi_hash_algorithm :: algorithm_identifier
  mi_hashed_message :: bytes

text \<open>The fields of \<open>TstInfo\<close> that are read; the time is in seconds.\<close>

record tst_info =
  tst_message_imprint :: message_imprint
  tst_gen_time :: nat

record time_stamp_resp =
  tsr_status :: u8
  tsr_token :: "der_any option"

record content_info =
  cms_content_type :: str
  cms_content :: der_any

record cms_attribute =
  attr_oid :: str
  attr_values :: "der_any list"

datatype signer_identifier =
    IssuerAndSerialNumber name bytes
  | SubjectKeyIdentifier bytes

record signer_info =
  si_sid :: signer_identifier
  si_digest_alg :: algorithm_identifier
  si_signed_attrs :: "cms_attribute list option"
  si_signature :: bytes

record signed_data =
  sd_econtent_type :: str
  sd_econtent :: "der_any option"
  sd_signer_infos :: "signer_info list"

text \<open>The CMS and DER operations of third-party crates.\<close>

record cms_ext =
  m_time_stamp_resp :: "bytes \<Rightarrow> time_stamp_resp option"
  m_content_info :: "bytes \<Rightarrow> content_info option"
  m_signed_data :: "bytes \<Rightarrow> signed_data option"
  m_tst_info :: "bytes \<Rightarrow> tst_info option"
  m_any_to_der :: "der_any \<Rightarrow> bytes option"
  m_any_oid :: "der_any \<Rightarrow> str option"
  m_any_octets :: "der_any \<Rightarrow> bytes option"
  m_attrs_to_der :: "cms_attribute list \<Rightarrow> bytes option"

definition OID_SIGNED_DATA :: str where "OID_SIGNED_DATA = ''1.2.840.113549.1.7.2''"

definition OID_TST_INFO :: str where "OID_TST_INFO = ''1.2.840.113549.1.9.16.1.4''"

definition OID_CONTENT_TYPE :: str where "OID_CONTENT_TYPE = ''1.2.840.113549.1.9.3''"

definition OID_MESSAGE_DIGEST :: str where "OID_MESSAGE_DIGEST = ''1.2.840.113549.1.9.4''"

definition OID_KP_TIME_STAMPING :: str where "OID_KP_TIME_STAMPING = ''1.3.6.1.5.5.7.3.8''"

definition OID_SHA256 :: str where "OID_SHA256 = ''2.16.840.1.101.3.4.2.1''"

definition OID_SHA384 :: str where "OID_SHA384 = ''2.16.840.1.101.3.4.2.2''"

definition OID_SHA512 :: str where "OID_SHA512 = ''2.16.840.1.101.3.4.2.3''"

definition MAX_TIMESTAMPS :: nat where "MAX_TIMESTAMPS = 32"

section \<open>Parts of a token\<close>

text \<open>A bundle carries a response; a bare token is accepted too.\<close>

definition token_content_info :: "cms_ext \<Rightarrow> bytes \<Rightarrow> content_info res" where
  "token_content_info y token =
     (case m_time_stamp_resp y token of
        Some resp \<Rightarrow>
          if tsr_status resp > 1
          then Inl (sig_err (''RFC 3161 timestamp request was not granted (status '' @ dec_str (unat (tsr_status resp)) @ '')''))
          else
          try_bind (ok_or (sig_err ''TimeStampResp has no timeStampToken'') (tsr_token resp)) (\<lambda>token_any.
          try_bind (ok_or (sig_err ''Failed to re-encode timeStampToken'') (m_any_to_der y token_any)) (\<lambda>der.
          ok_or (sig_err ''Failed to parse RFC 3161 timestamp token'') (m_content_info y der)))
      | None \<Rightarrow> ok_or (sig_err ''Failed to parse RFC 3161 timestamp token'') (m_content_info y token))"

definition parse_token :: "cms_ext \<Rightarrow> bytes \<Rightarrow> (tst_info \<times> bytes \<times> signed_data) res" where
  "parse_token y token =
     try_bind (token_content_info y token) (\<lambda>ci.
     if cms_content_type ci \<noteq> OID_SIGNED_DATA then Inl (sig_err ''RFC 3161 token is not CMS SignedData'')
     else
     try_bind (ok_or (sig_err ''Failed to re-encode SignedData'') (m_any_to_der y (cms_content ci))) (\<lambda>der.
     try_bind (ok_or (sig_err ''Failed to parse CMS SignedData'') (m_signed_data y der)) (\<lambda>sd.
     if sd_econtent_type sd \<noteq> OID_TST_INFO then Inl (sig_err ''CMS SignedData content is not TSTInfo'')
     else
     try_bind (ok_or (sig_err ''CMS SignedData has no TSTInfo content'') (sd_econtent sd)) (\<lambda>econtent.
     let tst_info_der = any_value econtent in
     try_bind (ok_or (sig_err ''Failed to parse TSTInfo'') (m_tst_info y tst_info_der)) (\<lambda>tst.
     Inr (tst, tst_info_der, sd))))))"

definition cms_attribute_value :: "cms_attribute list \<Rightarrow> str \<Rightarrow> der_any res" where
  "cms_attribute_value attrs oid =
     try_bind (ok_or (sig_err (''CMS signed attribute '' @ oid @ '' missing'')) (find (\<lambda>a. attr_oid a = oid) attrs)) (\<lambda>attr.
     if length (attr_values attr) \<noteq> 1
     then Inl (sig_err (''CMS signed attribute '' @ oid @ '' must have exactly 1 value''))
     else index_at (attr_values attr) 0)"

fun signer_matches :: "signer_identifier \<Rightarrow> sig_cert \<Rightarrow> bool" where
  "signer_matches (IssuerAndSerialNumber issuer serial) cert =
     (issuer = x_issuer cert \<and> serial = c_serial cert)"
| "signer_matches (SubjectKeyIdentifier ski) cert = (c_ski cert = Inr (Some ski))"

definition hash_with :: "sig_ext \<Rightarrow> str \<Rightarrow> bytes \<Rightarrow> bytes res" where
  "hash_with x oid msg =
     (if oid = OID_SHA256 then Inr (digest_bytes (s_sha256 x msg))
      else if oid = OID_SHA384 then Inr (s_sha384 x msg)
      else if oid = OID_SHA512 then Inr (s_sha512 x msg)
      else Inl (sig_err (''Unsupported RFC 3161 digest algorithm '' @ oid)))"

definition verify_cms_signature :: "sig_ext \<Rightarrow> sig_cert \<Rightarrow> str \<Rightarrow> bytes \<Rightarrow> bytes \<Rightarrow> unit res" where
  "verify_cms_signature x cert digest_oid message signature =
     try_bind (hash_with x digest_oid message) (\<lambda>dig.
     try_bind
       (if curve_oid x cert = Some OID_SECP256R1 then Inr (ecdsa_p256_ok x dig signature (x_public_key cert))
        else if curve_oid x cert = Some OID_SECP384R1 then Inr (ecdsa_p384_ok x dig signature (x_public_key cert))
        else Inl (sig_err ''TSA certificate uses an unsupported key type'')) (\<lambda>ok.
     if \<not> ok then Inl (sig_err ''RFC 3161 timestamp CMS signature did not verify'') else Inr ()))"

section \<open>Verification\<close>

text \<open>A certificate whose validity does not contain the time, the first of the chain.\<close>

fun check_cert_times :: "nat \<Rightarrow> sig_cert list \<Rightarrow> unit res" where
  "check_cert_times t [] = Inr ()"
| "check_cert_times t (c # cs) =
     (if t < x_not_before c \<or> x_not_after c < t
      then Inl (sig_err (''Timestamp '' @ dec_str t @ '' is outside TSA certificate validity ['' @
             dec_str (x_not_before c) @ '', '' @ dec_str (x_not_after c) @ '']''))
      else check_cert_times t cs)"

definition check_tsa_chain :: "sig_ext \<Rightarrow> timestamp_authority \<Rightarrow> sig_cert list \<Rightarrow> sig_cert \<Rightarrow> unit res" where
  "check_tsa_chain x authority certs leaf =
     (if length certs = 1 then verify_issued_by x leaf leaf ''TSA certificate''
      else try_bind (slice_from 1 (tsa_chain_der authority)) (\<lambda>rest. verify_against_chain x leaf rest))"

definition verify_with_authority ::
  "sig_ext \<Rightarrow> timestamp_authority \<Rightarrow> signer_info \<Rightarrow> bytes \<Rightarrow> nat \<Rightarrow> unit res" where
  "verify_with_authority x authority signer signed_attrs_der gen_time =
     (if before_window (tsa_valid_from authority) gen_time \<or> after_window (tsa_valid_until authority) gen_time
      then Inl (sig_err (''Timestamp '' @ dec_str gen_time @ '' is outside the timestamp authority validity window''))
      else
      try_bind (parse_chain x ''Failed to parse TSA certificate'' (tsa_chain_der authority)) (\<lambda>certs.
      try_bind (ok_or (sig_err ''Timestamp authority has an empty certificate chain'')
          (case certs of [] \<Rightarrow> None | c # _ \<Rightarrow> Some c)) (\<lambda>leaf.
      if \<not> signer_matches (si_sid signer) leaf
      then Inl (sig_err ''Timestamp signer is not the trusted TSA certificate'')
      else
      try_bind (check_cert_times gen_time certs) (\<lambda>_.
      if x_basic_constraints leaf = Inr (Some True)
      then Inl (sig_err ''TSA signing certificate must not be a CA'')
      else
      try_bind (map_err (\<lambda>e. sig_err ''Failed to parse TSA EKU'') (c_ext_key_usage leaf)) (\<lambda>eku.
      if eku \<noteq> Some (True, [OID_KP_TIME_STAMPING])
      then Inl (sig_err ''TSA certificate must have exactly one critical EKU: timeStamping'')
      else
      try_bind (check_tsa_chain x authority certs leaf) (\<lambda>_.
      verify_cms_signature x leaf (alg_oid (si_digest_alg signer)) signed_attrs_der (si_signature signer)))))))"

fun try_authorities ::
  "sig_ext \<Rightarrow> signer_info \<Rightarrow> bytes \<Rightarrow> nat \<Rightarrow> error \<Rightarrow> timestamp_authority list \<Rightarrow> nat res" where
  "try_authorities x signer der t last_err [] = Inl last_err"
| "try_authorities x signer der t last_err (a # as) =
     (case verify_with_authority x a signer der t of
        Inr u \<Rightarrow> Inr t
      | Inl (Panic p) \<Rightarrow> Inl (Panic p)
      | Inl e \<Rightarrow> try_authorities x signer der t e as)"

definition verify_timestamp ::
  "sig_ext \<Rightarrow> cms_ext \<Rightarrow> bytes \<Rightarrow> bytes \<Rightarrow> timestamp_authority list \<Rightarrow> nat res" where
  "verify_timestamp x y token signature authorities =
     try_bind (parse_token y token) (\<lambda>(tst, tst_info_der, sd).
     let imprint = tst_message_imprint tst in
     try_bind (hash_with x (alg_oid (mi_hash_algorithm imprint)) signature) (\<lambda>h.
     if h \<noteq> mi_hashed_message imprint
     then Inl (sig_err ''RFC 3161 timestamp message imprint does not match the bundle signature'')
     else
     let gen_time = tst_gen_time tst in
     if length (sd_signer_infos sd) \<noteq> 1
     then Inl (sig_err (''RFC 3161 timestamp must have exactly 1 signer, got '' @ dec_str (length (sd_signer_infos sd))))
     else
     try_bind (index_at (sd_signer_infos sd) 0) (\<lambda>signer.
     try_bind (ok_or (sig_err ''RFC 3161 timestamp has no signed attributes'') (si_signed_attrs signer)) (\<lambda>attrs.
     try_bind (cms_attribute_value attrs OID_CONTENT_TYPE) (\<lambda>ct_any.
     try_bind (ok_or (sig_err ''Invalid CMS content-type attribute'') (m_any_oid y ct_any)) (\<lambda>content_type.
     if content_type \<noteq> OID_TST_INFO then Inl (sig_err ''CMS content-type attribute is not TSTInfo'')
     else
     try_bind (cms_attribute_value attrs OID_MESSAGE_DIGEST) (\<lambda>md_any.
     try_bind (ok_or (sig_err ''Invalid CMS message-digest attribute'') (m_any_octets y md_any)) (\<lambda>message_digest.
     try_bind (hash_with x (alg_oid (si_digest_alg signer)) tst_info_der) (\<lambda>d.
     if d \<noteq> message_digest then Inl (sig_err ''CMS message-digest attribute does not match TSTInfo'')
     else
     try_bind (ok_or (sig_err ''Failed to re-encode CMS signed attributes'') (m_attrs_to_der y attrs)) (\<lambda>der.
     try_authorities x signer der gen_time (sig_err ''No timestamp authority in the trust root'') authorities))))))))))"

text \<open>Times that verify are collected apart from the errors of those that do not.\<close>

definition check_timestamp ::
  "sig_ext \<Rightarrow> cms_ext \<Rightarrow> bytes \<Rightarrow> timestamp_authority list \<Rightarrow> json \<Rightarrow> nat res" where
  "check_timestamp x y signature authorities ts =
     try_bind (ok_or (sig_err ''RFC 3161 timestamp missing signedTimestamp'') (jstr ts [''signedTimestamp''])) (\<lambda>b64.
     try_bind (decode_b64 x ''Failed to decode RFC 3161 timestamp'' b64) (\<lambda>token.
     verify_timestamp x y token signature authorities))"

fun collect_timestamps ::
  "sig_ext \<Rightarrow> cms_ext \<Rightarrow> bytes \<Rightarrow> timestamp_authority list \<Rightarrow> nat list \<Rightarrow> error list \<Rightarrow> json list
     \<Rightarrow> (nat list \<times> error list) res" where
  "collect_timestamps x y signature authorities found errs [] = Inr (found, errs)"
| "collect_timestamps x y signature authorities found errs (ts # tss) =
     (case check_timestamp x y signature authorities ts of
        Inr t \<Rightarrow> collect_timestamps x y signature authorities (found @ [t]) errs tss
      | Inl (Panic p) \<Rightarrow> Inl (Panic p)
      | Inl e \<Rightarrow> collect_timestamps x y signature authorities found (errs @ [e]) tss)"

definition verify_timestamps ::
  "sig_ext \<Rightarrow> cms_ext \<Rightarrow> json \<Rightarrow> bytes \<Rightarrow> timestamp_authority list \<Rightarrow> (nat list \<times> error list) res" where
  "verify_timestamps x y bundle signature authorities =
     (let timestamps =
        (case jarray bundle [''verificationMaterial'', ''timestampVerificationData'', ''rfc3161Timestamps''] of
           Some ts \<Rightarrow> ts | None \<Rightarrow> [])
      in if length timestamps > MAX_TIMESTAMPS
         then Inl (sig_err (''Too many RFC 3161 timestamps: '' @ dec_str (length timestamps) @ '' > '' @ dec_str MAX_TIMESTAMPS))
         else collect_timestamps x y signature authorities [] [] timestamps)"

section \<open>What a verified timestamp shows\<close>

lemma check_cert_times_Inr [result_inv]:
  "check_cert_times t cs = Inr u \<longleftrightarrow> (\<forall>c \<in> set cs. x_not_before c \<le> t \<and> t \<le> x_not_after c)"
  by (induction cs) (auto simp: not_less)

definition cms_signed :: "sig_ext \<Rightarrow> sig_cert \<Rightarrow> str \<Rightarrow> bytes \<Rightarrow> bytes \<Rightarrow> bool" where
  "cms_signed x cert digest_oid message signature =
     (\<exists>dig. hash_with x digest_oid message = Inr dig \<and>
        (curve_oid x cert = Some OID_SECP256R1 \<and> ecdsa_p256_ok x dig signature (x_public_key cert)
         \<or> curve_oid x cert = Some OID_SECP384R1 \<and> ecdsa_p384_ok x dig signature (x_public_key cert)))"

lemma verify_cms_signature_Inr [result_inv]:
  "verify_cms_signature x cert oid message signature = Inr u \<longleftrightarrow> cms_signed x cert oid message signature"
  by (auto simp: verify_cms_signature_def cms_signed_def result_inv)

text \<open>
  A timestamp authority stands behind a signature of the attributes at a time: the time is in its
  window and in the validity of every certificate of its chain, its leaf is the signer, no CA, meant
  for timestamping alone, issued up to a self-signed root (or itself), and signed the attributes.
\<close>

definition authority_signed ::
  "sig_ext \<Rightarrow> timestamp_authority \<Rightarrow> signer_info \<Rightarrow> bytes \<Rightarrow> nat \<Rightarrow> bool" where
  "authority_signed x a signer der t =
     (within (tsa_valid_from a) (tsa_valid_until a) t \<and>
      (\<exists>leaf rest.
         list_all2 (\<lambda>d c. s_cert x d = Some c) (tsa_chain_der a) (leaf # rest) \<and>
         (\<forall>c \<in> set (leaf # rest). x_not_before c \<le> t \<and> t \<le> x_not_after c) \<and>
         signer_matches (si_sid signer) leaf \<and> x_basic_constraints leaf \<noteq> Inr (Some True) \<and>
         c_ext_key_usage leaf = Inr (Some (True, [OID_KP_TIME_STAMPING])) \<and>
         (if rest = [] then issued_by x leaf leaf else chain_ok x leaf rest) \<and>
         cms_signed x leaf (alg_oid (si_digest_alg signer)) der (si_signature signer)))"

lemma list_all2_parse: "list_all2 (\<lambda>d c. f d = Some c) ds cs \<longleftrightarrow> map f ds = map Some cs"
  by (auto simp: list_all2_conv_all_nth list_eq_iff_nth_eq)

lemma check_tsa_chain_Inr:
  assumes "list_all2 (\<lambda>d c. s_cert x d = Some c) (tsa_chain_der a) (leaf # rest)"
    and "check_tsa_chain x a (leaf # rest) leaf = Inr ()"
  shows "if rest = [] then issued_by x leaf leaf else chain_ok x leaf rest"
proof (cases "rest = []")
  case True
  then show ?thesis using assms(2) by (simp add: check_tsa_chain_def result_inv)
next
  case False
  then obtain certs where "list_all2 (\<lambda>d c. s_cert x d = Some c) (drop 1 (tsa_chain_der a)) certs"
      "chain_ok x leaf certs"
    using assms(2) by (auto simp: check_tsa_chain_def result_inv)
  moreover have "map (s_cert x) (drop 1 (tsa_chain_der a)) = map Some rest"
    using assms(1) by (simp add: list_all2_parse drop_map [symmetric])
  ultimately show ?thesis using False by (simp add: list_all2_parse inj_map_eq_map)
qed

lemma verify_with_authority_Inr:
  assumes "verify_with_authority x a signer der t = Inr ()"
  shows "authority_signed x a signer der t"
proof -
  obtain certs where p: "list_all2 (\<lambda>d c. s_cert x d = Some c) (tsa_chain_der a) certs"
    using assms by (auto simp: verify_with_authority_def parse_chain_def result_inv split: if_splits)
  then have pc: "parse_chain x msg (tsa_chain_der a) = Inr certs" for msg
    by (simp add: parse_chain_def result_inv)
  obtain leaf rest where lr: "certs = leaf # rest"
    using assms by (cases certs) (auto simp: verify_with_authority_def pc split: if_splits)
  have "within (tsa_valid_from a) (tsa_valid_until a) t \<and>
      (\<forall>c \<in> set (leaf # rest). x_not_before c \<le> t \<and> t \<le> x_not_after c) \<and>
      signer_matches (si_sid signer) leaf \<and> x_basic_constraints leaf \<noteq> Inr (Some True) \<and>
      c_ext_key_usage leaf = Inr (Some (True, [OID_KP_TIME_STAMPING])) \<and>
      check_tsa_chain x a (leaf # rest) leaf = Inr () \<and>
      cms_signed x leaf (alg_oid (si_digest_alg signer)) der (si_signature signer)"
    using assms by (simp add: verify_with_authority_def pc lr result_inv within_def split: if_split_asm)
  then show ?thesis
    using p lr check_tsa_chain_Inr [of x a leaf rest] unfolding authority_signed_def by blast
qed

lemma try_authorities_Inr:
  "try_authorities x signer der t e as = Inr s \<Longrightarrow> s = t \<and> (\<exists>a \<in> set as. authority_signed x a signer der t)"
  by (induction x signer der t e as rule: try_authorities.induct)
     (auto dest: verify_with_authority_Inr split: sum.splits error.splits)

text \<open>A token in which an authority signed, for a time, the hash of a signature.\<close>

definition timestamp_vouched ::
  "sig_ext \<Rightarrow> cms_ext \<Rightarrow> bytes \<Rightarrow> bytes \<Rightarrow> timestamp_authority \<Rightarrow> nat \<Rightarrow> bool" where
  "timestamp_vouched x y token signature a t =
     (\<exists>tst der sd signer attrs attrs_der ct md.
        parse_token y token = Inr (tst, der, sd) \<and> tst_gen_time tst = t \<and>
        hash_with x (alg_oid (mi_hash_algorithm (tst_message_imprint tst))) signature
          = Inr (mi_hashed_message (tst_message_imprint tst)) \<and>
        sd_signer_infos sd = [signer] \<and> si_signed_attrs signer = Some attrs \<and>
        cms_attribute_value attrs OID_CONTENT_TYPE = Inr ct \<and> m_any_oid y ct = Some OID_TST_INFO \<and>
        cms_attribute_value attrs OID_MESSAGE_DIGEST = Inr md \<and>
        (\<exists>d. m_any_octets y md = Some d \<and> hash_with x (alg_oid (si_digest_alg signer)) der = Inr d) \<and>
        m_attrs_to_der y attrs = Some attrs_der \<and> authority_signed x a signer attrs_der t)"

lemma verify_timestamp_Inr:
  "verify_timestamp x y token signature authorities = Inr t \<Longrightarrow>
     \<exists>a \<in> set authorities. timestamp_vouched x y token signature a t"
  unfolding verify_timestamp_def timestamp_vouched_def Let_def
  by (fastforce simp: result_inv length_Suc_conv split: prod.splits if_splits dest!: try_authorities_Inr)

text \<open>The times the caller gets are those of tokens of the bundle that some trusted authority signed.\<close>

definition bundle_time ::
  "sig_ext \<Rightarrow> cms_ext \<Rightarrow> bytes \<Rightarrow> timestamp_authority list \<Rightarrow> json list \<Rightarrow> nat \<Rightarrow> bool" where
  "bundle_time x y signature authorities tss t =
     (\<exists>ts \<in> set tss. \<exists>b64 token. jstr ts [''signedTimestamp''] = Some b64 \<and> s_b64_decode x b64 = Some token \<and>
        (\<exists>a \<in> set authorities. timestamp_vouched x y token signature a t))"

lemma check_timestamp_Inr:
  "check_timestamp x y signature authorities ts = Inr t \<Longrightarrow> bundle_time x y signature authorities [ts] t"
  by (auto simp: check_timestamp_def bundle_time_def result_inv dest: verify_timestamp_Inr)

lemma bundle_time_Cons:
  "bundle_time x y signature authorities (ts # tss) t \<longleftrightarrow>
     bundle_time x y signature authorities [ts] t \<or> bundle_time x y signature authorities tss t"
  by (auto simp: bundle_time_def)

lemma collect_timestamps_Inr:
  "collect_timestamps x y signature authorities found errs tss = Inr (ts', es') \<Longrightarrow>
     (\<forall>t \<in> set ts'. t \<in> set found \<or> bundle_time x y signature authorities tss t) \<and>
     length ts' + length es' = length found + length errs + length tss"
proof (induction tss arbitrary: found errs)
  case (Cons ts tss)
  show ?case
  proof (cases "check_timestamp x y signature authorities ts")
    case (Inr t)
    then show ?thesis
      using Cons.IH [of "found @ [t]" errs] Cons.prems check_timestamp_Inr [OF Inr]
      by (auto simp: bundle_time_Cons [of x y signature authorities ts tss])
  next
    case (Inl e)
    then have "collect_timestamps x y signature authorities found (errs @ [e]) tss = Inr (ts', es')"
      using Cons.prems by (cases e) simp_all
    then show ?thesis
      using Cons.IH [of found "errs @ [e]"] by (auto simp: bundle_time_Cons [of x y signature authorities ts tss])
  qed
qed auto

end
