(* ===== verification/Transparency.thy ===== *)
theory Transparency
  imports Trust
begin

text \<open>
  \<open>sigstore/transparency.rs\<close>: the certificate timestamps embedded in a signing certificate, the
  structure a log signs for one (RFC 6962), and its verification against the keyring.
\<close>

section \<open>Errors\<close>

datatype certificate_error_kind =
  LeafSCTMissing | IssuerMissing | LeafSCTMalformed | CertDer | CertTls str

datatype sct_error =
    SctParsing certificate_error_kind
  | SctSerialization
  | SctVerification keyring_error

fun from_x509_sct :: "x509_sct_error \<Rightarrow> certificate_error_kind" where
  "from_x509_sct SctDer = CertDer"
| "from_x509_sct (SctTls e) = CertTls e"

fun sct_error_str :: "sct_error \<Rightarrow> str" where
  "sct_error_str (SctParsing k) = ''failed to extract SCT from certificate''"
| "sct_error_str SctSerialization = ''failed to reconstruct signed payload''"
| "sct_error_str (SctVerification k) = ''failed to verify SCT''"

section \<open>The signed structure\<close>

definition to_be_bytes :: "nat \<Rightarrow> 'a::len word \<Rightarrow> bytes" where
  "to_be_bytes n w = rev (to_le_bytes n w)"

lemma length_to_be_bytes [simp]: "length (to_be_bytes n w) = n"
  by (simp add: to_be_bytes_def)

record digitally_signed =
  ds_timestamp :: u64
  ds_issuer_key_hash :: digest
  ds_tbs_certificate :: bytes
  ds_extensions :: bytes
  ds_log_id :: digest
  ds_signature :: bytes

text \<open>
  A vector is preceded by its length in big-endian order, in two or three bytes; a longer vector is
  an error. Version 1 and the type of a certificate timestamp are zero, a precertificate entry is 1;
  the log id and the signature are skipped.
\<close>

definition tls_vec_u24 :: "bytes \<Rightarrow> bytes option" where
  "tls_vec_u24 b = (if length b < 2 ^ 24 then Some (to_be_bytes 3 (of_nat (length b) :: 24 word) @ b) else None)"

definition tls_vec_u16 :: "bytes \<Rightarrow> bytes option" where
  "tls_vec_u16 b = (if length b < 2 ^ 16 then Some (to_be_bytes 2 (of_nat (length b) :: 16 word) @ b) else None)"

definition tls_serialize :: "digitally_signed \<Rightarrow> bytes option" where
  "tls_serialize ds =
     Option.bind (tls_vec_u24 (ds_tbs_certificate ds)) (\<lambda>tbs.
     Option.bind (tls_vec_u16 (ds_extensions ds)) (\<lambda>exts.
     Some ([0, 0] @ to_be_bytes 8 (ds_timestamp ds) @ [0, 1] @ digest_bytes (ds_issuer_key_hash ds)
           @ tbs @ exts)))"

section \<open>Embedded timestamps\<close>

definition CT_PRECERT_SCTS_OID :: str where "CT_PRECERT_SCTS_OID = ''1.3.6.1.4.1.11129.2.4.2''"

definition parse_scts_from_cert :: "sig_ext \<Rightarrow> sig_cert \<Rightarrow> sct_error + sct list" where
  "parse_scts_from_cert x cert =
     try_bind (ok_or (SctParsing LeafSCTMissing) (x_extensions cert)) (\<lambda>exts.
     try_bind (ok_or (SctParsing LeafSCTMissing) (find (\<lambda>e. extn_id e = CT_PRECERT_SCTS_OID) exts)) (\<lambda>ext.
     try_bind (ok_or (SctParsing CertDer) (s_sct_list_der x (extn_value ext))) (\<lambda>lst.
     try_bind (map_err (\<lambda>e. SctParsing (from_x509_sct e)) (s_sct_list x lst)) (\<lambda>ser.
     try_map (\<lambda>s. map_err (\<lambda>e. SctParsing (from_x509_sct e)) (s_sct x s)) ser))))"

record embedded_sct =
  es_cert :: sig_cert
  es_sct :: sct
  es_issuer_id :: digest

definition new_with_spki :: "sig_ext \<Rightarrow> sig_cert \<Rightarrow> bytes \<Rightarrow> sct_error + embedded_sct" where
  "new_with_spki x cert spki =
     try_bind (parse_scts_from_cert x cert) (\<lambda>scts.
     case scts of
       [] \<Rightarrow> Inl (SctParsing LeafSCTMissing)
     | s # _ \<Rightarrow> Inr \<lparr>es_cert = cert, es_sct = s, es_issuer_id = s_sha256 x spki\<rparr>)"

definition es_log_id :: "embedded_sct \<Rightarrow> digest" where
  "es_log_id e = sct_log_id (es_sct e)"

definition all_from_cert :: "sig_ext \<Rightarrow> sig_cert \<Rightarrow> bytes \<Rightarrow> sct_error + embedded_sct list" where
  "all_from_cert x cert spki =
     try_bind (parse_scts_from_cert x cert) (\<lambda>scts.
     if scts = [] then Inl (SctParsing LeafSCTMissing)
     else Inr (map (\<lambda>s. \<lparr>es_cert = cert, es_sct = s, es_issuer_id = s_sha256 x spki\<rparr>) scts))"

text \<open>The certificate without its timestamps is what the log signed; encoding it again is expected
  to succeed.\<close>

definition precert :: "sig_cert \<Rightarrow> sig_cert" where
  "precert cert = cert\<lparr>x_extensions := map_option (filter (\<lambda>e. extn_id e \<noteq> CT_PRECERT_SCTS_OID)) (x_extensions cert)\<rparr>"

definition to_digitally_signed :: "sig_ext \<Rightarrow> embedded_sct \<Rightarrow> digitally_signed res" where
  "to_digitally_signed x e =
     try_bind (ok_or (Panic ''failed to re-encode Precertificate!'') (s_tbs_der x (precert (es_cert e)))) (\<lambda>tbs.
     Inr \<lparr>ds_timestamp = sct_timestamp (es_sct e), ds_issuer_key_hash = es_issuer_id e,
          ds_tbs_certificate = tbs, ds_extensions = sct_extensions (es_sct e),
          ds_log_id = sct_log_id (es_sct e), ds_signature = sct_signature (es_sct e)\<rparr>)"

text \<open>The timestamp counts milliseconds.\<close>

definition verify_embedded_sct :: "sig_ext \<Rightarrow> embedded_sct \<Rightarrow> keyring \<Rightarrow> (sct_error + unit) res" where
  "verify_embedded_sct x e kr =
     try_bind (to_digitally_signed x e) (\<lambda>ds. Inr (
     try_bind (ok_or SctSerialization (tls_serialize ds)) (\<lambda>serialized.
     map_err SctVerification
       (verify_at x kr (ds_log_id ds) (ds_signature ds) serialized (unat (ds_timestamp ds div 1000))))))"

section \<open>What a verified timestamp shows\<close>

lemma to_be_bytes_inject:
  "LENGTH('a::len) = 8 * n \<Longrightarrow> to_be_bytes n v = to_be_bytes n w \<longleftrightarrow> v = (w :: 'a word)"
  unfolding to_be_bytes_def by (metis from_to_le_bytes rev_is_rev_conv)

lemma of_nat_length_inject:
  "length a < 2 ^ LENGTH('a::len) \<Longrightarrow> length b < 2 ^ LENGTH('a) \<Longrightarrow>
     (of_nat (length a) :: 'a word) = of_nat (length b) \<longleftrightarrow> length a = length b"
  by (simp add: word_of_nat_eq_iff take_bit_eq_mod)

lemma length_prefixed_inject:
  assumes "LENGTH('a::len) = 8 * n" "length a < 2 ^ LENGTH('a)" "length b < 2 ^ LENGTH('a)"
  shows "to_be_bytes n (of_nat (length a) :: 'a word) @ a @ r = to_be_bytes n (of_nat (length b) :: 'a word) @ b @ s
     \<longleftrightarrow> a = b \<and> r = s"
  using assms to_be_bytes_inject [OF assms(1)] of_nat_length_inject [where 'a = 'a and a = a and b = b]
  by (auto simp: append_eq_append_conv)

lemma tls_serialize_inject:
  assumes "tls_serialize d = Some s" and "tls_serialize d' = Some s"
  shows "ds_timestamp d = ds_timestamp d' \<and> ds_issuer_key_hash d = ds_issuer_key_hash d' \<and>
    ds_tbs_certificate d = ds_tbs_certificate d' \<and> ds_extensions d = ds_extensions d'"
proof -
  let ?u24 = "\<lambda>b. to_be_bytes 3 (of_nat (length b) :: 24 word)"
  let ?u16 = "\<lambda>b. to_be_bytes 2 (of_nat (length b) :: 16 word)"
  have s: "s = [0, 0] @ to_be_bytes 8 (ds_timestamp e) @ [0, 1] @ digest_bytes (ds_issuer_key_hash e)
      @ ?u24 (ds_tbs_certificate e) @ ds_tbs_certificate e @ ?u16 (ds_extensions e) @ ds_extensions e @ []"
    and len: "length (ds_tbs_certificate e) < 2 ^ 24" "length (ds_extensions e) < 2 ^ 16"
    if "tls_serialize e = Some s" for e
    using that by (auto simp: tls_serialize_def tls_vec_u24_def tls_vec_u16_def split: if_splits)
  have "digest_bytes (ds_issuer_key_hash d) = digest_bytes (ds_issuer_key_hash d') \<longleftrightarrow>
      ds_issuer_key_hash d = ds_issuer_key_hash d'"
    by (metis digest_from_to_bytes)
  then show ?thesis
    using s [OF assms(1)] s [OF assms(2)] len [OF assms(1)] len [OF assms(2)]
      length_prefixed_inject [where 'a = 24 and n = 3] length_prefixed_inject [where 'a = 16 and n = 2]
    by (simp add: to_be_bytes_inject)
qed

text \<open>What a log of the keyring has vouched for when a timestamp verifies.\<close>

definition sct_signed :: "sig_ext \<Rightarrow> embedded_sct \<Rightarrow> keyring \<Rightarrow> bool" where
  "sct_signed x e kr =
     (\<exists>ds msg key. to_digitally_signed x e = Inr ds \<and> tls_serialize ds = Some msg \<and>
        kr (es_log_id e) = Some key \<and>
        within (key_valid_from key) (key_valid_until key) (unat (sct_timestamp (es_sct e)) div 1000) \<and>
        ct_signed x (key_inner key) msg (sct_signature (es_sct e)))"

lemma verify_embedded_sct_Inr [result_inv]:
  "verify_embedded_sct x e kr = Inr (Inr u) \<longleftrightarrow> sct_signed x e kr"
  by (auto simp: verify_embedded_sct_def sct_signed_def result_inv to_digitally_signed_def es_log_id_def unat_div)

end
