(* ===== verification/Certificate_Info.thy ===== *)
theory Certificate_Info
  imports Sigstore_Base
begin

text \<open>
  \<open>sigstore/certificate.rs\<close>: what a Fulcio signing certificate must be usable for, and the OIDC
  identity in its extensions.
\<close>

record certificate_info =
  ci_issuer :: str
  ci_subject_workflow :: str
  ci_repository :: str

definition OIDC_ISSUER_V1 :: str where "OIDC_ISSUER_V1 = ''1.3.6.1.4.1.57264.1.1''"

definition OIDC_ISSUER_V2 :: str where "OIDC_ISSUER_V2 = ''1.3.6.1.4.1.57264.1.8''"

definition GITHUB_WORKFLOW_REPOSITORY :: str where "GITHUB_WORKFLOW_REPOSITORY = ''1.3.6.1.4.1.57264.1.5''"

definition BUILD_SIGNER_URI :: str where "BUILD_SIGNER_URI = ''1.3.6.1.4.1.57264.1.9''"

definition SOURCE_REPOSITORY_URI :: str where "SOURCE_REPOSITORY_URI = ''1.3.6.1.4.1.57264.1.12''"

lemmas fulcio_oids =
  OIDC_ISSUER_V1_def OIDC_ISSUER_V2_def GITHUB_WORKFLOW_REPOSITORY_def BUILD_SIGNER_URI_def
  SOURCE_REPOSITORY_URI_def

definition ID_KP_CODE_SIGNING :: str where "ID_KP_CODE_SIGNING = ''1.3.6.1.5.5.7.3.3''"

section \<open>Usage\<close>

definition validate_certificate_extensions :: "sig_cert \<Rightarrow> unit res" where
  "validate_certificate_extensions cert =
     try_bind (map_err (\<lambda>e. sig_err ''Failed to parse KeyUsage extension'') (c_key_usage cert)) (\<lambda>ku.
     try_bind (ok_or (sig_err ''Certificate missing KeyUsage extension'') ku) (\<lambda>digital_signature.
     if \<not> digital_signature then Inl (sig_err ''Certificate KeyUsage does not include digitalSignature'')
     else
     try_bind (map_err (\<lambda>e. sig_err ''Failed to parse ExtendedKeyUsage extension'') (c_ext_key_usage cert)) (\<lambda>eku.
     try_bind (ok_or (sig_err ''Certificate missing ExtendedKeyUsage extension'') eku) (\<lambda>(critical, purposes).
     if ID_KP_CODE_SIGNING \<notin> set purposes
     then Inl (sig_err ''Certificate ExtendedKeyUsage does not include codeSigning'')
     else Inr ()))))"

lemma validate_certificate_extensions_Inr [result_inv]:
  "validate_certificate_extensions cert = Inr u \<longleftrightarrow>
     c_key_usage cert = Inr (Some True) \<and>
     (\<exists>critical purposes. c_ext_key_usage cert = Inr (Some (critical, purposes)) \<and> ID_KP_CODE_SIGNING \<in> set purposes)"
  by (auto simp: validate_certificate_extensions_def result_inv split: if_splits)

section \<open>Identity\<close>

text \<open>The DER string types are told by their tags 12, 22 and 19; other bytes are taken as text.\<close>

definition decode_asn1_string :: "sig_ext \<Rightarrow> bytes \<Rightarrow> str option" where
  "decode_asn1_string x bs =
     (case s_der_string x 12 bs of Some s \<Rightarrow> Some s
      | None \<Rightarrow> (case s_der_string x 22 bs of Some s \<Rightarrow> Some s
      | None \<Rightarrow> (case s_der_string x 19 bs of Some s \<Rightarrow> Some s
      | None \<Rightarrow> s_utf8 x bs)))"

text \<open>One pass of the loop over the issuer, the repository and the workflow found so far.\<close>

definition info_step :: "sig_ext \<Rightarrow> extension \<Rightarrow> str \<times> str \<times> str \<Rightarrow> str \<times> str \<times> str" where
  "info_step x ext st =
     (case decode_asn1_string x (extn_value ext) of
        None \<Rightarrow> st
      | Some value \<Rightarrow>
          (let (issuer, repository, subject_workflow) = st in
           if extn_id ext = OIDC_ISSUER_V2 then (value, repository, subject_workflow)
           else if extn_id ext = OIDC_ISSUER_V1 \<and> issuer = [] then (value, repository, subject_workflow)
           else if extn_id ext = BUILD_SIGNER_URI then (issuer, repository, value)
           else if extn_id ext = GITHUB_WORKFLOW_REPOSITORY then (issuer, value, subject_workflow)
           else if extn_id ext = SOURCE_REPOSITORY_URI \<and> repository = [] then
             (issuer,
              (case strip_prefix value ''https://github.com/'' of Some r \<Rightarrow> r | None \<Rightarrow> value),
              subject_workflow)
           else st))"

definition extract_certificate_info :: "sig_ext \<Rightarrow> sig_cert \<Rightarrow> certificate_info res" where
  "extract_certificate_info x cert =
     (let (issuer, repository, subject_workflow) =
        (case x_extensions cert of
           Some exts \<Rightarrow> fold (info_step x) exts ([], [], [])
         | None \<Rightarrow> ([], [], []))
      in if issuer = [] then Inl (sig_err ''Certificate missing required OIDC issuer extension'')
         else if repository = [] then Inl (sig_err ''Certificate missing required repository extension'')
         else if subject_workflow = [] then Inl (sig_err ''Certificate missing required workflow extension'')
         else Inr \<lparr>ci_issuer = issuer, ci_subject_workflow = subject_workflow, ci_repository = repository\<rparr>)"

lemma fulcio_oids_distinct [simp]:
  "distinct [OIDC_ISSUER_V1, OIDC_ISSUER_V2, GITHUB_WORKFLOW_REPOSITORY, BUILD_SIGNER_URI, SOURCE_REPOSITORY_URI]"
  by (simp add: fulcio_oids)

lemma info_step_apply:
  "info_step x ext (i, r, w) =
     (case decode_asn1_string x (extn_value ext) of
        None \<Rightarrow> (i, r, w)
      | Some v \<Rightarrow>
          if extn_id ext = OIDC_ISSUER_V2 \<or> extn_id ext = OIDC_ISSUER_V1 \<and> i = [] then (v, r, w)
          else if extn_id ext = BUILD_SIGNER_URI then (i, r, v)
          else if extn_id ext = GITHUB_WORKFLOW_REPOSITORY then (i, v, w)
          else if extn_id ext = SOURCE_REPOSITORY_URI \<and> r = [] then
            (i, (case strip_prefix v ''https://github.com/'' of Some s \<Rightarrow> s | None \<Rightarrow> v), w)
          else (i, r, w))"
  by (auto simp: info_step_def split: option.splits)

section \<open>Which extension an identity field comes from\<close>

text \<open>The value of the last extension with an OID that decodes; of the first non-empty one.\<close>

definition last_ext :: "sig_ext \<Rightarrow> str \<Rightarrow> extension list \<Rightarrow> str option" where
  "last_ext x oid exts =
     fold (\<lambda>e acc. if extn_id e = oid then (case decode_asn1_string x (extn_value e) of Some v \<Rightarrow> Some v | None \<Rightarrow> acc)
                   else acc) exts None"

lemma last_ext_snoc:
  "last_ext x oid (exts @ [e]) =
     (if extn_id e = oid then (case decode_asn1_string x (extn_value e) of Some v \<Rightarrow> Some v | None \<Rightarrow> last_ext x oid exts)
      else last_ext x oid exts)"
  unfolding last_ext_def by (simp split: option.split)

lemma last_ext_Nil [simp]: "last_ext x oid [] = None"
  by (simp add: last_ext_def)

lemma last_ext_Some:
  "last_ext x oid exts = Some v \<Longrightarrow>
     \<exists>e \<in> set exts. extn_id e = oid \<and> decode_asn1_string x (extn_value e) = Some v"
proof (induction exts rule: rev_induct)
  case (snoc e exts)
  then show ?case by (cases "decode_asn1_string x (extn_value e)") (auto simp: last_ext_snoc split: if_splits)
qed simp

text \<open>Where no version 2 extension occurs after a given point, version 1 cannot replace its value.\<close>

lemma fold_info_workflow:
  "snd (snd (fold (info_step x) exts ([], [], []))) =
     (case last_ext x BUILD_SIGNER_URI exts of Some v \<Rightarrow> v | None \<Rightarrow> [])"
proof (induction exts rule: rev_induct)
  case (snoc e exts)
  obtain i r w where st: "fold (info_step x) exts ([], [], []) = (i, r, w)" by (metis prod.collapse)
  show ?case
    using snoc fulcio_oids_distinct by (auto simp: st info_step_apply last_ext_snoc split: option.splits if_splits)
qed simp

text \<open>A non-empty V2 issuer wins over every V1 issuer, wherever they stand.\<close>

lemma fold_info_issuer_v2:
  "last_ext x OIDC_ISSUER_V2 exts = Some v \<Longrightarrow> v \<noteq> [] \<Longrightarrow>
     fst (fold (info_step x) exts ([], [], [])) = v"
proof (induction exts rule: rev_induct)
  case (snoc e exts)
  obtain i r w where st: "fold (info_step x) exts ([], [], []) = (i, r, w)" by (metis prod.collapse)
  show ?case
    using snoc fulcio_oids_distinct by (auto simp: st info_step_apply last_ext_snoc split: option.splits if_splits)
qed simp

lemma fold_info_repository_v1:
  "last_ext x GITHUB_WORKFLOW_REPOSITORY exts = Some v \<Longrightarrow> v \<noteq> [] \<Longrightarrow>
     fst (snd (fold (info_step x) exts ([], [], []))) = v"
proof (induction exts rule: rev_induct)
  case (snoc e exts)
  obtain i r w where st: "fold (info_step x) exts ([], [], []) = (i, r, w)" by (metis prod.collapse)
  show ?case
    using snoc fulcio_oids_distinct by (auto simp: st info_step_apply last_ext_snoc split: option.splits if_splits)
qed simp

text \<open>Every field comes from an extension of the certificate that is meant for it.\<close>

definition from_extension :: "sig_ext \<Rightarrow> extension list \<Rightarrow> str list \<Rightarrow> str \<Rightarrow> bool" where
  "from_extension x exts oids v =
     (\<exists>e \<in> set exts. extn_id e \<in> set oids \<and>
        (\<exists>raw_value. decode_asn1_string x (extn_value e) = Some raw_value \<and>
           (v = raw_value \<or> extn_id e = SOURCE_REPOSITORY_URI \<and> raw_value = ''https://github.com/'' @ v)))"

lemma from_extension_snoc: "from_extension x exts oids v \<Longrightarrow> from_extension x (exts @ [e]) oids v"
  by (auto simp: from_extension_def)

lemma fold_info_sources:
  assumes "fold (info_step x) exts ([], [], []) = (i, r, w)"
  shows "(i = [] \<or> from_extension x exts [OIDC_ISSUER_V1, OIDC_ISSUER_V2] i) \<and>
    (r = [] \<or> from_extension x exts [GITHUB_WORKFLOW_REPOSITORY, SOURCE_REPOSITORY_URI] r) \<and>
    (w = [] \<or> from_extension x exts [BUILD_SIGNER_URI] w)"
  using assms
proof (induction exts arbitrary: i r w rule: rev_induct)
  case (snoc e exts)
  obtain i' r' w' where st: "fold (info_step x) exts ([], [], []) = (i', r', w')" by (metis prod.collapse)
  note IH = snoc.IH [OF st]
  have new: "from_extension x (exts @ [e]) oids v"
    if "extn_id e \<in> set oids" "decode_asn1_string x (extn_value e) = Some v" for oids v
    using that by (auto simp: from_extension_def)
  have stripped: "from_extension x (exts @ [e]) oids v"
    if "SOURCE_REPOSITORY_URI \<in> set oids" "extn_id e = SOURCE_REPOSITORY_URI"
      "decode_asn1_string x (extn_value e) = Some u" "strip_prefix u ''https://github.com/'' = Some v" for oids v u
    using that by (auto simp: from_extension_def strip_prefix_Some_iff)
  show ?case
    using snoc.prems IH new stripped
    by (auto simp: st info_step_apply intro: from_extension_snoc split: option.splits if_splits)
qed simp

end
