(* ===== verification/Dsse.thy ===== *)
theory Dsse
  imports Transparency Certificate_Info Fulcio
begin

text \<open>
  \<open>sigstore/dsse.rs\<close>: the pre-authentication encoding, the envelope signature by the key of the
  signing certificate, and the embedded certificate timestamps.
\<close>

section \<open>Pre-authentication encoding\<close>

abbreviation sp :: bytes where "sp \<equiv> as_bytes '' ''"

definition compute_pae :: "str \<Rightarrow> bytes \<Rightarrow> bytes" where
  "compute_pae payload_type payload =
     as_bytes ''DSSEv1'' @ sp @ as_bytes (dec_str (length payload_type)) @ sp @ as_bytes payload_type
     @ sp @ as_bytes (dec_str (length payload)) @ sp @ payload"

section \<open>Certificate timestamps\<close>

text \<open>Each timestamp is tried in turn; the first that verifies is enough.\<close>

fun try_scts :: "sig_ext \<Rightarrow> keyring \<Rightarrow> nat \<Rightarrow> sct_error option \<Rightarrow> embedded_sct list \<Rightarrow> unit res" where
  "try_scts x kr n last_err [] =
     Inl (sig_err (''No valid SCT found ('' @ dec_str n @ '' SCTs checked). Last error: '' @
       (case last_err of Some e \<Rightarrow> sct_error_str e | None \<Rightarrow> ''none'')))"
| "try_scts x kr n last_err (e # es) =
     try_bind (verify_embedded_sct x e kr) (\<lambda>r.
     case r of Inr u \<Rightarrow> Inr () | Inl err \<Rightarrow> try_scts x kr n (Some err) es)"

definition dsse_verify_sct :: "sig_ext \<Rightarrow> bytes \<Rightarrow> bytes \<Rightarrow> unit res" where
  "dsse_verify_sct x cert_der issuer_spki_der =
     try_bind (ok_or (sig_err ''Failed to parse certificate for SCT'') (s_cert x cert_der)) (\<lambda>cert.
     try_bind (map_err (\<lambda>e. sig_err (''Failed to extract SCTs: '' @ sct_error_str e))
         (all_from_cert x cert issuer_spki_der)) (\<lambda>all_scts.
     if \<not> distinct (map es_log_id all_scts)
     then Inl (sig_err ''Duplicate SCT found (same log ID)'')
     else
     try_bind (load_ctlog_keyring x) (\<lambda>ct_keyring.
     try_scts x ct_keyring (length all_scts) None all_scts)))"

section \<open>The envelope signature\<close>

definition parse_signature :: "sig_ext \<Rightarrow> bytes \<Rightarrow> bytes res" where
  "parse_signature x signature_bytes =
     (if starts_with signature_bytes [0x30]
      then ok_or (sig_err ''Invalid DER signature'') (s_p256_sig_der x signature_bytes)
      else ok_or (sig_err ''Invalid raw signature'') (s_p256_sig_raw x signature_bytes))"

definition verify_dsse_signature :: "sig_ext \<Rightarrow> json \<Rightarrow> unit res" where
  "verify_dsse_signature x bundle =
     try_bind (bundle_cert x bundle) (\<lambda>(cert_der, cert).
     try_bind (validate_certificate_extensions cert) (\<lambda>_.
     try_bind (find_issuer_spki x cert) (\<lambda>issuer_spki_der.
     try_bind (dsse_verify_sct x cert_der issuer_spki_der) (\<lambda>_.
     try_bind (ok_or (sig_err ''Invalid public key'') (s_p256_sec1 x (x_public_key cert))) (\<lambda>verifying_key.
     try_bind (ok_or (sig_err ''No dsseEnvelope in bundle'') (jget bundle ''dsseEnvelope'')) (\<lambda>dsse.
     try_bind (ok_or (sig_err ''No payloadType'') (jstr dsse [''payloadType''])) (\<lambda>payload_type.
     try_bind (ok_or (sig_err ''No payload'') (jstr dsse [''payload''])) (\<lambda>payload_b64.
     try_bind (ok_or (sig_err ''No signatures array in DSSE envelope'') (jarray dsse [''signatures''])) (\<lambda>sgs.
     if length sgs \<noteq> 1
     then Inl (sig_err (''DSSE envelope must have exactly 1 signature, got '' @ dec_str (length sgs)))
     else
     try_bind (index_at sgs 0) (\<lambda>sg0.
     try_bind (ok_or (sig_err ''No sig field in DSSE signature'') (jstr sg0 [''sig''])) (\<lambda>signature_b64.
     try_bind (decode_b64 x ''Failed to decode payload'' payload_b64) (\<lambda>payload.
     let pae = compute_pae payload_type payload in
     try_bind (decode_b64 x ''Failed to decode signature'' signature_b64) (\<lambda>signature_bytes.
     try_bind (parse_signature x signature_bytes) (\<lambda>signature.
     if s_p256_verify x verifying_key pae signature then Inr ()
     else Inl (sig_err ''DSSE signature verification failed'')))))))))))))))"

section \<open>The encoding is unambiguous\<close>

lemma sep_append_inject:
  "c \<notin> set a \<Longrightarrow> c \<notin> set b \<Longrightarrow> a @ c # r = b @ c # s \<longleftrightarrow> a = b \<and> r = s"
  by (metis option.inject prod.inject split_once_Some_iff)

lemma space_not_in_length: "as_bytes '' '' = [w] \<Longrightarrow> w \<notin> set (as_bytes (dec_str n))"
proof -
  assume w: "as_bytes '' '' = [w]"
  have "CHR '' '' \<notin> set (dec_str n)" by (rule dec_str_no_sep) (simp add: is_ascii_digit_def)
  moreover have "char_of (unat w) = CHR '' ''"
    using from_as_bytes [of "'' ''"] unfolding w by (simp add: from_bytes_def)
  moreover have "char_of (unat b) \<in> set d" if "b \<in> set (as_bytes d)" for b d
    using that by (auto simp: as_bytes_def)
  ultimately show ?thesis by metis
qed

text \<open>
  The pre-authentication encoding is injective: what is signed determines both the payload type
  and the payload, so no signature of one pair can be passed off for another, whatever bytes they hold.
\<close>

theorem pae_inject: "compute_pae t p = compute_pae t' p' \<longleftrightarrow> t = t' \<and> p = p'"
proof
  assume eq: "compute_pae t p = compute_pae t' p'"
  obtain w where w: "as_bytes '' '' = [w]" by (simp add: as_bytes_def)
  note inj = sep_append_inject [OF space_not_in_length [OF w] space_not_in_length [OF w]]
  have "dec_str (length t) = dec_str (length t') \<and>
      as_bytes t @ w # as_bytes (dec_str (length p)) @ w # p = as_bytes t' @ w # as_bytes (dec_str (length p')) @ w # p'"
    using eq by (simp add: compute_pae_def w inj)
  then have "t = t'" "as_bytes (dec_str (length p)) @ w # p = as_bytes (dec_str (length p')) @ w # p'"
    by (auto simp: append_eq_append_conv)
  then show "t = t' \<and> p = p'" by (simp add: inj)
qed simp

section \<open>What an accepted envelope shows\<close>

lemma try_scts_Inr:
  "try_scts x kr n last_err es = Inr () \<Longrightarrow> \<exists>e \<in> set es. sct_signed x e kr"
proof (induction es arbitrary: last_err)
  case (Cons a es)
  then obtain r where r: "verify_embedded_sct x a kr = Inr r"
      "(case r of Inr u \<Rightarrow> Inr u | Inl err \<Rightarrow> try_scts x kr n (Some err) es) = Inr ()"
    by (auto simp: result_inv)
  then show ?case using Cons.IH by (cases r) (auto simp: verify_embedded_sct_Inr)
qed simp

lemma all_from_cert_Inr:
  "all_from_cert x cert spki = Inr es \<Longrightarrow> e \<in> set es \<Longrightarrow>
     es_cert e = cert \<and> es_issuer_id e = s_sha256 x spki"
  by (auto simp: all_from_cert_def result_inv split: if_splits)

definition dsse_signed :: "sig_ext \<Rightarrow> sig_cert \<Rightarrow> str \<Rightarrow> bytes \<Rightarrow> bytes \<Rightarrow> bool" where
  "dsse_signed x cert payload_type payload signature_bytes =
     (\<exists>key sg. s_p256_sec1 x (x_public_key cert) = Some key \<and> parse_signature x signature_bytes = Inr sg \<and>
        s_p256_verify x key (compute_pae payload_type payload) sg)"

text \<open>A certificate whose embedded timestamp some known CT log signed while its key was valid.\<close>

definition ct_logged :: "sig_ext \<Rightarrow> sig_cert \<Rightarrow> bytes \<Rightarrow> bool" where
  "ct_logged x cert issuer_spki =
     (\<exists>kr e. load_ctlog_keyring x = Inr kr \<and> es_cert e = cert \<and> es_issuer_id e = s_sha256 x issuer_spki \<and>
        sct_signed x e kr)"

lemma dsse_verify_sct_Inr:
  "dsse_verify_sct x der spki = Inr () \<Longrightarrow> s_cert x der = Some cert \<Longrightarrow> ct_logged x cert spki"
  unfolding dsse_verify_sct_def ct_logged_def
  by (fastforce simp: result_inv dest!: try_scts_Inr dest: all_from_cert_Inr)

lemma verify_dsse_signature_Inr:
  assumes "verify_dsse_signature x bundle = Inr ()"
  obtains der cert spki ty p64 s64 payload sg item where
    "bundle_cert_der x bundle = Inr der" "s_cert x der = Some cert"
    "validate_certificate_extensions cert = Inr ()" "find_issuer_spki x cert = Inr spki"
    "ct_logged x cert spki"
    "jstr bundle [''dsseEnvelope'', ''payloadType''] = Some ty"
    "jstr bundle [''dsseEnvelope'', ''payload''] = Some p64" "s_b64_decode x p64 = Some payload"
    "jarray bundle [''dsseEnvelope'', ''signatures''] = Some [item]"
    "jstr item [''sig''] = Some s64" "s_b64_decode x s64 = Some sg"
    "dsse_signed x cert ty payload sg"
proof -
  have path: "jstr bundle (''dsseEnvelope'' # ks) = jstr d ks" "jarray bundle (''dsseEnvelope'' # ks) = jarray d ks"
    if "jget bundle ''dsseEnvelope'' = Some d" for d ks
    using that by (simp_all add: jstr_def jarray_def)
  show thesis
    using assms unfolding verify_dsse_signature_def Let_def
    by (auto simp: result_inv length_Suc_conv dsse_signed_def path intro!: that dest: dsse_verify_sct_Inr split: if_splits)
qed

end
