(* ===== verification/Checkpoint.thy ===== *)
theory Checkpoint
  imports Sigstore_Base
begin

text \<open>
  \<open>sigstore/checkpoint.rs\<close>: the signed note format of a log's tree head, its parsing and
  printing, and the verification of its signature lines. The root hash \<open>[u8; 32]\<close> is a
  \<open>digest\<close>.
\<close>

datatype other_content = KeyValue str str | Value str

record checkpoint =
  origin :: str
  cp_size :: u64
  cp_hash :: digest
  other_content :: "other_content list"

record checkpoint_signature =
  key_fingerprint :: bytes
  raw :: bytes
  sig_name :: str

record signed_checkpoint =
  cp_note :: checkpoint
  signatures :: "checkpoint_signature list"

definition newline :: char where "newline = CHR 0x0A"

definition em_dash :: str where "em_dash = [CHR 0xE2, CHR 0x80, CHR 0x94]"

section \<open>The note\<close>

fun show_other :: "other_content \<Rightarrow> str" where
  "show_other (KeyValue k v) = k @ '': '' @ v"
| "show_other (Value v) = v"

definition marshal :: "sig_ext \<Rightarrow> checkpoint \<Rightarrow> str" where
  "marshal x cp =
     origin cp @ [newline] @ dec_str (unat (cp_size cp)) @ [newline]
     @ s_b64_encode x (digest_bytes (cp_hash cp)) @ [newline]
     @ concat (map (\<lambda>c. show_other c @ [newline]) (other_content cp))"

definition parse_other :: "str \<Rightarrow> other_content" where
  "parse_other s = (case split_once_str '': '' s of Some (k, v) \<Rightarrow> KeyValue k v | None \<Rightarrow> Value s)"

definition decode_root :: "sig_ext \<Rightarrow> str \<Rightarrow> digest res" where
  "decode_root x hash_b64 =
     try_bind (decode_b64 x ''Failed to decode checkpoint root hash'' hash_b64) (\<lambda>v.
     if length v = 32 then Inr (digest_from_bytes v)
     else Inl (sig_err ''Checkpoint root hash is not 32 bytes''))"

definition unmarshal :: "sig_ext \<Rightarrow> str \<Rightarrow> checkpoint res" where
  "unmarshal x s =
     (case split_on newline s of
        org # size_str # hash_b64 # rest \<Rightarrow>
          if trim org = [] then Inl (sig_err ''Checkpoint origin string must not be empty'')
          else
          try_bind (ok_or (sig_err ''Checkpoint size is not a valid decimal number'') (parse_u64 size_str)) (\<lambda>sz.
          try_bind (decode_root x hash_b64) (\<lambda>h.
          Inr \<lparr>origin = org, cp_size = sz, cp_hash = h,
               other_content = map parse_other (filter (\<lambda>l. l \<noteq> []) rest)\<rparr>))
      | _ \<Rightarrow> Inl (sig_err ''Checkpoint note not in expected format''))"

section \<open>Signature lines\<close>

definition encode_sig :: "sig_ext \<Rightarrow> checkpoint_signature \<Rightarrow> str" where
  "encode_sig x s =
     em_dash @ '' '' @ sig_name s @ '' '' @ s_b64_encode x (key_fingerprint s @ raw s) @ [newline]"

definition trim_newlines :: "str \<Rightarrow> str" where
  "trim_newlines s = rev (dropWhile (\<lambda>c. c = newline) (rev (dropWhile (\<lambda>c. c = newline) s)))"

definition decode_sig :: "sig_ext \<Rightarrow> str \<Rightarrow> checkpoint_signature res" where
  "decode_sig x line =
     (let s = trim_newlines line in
      if \<not> starts_with s em_dash then Inl (sig_err ''Checkpoint signature line missing em dash'')
      else case split_on (CHR '' '') s of
        [_, nm, sig_b64] \<Rightarrow>
          try_bind (decode_b64 x ''Failed to decode checkpoint signature'' (trim_end sig_b64)) (\<lambda>sg.
          if length sg < 4
          then Inl (sig_err ''Checkpoint signature too short for key fingerprint'')
          else Inr \<lparr>key_fingerprint = take 4 sg, raw = drop 4 sg, sig_name = nm\<rparr>)
      | _ \<Rightarrow> Inl (sig_err ''Unexpected checkpoint signature format''))"

section \<open>The signed checkpoint\<close>

definition trim_quotes :: "str \<Rightarrow> str" where
  "trim_quotes s = rev (dropWhile (\<lambda>c. c = CHR 0x22) (rev (dropWhile (\<lambda>c. c = CHR 0x22) s)))"

definition decode_checkpoint :: "sig_ext \<Rightarrow> str \<Rightarrow> signed_checkpoint res" where
  "decode_checkpoint x s =
     (case split_once_str [newline, newline] (trim_quotes s) of
        None \<Rightarrow> Inl (sig_err ''Invalid checkpoint format: missing signature section'')
      | Some (nt, sigs) \<Rightarrow>
          try_bind (try_map (decode_sig x) (filter (\<lambda>l. trim l \<noteq> []) (lines sigs))) (\<lambda>sgs.
          if sgs = [] then Inl (sig_err ''Checkpoint has no signatures'')
          else try_bind (unmarshal x nt) (\<lambda>cp.
          Inr \<lparr>cp_note = cp, signatures = sgs\<rparr>)))"

definition encode_checkpoint :: "sig_ext \<Rightarrow> signed_checkpoint \<Rightarrow> str" where
  "encode_checkpoint x sc =
     (let nt = marshal x (cp_note sc) @ [newline];
          sigs = join [newline] (map (encode_sig x) (signatures sc))
      in nt @ [newline] @ sigs)"

section \<open>Signatures of a log key\<close>

definition verify_ecdsa_p256 :: "sig_ext \<Rightarrow> bytes \<Rightarrow> bytes \<Rightarrow> bytes \<Rightarrow> unit res" where
  "verify_ecdsa_p256 x message signature key_der =
     try_bind (ok_or (sig_err ''Invalid Rekor ECDSA public key'') (s_p256_spki x key_der)) (\<lambda>key.
     try_bind (ok_or (sig_err ''Invalid ECDSA signature format'') (s_p256_sig_der x signature)) (\<lambda>sg.
     if s_p256_verify x key message sg then Inr ()
     else Inl (sig_err ''Checkpoint ECDSA signature verification failed'')))"

definition verify_ed25519 :: "sig_ext \<Rightarrow> bytes \<Rightarrow> bytes \<Rightarrow> bytes \<Rightarrow> unit res" where
  "verify_ed25519 x message signature key_der =
     (if length signature < 64 then Inl (sig_err ''Ed25519 checkpoint signature too short'')
      else try_bind (slice 0 64 signature) (\<lambda>sig_bytes.
        if length key_der < 44 then Inl (sig_err ''Invalid Ed25519 SPKI key length'')
        else try_bind (slice_from (length key_der - 32) key_der) (\<lambda>raw_key.
        try_bind (ok_or (sig_err ''Invalid Rekor Ed25519 public key'') (s_ed25519_key x raw_key)) (\<lambda>key.
        try_bind (ok_or (sig_err ''Invalid Ed25519 signature format'') (s_ed25519_sig x sig_bytes)) (\<lambda>sg.
        if s_ed25519_verify x key message sg then Inr ()
        else Inl (sig_err ''Checkpoint Ed25519 signature verification failed''))))))"

definition verify_log_signature :: "sig_ext \<Rightarrow> bytes \<Rightarrow> bytes \<Rightarrow> bytes \<Rightarrow> str \<Rightarrow> unit res" where
  "verify_log_signature x message signature key_der key_type =
     (if key_type = ''PKIX_ECDSA_P256_SHA_256'' then verify_ecdsa_p256 x message signature key_der
      else if key_type = ''PKIX_ED25519'' then verify_ed25519 x message signature key_der
      else Inl (sig_err (''Unsupported Rekor key type: '' @ key_type)))"

text \<open>\<open>log_id.get(..4)\<close> is \<open>None\<close> for a log id of fewer than four bytes.\<close>

definition key_hint :: "bytes \<Rightarrow> bytes option" where
  "key_hint log_id = (if 4 \<le> length log_id then Some (take 4 log_id) else None)"

definition verify_signature ::
  "sig_ext \<Rightarrow> signed_checkpoint \<Rightarrow> bytes \<Rightarrow> str \<Rightarrow> str \<Rightarrow> bytes \<Rightarrow> unit res" where
  "verify_signature x sc key_der key_type nm log_id =
     (let message_bytes = as_bytes (marshal x (cp_note sc)) in
      if list_ex (\<lambda>sg. sig_name sg = nm \<and> key_hint log_id = Some (key_fingerprint sg) \<and>
            is_ok (verify_log_signature x message_bytes (raw sg) key_der key_type)) (signatures sc)
      then Inr () else Inl (sig_err (''No valid checkpoint signature found for log '' @ nm @ '' (key hint '' @
             s_hex x (case key_hint log_id of Some h \<Rightarrow> h | None \<Rightarrow> []) @ '')'')))"

section \<open>What the base64 engine is relied on for\<close>

text \<open>
  Decoding undoes encoding, and the encoding is printable ASCII without blanks that is not empty
  unless the input is.
\<close>

definition b64_codec :: "sig_ext \<Rightarrow> bool" where
  "b64_codec x =
     (\<forall>b. s_b64_decode x (s_b64_encode x b) = Some b \<and> list_all is_graphic (s_b64_encode x b) \<and>
          (b \<noteq> [] \<longrightarrow> s_b64_encode x b \<noteq> []))"

lemma b64_codecD:
  assumes "b64_codec x"
  shows "s_b64_decode x (s_b64_encode x b) = Some b"
    and "newline \<notin> set (s_b64_encode x b)" and "CHR '' '' \<notin> set (s_b64_encode x b)"
    and "b \<noteq> [] \<Longrightarrow> s_b64_encode x b \<noteq> [] \<and> is_graphic (last (s_b64_encode x b))"
proof -
  have g: "list_all is_graphic (s_b64_encode x b)" using assms by (simp add: b64_codec_def)
  show "s_b64_decode x (s_b64_encode x b) = Some b" using assms by (simp add: b64_codec_def)
  show "newline \<notin> set (s_b64_encode x b)" "CHR '' '' \<notin> set (s_b64_encode x b)"
    using g by (auto simp: list_all_iff is_graphic_def newline_def)
  show "s_b64_encode x b \<noteq> [] \<and> is_graphic (last (s_b64_encode x b))" if "b \<noteq> []"
  proof -
    have "s_b64_encode x b \<noteq> []" using that assms by (simp add: b64_codec_def)
    then show ?thesis using g by (simp add: list_all_iff)
  qed
qed

section \<open>The note round trip\<close>

fun wf_other :: "other_content \<Rightarrow> bool" where
  "wf_other (KeyValue k v) = (newline \<notin> set k \<and> newline \<notin> set v \<and> \<not> contains k '': '')"
| "wf_other (Value v) = (v \<noteq> [] \<and> newline \<notin> set v \<and> \<not> contains v '': '')"

definition wf_checkpoint :: "checkpoint \<Rightarrow> bool" where
  "wf_checkpoint cp =
     (newline \<notin> set (origin cp) \<and> trim (origin cp) \<noteq> [] \<and> list_all wf_other (other_content cp))"

definition note_lines :: "sig_ext \<Rightarrow> checkpoint \<Rightarrow> str list" where
  "note_lines x cp =
     origin cp # dec_str (unat (cp_size cp)) # s_b64_encode x (digest_bytes (cp_hash cp))
     # map show_other (other_content cp)"

lemma marshal_lines: "marshal x cp = concat (map (\<lambda>l. l @ [newline]) (note_lines x cp))"
  by (simp add: marshal_def note_lines_def comp_def)

lemma split_once_str_key:
  "\<not> contains k '': '' \<Longrightarrow> split_once_str '': '' (k @ '': '' @ v) = Some (k, v)"
proof (induction k)
  case (Cons c k)
  have "\<not> starts_with (c # k) '': ''" using Cons.prems by (auto simp: contains_def split: if_splits)
  then have "\<not> starts_with ((c # k) @ '': '' @ v) '': ''"
    by (cases k) (auto simp: starts_with_def)
  moreover have "\<not> contains k '': ''" using Cons.prems by (auto simp: contains_def split: if_splits)
  ultimately show ?case using Cons.IH by simp
qed (simp add: starts_with_def)

lemma parse_show_other [simp]: "wf_other c \<Longrightarrow> parse_other (show_other c) = c"
proof (cases c)
  case (KeyValue k v)
  assume "wf_other c"
  then show ?thesis using KeyValue split_once_str_key [of k v] by (simp add: parse_other_def)
next
  case (Value v)
  assume "wf_other c"
  then show ?thesis using Value by (simp add: parse_other_def contains_def split: option.splits)
qed

lemma show_other_line [simp]: "wf_other c \<Longrightarrow> show_other c \<noteq> [] \<and> newline \<notin> set (show_other c)"
  by (cases c) (auto simp: newline_def)

lemma split_on_lines:
  "(\<And>l. l \<in> set ls \<Longrightarrow> c \<notin> set l) \<Longrightarrow> split_on c (concat (map (\<lambda>l. l @ [c]) ls)) = ls @ [[]]"
  by (induction ls) (auto simp: split_on_append)

lemma note_lines_wf:
  assumes "wf_checkpoint cp" "b64_codec x" "l \<in> set (note_lines x cp)"
  shows "newline \<notin> set l \<and> l \<noteq> []"
proof -
  have "newline \<notin> set (dec_str n)" for n
    by (rule dec_str_no_sep) (simp add: is_ascii_digit_def newline_def)
  moreover have "digest_bytes (cp_hash cp) \<noteq> []"
    using length_digest_bytes [of "cp_hash cp"] by (auto simp del: length_digest_bytes)
  moreover have "trim [] = []" by (simp add: trim_graphic)
  ultimately show ?thesis
    using assms b64_codecD [OF assms(2)] dec_str_props(3)
    by (auto simp: note_lines_def wf_checkpoint_def list_all_iff)
qed

lemma unmarshal_lines:
  assumes wf: "wf_checkpoint cp" and codec: "b64_codec x"
    and s: "split_on newline s = note_lines x cp @ rest" "filter (\<lambda>l. l \<noteq> []) rest = []"
  shows "unmarshal x s = Inr cp"
proof -
  have other: "map (parse_other \<circ> show_other) (other_content cp) = other_content cp"
    using wf by (intro map_idI) (auto simp: wf_checkpoint_def list_all_iff)
  have "filter (\<lambda>l. l \<noteq> []) (map show_other (other_content cp)) = map show_other (other_content cp)"
    using wf by (intro filter_True) (auto simp: wf_checkpoint_def list_all_iff)
  then show ?thesis
    using s b64_codecD(1) [OF codec] wf other
    by (simp add: unmarshal_def note_lines_def decode_root_def decode_b64_def parse_u64_dec_str
        wf_checkpoint_def Let_def)
qed

lemma unmarshal_marshal:
  assumes "wf_checkpoint cp" "b64_codec x"
  shows "unmarshal x (marshal x cp) = Inr cp"
  using note_lines_wf [OF assms] unmarshal_lines [OF assms, of "marshal x cp" "[[]]"]
  by (simp add: marshal_lines split_on_lines)

lemma marshal_inject:
  "\<lbrakk>b64_codec x; wf_checkpoint cp; wf_checkpoint cp'; marshal x cp = marshal x cp'\<rbrakk> \<Longrightarrow> cp = cp'"
  by (metis unmarshal_marshal sum.inject(2))

text \<open>What the parser returns is well-formed.\<close>

lemma parse_other_wf: "l \<noteq> [] \<Longrightarrow> newline \<notin> set l \<Longrightarrow> wf_other (parse_other l)"
proof (cases "split_once_str '': '' l")
  case None
  assume "l \<noteq> []" "newline \<notin> set l"
  then show ?thesis using None by (simp add: parse_other_def contains_def)
next
  case (Some kv)
  obtain k v where kv: "kv = (k, v)" by (cases kv)
  assume "newline \<notin> set l"
  moreover have "l = k @ '': '' @ v" "split_once_str '': '' k = None"
    using Some kv split_once_str_Some split_once_str_minimal by blast+
  ultimately show ?thesis using Some kv by (simp add: parse_other_def contains_def)
qed

lemma unmarshal_wf: "unmarshal x s = Inr cp \<Longrightarrow> wf_checkpoint cp"
proof -
  assume u: "unmarshal x s = Inr cp"
  obtain org sz hash ls where ps: "split_on newline s = org # sz # hash # ls"
    using u by (auto simp: unmarshal_def split: list.splits)
  have cp: "origin cp = org" "trim org \<noteq> []"
      "other_content cp = map parse_other (filter (\<lambda>l. l \<noteq> []) ls)"
    using u by (auto simp: unmarshal_def ps result_inv split: if_splits)
  have no: "newline \<notin> set l" if "l \<in> set (org # ls)" for l
    using that split_on_pieces [of l newline s] ps by auto
  have "wf_other (parse_other l)" if "l \<in> set ls" "l \<noteq> []" for l
    using that no by (auto intro: parse_other_wf)
  then show ?thesis using cp no by (auto simp: wf_checkpoint_def list_all_iff)
qed

section \<open>The signature line round trip\<close>

definition wf_sig :: "checkpoint_signature \<Rightarrow> bool" where
  "wf_sig s = (newline \<notin> set (sig_name s) \<and> CHR '' '' \<notin> set (sig_name s) \<and> length (key_fingerprint s) = 4)"

definition sig_line :: "sig_ext \<Rightarrow> checkpoint_signature \<Rightarrow> str" where
  "sig_line x s = em_dash @ '' '' @ sig_name s @ '' '' @ s_b64_encode x (key_fingerprint s @ raw s)"

lemma encode_sig_line: "encode_sig x s = sig_line x s @ [newline]"
  by (simp add: encode_sig_def sig_line_def)

lemma sig_line_props:
  assumes "wf_sig s" "b64_codec x"
  shows "newline \<notin> set (sig_line x s)" "is_graphic (last (sig_line x s))" "sig_line x s \<noteq> []"
    "hd (sig_line x s) = CHR 0xE2"
proof -
  have ne: "key_fingerprint s @ raw s \<noteq> []" using assms(1) by (auto simp: wf_sig_def)
  note b = b64_codecD(2) [OF assms(2), of "key_fingerprint s @ raw s"]
    b64_codecD(4) [OF assms(2) ne]
  show "newline \<notin> set (sig_line x s)"
    using assms(1) b by (auto simp: sig_line_def wf_sig_def newline_def em_dash_def)
  show "is_graphic (last (sig_line x s))" "sig_line x s \<noteq> []" "hd (sig_line x s) = CHR 0xE2"
    using b by (auto simp: sig_line_def em_dash_def)
qed

lemma trim_newlines_id:
  "hd s \<noteq> newline \<Longrightarrow> last s \<noteq> newline \<Longrightarrow> s \<noteq> [] \<Longrightarrow> trim_newlines (s @ replicate n newline) = s"
proof -
  assume a: "hd s \<noteq> newline" "last s \<noteq> newline" "s \<noteq> []"
  have r: "dropWhile (\<lambda>c. c = newline) (replicate n newline @ t) = dropWhile (\<lambda>c. c = newline) t" for t
    by (induction n) simp_all
  have "dropWhile (\<lambda>c. c = newline) (s @ t) = s @ t" for t
    using a by (cases s) simp_all
  moreover have "dropWhile (\<lambda>c. c = newline) (rev s) = rev s"
    using a by (simp add: dropWhile_eq_self_iff hd_rev)
  ultimately show ?thesis by (simp add: trim_newlines_def r)
qed

lemma decode_sig_line:
  assumes "wf_sig s" "b64_codec x"
  shows "decode_sig x (sig_line x s @ replicate n newline) = Inr s"
proof -
  let ?b = "s_b64_encode x (key_fingerprint s @ raw s)"
  have ne: "key_fingerprint s @ raw s \<noteq> []" using assms(1) by (auto simp: wf_sig_def)
  note b = b64_codecD [OF assms(2), of "key_fingerprint s @ raw s"]
  have "last (sig_line x s) \<noteq> newline"
    using sig_line_props(2) [OF assms] by (auto simp: is_graphic_def newline_def)
  then have t: "trim_newlines (sig_line x s @ replicate n newline) = sig_line x s"
    using sig_line_props(3,4) [OF assms] by (intro trim_newlines_id) (auto simp: newline_def)
  have "split_on CHR '' '' (sig_line x s) = [em_dash, sig_name s, ?b]"
    using assms(1) b(3)
    by (simp add: sig_line_def wf_sig_def split_on_append split_on_no_sep em_dash_def)
  moreover have "starts_with (sig_line x s) em_dash" by (simp add: sig_line_def)
  moreover have "trim_end ?b = ?b" using b(4) [OF ne] by (intro trim_end_graphic) auto
  ultimately show ?thesis
    using t b(1) assms(1) by (simp add: decode_sig_def decode_b64_def wf_sig_def Let_def)
qed

section \<open>The signed checkpoint round trip\<close>

lemma split_once_blank:
  assumes "\<And>l. l \<in> set ls \<Longrightarrow> c \<notin> set l \<and> l \<noteq> []" "ls \<noteq> []"
  shows "split_once_str [c, c] (join [c] ls @ c # c # t) = Some (join [c] ls, t)"
  using assms
proof (induction ls)
  case (Cons l ls)
  show ?case
  proof (cases ls)
    case Nil
    then show ?thesis
      using Cons.prems by (simp add: join_def split_once_str_skip starts_with_def)
  next
    case (Cons l' ls')
    have "join [c] (l # ls) = l @ c # join [c] ls" using Cons by (simp add: join_def)
    moreover obtain d w where "l' = d # w" "d \<noteq> c"
      using Cons.prems(1) [of l'] Cons by (cases l') auto
    moreover have "join [c] ls = l' @ concat (map ((@) [c]) ls')" using Cons by (simp add: join_def)
    ultimately show ?thesis
      using Cons.IH Cons.prems Cons by (simp add: split_once_str_skip starts_with_def)
  qed
qed simp

lemma lines_concat:
  assumes "P [] = False" and "\<And>b. b \<in> set bs \<Longrightarrow> newline \<notin> set b \<and> b \<noteq> [] \<and> last b \<noteq> CHR 0x0D \<and> P b"
  shows "filter P (lines (newline # join [newline] (map (\<lambda>b. b @ [newline]) bs))) = bs"
proof -
  define ps where "ps = concat (map (\<lambda>b. [[], b]) bs)"
  have "concat (map (\<lambda>l. l @ [newline]) (concat (map (\<lambda>b. [[], b]) cs))) =
      concat (map (\<lambda>b. newline # b @ [newline]) cs)" for cs
    by (induction cs) simp_all
  then have "newline # join [newline] (map (\<lambda>b. b @ [newline]) bs) = concat (map (\<lambda>l. l @ [newline]) (if bs = [] then [[]] else ps))"
    by (cases bs) (simp_all add: join_def ps_def comp_def)
  moreover have "newline \<notin> set l" if "l \<in> set (if bs = [] then [[]] else ps)" for l
    using that assms(2) by (auto simp: ps_def split: if_splits)
  ultimately have "lines (newline # join [newline] (map (\<lambda>b. b @ [newline]) bs)) =
      map strip_cr (if bs = [] then [[]] else ps)"
    using split_on_lines [of "if bs = [] then [[]] else ps" newline]
    by (simp add: lines_def newline_def Let_def)
  moreover have "filter P (map strip_cr ps) = bs"
    unfolding ps_def using assms by (induction bs) (auto simp: strip_cr_def)
  ultimately show ?thesis using assms(1) by (simp add: strip_cr_def)
qed

definition wf_signed :: "signed_checkpoint \<Rightarrow> bool" where
  "wf_signed sc =
     (wf_checkpoint (cp_note sc) \<and> hd (origin (cp_note sc)) \<noteq> CHR 0x22 \<and>
      signatures sc \<noteq> [] \<and> list_all wf_sig (signatures sc))"

lemma trim_quotes_id: "s \<noteq> [] \<Longrightarrow> hd s \<noteq> CHR 0x22 \<Longrightarrow> last s \<noteq> CHR 0x22 \<Longrightarrow> trim_quotes s = s"
  by (simp add: trim_quotes_def dropWhile_eq_self_iff [THEN iffD2] hd_rev)

lemma trim_sig_line:
  assumes "hd s = CHR 0xE2" "s = em_dash @ t" "is_graphic (last s)"
  shows "trim s \<noteq> []"
proof -
  have "find (\<lambda>p. starts_with s p) white_space = None"
    using assms(2) by (simp add: white_space_def em_dash_def starts_with_def)
  then have "trim_start s = s" using assms(2) by (cases "length s") (simp_all add: trim_start_def)
  then show ?thesis using assms(2,3) by (simp add: trim_def trim_end_graphic em_dash_def)
qed

lemma encode_checkpoint_lines:
  "encode_checkpoint x sc =
     join [newline] (note_lines x (cp_note sc)) @ newline # newline
     # newline # join [newline] (map (\<lambda>l. l @ [newline]) (map (sig_line x) (signatures sc)))"
proof -
  have j: "concat (map (\<lambda>l. l @ [newline]) (l # ls)) = join [newline] (l # ls) @ [newline]" for l :: str and ls
    by (induction ls arbitrary: l) (simp_all add: join_def)
  have "marshal x (cp_note sc) = join [newline] (note_lines x (cp_note sc)) @ [newline]"
    unfolding marshal_lines note_lines_def by (rule j)
  moreover have "map (encode_sig x) (signatures sc) = map (\<lambda>l. l @ [newline]) (map (sig_line x) (signatures sc))"
    by (simp add: encode_sig_line)
  ultimately show ?thesis by (simp add: encode_checkpoint_def Let_def del: map_map map_eq_conv)
qed

lemma decode_lines:
  assumes "b64_codec x" "wf_signed sc"
  shows "filter (\<lambda>l. trim l \<noteq> []) (lines (newline # join [newline] (map (\<lambda>l. l @ [newline]) (map (sig_line x) (signatures sc)))))
         = map (sig_line x) (signatures sc)"
proof (rule lines_concat)
  fix b assume "b \<in> set (map (sig_line x) (signatures sc))"
  then obtain s where s: "b = sig_line x s" "wf_sig s" using assms(2) by (auto simp: wf_signed_def list_all_iff)
  note p = sig_line_props [OF s(2) assms(1)]
  have "trim b \<noteq> []" using p s(1) by (intro trim_sig_line) (auto simp: sig_line_def)
  then show "newline \<notin> set b \<and> b \<noteq> [] \<and> last b \<noteq> CHR 0x0D \<and> trim b \<noteq> []"
    using p s(1) by (auto simp: is_graphic_def)
qed (simp add: trim_graphic)

text \<open>
  C20. Decoding undoes encoding of a signed checkpoint: for every well-formed note with at least one
  signature line, whatever the signatures' bytes, \<open>decode\<close> of \<open>encode\<close> returns the note
  and all signatures in order, provided the base64 engine decodes what it encodes.
\<close>

theorem checkpoint_roundtrip:
  assumes "b64_codec x" and "wf_signed sc"
  shows "decode_checkpoint x (encode_checkpoint x sc) = Inr sc"
proof -
  let ?ls = "note_lines x (cp_note sc)"
  let ?sigs = "newline # join [newline] (map (\<lambda>l. l @ [newline]) (map (sig_line x) (signatures sc)))"
  have wf: "wf_checkpoint (cp_note sc)" "hd (origin (cp_note sc)) \<noteq> CHR 0x22"
      "signatures sc \<noteq> []" "\<And>s. s \<in> set (signatures sc) \<Longrightarrow> wf_sig s"
    using assms(2) by (auto simp: wf_signed_def list_all_iff)
  have ls: "newline \<notin> set l \<and> l \<noteq> []" if "l \<in> set ?ls" for l
    using that note_lines_wf wf(1) assms(1) by blast
  have org: "origin (cp_note sc) \<noteq> []" using wf(1) trim_graphic [of "[]"] by (auto simp: wf_checkpoint_def)
  obtain s sgs where sgs: "signatures sc = sgs @ [s]" using wf(3) by (metis rev_exhaust)
  have "trim_quotes (encode_checkpoint x sc) = encode_checkpoint x sc"
  proof (rule trim_quotes_id)
    show "hd (encode_checkpoint x sc) \<noteq> CHR 0x22"
      using org wf(2) by (simp add: encode_checkpoint_lines note_lines_def join_def)
    show "last (encode_checkpoint x sc) \<noteq> CHR 0x22"
      by (cases sgs) (simp_all add: encode_checkpoint_lines sgs join_def newline_def)
  qed (simp add: encode_checkpoint_lines)
  moreover have "split_once_str [newline, newline] (encode_checkpoint x sc) = Some (join [newline] ?ls, ?sigs)"
    using ls split_once_blank [of ?ls newline ?sigs] by (simp add: encode_checkpoint_lines note_lines_def)
  moreover have "try_map (decode_sig x) (map (sig_line x) (signatures sc)) = Inr (signatures sc)"
    using wf(4) decode_sig_line [OF _ assms(1), of _ 0] by (auto simp: try_map_Inr_iff list_all2_map1 intro!: list.rel_refl_strong)
  moreover have "unmarshal x (join [newline] ?ls) = Inr (cp_note sc)"
  proof (rule unmarshal_lines [OF wf(1) assms(1)])
    show "split_on newline (join [newline] ?ls) = ?ls @ []"
      using ls split_on_join [of ?ls newline] by (simp add: note_lines_def)
  qed simp
  ultimately show ?thesis
    using wf(3) decode_lines [OF assms] by (simp add: decode_checkpoint_def del: map_map)
qed

text \<open>A codec with the assumed properties: two letters per byte.\<close>

definition toy_b64_encode :: "bytes \<Rightarrow> str" where
  "toy_b64_encode bs = concat (map (\<lambda>b. [char_of (65 + unat b div 16), char_of (65 + unat b mod 16)]) bs)"

fun toy_b64_decode :: "str \<Rightarrow> bytes option" where
  "toy_b64_decode [] = Some []"
| "toy_b64_decode [c] = None"
| "toy_b64_decode (c # d # s) =
     map_option ((#) (of_nat (16 * ((of_char c :: nat) - 65) + ((of_char d :: nat) - 65)))) (toy_b64_decode s)"

lemma toy_b64_char:
  "n < 16 \<Longrightarrow> (of_char (char_of (65 + n) :: char) :: nat) = 65 + n"
  by (simp add: of_char_of)

lemma toy_b64_roundtrip: "toy_b64_decode (toy_b64_encode b) = Some b"
proof (induction b)
  case (Cons c b)
  have "unat c < 2 ^ 8" using unsigned_less [of c, where 'a = nat] by simp
  then have "unat c div 16 < 16" "unat c mod 16 < 16" by simp_all
  then show ?case using Cons by (simp add: toy_b64_encode_def toy_b64_char)
qed (simp add: toy_b64_encode_def)

lemma toy_b64_graphic: "list_all is_graphic (toy_b64_encode b)"
proof (induction b)
  case (Cons c b)
  have "unat c < 2 ^ 8" using unsigned_less [of c, where 'a = nat] by simp
  then have "unat c div 16 < 16" "unat c mod 16 < 16" by simp_all
  then show ?case using Cons by (simp add: toy_b64_encode_def is_graphic_def toy_b64_char)
qed (simp add: toy_b64_encode_def)

lemma toy_b64_codec:
  "s_b64_encode x = toy_b64_encode \<Longrightarrow> s_b64_decode x = toy_b64_decode \<Longrightarrow> b64_codec x"
  by (simp add: b64_codec_def toy_b64_roundtrip toy_b64_graphic) (auto simp: toy_b64_encode_def neq_Nil_conv)

text \<open>A concrete instance of the third-party operations, for the witnesses.\<close>

definition toy_sig :: sig_ext where
  "toy_sig =
     \<lparr>s_b64_decode = toy_b64_decode, s_b64_encode = toy_b64_encode, s_hex = toy_b64_encode,
      s_sha256 = (\<lambda>m. digest_from_bytes (take 32 (m @ replicate 32 0))),
      s_sha384 = (\<lambda>m. m), s_sha512 = (\<lambda>m. m), s_json = (\<lambda>_. None), s_json_raw = (\<lambda>_. None), s_utf8 = (\<lambda>m. Some (from_bytes m)),
      s_pem = (\<lambda>s. Some (as_bytes s)), s_cert = (\<lambda>_. None), s_spki_der = (\<lambda>_. Some []),
      s_tbs_der = (\<lambda>_. Some []), s_curve_oid = (\<lambda>_. None), s_der_string = (\<lambda>_ m. Some (from_bytes m)),
      s_sct_list_der = Some, s_sct_list = (\<lambda>_. Inr []), s_sct = (\<lambda>_. Inl SctDer), s_p256_sec1 = Some, s_p256_spki = Some, s_p256_sig_der = Some,
      s_p256_sig_raw = Some, s_p256_verify = (\<lambda>k m sg. sg = k @ m),
      s_p256_verify_prehash = (\<lambda>k m sg. sg = k @ m), s_p384_sec1 = Some, s_p384_sig_der = Some,
      s_p384_verify_prehash = (\<lambda>k m sg. sg = k @ m), s_ed25519_key = Some, s_ed25519_sig = Some,
      s_ed25519_verify = (\<lambda>k m sg. sg = take 64 (k @ m)), s_root_json = [], s_trusted_root = (\<lambda>_. None),
      s_spki = (\<lambda>_. None), s_spki_encode = spki_public_key, s_rfc3339 = (\<lambda>_. Some 0)\<rparr>"

lemma toy_sig_codec: "b64_codec toy_sig"
  by (rule toy_b64_codec) (simp_all add: toy_sig_def)

definition toy_note :: checkpoint where
  "toy_note = \<lparr>origin = ''log'', cp_size = 7, cp_hash = 5, other_content = [KeyValue ''a'' ''b'', Value ''c'']\<rparr>"

definition toy_signed :: signed_checkpoint where
  "toy_signed =
     \<lparr>cp_note = toy_note,
      signatures = [\<lparr>key_fingerprint = [1, 2, 3, 4], raw = [9], sig_name = ''log''\<rparr>,
                    \<lparr>key_fingerprint = [5, 6, 7, 8], raw = [], sig_name = ''witness''\<rparr>]\<rparr>"

lemma toy_signed_wf: "wf_checkpoint toy_note" "wf_signed toy_signed"
proof -
  show "wf_checkpoint toy_note"
    by (simp add: wf_checkpoint_def toy_note_def trim_graphic is_graphic_def newline_def contains_def starts_with_def)
  then show "wf_signed toy_signed"
    by (simp add: wf_signed_def toy_signed_def wf_sig_def newline_def) (simp add: toy_note_def)
qed

theorem checkpoint_roundtrip_witness:
  "decode_checkpoint toy_sig (encode_checkpoint toy_sig toy_signed) = Inr toy_signed"
  by (rule checkpoint_roundtrip [OF toy_sig_codec toy_signed_wf(2)])

text \<open>
  What a log key signs determines what was parsed: the signature is checked over the note printed
  back, not over the received text, and two received notes whose signed text is the same parse to the
  same origin, size, root hash and other content. The printed note parses to itself.
\<close>

theorem checkpoint_signed_text:
  assumes "b64_codec x"
    and "unmarshal x s = Inr cp" and "unmarshal x s' = Inr cp'"
    and "marshal x cp = marshal x cp'"
  shows "cp = cp' \<and> unmarshal x (marshal x cp) = Inr cp"
proof -
  have "wf_checkpoint cp" "wf_checkpoint cp'" using assms(2,3) unmarshal_wf by blast+
  then show ?thesis using assms(1,4) unmarshal_marshal marshal_inject by blast
qed

theorem checkpoint_signed_text_witness:
  "toy_note = toy_note \<and> unmarshal toy_sig (marshal toy_sig toy_note) = Inr toy_note"
  using checkpoint_signed_text [OF toy_sig_codec, of "marshal toy_sig toy_note" toy_note
      "marshal toy_sig toy_note" toy_note] unmarshal_marshal [OF toy_signed_wf(1) toy_sig_codec]
  by blast

section \<open>Which signature lines count\<close>

text \<open>What it is for bytes to be a signature of a message under a log key of a given type.\<close>

definition log_signed :: "sig_ext \<Rightarrow> bytes \<Rightarrow> bytes \<Rightarrow> bytes \<Rightarrow> str \<Rightarrow> bool" where
  "log_signed x message signature key_der key_type =
     (key_type = ''PKIX_ECDSA_P256_SHA_256'' \<and>
        (\<exists>key sg. s_p256_spki x key_der = Some key \<and> s_p256_sig_der x signature = Some sg \<and>
           s_p256_verify x key message sg)
      \<or> key_type = ''PKIX_ED25519'' \<and> 64 \<le> length signature \<and> 44 \<le> length key_der \<and>
        (\<exists>key sg. s_ed25519_key x (drop (length key_der - 32) key_der) = Some key \<and>
           s_ed25519_sig x (take 64 signature) = Some sg \<and> s_ed25519_verify x key message sg))"

lemma verify_log_signature_iff [result_inv]:
  "verify_log_signature x message signature key_der key_type = Inr u \<longleftrightarrow>
     log_signed x message signature key_der key_type"
  by (auto simp: verify_log_signature_def verify_ecdsa_p256_def verify_ed25519_def log_signed_def
      result_inv not_less)

definition checkpoint_signed_by ::
  "sig_ext \<Rightarrow> signed_checkpoint \<Rightarrow> bytes \<Rightarrow> str \<Rightarrow> str \<Rightarrow> bytes \<Rightarrow> bool" where
  "checkpoint_signed_by x sc key_der key_type nm log_id =
     (\<exists>sg \<in> set (signatures sc).
        sig_name sg = nm \<and> 4 \<le> length log_id \<and> key_fingerprint sg = take 4 log_id \<and>
        log_signed x (as_bytes (marshal x (cp_note sc))) (raw sg) key_der key_type)"

lemma verify_signature_Inr [result_inv]:
  "verify_signature x sc key_der key_type nm log_id = Inr u \<longleftrightarrow>
     checkpoint_signed_by x sc key_der key_type nm log_id"
  by (auto simp: verify_signature_def checkpoint_signed_by_def Let_def list_ex_iff is_ok_iff result_inv key_hint_def)

text \<open>
  A checkpoint is accepted for a log exactly when one of its lines carries the log's host name,
  the first four bytes of its log id as key hint, and a valid signature of the note by the log's key:
  lines of witnesses and other logs are skipped, and a bad line does not hide a later good one.
\<close>

theorem checkpoint_accepted_iff:
  "verify_signature x sc key_der key_type nm log_id = Inr () \<longleftrightarrow>
     (\<exists>sg \<in> set (signatures sc).
        sig_name sg = nm \<and> 4 \<le> length log_id \<and> key_fingerprint sg = take 4 log_id \<and>
        log_signed x (as_bytes (marshal x (cp_note sc))) (raw sg) key_der key_type)"
  by (simp add: verify_signature_Inr checkpoint_signed_by_def)

end
