(* ===== verification/Rekor.thy ===== *)
theory Rekor
  imports Tsa Dsse Checkpoint Merkle_Properties
begin

text \<open>
  \<open>sigstore/rekor.rs\<close>: the transparency log entry of a bundle, bound to its certificate, its
  signature and its payload, with an observer time inside the certificate's validity, a checkpoint
  signed by the log and a Merkle proof of inclusion. \<open>verify_rekor_entry_with_trust\<close> is split at
  the comments of the source.
\<close>

definition orelse :: "'a option \<Rightarrow> 'a option \<Rightarrow> 'a option" where
  "orelse a b = (case a of Some v \<Rightarrow> Some v | None \<Rightarrow> b)"

lemma orelse_simps [simp]: "orelse (Some v) b = Some v" "orelse None b = b"
  by (simp_all add: orelse_def)

text \<open>A number, or its decimal text, as protobuf writes 64-bit integers.\<close>

definition json_u64 :: "json \<Rightarrow> u64 option" where
  "json_u64 v = orelse (Option.bind (as_str v) parse_u64) (as_u64 v)"

definition str_or :: "str \<Rightarrow> str option \<Rightarrow> str" where
  "str_or d s = (case s of Some v \<Rightarrow> v | None \<Rightarrow> d)"

definition parse_body :: "sig_ext \<Rightarrow> bytes \<Rightarrow> json res" where
  "parse_body x body = ok_or (sig_err ''Failed to parse canonicalizedBody'') (s_json x body)"

lemma parse_body_Inr [result_inv]: "parse_body x b = Inr j \<longleftrightarrow> s_json x b = Some j"
  by (simp add: parse_body_def result_inv)

section \<open>Bindings of the entry to the bundle\<close>

definition parse_pem_certificate :: "sig_ext \<Rightarrow> str \<Rightarrow> bytes res" where
  "parse_pem_certificate x s = ok_or (sig_err ''Invalid PEM certificate'') (s_pem x s)"

definition first_signature :: "json \<Rightarrow> str \<Rightarrow> str option" where
  "first_signature entry k =
     Option.bind (jarray entry [''spec'', ''signatures'']) (\<lambda>arr.
     case arr of [] \<Rightarrow> None | sg # _ \<Rightarrow> jstr sg [k])"

definition unknown_kind :: "str \<Rightarrow> error" where
  "unknown_kind kind =
     sig_err (''Unknown Rekor entry kind: '' @ kind @ ''. Expected dsse or hashedrekord'')"

definition rekor_cert_der :: "sig_ext \<Rightarrow> json \<Rightarrow> bytes res" where
  "rekor_cert_der x entry =
     (let kind = str_or ''unknown'' (jstr entry [''kind'']) in
      if kind = ''dsse'' then
        try_bind (ok_or (sig_err ''Missing certificate in DSSE Rekor entry (spec.signatures[0].verifier)'')
            (first_signature entry ''verifier'')) (\<lambda>verifier_b64.
        try_bind (decode_b64 x ''Failed to decode verifier'' verifier_b64) (\<lambda>pem_bytes.
        try_bind (ok_or (sig_err ''Invalid UTF-8 in verifier'') (s_utf8 x pem_bytes)) (\<lambda>pem.
        parse_pem_certificate x pem)))
      else if kind = ''hashedrekord'' \<and> jpointer entry [''spec'', ''hashedRekordV002''] \<noteq> None then
        try_bind (ok_or (sig_err ''Missing certificate in hashedrekord 0.0.2 Rekor entry (signature.verifier.x509Certificate.rawBytes)'')
            (jpointer_str entry [''spec'', ''hashedRekordV002'', ''signature'', ''verifier'', ''x509Certificate'', ''rawBytes''])) (\<lambda>raw_b64.
        decode_b64 x ''Failed to decode Rekor entry certificate'' raw_b64)
      else if kind = ''hashedrekord'' then
        try_bind (ok_or (sig_err ''Missing certificate in hashedrekord Rekor entry (spec.signature.publicKey.content)'')
            (jstr entry [''spec'', ''signature'', ''publicKey'', ''content''])) (\<lambda>pem.
        parse_pem_certificate x pem)
      else Inl (unknown_kind kind))"

definition verify_certificate_binding :: "sig_ext \<Rightarrow> json \<Rightarrow> bytes \<Rightarrow> unit res" where
  "verify_certificate_binding x bundle body =
     try_bind (parse_body x body) (\<lambda>entry.
     try_bind (rekor_cert_der x entry) (\<lambda>rekor_der.
     try_bind (ok_or (sig_err ''Missing certificate in bundle (verificationMaterial.certificate.rawBytes)'')
         (jstr bundle [''verificationMaterial'', ''certificate'', ''rawBytes''])) (\<lambda>cert_b64.
     try_bind (decode_b64 x ''Failed to decode bundle certificate'' cert_b64) (\<lambda>bundle_der.
     if rekor_der \<noteq> bundle_der
     then Inl (sig_err ''Certificate mismatch: bundle certificate does not match Rekor entry certificate. This could indicate a substitution attack.'')
     else Inr ()))))"

definition bundle_dsse_signature :: "sig_ext \<Rightarrow> json \<Rightarrow> bytes res" where
  "bundle_dsse_signature x bundle =
     try_bind (ok_or (sig_err ''Missing signature in bundle (dsseEnvelope.signatures[0].sig)'')
         (jpointer_str bundle [''dsseEnvelope'', ''signatures'', ''0'', ''sig''])) (\<lambda>sig_b64.
     decode_b64 x ''Failed to decode bundle signature'' sig_b64)"

definition rekor_signature :: "sig_ext \<Rightarrow> json \<Rightarrow> bytes res" where
  "rekor_signature x entry =
     (let kind = str_or ''unknown'' (jstr entry [''kind'']) in
      if kind = ''dsse'' then
        try_bind (ok_or (sig_err ''Missing signature in DSSE Rekor entry (spec.signatures[0].signature)'')
            (first_signature entry ''signature'')) (\<lambda>sig_b64.
        decode_b64 x ''Failed to decode Rekor signature'' sig_b64)
      else if kind = ''hashedrekord'' then
        try_bind (ok_or (sig_err ''Missing signature in hashedrekord Rekor entry (spec.signature.content)'')
            (Option.bind (jget entry ''spec'') (\<lambda>spec.
             Option.bind (orelse (jget spec ''hashedRekordV002'') (Some spec)) (\<lambda>s.
             jstr s [''signature'', ''content''])))) (\<lambda>sig_b64.
        decode_b64 x ''Failed to decode Rekor signature'' sig_b64)
      else Inl (unknown_kind kind))"

definition verify_signature_binding :: "sig_ext \<Rightarrow> json \<Rightarrow> bytes \<Rightarrow> unit res" where
  "verify_signature_binding x bundle body =
     try_bind (parse_body x body) (\<lambda>entry.
     try_bind (rekor_signature x entry) (\<lambda>rekor_sig.
     try_bind (bundle_dsse_signature x bundle) (\<lambda>bundle_sig.
     if rekor_sig \<noteq> bundle_sig
     then Inl (sig_err ''Signature mismatch: bundle signature does not match Rekor entry signature. This could indicate a substitution attack.'')
     else Inr ())))"

definition verify_kind_version :: "sig_ext \<Rightarrow> json \<Rightarrow> bytes \<Rightarrow> unit res" where
  "verify_kind_version x entry body_bytes =
     try_bind (ok_or (sig_err ''Missing kindVersion in tlog entry metadata'') (jget entry ''kindVersion'')) (\<lambda>kv.
     let expected_kind = jstr kv [''kind'']; expected_version = jstr kv [''version''] in
     try_bind (parse_body x body_bytes) (\<lambda>body.
     let body_kind = jstr body [''kind'']; body_version = jstr body [''apiVersion''] in
     if body_kind \<noteq> expected_kind \<or> body_version \<noteq> expected_version
     then Inl (sig_err ''Tlog entry kind/version mismatch'')
     else Inr ()))"

text \<open>The digest of the PAE (version 0.0.2) and of the payload (dsse); nothing for other entries.\<close>

definition verify_pae_digest :: "sig_ext \<Rightarrow> json \<Rightarrow> json \<Rightarrow> unit res" where
  "verify_pae_digest x bundle dat =
     (let algorithm = str_or [] (jstr dat [''algorithm'']) in
      if algorithm \<noteq> ''SHA2_256''
      then Inl (sig_err (''Unsupported hashedrekord digest algorithm: '' @ algorithm @ ''. Expected SHA2_256''))
      else
      try_bind (ok_or (sig_err ''hashedrekord 0.0.2 entry missing data.digest'') (jstr dat [''digest''])) (\<lambda>d.
      try_bind (decode_b64 x ''Failed to decode data.digest'' d) (\<lambda>expected.
      try_bind (ok_or (sig_err ''Missing dsseEnvelope in bundle for hash check'') (jget bundle ''dsseEnvelope'')) (\<lambda>envelope.
      try_bind (ok_or (sig_err ''Missing DSSE payloadType'') (jstr envelope [''payloadType''])) (\<lambda>payload_type.
      try_bind (ok_or (sig_err ''Missing DSSE payload'') (jstr envelope [''payload''])) (\<lambda>p.
      try_bind (decode_b64 x ''Failed to decode DSSE payload'' p) (\<lambda>payload.
      let actual = digest_bytes (s_sha256 x (compute_pae payload_type payload)) in
      if actual \<noteq> expected
      then Inl (sig_err (''Payload hash mismatch: Rekor entry expects PAE digest '' @ s_hex x expected @
             '', computed '' @ s_hex x actual))
      else Inr ())))))))"

definition verify_payload_hash_binding :: "sig_ext \<Rightarrow> json \<Rightarrow> bytes \<Rightarrow> unit res" where
  "verify_payload_hash_binding x bundle body_bytes =
     try_bind (parse_body x body_bytes) (\<lambda>body.
     let kind = str_or [] (jstr body [''kind'']) in
     case jpointer body [''spec'', ''hashedRekordV002'', ''data''] of
       Some dat \<Rightarrow> verify_pae_digest x bundle dat
     | None \<Rightarrow>
         if kind \<noteq> ''dsse'' then Inr ()
         else
         try_bind (ok_or (sig_err ''DSSE Rekor entry missing required payloadHash field'')
             (jpath body [''spec'', ''payloadHash''])) (\<lambda>hash_obj.
         try_bind (ok_or (sig_err ''Malformed payloadHash: object present but missing value field'')
             (jstr hash_obj [''value''])) (\<lambda>expected_hash.
         let algorithm = str_or [] (jstr hash_obj [''algorithm'']) in
         if algorithm \<noteq> ''sha256''
         then Inl (sig_err (''Unsupported payload hash algorithm: '' @ algorithm @ ''. Expected sha256''))
         else
         try_bind (ok_or (sig_err ''Missing DSSE payload in bundle for hash check'')
             (jstr bundle [''dsseEnvelope'', ''payload''])) (\<lambda>payload_b64.
         try_bind (decode_b64 x ''Failed to decode DSSE payload'' payload_b64) (\<lambda>payload.
         let actual_hash = s_hex x (digest_bytes (s_sha256 x payload)) in
         if actual_hash \<noteq> expected_hash
         then Inl (sig_err (''Payload hash mismatch: Rekor entry expects '' @ expected_hash @ '', computed '' @ actual_hash))
         else Inr ())))))"

section \<open>The signed entry timestamp\<close>

definition set_field :: "json \<Rightarrow> str list \<Rightarrow> str res" where
  "set_field entry ks =
     ok_or (sig_err (''Missing '' @ concat (map (\<lambda>k. ''/'' @ k) ks) @ '' in tlog entry'')) (jpointer_str entry ks)"

definition set_int_field :: "json \<Rightarrow> str list \<Rightarrow> u64 res" where
  "set_int_field entry ks =
     ok_or (sig_err (''Missing '' @ concat (map (\<lambda>k. ''/'' @ k) ks) @ '' in tlog entry''))
       (Option.bind (jpointer entry ks) json_u64)"

definition quote :: str where "quote = [CHR 0x22]"

definition set_payload :: "str \<Rightarrow> u64 \<Rightarrow> str \<Rightarrow> u64 \<Rightarrow> str" where
  "set_payload body integrated_time log_id log_index =
     ''{'' @ quote @ ''body'' @ quote @ '':'' @ quote @ body @ quote @ '','' @ quote @ ''integratedTime'' @ quote @ '':''
     @ dec_str (unat integrated_time) @ '','' @ quote @ ''logID'' @ quote @ '':'' @ quote @ log_id @ quote @ '',''
     @ quote @ ''logIndex'' @ quote @ '':'' @ dec_str (unat log_index) @ ''}''"

definition verify_signed_entry_timestamp :: "sig_ext \<Rightarrow> json \<Rightarrow> rekor_key \<Rightarrow> unit res" where
  "verify_signed_entry_timestamp x entry key =
     try_bind (set_field entry [''logId'', ''keyId'']) (\<lambda>log_id_b64.
     try_bind (decode_b64 x ''Failed to decode logId'' log_id_b64) (\<lambda>log_id.
     try_bind (set_field entry [''inclusionPromise'', ''signedEntryTimestamp'']) (\<lambda>set_b64.
     try_bind (decode_b64 x ''Failed to decode signedEntryTimestamp'' set_b64) (\<lambda>set_bytes.
     try_bind (set_field entry [''canonicalizedBody'']) (\<lambda>body.
     try_bind (set_int_field entry [''integratedTime'']) (\<lambda>integrated_time.
     try_bind (set_int_field entry [''logIndex'']) (\<lambda>log_index.
     map_err (\<lambda>e. sig_err ''Rekor signed entry timestamp (SET) did not verify'')
       (verify_log_signature x (as_bytes (set_payload body integrated_time (s_hex x log_id) log_index)) set_bytes
          (rk_key_der key) (rk_key_type key)))))))))"

section \<open>Observer time and log key\<close>

definition min_time :: "nat list \<Rightarrow> nat option" where
  "min_time ts = (case ts of [] \<Rightarrow> None | t # us \<Rightarrow> Some (foldl min t us))"

definition no_timestamp :: "str \<Rightarrow> error" where
  "no_timestamp what = sig_err (what @ '': no verified RFC 3161 timestamp'')"

fun check_tsa_times :: "nat \<Rightarrow> nat \<Rightarrow> nat list \<Rightarrow> unit res" where
  "check_tsa_times nb na [] = Inr ()"
| "check_tsa_times nb na (t # ts) =
     (if t < nb \<or> na < t
      then Inl (sig_err (''RFC 3161 timestamp '' @ dec_str t @ '' is outside certificate validity window ['' @
             dec_str nb @ '', '' @ dec_str na @ '']''))
      else check_tsa_times nb na ts)"

definition integrated_time :: "json \<Rightarrow> nat \<Rightarrow> nat \<Rightarrow> nat res" where
  "integrated_time entry nb na =
     try_bind (ok_or (sig_err ''Missing or invalid integratedTime in tlog entry'')
         (Option.bind (jget entry ''integratedTime'') json_u64)) (\<lambda>w.
     let t = unat w in
     if t < nb \<or> na < t
     then Inl (sig_err (''Rekor entry integrated time '' @ dec_str t @ '' is outside certificate validity window ['' @
            dec_str nb @ '', '' @ dec_str na @ '']''))
     else Inr t)"

definition observer_time :: "json \<Rightarrow> str \<Rightarrow> str \<Rightarrow> nat list \<Rightarrow> nat \<Rightarrow> nat \<Rightarrow> nat res" where
  "observer_time entry kind version tsa_times nb na =
     (if (kind = ''dsse'' \<or> kind = ''hashedrekord'') \<and> version = ''0.0.1'' then
        (if jpointer entry [''inclusionPromise'', ''signedEntryTimestamp''] = None
         then ok_or (no_timestamp ''Rekor v1 entry has no inclusion promise, cannot establish signing time'') (min_time tsa_times)
         else integrated_time entry nb na)
      else if kind = ''hashedrekord'' \<and> version = ''0.0.2'' then
        ok_or (no_timestamp ''Rekor v2 entry has no integratedTime, an RFC 3161 timestamp is required'') (min_time tsa_times)
      else Inl (sig_err (''Unsupported Rekor entry type: '' @ kind @ ''/'' @ version)))"

definition find_rekor_key :: "rekor_key list \<Rightarrow> str \<Rightarrow> nat \<Rightarrow> rekor_key res" where
  "find_rekor_key keys log_id t =
     ok_or (sig_err (''No Rekor key valid at time '' @ dec_str t @ '' for log ID: '' @ log_id))
       (find (\<lambda>k. rk_key_id k = log_id \<and> \<not> before_window (rk_valid_from k) t \<and> \<not> after_window (rk_valid_until k) t) keys)"

section \<open>Inclusion\<close>

definition proof_u64 :: "json \<Rightarrow> str \<Rightarrow> u64 res" where
  "proof_u64 ip k =
     ok_or (sig_err (''Missing '' @ k @ '' in inclusion proof'')) (Option.bind (jstr ip [k]) parse_u64)"

definition proof_hashes :: "sig_ext \<Rightarrow> json \<Rightarrow> bytes list res" where
  "proof_hashes x ip =
     try_bind (ok_or (sig_err ''Missing hashes in inclusion proof'') (jarray ip [''hashes''])) (\<lambda>hs.
     try_bind (try_map (\<lambda>h. ok_or (sig_err ''Non-string element in inclusion proof hashes'') (as_str h)) hs) (\<lambda>ss.
     try_map (decode_b64 x ''Failed to decode proof hash'') ss))"

definition to_digest :: "str \<Rightarrow> bytes \<Rightarrow> digest res" where
  "to_digest msg b = (if length b = 32 then Inr (digest_from_bytes b) else Inl (sig_err msg))"

fun merkle_to_error :: "digest merkle_error \<Rightarrow> error" where
  "merkle_to_error MerklePanic = Panic ''attempt to shift right with overflow''"
| "merkle_to_error _ = sig_err ''Merkle inclusion proof verification failed''"

definition verify_merkle ::
  "sig_ext \<Rightarrow> bytes \<Rightarrow> u64 \<Rightarrow> u64 \<Rightarrow> bytes list \<Rightarrow> bytes \<Rightarrow> unit res" where
  "verify_merkle x body log_index tree_size hashes root_hash =
     (let leaf = hash_leaf (s_sha256 x) body in
      try_bind (try_map (to_digest ''Invalid proof hash length (expected 32 bytes)'') hashes) (\<lambda>outs.
      try_bind (to_digest ''Invalid root hash length (expected 32 bytes)'' root_hash) (\<lambda>root.
      map_err merkle_to_error
        (verify_inclusion (hash_children (s_sha256 x)) log_index leaf tree_size outs root))))"

section \<open>The entry\<close>

text \<open>The only entry of the bundle, and the bytes of its body.\<close>

definition tlog_entry :: "json \<Rightarrow> json res" where
  "tlog_entry bundle =
     try_bind (ok_or (sig_err ''No tlogEntries in bundle'')
         (jarray bundle [''verificationMaterial'', ''tlogEntries''])) (\<lambda>entries.
     if length entries \<noteq> 1
     then Inl (sig_err (''Expected exactly 1 tlog entry, got '' @ dec_str (length entries)))
     else index_at entries 0)"

definition entry_body :: "sig_ext \<Rightarrow> json \<Rightarrow> bytes res" where
  "entry_body x entry =
     try_bind (ok_or (sig_err ''Missing canonicalizedBody in tlog entry'') (jstr entry [''canonicalizedBody''])) (\<lambda>b64.
     decode_b64 x ''Failed to decode canonicalizedBody'' b64)"

definition entry_kind :: "json \<Rightarrow> str \<Rightarrow> str" where
  "entry_kind entry k = str_or [] (as_str (jindex (jindex entry ''kindVersion'') k))"

text \<open>The timestamps of the bundle's signature, all inside the certificate's validity.\<close>

definition entry_time ::
  "sig_ext \<Rightarrow> cms_ext \<Rightarrow> json \<Rightarrow> json \<Rightarrow> nat \<Rightarrow> nat \<Rightarrow> timestamp_authority list \<Rightarrow> nat res" where
  "entry_time x y bundle entry nb na authorities =
     try_bind (bundle_dsse_signature x bundle) (\<lambda>sg.
     try_bind (verify_timestamps x y bundle sg authorities) (\<lambda>(tsa_times, tsa_errors).
     try_bind (check_tsa_times nb na tsa_times) (\<lambda>_.
     observer_time entry (entry_kind entry ''kind'') (entry_kind entry ''version'') tsa_times nb na)))"

text \<open>The checkpoint and, for a version 1 entry with a promise, the signed entry timestamp.\<close>

definition entry_checkpoint ::
  "sig_ext \<Rightarrow> json \<Rightarrow> json \<Rightarrow> rekor_key \<Rightarrow> bytes \<Rightarrow> signed_checkpoint res" where
  "entry_checkpoint x entry ip key log_id_bytes =
     try_bind (ok_or (sig_err ''Missing checkpoint in inclusion proof'') (jstr ip [''checkpoint'', ''envelope''])) (\<lambda>s.
     try_bind
       (if entry_kind entry ''version'' = ''0.0.1'' \<and> jget entry ''inclusionPromise'' \<noteq> None
        then verify_signed_entry_timestamp x entry key else Inr ()) (\<lambda>_.
     try_bind (decode_checkpoint x s) (\<lambda>sc.
     try_bind (verify_signature x sc (rk_key_der key) (rk_key_type key) (rk_host key) log_id_bytes) (\<lambda>_.
     Inr sc))))"

text \<open>The root hash of the proof, equal to the one the log signed.\<close>

definition entry_root :: "sig_ext \<Rightarrow> json \<Rightarrow> signed_checkpoint \<Rightarrow> bytes res" where
  "entry_root x ip sc =
     try_bind (ok_or (sig_err ''Missing rootHash in inclusion proof'') (jstr ip [''rootHash''])) (\<lambda>r.
     try_bind (decode_b64 x ''Failed to decode rootHash'' r) (\<lambda>root_hash.
     if digest_bytes (cp_hash (cp_note sc)) \<noteq> root_hash
     then Inl (sig_err (''Inclusion proof contains invalid root hash: signed checkpoint has '' @
            s_hex x (digest_bytes (cp_hash (cp_note sc))) @ '', inclusion proof has '' @ s_hex x root_hash))
     else Inr root_hash))"

definition verify_rekor_entry_with_trust ::
  "sig_ext \<Rightarrow> cms_ext \<Rightarrow> json \<Rightarrow> nat \<Rightarrow> nat \<Rightarrow> rekor_key list \<Rightarrow> timestamp_authority list \<Rightarrow> unit res" where
  "verify_rekor_entry_with_trust x y bundle nb na rekor_keys authorities =
     try_bind (tlog_entry bundle) (\<lambda>entry.
     try_bind (entry_body x entry) (\<lambda>body_bytes.
     try_bind (verify_kind_version x entry body_bytes) (\<lambda>_.
     try_bind (entry_time x y bundle entry nb na authorities) (\<lambda>t.
     try_bind (ok_or (sig_err ''Missing inclusion proof in tlog entry'') (jget entry ''inclusionProof'')) (\<lambda>ip.
     try_bind (ok_or (sig_err ''Missing logId in tlog entry'') (jstr entry [''logId'', ''keyId''])) (\<lambda>log_id.
     try_bind (decode_b64 x ''Failed to decode logId'' log_id) (\<lambda>log_id_bytes.
     try_bind (find_rekor_key rekor_keys log_id t) (\<lambda>key.
     try_bind (entry_checkpoint x entry ip key log_id_bytes) (\<lambda>sc.
     try_bind (entry_root x ip sc) (\<lambda>root_hash.
     try_bind (proof_u64 ip ''logIndex'') (\<lambda>log_index.
     try_bind (proof_u64 ip ''treeSize'') (\<lambda>tree_size.
     try_bind (proof_hashes x ip) (\<lambda>hashes.
     try_bind (verify_certificate_binding x bundle body_bytes) (\<lambda>_.
     try_bind (verify_signature_binding x bundle body_bytes) (\<lambda>_.
     try_bind (verify_payload_hash_binding x bundle body_bytes) (\<lambda>_.
     verify_merkle x body_bytes log_index tree_size hashes root_hash))))))))))))))))"

definition verify_rekor_entry :: "sig_ext \<Rightarrow> cms_ext \<Rightarrow> json \<Rightarrow> nat \<Rightarrow> nat \<Rightarrow> unit res" where
  "verify_rekor_entry x y bundle nb na =
     try_bind (load_rekor_keys x) (\<lambda>keys.
     try_bind (load_timestamp_authorities x) (\<lambda>authorities.
     verify_rekor_entry_with_trust x y bundle nb na keys authorities))"

section \<open>What an accepted entry shows\<close>

lemma ex_unit_iff: "(\<exists>u :: unit. P u) \<longleftrightarrow> P ()"
  by (metis (full_types) old.unit.exhaust)

lemma parse_pem_certificate_Inr [result_inv]: "parse_pem_certificate x s = Inr d \<longleftrightarrow> s_pem x s = Some d"
  by (simp add: parse_pem_certificate_def result_inv)

lemma bundle_cert_der_Inr:
  "bundle_cert_der x bundle = Inr der \<longleftrightarrow>
     (\<exists>b64. jstr bundle [''verificationMaterial'', ''certificate'', ''rawBytes''] = Some b64 \<and> s_b64_decode x b64 = Some der)"
  by (simp add: bundle_cert_der_def bundle_cert_b64_def result_inv)

lemma verify_certificate_binding_Inr [result_inv]:
  "verify_certificate_binding x bundle body = Inr u \<longleftrightarrow>
     (\<exists>j der. s_json x body = Some j \<and> rekor_cert_der x j = Inr der \<and> bundle_cert_der x bundle = Inr der)"
  by (auto simp: verify_certificate_binding_def bundle_cert_der_Inr result_inv)

lemma verify_signature_binding_Inr [result_inv]:
  "verify_signature_binding x bundle body = Inr u \<longleftrightarrow>
     (\<exists>j sg. s_json x body = Some j \<and> rekor_signature x j = Inr sg \<and> bundle_dsse_signature x bundle = Inr sg)"
  by (auto simp: verify_signature_binding_def result_inv)

lemma verify_kind_version_Inr [result_inv]:
  "verify_kind_version x entry body = Inr u \<longleftrightarrow>
     (\<exists>kv j. jget entry ''kindVersion'' = Some kv \<and> s_json x body = Some j \<and>
        jstr j [''kind''] = jstr kv [''kind''] \<and> jstr j [''apiVersion''] = jstr kv [''version''])"
  by (auto simp: verify_kind_version_def Let_def result_inv)

text \<open>
  What the digest in the body covers: the PAE of the bundle's envelope where the body has
  \<open>hashedRekordV002\<close> data, the payload for a dsse body. Any other body is a hashedrekord without
  such data, and its digest is compared with nothing (\<open>verify_payload_unchecked\<close>).
\<close>

definition pae_digest_bound :: "sig_ext \<Rightarrow> json \<Rightarrow> json \<Rightarrow> bool" where
  "pae_digest_bound x bundle dat =
     (\<exists>d ty p payload. jstr dat [''algorithm''] = Some ''SHA2_256'' \<and> jstr dat [''digest''] = Some d \<and>
        jstr bundle [''dsseEnvelope'', ''payloadType''] = Some ty \<and>
        jstr bundle [''dsseEnvelope'', ''payload''] = Some p \<and> s_b64_decode x p = Some payload \<and>
        s_b64_decode x d = Some (digest_bytes (s_sha256 x (compute_pae ty payload))))"

definition payload_digest_bound :: "sig_ext \<Rightarrow> json \<Rightarrow> json \<Rightarrow> bool" where
  "payload_digest_bound x bundle body =
     (\<exists>p payload. jstr body [''spec'', ''payloadHash'', ''algorithm''] = Some ''sha256'' \<and>
        jstr bundle [''dsseEnvelope'', ''payload''] = Some p \<and> s_b64_decode x p = Some payload \<and>
        jstr body [''spec'', ''payloadHash'', ''value''] = Some (s_hex x (digest_bytes (s_sha256 x payload))))"

definition payload_bound :: "sig_ext \<Rightarrow> json \<Rightarrow> json \<Rightarrow> bool" where
  "payload_bound x bundle body =
     (case jpointer body [''spec'', ''hashedRekordV002'', ''data''] of
        Some dat \<Rightarrow> pae_digest_bound x bundle dat
      | None \<Rightarrow>
          if jstr body [''kind''] = Some ''dsse'' then payload_digest_bound x bundle body
          else jstr body [''kind''] = Some ''hashedrekord'')"

lemma jstr_Cons: "jget v k = Some w \<Longrightarrow> jstr v (k # ks) = jstr w ks"
  by (simp add: jstr_def)

lemma jstr_append: "jpath v ks = Some w \<Longrightarrow> jstr v (ks @ ks') = jstr w ks'"
  by (simp add: jstr_def jpath_append)

lemma str_or_Nil_iff: "k \<noteq> [] \<Longrightarrow> str_or [] s = k \<longleftrightarrow> s = Some k"
  by (auto simp: str_or_def split: option.splits)

lemma verify_payload_hash_binding_bound:
  assumes "verify_payload_hash_binding x bundle body_bytes = Inr ()" and "s_json x body_bytes = Some body"
    and "rekor_cert_der x body = Inr der"
  shows "payload_bound x bundle body"
proof (cases "jpointer body [''spec'', ''hashedRekordV002'', ''data'']")
  case None
  have path: "jstr body [''spec'', ''payloadHash'', k] = jstr h [k]"
    if "jpath body [''spec'', ''payloadHash''] = Some h" for h k
    using jstr_append [OF that, of "[k]"] by simp
  have "jstr body [''kind''] = Some ''hashedrekord''" if "jstr body [''kind''] \<noteq> Some ''dsse''"
    using assms(3) that by (auto simp: rekor_cert_der_def Let_def str_or_def split: if_splits option.splits)
  then show ?thesis
    using assms(1,2) None unfolding verify_payload_hash_binding_def payload_bound_def payload_digest_bound_def Let_def
    by (auto simp: result_inv path str_or_Nil_iff split: if_splits)
next
  case (Some dat)
  have "verify_pae_digest x bundle dat = Inr ()"
    using assms(1,2) Some by (simp add: verify_payload_hash_binding_def Let_def result_inv)
  then show ?thesis
    using Some unfolding verify_pae_digest_def payload_bound_def pae_digest_bound_def Let_def
    by (auto simp: result_inv jstr_Cons str_or_Nil_iff split: if_splits)
qed

lemma verify_payload_unchecked:
  assumes "s_json x body_bytes = Some body" "jpointer body [''spec'', ''hashedRekordV002'', ''data''] = None"
    and "jstr body [''kind''] \<noteq> Some ''dsse''"
  shows "verify_payload_hash_binding x bundle body_bytes = Inr ()"
  using assms by (simp add: verify_payload_hash_binding_def parse_body_def Let_def str_or_Nil_iff)

text \<open>The observer time is one of the verified timestamps, or the time of the signed entry timestamp.\<close>

lemma min_time_Some: "min_time ts = Some t \<Longrightarrow> t \<in> set ts"
proof -
  have "foldl min (u :: nat) us \<in> insert u (set us)" for u us
    by (induction us arbitrary: u) (force simp: min_def)+
  then show "min_time ts = Some t \<Longrightarrow> t \<in> set ts"
    by (auto simp: min_time_def split: list.splits)
qed

lemma check_tsa_times_Inr [result_inv]:
  "check_tsa_times nb na ts = Inr u \<longleftrightarrow> (\<forall>t \<in> set ts. nb \<le> t \<and> t \<le> na)"
  by (induction ts) (auto simp: not_less)

definition set_signed :: "sig_ext \<Rightarrow> json \<Rightarrow> rekor_key \<Rightarrow> nat \<Rightarrow> bool" where
  "set_signed x entry key t =
     (\<exists>body w idx log_id set_bytes. jpointer_str entry [''canonicalizedBody''] = Some body \<and>
        Option.bind (jget entry ''integratedTime'') json_u64 = Some w \<and> unat w = t \<and>
        log_signed x (as_bytes (set_payload body w log_id idx)) set_bytes (rk_key_der key) (rk_key_type key))"

lemma verify_signed_entry_timestamp_Inr:
  assumes "verify_signed_entry_timestamp x entry key = Inr ()"
    and "Option.bind (jget entry ''integratedTime'') json_u64 = Some w"
  shows "set_signed x entry key (unat w)"
proof -
  have "jpointer entry [''integratedTime''] = jget entry ''integratedTime''"
    if "jget entry ''integratedTime'' = Some v" for v
    using that by (cases entry) simp_all
  then show ?thesis
    using assms unfolding verify_signed_entry_timestamp_def set_field_def set_int_field_def set_signed_def
    by (fastforce simp: result_inv split: bind_splits)
qed

definition bundle_timestamps :: "json \<Rightarrow> json list" where
  "bundle_timestamps bundle =
     (case jarray bundle [''verificationMaterial'', ''timestampVerificationData'', ''rfc3161Timestamps''] of
        Some ts \<Rightarrow> ts | None \<Rightarrow> [])"

lemma verify_timestamps_Inr:
  "verify_timestamps x y bundle sg authorities = Inr (ts, es) \<Longrightarrow>
     (\<forall>t \<in> set ts. bundle_time x y sg authorities (bundle_timestamps bundle) t) \<and>
     length ts + length es = length (bundle_timestamps bundle) \<and> length (bundle_timestamps bundle) \<le> MAX_TIMESTAMPS"
  using collect_timestamps_Inr [of x y sg authorities "[]" "[]" "bundle_timestamps bundle" ts es]
  by (auto simp: verify_timestamps_def bundle_timestamps_def Let_def split: if_splits)

lemma integrated_time_Inr [result_inv]:
  "integrated_time entry nb na = Inr t \<longleftrightarrow>
     (\<exists>w. Option.bind (jget entry ''integratedTime'') json_u64 = Some w \<and> t = unat w \<and> nb \<le> t \<and> t \<le> na)"
  by (auto simp: integrated_time_def Let_def result_inv not_less)

lemma entry_time_Inr:
  assumes "entry_time x y bundle entry nb na authorities = Inr t"
  obtains sg where "bundle_dsse_signature x bundle = Inr sg" and "nb \<le> t" and "t \<le> na"
    and "bundle_time x y sg authorities (bundle_timestamps bundle) t \<or>
      entry_kind entry ''version'' = ''0.0.1'' \<and> jget entry ''inclusionPromise'' \<noteq> None \<and>
      (\<exists>w. Option.bind (jget entry ''integratedTime'') json_u64 = Some w \<and> t = unat w)"
proof -
  obtain sg ts es where v: "bundle_dsse_signature x bundle = Inr sg"
      "verify_timestamps x y bundle sg authorities = Inr (ts, es)" "\<forall>t \<in> set ts. nb \<le> t \<and> t \<le> na"
      "observer_time entry (entry_kind entry ''kind'') (entry_kind entry ''version'') ts nb na = Inr t"
    using assms by (auto simp: entry_time_def result_inv)
  note tsa = verify_timestamps_Inr [OF v(2)]
  have promise: "jget entry ''inclusionPromise'' \<noteq> None"
    if "jpointer entry [''inclusionPromise'', ''signedEntryTimestamp''] \<noteq> None"
    using that by (cases entry) (auto split: bind_splits simp: parse_index_def parse_u64_def is_ascii_digit_def starts_with_def)
  show thesis
  proof (cases "entry_kind entry ''version'' = ''0.0.1'' \<and>
      jpointer entry [''inclusionPromise'', ''signedEntryTimestamp''] \<noteq> None")
    case True
    then have "integrated_time entry nb na = Inr t"
      using v(4) by (auto simp: observer_time_def split: if_splits)
    then show thesis using that v(1) True promise by (auto simp: integrated_time_Inr)
  next
    case False
    then have "min_time ts = Some t"
      using v(4) by (auto simp: observer_time_def result_inv split: if_splits)
    then have "t \<in> set ts" by (rule min_time_Some)
    then show thesis using that v(1,3) tsa by blast
  qed
qed

lemma tlog_entry_Inr [result_inv]:
  "tlog_entry bundle = Inr entry \<longleftrightarrow>
     jarray bundle [''verificationMaterial'', ''tlogEntries''] = Some [entry]"
  by (auto simp: tlog_entry_def result_inv length_Suc_conv)

lemma find_rekor_key_Inr:
  "find_rekor_key keys log_id t = Inr key \<Longrightarrow>
     key \<in> set keys \<and> rk_key_id key = log_id \<and> within (rk_valid_from key) (rk_valid_until key) t"
  by (auto simp: find_rekor_key_def result_inv within_def find_Some_iff)

text \<open>
  A body is committed to by a root: it is a leaf of every tree with that root, or a collision of the
  digest between the messages hashed on the proof's path and those of the tree can be written down.
\<close>

definition committed :: "sig_ext \<Rightarrow> bytes \<Rightarrow> digest \<Rightarrow> u64 \<Rightarrow> u64 \<Rightarrow> digest list \<Rightarrow> bool" where
  "committed x body root idx sz hashes =
     (\<forall>ds. merkle_root (s_sha256 x) ds = root \<longrightarrow>
        body \<in> set ds \<or>
        collide (s_sha256 x)
          (leaf_message body # path_messages (s_sha256 x) (leaf_sides (unat idx) (unat sz)) (hash_leaf (s_sha256 x) body) hashes)
          (merkle_messages (s_sha256 x) ds))"

lemma to_digest_Inr: "to_digest msg b = Inr d \<longleftrightarrow> b = digest_bytes d"
  by (auto simp: to_digest_def digest_to_from_bytes)

lemma list_all2_map: "list_all2 (\<lambda>b a. b = f a) bs as \<longleftrightarrow> bs = map f as"
  by (induction bs arbitrary: as) (auto simp: list_all2_Cons1)

lemma verify_merkle_Inr:
  assumes "verify_merkle x body idx sz hs root_hash = Inr ()"
  obtains hashes root where "root_hash = digest_bytes root" "hs = map digest_bytes hashes" "idx < sz"
    "root_from_inclusion_proof (hash_children (s_sha256 x)) idx (hash_leaf (s_sha256 x) body) sz hashes = Inr root"
    "committed x body root idx sz hashes"
proof -
  obtain hashes root where o: "hs = map digest_bytes hashes" "root_hash = digest_bytes root"
      "verify_inclusion (hash_children (s_sha256 x)) idx (hash_leaf (s_sha256 x) body) sz hashes root = Inr ()"
    using assms by (auto simp: verify_merkle_def Let_def result_inv to_digest_Inr list_all2_map)
  note path = verify_inclusion_path [OF o(3)]
  have "committed x body root idx sz hashes"
    unfolding committed_def using path(2,3) rfc.any_path_member by metis
  moreover have "root_from_inclusion_proof (hash_children (s_sha256 x)) idx (hash_leaf (s_sha256 x) body) sz hashes = Inr root"
    using o(3) by (auto simp: verify_inclusion_def verify_match_def result_inv split: if_splits)
  ultimately show thesis using that o(1,2) path(1) by blast
qed

text \<open>
  The proof of the entry shows the body under a root: the proof states this root, and its own hashes,
  at its own index and tree size, lead from the hash of the body to it.
\<close>

definition proof_shows :: "sig_ext \<Rightarrow> json \<Rightarrow> bytes \<Rightarrow> digest \<Rightarrow> bool" where
  "proof_shows x ip body root =
     (\<exists>root_b64 idx sz hashes. jstr ip [''rootHash''] = Some root_b64 \<and> s_b64_decode x root_b64 = Some (digest_bytes root) \<and>
        proof_u64 ip ''logIndex'' = Inr idx \<and> proof_u64 ip ''treeSize'' = Inr sz \<and>
        proof_hashes x ip = Inr (map digest_bytes hashes) \<and> idx < sz \<and>
        root_from_inclusion_proof (hash_children (s_sha256 x)) idx (hash_leaf (s_sha256 x) body) sz hashes = Inr root \<and>
        committed x body root idx sz hashes)"

text \<open>All that acceptance establishes, for the theorems of this theory and of the callers.\<close>

lemma rekor_accepted:
  assumes "verify_rekor_entry_with_trust x y bundle nb na keys authorities = Inr ()"
  obtains entry body_bytes body t ip log_id log_id_bytes key sc where
    "jarray bundle [''verificationMaterial'', ''tlogEntries''] = Some [entry]"
    "entry_body x entry = Inr body_bytes" "s_json x body_bytes = Some body"
    "verify_kind_version x entry body_bytes = Inr ()"
    "entry_time x y bundle entry nb na authorities = Inr t"
    "jget entry ''inclusionProof'' = Some ip" "jstr entry [''logId'', ''keyId''] = Some log_id"
    "s_b64_decode x log_id = Some log_id_bytes" "find_rekor_key keys log_id t = Inr key"
    "entry_checkpoint x entry ip key log_id_bytes = Inr sc"
    "verify_certificate_binding x bundle body_bytes = Inr ()"
    "verify_signature_binding x bundle body_bytes = Inr ()"
    "payload_bound x bundle body"
    "proof_shows x ip body_bytes (cp_hash (cp_note sc))"
proof -
  obtain entry body_bytes t ip log_id log_id_bytes key sc root_hash idx sz hs where
    a: "tlog_entry bundle = Inr entry" "entry_body x entry = Inr body_bytes"
    "verify_kind_version x entry body_bytes = Inr ()"
    "entry_time x y bundle entry nb na authorities = Inr t" "jget entry ''inclusionProof'' = Some ip"
    "jstr entry [''logId'', ''keyId''] = Some log_id" "s_b64_decode x log_id = Some log_id_bytes"
    "find_rekor_key keys log_id t = Inr key" "entry_checkpoint x entry ip key log_id_bytes = Inr sc"
    and b: "entry_root x ip sc = Inr root_hash"
    "verify_certificate_binding x bundle body_bytes = Inr ()"
    "verify_signature_binding x bundle body_bytes = Inr ()"
    "verify_payload_hash_binding x bundle body_bytes = Inr ()"
    "verify_merkle x body_bytes idx sz hs root_hash = Inr ()"
    and n: "proof_u64 ip ''logIndex'' = Inr idx" "proof_u64 ip ''treeSize'' = Inr sz" "proof_hashes x ip = Inr hs"
    using assms unfolding verify_rekor_entry_with_trust_def
    by (simp only: try_bind_Inr_iff ok_or_Inr_iff decode_b64_Inr ex_unit_iff) (elim exE conjE, rule that)
  obtain body where body: "s_json x body_bytes = Some body" using a(3) by (auto simp: result_inv)
  obtain der where der: "rekor_cert_der x body = Inr der" using b(2) body by (auto simp: result_inv)
  obtain hashes root where m: "root_hash = digest_bytes root" "hs = map digest_bytes hashes" "idx < sz"
      "root_from_inclusion_proof (hash_children (s_sha256 x)) idx (hash_leaf (s_sha256 x) body_bytes) sz hashes = Inr root"
      "committed x body_bytes root idx sz hashes"
    by (rule verify_merkle_Inr [OF b(5)])
  have "root = cp_hash (cp_note sc)"
    using b(1) m(1) by (auto simp: entry_root_def result_inv split: if_splits)
  moreover obtain root_b64 where "jstr ip [''rootHash''] = Some root_b64" "s_b64_decode x root_b64 = Some root_hash"
    using b(1) by (auto simp: entry_root_def result_inv split: if_splits)
  ultimately have "proof_shows x ip body_bytes (cp_hash (cp_note sc))"
    unfolding proof_shows_def using n m by metis
  then show thesis
    using that a body b(2,3) verify_payload_hash_binding_bound [OF b(4) body der] by (simp add: tlog_entry_Inr)
qed

end
