(* ===== verification/Github.thy ===== *)
theory Github
  imports Json Http_Util
begin

text \<open>
  \<open>verifier/github.rs\<close>: the latest release of a repository and its attestation bundle, through
  the retrying fetch of \<open>Http_Util\<close>.
\<close>

text \<open>
  The network: building the client, the attempts for each URL, and what the third-party decoders
  make of a body: text, the derived \<open>ReleaseResponse\<close> and \<open>AttestationsResponse\<close> (the tag
  name, the bundles), and \<open>serde_json::to_vec\<close>.
\<close>

record web =
  w_build :: "str + unit"
  w_send :: "str \<Rightarrow> nat \<Rightarrow> attempt"
  w_text :: "bytes \<Rightarrow> str"
  w_release :: "bytes \<Rightarrow> str option"
  w_attestations :: "bytes \<Rightarrow> json list option"
  w_to_vec :: "json \<Rightarrow> bytes option"

record release =
  r_tag :: str
  r_digest :: str

definition GITHUB_PROXY :: str where "GITHUB_PROXY = ''https://github-proxy.tinfoil.sh''"

definition web_get :: "web \<Rightarrow> str \<Rightarrow> http_response res" where
  "web_get w url = map_err Http (fst (fetch_with_retry (w_build w) (w_send w url)))"

definition body_of :: "http_response \<Rightarrow> bytes res" where
  "body_of r = ok_or (Http ''error reading a body'') (resp_body r)"

definition fetch_latest_tag :: "web \<Rightarrow> str \<Rightarrow> str res" where
  "fetch_latest_tag w repo =
     try_bind (web_get w (GITHUB_PROXY @ ''/repos/'' @ repo @ ''/releases/latest'')) (\<lambda>response.
     if \<not> is_success response
     then Inl (GitHub (''failed to fetch latest release: HTTP '' @ dec_str (status response)))
     else
     try_bind (body_of response) (\<lambda>body.
     ok_or (Http ''error decoding response body'') (w_release w body)))"

definition fetch_digest :: "web \<Rightarrow> str \<Rightarrow> str \<Rightarrow> str res" where
  "fetch_digest w repo tag =
     try_bind (web_get w (GITHUB_PROXY @ ''/'' @ repo @ ''/releases/download/'' @ tag @ ''/tinfoil.hash'')) (\<lambda>response.
     if \<not> is_success response
     then Inl (GitHub (''failed to fetch digest for '' @ repo @ ''@'' @ tag @ '': HTTP '' @ dec_str (status response)))
     else
     try_bind (body_of response) (\<lambda>body.
     let digest = trim (w_text w body) in
     if length digest \<noteq> 64 \<or> \<not> list_all is_ascii_hexdigit digest
     then Inl (GitHub (''Invalid digest format for '' @ repo @ ''@'' @ tag @ '': expected 64 hex chars, got '' @ digest))
     else Inr digest))"

definition fetch_latest_release :: "web \<Rightarrow> str \<Rightarrow> release res" where
  "fetch_latest_release w repo =
     try_bind (fetch_latest_tag w repo) (\<lambda>tag.
     try_bind (fetch_digest w repo tag) (\<lambda>digest.
     Inr \<lparr>r_tag = tag, r_digest = digest\<rparr>))"

definition fetch_latest_digest :: "web \<Rightarrow> str \<Rightarrow> str res" where
  "fetch_latest_digest w repo = try_bind (fetch_latest_release w repo) (\<lambda>r. Inr (r_digest r))"

definition fetch_attestation_bundle :: "web \<Rightarrow> str \<Rightarrow> str \<Rightarrow> bytes res" where
  "fetch_attestation_bundle w repo digest =
     try_bind (web_get w (GITHUB_PROXY @ ''/repos/'' @ repo @ ''/attestations/sha256:'' @ digest)) (\<lambda>response.
     if \<not> is_success response
     then Inl (GitHub (''failed to fetch attestation bundle for '' @ repo @ ''@'' @ digest @ '': HTTP '' @ dec_str (status response)))
     else
     try_bind (body_of response) (\<lambda>body.
     try_bind (ok_or (Http ''error decoding response body'') (w_attestations w body)) (\<lambda>attestations.
     if attestations = [] then Inl (GitHub (''no attestations found for '' @ repo @ ''@'' @ digest))
     else
     try_bind (index_at attestations 0) (\<lambda>bundle.
     ok_or (Json ''serialization'') (w_to_vec w bundle)))))"

text \<open>What a digest is worth before anything is verified: its form, and nothing else.\<close>

definition digest_form :: "str \<Rightarrow> bool" where
  "digest_form d = (length d = 64 \<and> list_all is_ascii_hexdigit d)"

lemma fetch_digest_form: "fetch_digest w repo tag = Inr d \<Longrightarrow> digest_form d"
  by (auto simp: fetch_digest_def digest_form_def Let_def result_inv split: if_splits)

lemma fetch_latest_release_Inr:
  "fetch_latest_release w repo = Inr r \<Longrightarrow>
     fetch_latest_tag w repo = Inr (r_tag r) \<and> fetch_digest w repo (r_tag r) = Inr (r_digest r) \<and> digest_form (r_digest r)"
  by (auto simp: fetch_latest_release_def result_inv intro: fetch_digest_form)

end
