(* ===== verification/Sigstore.thy ===== *)
theory Sigstore
  imports Rekor Github Attestation_Types
begin

text \<open>
  \<open>sigstore/mod.rs\<close>: the identity of the signing certificate, the in-toto statement with the
  expected measurement, and the verification of a repository, which composes the other modules.
\<close>

record sigstore_result =
  sr_measurement :: measurement
  sr_digest :: str
  sr_release_tag :: str

section \<open>The certificate of the bundle\<close>

definition extract_cert_with_validity :: "sig_ext \<Rightarrow> json \<Rightarrow> (bytes \<times> nat \<times> nat) res" where
  "extract_cert_with_validity x bundle =
     try_bind (bundle_cert x bundle) (\<lambda>(cert_der, cert).
     Inr (cert_der, x_not_before cert, x_not_after cert))"

definition extract_certificate_info_from_bundle :: "sig_ext \<Rightarrow> json \<Rightarrow> certificate_info res" where
  "extract_certificate_info_from_bundle x bundle =
     try_bind (bundle_cert x bundle) (\<lambda>(cert_der, cert). extract_certificate_info x cert)"

text \<open>
  The texts of the pattern
  \<open>^https://github\.com/REPO/\.github/workflows/[^@]+@refs/tags/TAG$\<close> with the repository and the
  tag escaped: fixed text around a non-empty workflow name without an at sign.
\<close>

definition workflow_matches :: "str \<Rightarrow> str \<Rightarrow> str \<Rightarrow> bool" where
  "workflow_matches repo tag uri =
     (case strip_prefix uri (''https://github.com/'' @ repo @ ''/.github/workflows/'') of
        None \<Rightarrow> False
      | Some rest \<Rightarrow>
          (case split_once (CHR ''@'') rest of
             None \<Rightarrow> False
           | Some (workflow, ref) \<Rightarrow> workflow \<noteq> [] \<and> ref = ''refs/tags/'' @ tag))"

definition GITHUB_ACTIONS_ISSUER :: str where
  "GITHUB_ACTIONS_ISSUER = ''https://token.actions.githubusercontent.com''"

definition verify_certificate_identity :: "certificate_info \<Rightarrow> str \<Rightarrow> str \<Rightarrow> unit res" where
  "verify_certificate_identity info expected_repo expected_tag =
     (if ci_issuer info \<noteq> GITHUB_ACTIONS_ISSUER
      then Inl (sig_err (''Certificate not from GitHub Actions. Issuer: '' @ ci_issuer info))
      else if ci_repository info \<noteq> expected_repo
      then Inl (sig_err (''Certificate repository does not match. Expected: '' @ expected_repo @ '', Got: '' @ ci_repository info))
      else if \<not> workflow_matches expected_repo expected_tag (ci_subject_workflow info)
      then Inl (sig_err (''Certificate workflow does not match expected pattern. Expected repo: '' @ expected_repo @
             '', Got: '' @ ci_subject_workflow info))
      else Inr ())"

section \<open>The in-toto statement\<close>

record statement =
  st_type :: str
  st_predicate_type :: str
  st_predicate :: json
  st_subject :: "(str \<times> (str \<times> str) list) list"

text \<open>
  The derived deserialiser on the members in their order in the text: an unknown or repeated member
  of the statement is an error, unknown members of a subject are skipped, a later entry of a digest
  map replaces an earlier one. A struct may also be written as the array of its fields.
\<close>

definition only_member :: "str \<Rightarrow> (str \<times> json) list \<Rightarrow> json option" where
  "only_member k kvs = (case filter (\<lambda>kv. fst kv = k) kvs of [kv] \<Rightarrow> Some (snd kv) | _ \<Rightarrow> None)"

fun option_map :: "('a \<Rightarrow> 'b option) \<Rightarrow> 'a list \<Rightarrow> 'b list option" where
  "option_map f [] = Some []"
| "option_map f (v # vs) = Option.bind (f v) (\<lambda>w. Option.bind (option_map f vs) (\<lambda>ws. Some (w # ws)))"

definition string_map :: "(str \<times> json) list \<Rightarrow> (str \<times> str) list option" where
  "string_map kvs =
     map_option rev (option_map (\<lambda>(k, v). Option.bind (as_str v) (\<lambda>s. Some (k, s))) kvs)"

text \<open>The value kept for a predicate: the last of repeated members.\<close>

fun last_members :: "json \<Rightarrow> json" where
  "last_members (JObject kvs) = JObject (rev (map (\<lambda>(k, v). (k, last_members v)) kvs))"
| "last_members (JArray vs) = JArray (map last_members vs)"
| "last_members v = v"

fun subject_fields :: "json \<Rightarrow> (json \<times> json) option" where
  "subject_fields (JObject kvs) =
     Option.bind (only_member ''name'' kvs) (\<lambda>n. Option.bind (only_member ''digest'' kvs) (\<lambda>d. Some (n, d)))"
| "subject_fields (JArray [n, d]) = Some (n, d)"
| "subject_fields _ = None"

definition subject_from_json :: "json \<Rightarrow> (str \<times> (str \<times> str) list) option" where
  "subject_from_json v =
     Option.bind (subject_fields v) (\<lambda>(n, d).
     Option.bind (as_str n) (\<lambda>name. Option.bind (as_object d) (\<lambda>ds.
     Option.bind (string_map ds) (\<lambda>digest. Some (name, digest)))))"

definition statement_members :: "str list" where
  "statement_members = [''_type'', ''predicateType'', ''predicate'', ''subject'']"

fun statement_fields :: "json \<Rightarrow> (json \<times> json \<times> json \<times> json) option" where
  "statement_fields (JObject kvs) =
     (if \<not> list_all (\<lambda>kv. fst kv \<in> set statement_members) kvs then None
      else
      Option.bind (only_member ''_type'' kvs) (\<lambda>t. Option.bind (only_member ''predicateType'' kvs) (\<lambda>p.
      Option.bind (only_member ''predicate'' kvs) (\<lambda>pred. Option.bind (only_member ''subject'' kvs) (\<lambda>s.
      Some (t, p, pred, s))))))"
| "statement_fields (JArray [t, p, pred, s]) = Some (t, p, pred, s)"
| "statement_fields _ = None"

definition statement_from_json :: "json \<Rightarrow> statement option" where
  "statement_from_json v =
     Option.bind (statement_fields v) (\<lambda>(t, p, pred, s).
     Option.bind (as_str t) (\<lambda>ty. Option.bind (as_str p) (\<lambda>pty. Option.bind (as_array s) (\<lambda>ss.
     Option.bind (option_map subject_from_json ss) (\<lambda>subjects.
     Some \<lparr>st_type = ty, st_predicate_type = pty, st_predicate = last_members pred, st_subject = subjects\<rparr>)))))"

definition parse_statement :: "sig_ext \<Rightarrow> bytes \<Rightarrow> statement res" where
  "parse_statement x b =
     ok_or (sig_err ''Failed to parse statement'') (Option.bind (s_json_raw x b) statement_from_json)"

section \<open>The measurement\<close>

definition measurement_from_predicate :: "json \<Rightarrow> measurement res" where
  "measurement_from_predicate predicate =
     try_bind (ok_or (sig_err ''Missing snp_measurement'') (jstr predicate [''snp_measurement''])) (\<lambda>snp.
     try_bind (ok_or (sig_err ''Missing tdx_measurement'') (jget predicate ''tdx_measurement'')) (\<lambda>tdx.
     try_bind (ok_or (sig_err ''Missing rtmr1'') (jstr tdx [''rtmr1''])) (\<lambda>rtmr1.
     try_bind (ok_or (sig_err ''Missing rtmr2'') (jstr tdx [''rtmr2''])) (\<lambda>rtmr2.
     Inr \<lparr>m_type = SnpTdxMultiPlatformV1, registers = [snp, rtmr1, rtmr2]\<rparr>))))"

definition MULTIPLATFORM_PREDICATE :: str where
  "MULTIPLATFORM_PREDICATE = ''https://tinfoil.sh/predicate/snp-tdx-multiplatform/v1''"

text \<open>\<open>to_lowercase\<close> is Unicode's, but only ASCII letters have a hexadecimal digit as lower case, and the
  expected digest is hexadecimal: comparing in ASCII lower case decides the same.\<close>

definition measurement_from_statement :: "statement \<Rightarrow> str \<Rightarrow> measurement res" where
  "measurement_from_statement st expected_digest =
     (if st_type st \<noteq> ''https://in-toto.io/Statement/v0.1'' \<and> st_type st \<noteq> ''https://in-toto.io/Statement/v1''
      then Inl (sig_err (''Unsupported in-toto statement type: '' @ st_type st))
      else
      try_bind (ok_or (sig_err ''No subject in statement'')
          (case st_subject st of [] \<Rightarrow> None | s # _ \<Rightarrow> Some s)) (\<lambda>subject.
      try_bind (ok_or (sig_err ''No sha256 digest in subject'') (map_of (snd subject) ''sha256'')) (\<lambda>payload_digest.
      if to_ascii_lowercase payload_digest \<noteq> to_ascii_lowercase expected_digest
      then Inl (sig_err (''Provided digest does not match verified DSSE payload digest. Expected: '' @ expected_digest @
             '', Got: '' @ payload_digest))
      else if st_predicate_type st \<noteq> MULTIPLATFORM_PREDICATE
      then Inl (sig_err (''Unsupported predicate type: '' @ st_predicate_type st))
      else measurement_from_predicate (st_predicate st))))"

definition extract_measurement_from_bundle :: "sig_ext \<Rightarrow> json \<Rightarrow> str \<Rightarrow> measurement res" where
  "extract_measurement_from_bundle x bundle expected_digest =
     try_bind (ok_or (sig_err ''No dsseEnvelope in bundle'') (jget bundle ''dsseEnvelope'')) (\<lambda>envelope.
     try_bind (ok_or (sig_err ''No payloadType in DSSE envelope'') (jstr envelope [''payloadType''])) (\<lambda>payload_type.
     if payload_type \<noteq> ''application/vnd.in-toto+json''
     then Inl (sig_err (''Unsupported DSSE payload type: '' @ payload_type))
     else
     try_bind (ok_or (sig_err ''No payload in DSSE envelope'') (jstr envelope [''payload''])) (\<lambda>payload_b64.
     try_bind (decode_b64 x ''Failed to decode payload'' payload_b64) (\<lambda>payload_bytes.
     try_bind (parse_statement x payload_bytes) (\<lambda>st.
     measurement_from_statement st expected_digest)))))"

section \<open>Verification of a repository\<close>

text \<open>Steps 4 to 8, once the release and the bundle have been fetched.\<close>

definition verify_bundle :: "sig_ext \<Rightarrow> cms_ext \<Rightarrow> str \<Rightarrow> release \<Rightarrow> json \<Rightarrow> sigstore_result res" where
  "verify_bundle x y repo release bundle =
     try_bind (verify_dsse_signature x bundle) (\<lambda>_.
     try_bind (extract_certificate_info_from_bundle x bundle) (\<lambda>cert_info.
     try_bind (verify_certificate_identity cert_info repo (r_tag release)) (\<lambda>_.
     try_bind (extract_cert_with_validity x bundle) (\<lambda>(cert_der, not_before, not_after).
     try_bind (verify_rekor_entry x y bundle not_before not_after) (\<lambda>_.
     try_bind (verify_fulcio_chain x cert_der not_before) (\<lambda>_.
     try_bind (extract_measurement_from_bundle x bundle (r_digest release)) (\<lambda>measurement.
     Inr \<lparr>sr_measurement = measurement, sr_digest = r_digest release, sr_release_tag = r_tag release\<rparr>)))))))"

definition verify_repo :: "sig_ext \<Rightarrow> cms_ext \<Rightarrow> web \<Rightarrow> str \<Rightarrow> sigstore_result res" where
  "verify_repo x y w repo =
     try_bind (fetch_latest_release w repo) (\<lambda>release.
     try_bind (fetch_attestation_bundle w repo (r_digest release)) (\<lambda>bundle_json.
     try_bind (ok_or (sig_err ''Failed to parse bundle'') (s_json x bundle_json)) (\<lambda>bundle.
     verify_bundle x y repo release bundle)))"

end
