(* ===== verification/Sev_Chain.thy ===== *)
theory Sev_Chain
  imports Cert_Chain
begin

text \<open>
  The second half of \<open>sev/cert_chain.rs\<close>, verification of the chain VCEK - ASK - ARK, and
  \<open>sev/signature.rs\<close> and \<open>sev/mod.rs\<close>: the report signature and the whole SEV-SNP
  verification. The clock is a parameter, \<open>None\<close> when it is before the Unix epoch.
\<close>

section \<open>Single certificates\<close>

definition validate_certificate_validity :: "nat option \<Rightarrow> certificate \<Rightarrow> str \<Rightarrow> unit res" where
  "validate_certificate_validity clock cert cert_name =
     try_bind (ok_or (AttestationVerification ''System time before Unix epoch'') clock) (\<lambda>now.
     if now < x_not_before cert
     then Inl (AttestationVerification (cert_name @ '' certificate is not yet valid''))
     else if x_not_after cert < now
     then Inl (AttestationVerification (cert_name @ '' certificate has expired''))
     else Inr ())"

definition validate_basic_constraints :: "certificate \<Rightarrow> str \<Rightarrow> bool \<Rightarrow> unit res" where
  "validate_basic_constraints cert cert_name expect_ca =
     (case x_basic_constraints cert of
        Inr (Some ca) \<Rightarrow>
          if expect_ca \<and> \<not> ca
          then Inl (AttestationVerification (cert_name @ '' certificate missing CA:true in BasicConstraints''))
          else if \<not> expect_ca \<and> ca
          then Inl (AttestationVerification (cert_name @ '' leaf certificate has CA:true''))
          else Inr ()
      | Inr None \<Rightarrow>
          if expect_ca
          then Inl (AttestationVerification (cert_name @ '' certificate missing BasicConstraints extension''))
          else Inr ()
      | Inl _ \<Rightarrow> Inl (AttestationVerification (''Failed to parse '' @ cert_name @ '' BasicConstraints'')))"

definition validate_signature_algorithm_consistency :: "certificate \<Rightarrow> str \<Rightarrow> unit res" where
  "validate_signature_algorithm_consistency cert cert_name =
     (if x_signature_algorithm cert \<noteq> x_tbs_signature cert
      then Inl (AttestationVerification (cert_name @ '' certificate outer signature_algorithm does not match inner tbs.signature''))
      else Inr ())"

definition OID_RSASSA_PSS :: str where "OID_RSASSA_PSS = ''1.2.840.113549.1.1.10''"

definition OID_MGF1 :: str where "OID_MGF1 = ''1.2.840.113549.1.1.8''"

definition OID_SHA_384 :: str where "OID_SHA_384 = ''2.16.840.1.101.3.4.2.2''"

definition parse_rsa_pss_sha384_salt_len :: "sev_crypto \<Rightarrow> algorithm_identifier \<Rightarrow> str \<Rightarrow> nat res" where
  "parse_rsa_pss_sha384_salt_len c alg cert_name =
     (if alg_oid alg \<noteq> OID_RSASSA_PSS
      then Inl (AttestationVerification (cert_name @ '' certificate signature algorithm is not RSASSA-PSS''))
      else
      try_bind (ok_or (AttestationVerification (cert_name @ '' RSASSA-PSS parameters are absent'')) (alg_parameters alg)) (\<lambda>params_any.
      try_bind (ok_or (AttestationVerification (cert_name @ '' RSASSA-PSS parameters DER re-encode failed'')) (any_to_der c params_any)) (\<lambda>params_der.
      try_bind (ok_or (AttestationVerification (cert_name @ '' RSASSA-PSS parameters decode failed'')) (pss_params_from_der c params_der)) (\<lambda>params.
      if pss_hash_oid params \<noteq> OID_SHA_384
      then Inl (AttestationVerification (cert_name @ '' RSASSA-PSS hash algorithm is not SHA-384''))
      else if pss_mgf_oid params \<noteq> OID_MGF1
      then Inl (AttestationVerification (cert_name @ '' RSASSA-PSS mask generation function is not MGF1''))
      else if pss_mgf_hash_oid params \<noteq> Some OID_SHA_384
      then Inl (AttestationVerification (cert_name @ '' RSASSA-PSS MGF1 hash algorithm is not SHA-384''))
      else Inr (pss_salt_len params)))))"

definition verify_rsa_pss_signature ::
  "sev_crypto \<Rightarrow> bytes \<Rightarrow> bytes \<Rightarrow> bytes \<Rightarrow> nat \<Rightarrow> str \<Rightarrow> unit res" where
  "verify_rsa_pss_signature c tbs_der signature signer_spki_der salt_len ctxt =
     (if \<not> rsa_key_from_der c signer_spki_der
      then Inl (AttestationVerification (''Invalid RSA public key for '' @ ctxt))
      else if \<not> rsa_signature_ok c signature
      then Inl (AttestationVerification (''Invalid signature format for '' @ ctxt))
      else if \<not> pss_sha384_verify c signer_spki_der salt_len tbs_der signature
      then Inl (AttestationVerification (ctxt @ '' verification failed''))
      else Inr ())"

section \<open>Names\<close>

definition decode_directory_string :: "sev_crypto \<Rightarrow> der_any \<Rightarrow> str res" where
  "decode_directory_string c v =
     (case any_tag v of
        Utf8String \<Rightarrow> ok_or (AttestationVerification ''Invalid UTF8String'') (string_ref c v)
      | PrintableString \<Rightarrow> ok_or (AttestationVerification ''Invalid PrintableString'') (string_ref c v)
      | Ia5String \<Rightarrow> ok_or (AttestationVerification ''Invalid IA5String'') (string_ref c v)
      | TeletexString \<Rightarrow> ok_or (AttestationVerification ''Invalid TeletexString'') (string_ref c v)
      | OtherTag _ \<Rightarrow> Inl (AttestationVerification ''Unsupported X.509 name attribute tag''))"

definition extract_name_attr :: "sev_crypto \<Rightarrow> name \<Rightarrow> str \<Rightarrow> str res option" where
  "extract_name_attr c nm oid =
     map_option (\<lambda>atv. decode_directory_string c (atv_value atv))
       (find (\<lambda>atv. atv_oid atv = oid) (concat nm))"

definition require_name_attr :: "sev_crypto \<Rightarrow> name \<Rightarrow> str \<Rightarrow> str \<Rightarrow> str \<Rightarrow> str \<Rightarrow> unit res" where
  "require_name_attr c nm oid cert_name attr_label expd =
     try_bind (ok_or (AttestationVerification (cert_name @ '' certificate missing '' @ attr_label @ '' attribute''))
                 (extract_name_attr c nm oid)) (\<lambda>r.
     try_bind (map_err (\<lambda>_. AttestationVerification (cert_name @ '' certificate has invalid '' @ attr_label @ '' attribute'')) r) (\<lambda>v.
     if v \<noteq> expd then Inl (AttestationVerification (cert_name @ '' certificate '' @ attr_label @ '' is not as expected''))
     else Inr ()))"

definition validate_amd_location :: "sev_crypto \<Rightarrow> name \<Rightarrow> str \<Rightarrow> unit res" where
  "validate_amd_location c nm cert_name =
     try_bind (require_name_attr c nm ''2.5.4.6'' cert_name ''country'' ''US'') (\<lambda>_.
     try_bind (require_name_attr c nm ''2.5.4.8'' cert_name ''state'' ''CA'') (\<lambda>_.
     try_bind (require_name_attr c nm ''2.5.4.7'' cert_name ''locality'' ''Santa Clara'') (\<lambda>_.
     try_bind (require_name_attr c nm ''2.5.4.10'' cert_name ''organization'' ''Advanced Micro Devices'') (\<lambda>_.
     try_bind (require_name_attr c nm ''2.5.4.11'' cert_name ''organizational unit'' ''Engineering'') (\<lambda>_.
     Inr ())))))"

definition extract_cn :: "sev_crypto \<Rightarrow> name \<Rightarrow> str res" where
  "extract_cn c nm =
     try_bind (ok_or (AttestationVerification ''No CN found in certificate'') (extract_name_attr c nm ''2.5.4.3'')) (\<lambda>r. r)"

section \<open>The chain\<close>

definition OID_EC_PUBLIC_KEY :: str where "OID_EC_PUBLIC_KEY = ''1.2.840.10045.2.1''"

definition OID_SECP384R1 :: str where "OID_SECP384R1 = ''1.3.132.0.34''"

text \<open>Lines 409 to 444: the VCEK is a v3 certificate with a P-384 key.\<close>

definition validate_vcek_format :: "sev_crypto \<Rightarrow> certificate \<Rightarrow> unit res" where
  "validate_vcek_format c vcek_cert =
     (if x_version vcek_cert \<noteq> 3
      then Inl (AttestationVerification ''VCEK certificate version is not v3'')
      else if alg_oid (x_spki_algorithm vcek_cert) \<noteq> OID_EC_PUBLIC_KEY
      then Inl (AttestationVerification ''VCEK public key is not EC'')
      else case alg_parameters (x_spki_algorithm vcek_cert) of
        Some params \<Rightarrow>
          try_bind (ok_or (AttestationVerification ''Failed to parse VCEK curve OID'') (decode_as_oid c params)) (\<lambda>curve_oid.
          if curve_oid \<noteq> OID_SECP384R1
          then Inl (AttestationVerification ''VCEK public key curve is not P-384'')
          else Inr ())
      | None \<Rightarrow> Inl (AttestationVerification ''VCEK public key missing curve parameters''))"

text \<open>Lines 446 to 474: the ASK and the ARK of the chain, both v3.\<close>

definition parse_ask_ark :: "sev_crypto \<Rightarrow> bytes \<Rightarrow> (certificate \<times> certificate) res" where
  "parse_ask_ark c cert_chain_pem =
     try_bind (parse_pem_chain c cert_chain_pem) (\<lambda>chain_certs.
     if length chain_certs < 2
     then Inl (AttestationVerification ''Certificate chain should contain ASK and ARK'')
     else
     try_bind (ok_or (AttestationVerification ''Failed to parse ASK'') (cert_from_der c (chain_certs ! 0))) (\<lambda>ask_cert.
     try_bind (ok_or (AttestationVerification ''Failed to parse ARK'') (cert_from_der c (chain_certs ! 1))) (\<lambda>ark_cert.
     if x_version ark_cert \<noteq> 3 then Inl (AttestationVerification ''ARK certificate version is not v3'')
     else if x_version ask_cert \<noteq> 3 then Inl (AttestationVerification ''ASK certificate version is not v3'')
     else Inr (ask_cert, ark_cert))))"

text \<open>Lines 476 to 495: validity, basic constraints, the pinned root key.\<close>

definition validate_chain_certs ::
  "sev_crypto \<Rightarrow> nat option \<Rightarrow> certificate \<Rightarrow> certificate \<Rightarrow> certificate \<Rightarrow> unit res" where
  "validate_chain_certs c clock vcek_cert ask_cert ark_cert =
     try_bind (validate_certificate_validity clock vcek_cert ''VCEK'') (\<lambda>_.
     try_bind (validate_certificate_validity clock ask_cert ''ASK'') (\<lambda>_.
     try_bind (validate_certificate_validity clock ark_cert ''ARK'') (\<lambda>_.
     try_bind (validate_basic_constraints ark_cert ''ARK'' True) (\<lambda>_.
     try_bind (validate_basic_constraints ask_cert ''ASK'' True) (\<lambda>_.
     try_bind (validate_basic_constraints vcek_cert ''VCEK'' False) (\<lambda>_.
     try_bind (compute_spki_fingerprint c ark_cert) (\<lambda>ark_fingerprint.
     if ark_fingerprint \<noteq> AMD_ARK_GENOA_SPKI_FINGERPRINT
     then Inl (AttestationVerification ''ARK public key fingerprint mismatch!'')
     else Inr ())))))))"

text \<open>Lines 497 to 557: issuers, subjects and common names.\<close>

definition validate_chain_names ::
  "sev_crypto \<Rightarrow> certificate \<Rightarrow> certificate \<Rightarrow> certificate \<Rightarrow> unit res" where
  "validate_chain_names c vcek_cert ask_cert ark_cert =
     (if x_issuer vcek_cert \<noteq> x_subject ask_cert
      then Inl (AttestationVerification ''VCEK issuer does not match ASK subject'')
      else if x_issuer ask_cert \<noteq> x_subject ark_cert
      then Inl (AttestationVerification ''ASK issuer does not match ARK subject'')
      else if x_issuer ark_cert \<noteq> x_subject ark_cert
      then Inl (AttestationVerification ''ARK is not self-signed'')
      else
      try_bind (extract_cn c (x_subject ark_cert)) (\<lambda>ark_cn.
      if ark_cn \<noteq> ''ARK-Genoa'' then Inl (AttestationVerification ''Unexpected ARK CN'')
      else
      try_bind (extract_cn c (x_subject ask_cert)) (\<lambda>ask_cn.
      if ask_cn \<noteq> ''SEV-Genoa'' then Inl (AttestationVerification ''Unexpected ASK CN'')
      else
      try_bind (extract_cn c (x_subject vcek_cert)) (\<lambda>vcek_cn.
      if vcek_cn \<noteq> ''SEV-VCEK'' then Inl (AttestationVerification ''Unexpected VCEK CN'')
      else
      try_bind (validate_amd_location c (x_subject ark_cert) ''ARK'') (\<lambda>_.
      try_bind (validate_amd_location c (x_subject ask_cert) ''ASK'') (\<lambda>_.
      try_bind (validate_amd_location c (x_subject vcek_cert) ''VCEK'') (\<lambda>_.
      try_bind (validate_signature_algorithm_consistency ark_cert ''ARK'') (\<lambda>_.
      try_bind (validate_signature_algorithm_consistency ask_cert ''ASK'') (\<lambda>_.
      validate_signature_algorithm_consistency vcek_cert ''VCEK'')))))))))"

text \<open>One certificate signed by the key of another: lines 559 to 577, three times.\<close>

definition verify_signed_by :: "sev_crypto \<Rightarrow> certificate \<Rightarrow> bytes \<Rightarrow> str \<Rightarrow> str \<Rightarrow> unit res" where
  "verify_signed_by c cert signer_pubkey cert_name ctxt =
     try_bind (extract_tbs_from_cert c cert) (\<lambda>tbs.
     try_bind (parse_rsa_pss_sha384_salt_len c (x_signature_algorithm cert) cert_name) (\<lambda>salt.
     verify_rsa_pss_signature c tbs (x_signature cert) signer_pubkey salt ctxt))"

definition verify_chain_signatures ::
  "sev_crypto \<Rightarrow> certificate \<Rightarrow> certificate \<Rightarrow> certificate \<Rightarrow> unit res" where
  "verify_chain_signatures c vcek_cert ask_cert ark_cert =
     try_bind (extract_pubkey_from_cert c ark_cert) (\<lambda>ark_pubkey.
     try_bind (verify_signed_by c ark_cert ark_pubkey ''ARK'' ''ARK self-signature'') (\<lambda>_.
     try_bind (verify_signed_by c ask_cert ark_pubkey ''ASK'' ''ASK signature'') (\<lambda>_.
     try_bind (extract_pubkey_from_cert c ask_cert) (\<lambda>ask_pubkey.
     verify_signed_by c vcek_cert ask_pubkey ''VCEK'' ''VCEK signature''))))"

definition verify_cert_chain_crypto :: "sev_crypto \<Rightarrow> nat option \<Rightarrow> bytes \<Rightarrow> bytes \<Rightarrow> unit res" where
  "verify_cert_chain_crypto c clock vcek_der cert_chain_pem =
     try_bind (ok_or (AttestationVerification ''Failed to parse VCEK'') (cert_from_der c vcek_der)) (\<lambda>vcek_cert.
     try_bind (validate_vcek_format c vcek_cert) (\<lambda>_.
     try_bind (parse_ask_ark c cert_chain_pem) (\<lambda>(ask_cert, ark_cert).
     try_bind (validate_chain_certs c clock vcek_cert ask_cert ark_cert) (\<lambda>_.
     try_bind (validate_chain_names c vcek_cert ask_cert ark_cert) (\<lambda>_.
     verify_chain_signatures c vcek_cert ask_cert ark_cert)))))"

section \<open>The report signature\<close>

definition parse_signature_components :: "bytes \<Rightarrow> (bytes \<times> bytes) res" where
  "parse_signature_components sig_bytes =
     (if length sig_bytes < SIG_COMPONENT_SIZE * 2
      then Inl (AttestationVerification ''Signature too short'')
      else
      try_bind (slice 0 SIG_VALUE_SIZE sig_bytes) (\<lambda>r_le.
      try_bind (slice SIG_COMPONENT_SIZE (SIG_COMPONENT_SIZE + SIG_VALUE_SIZE) sig_bytes) (\<lambda>s_le.
      Inr (rev r_le, rev s_le))))"

definition verify_report_signature :: "sev_crypto \<Rightarrow> bytes \<Rightarrow> bytes \<Rightarrow> unit res" where
  "verify_report_signature c report vcek =
     try_bind (ok_or (AttestationVerification ''Failed to parse VCEK'') (cert_from_der c vcek)) (\<lambda>vcek_cert.
     try_bind (slice 0 SIGNATURE_OFFSET report) (\<lambda>report_body.
     try_bind (slice SIGNATURE_OFFSET (SIGNATURE_OFFSET + SIGNATURE_SIZE) report) (\<lambda>sig_bytes.
     try_bind (parse_signature_components sig_bytes) (\<lambda>(r_be, s_be).
     let concat_sig = r_be @ s_be in
     if \<not> p384_signature_ok c concat_sig
     then Inl (AttestationVerification ''Invalid signature format'')
     else if \<not> p384_key_ok c (x_public_key vcek_cert)
     then Inl (AttestationVerification ''Invalid VCEK public key'')
     else if \<not> p384_verify c (x_public_key vcek_cert) report_body concat_sig
     then Inl (AttestationVerification ''Signature verification failed'')
     else Inr ()))))"

section \<open>The whole verification\<close>

text \<open>
  The world a verification runs in: the disk, its outcomes, the network, the clock, the
  embedded chain \<open>GENOA_CERT_CHAIN\<close> and the decoders.
\<close>

record sev_env =
  e_crypto :: sev_crypto
  e_io :: disk_io
  e_http :: "str \<Rightarrow> str + http_response"
  e_clock :: "nat option"
  e_genoa_chain :: bytes
  e_decode_b64 :: "str \<Rightarrow> bytes option"
  e_gz_take :: "nat \<Rightarrow> bytes \<Rightarrow> bytes option"

text \<open>Steps 5 to 9, once the VCEK is at hand.\<close>

definition verify_with_vcek :: "sev_env \<Rightarrow> bytes \<Rightarrow> validation_options \<Rightarrow> bytes \<Rightarrow> bytes \<Rightarrow> verification res" where
  "verify_with_vcek env report_bytes options chip_id vcek =
     (let c = e_crypto env in
      try_bind (verify_cert_chain_crypto c (e_clock env) vcek (e_genoa_chain env)) (\<lambda>_.
      try_bind (validate_report_with_chain c report_bytes vcek options) (\<lambda>mask_chip_key.
      try_bind (validate_vcek_hwid c vcek chip_id mask_chip_key) (\<lambda>_.
      try_bind (verify_report_signature c report_bytes vcek) (\<lambda>_.
      try_bind (slice MEASUREMENT_OFFSET (MEASUREMENT_OFFSET + MEASUREMENT_SIZE) report_bytes) (\<lambda>measurement_bytes.
      try_bind (slice REPORT_DATA_OFFSET (REPORT_DATA_OFFSET + REPORT_DATA_SIZE) report_bytes) (\<lambda>report_data.
      try_bind (slice 0 32 report_data) (\<lambda>tls.
      try_bind (slice_from 32 report_data) (\<lambda>hpke.
      Inr \<lparr>v_measurement = \<lparr>m_type = SevGuestV2, registers = [c_hex c measurement_bytes]\<rparr>,
           v_tls_public_key_fp = c_hex c tls,
           v_hpke_public_key = Some (c_hex c hpke)\<rparr>)))))))))"

definition sev_verify_full_with_options ::
  "sev_env \<Rightarrow> str \<Rightarrow> validation_options \<Rightarrow> disk \<Rightarrow> disk \<times> verification res" where
  "sev_verify_full_with_options env bdy options d =
     (case try_bind (decode_report (e_decode_b64 env) (e_gz_take env) bdy) (\<lambda>report_bytes.
           try_bind (validate_report_structure report_bytes) (\<lambda>_.
           try_bind (slice CHIP_ID_OFFSET (CHIP_ID_OFFSET + CHIP_ID_SIZE) report_bytes) (\<lambda>chip_id.
           try_bind (slice REPORTED_TCB_OFFSET (REPORTED_TCB_OFFSET + 8) report_bytes) (\<lambda>reported_tcb.
           Inr (report_bytes, chip_id, reported_tcb))))) of
        Inl e \<Rightarrow> (d, Inl e)
      | Inr (report_bytes, chip_id, reported_tcb) \<Rightarrow>
          (case fetch_vcek (e_crypto env) (e_io env) (e_http env) chip_id reported_tcb d of
             (d', Inl e) \<Rightarrow> (d', Inl e)
           | (d', Inr vcek) \<Rightarrow> (d', verify_with_vcek env report_bytes options chip_id vcek)))"

definition sev_verify_full :: "sev_env \<Rightarrow> str \<Rightarrow> disk \<Rightarrow> disk \<times> verification res" where
  "sev_verify_full env bdy d = sev_verify_full_with_options env bdy default_options d"

text \<open>\<open>attestation/mod.rs\<close>: dispatch on the format of the document.\<close>

definition verify_full_with_options ::
  "sev_env \<Rightarrow> attestation_document \<Rightarrow> validation_options \<Rightarrow> disk \<Rightarrow> disk \<times> verification res" where
  "verify_full_with_options env doc options d =
     (case doc_format doc of
        SevGuestV2 \<Rightarrow> sev_verify_full_with_options env (doc_body doc) options d
      | TdxGuestV2 \<Rightarrow> (d, Inl (UnsupportedFormat ''Intel TDX attestation not yet implemented''))
      | SnpTdxMultiPlatformV1 \<Rightarrow>
          (d, Inl (UnsupportedFormat ''Multi-platform predicate type is not a valid hardware attestation format''))
      | UnknownPredicate \<Rightarrow> (d, Inl (AttestationVerification ''Unknown attestation format'')))"

definition verify_full :: "sev_env \<Rightarrow> attestation_document \<Rightarrow> disk \<Rightarrow> disk \<times> verification res" where
  "verify_full env doc d = verify_full_with_options env doc default_options d"

end
