(* ===== verification/Attestation.thy ===== *)
theory Attestation
  imports Sigstore Sev_Chain
begin

text \<open>
  \<open>verifier/attestation/mod.rs\<close>: fetching the attestation document of an enclave, and the end-to-end
  verification that compares the measurement of the code with that of the enclave; and
  \<open>discovery.rs\<close>, the list of routers.
\<close>

text \<open>
  The environment of a verification: the network as seen by each caller (\<open>a_doc_send\<close> takes the
  request headers), the derived deserialisers of the document and of the router list, the package
  version and the clock.
\<close>

record verify_env =
  a_sev :: sev_env
  a_sig :: sig_ext
  a_cms :: cms_ext
  a_web :: web
  a_doc_send :: "str \<Rightarrow> (str \<times> str) list \<Rightarrow> nat \<Rightarrow> attempt"
  a_doc :: "bytes \<Rightarrow> attestation_document option"
  a_routers :: "bytes \<Rightarrow> str list option"
  a_version :: str
  a_now :: str

section \<open>Fetching\<close>

definition attestation_headers :: "str \<Rightarrow> (str \<times> str) list" where
  "attestation_headers version = [(''tinfoil-sdk'', ''tinfoil-rs''), (''tinfoil-sdk-version'', version)]"

definition fetch_document :: "verify_env \<Rightarrow> str \<Rightarrow> attestation_document res" where
  "fetch_document env host =
     (let url = ''https://'' @ host @ ''/.well-known/tinfoil-attestation'' in
      try_bind (map_err (\<lambda>e. AttestationFetch (''HTTP request failed: '' @ e))
          (fst (fetch_with_retry (w_build (a_web env)) (a_doc_send env url (attestation_headers (a_version env)))))) (\<lambda>response.
      if \<not> is_success response
      then Inl (AttestationFetch (''HTTP '' @ dec_str (status response)))
      else ok_or (AttestationFetch ''JSON parse failed'') (Option.bind (resp_body response) (a_doc env))))"

definition ROUTER_URL :: str where "ROUTER_URL = ''https://atc.tinfoil.sh/routers?platform=snp''"

definition fetch_routers :: "verify_env \<Rightarrow> str list res" where
  "fetch_routers env =
     try_bind (map_err (\<lambda>e. Network (''Failed to fetch routers: '' @ e))
         (fst (fetch_with_retry (w_build (a_web env)) (w_send (a_web env) ROUTER_URL)))) (\<lambda>response.
     if \<not> is_success response
     then Inl (Network (''Router discovery failed: HTTP '' @ dec_str (status response)))
     else ok_or (Network ''Failed to parse routers'') (Option.bind (resp_body response) (a_routers env)))"

section \<open>End-to-end verification\<close>

text \<open>The verifier names itself after its package (\<open>CARGO_PKG_NAME\<close>, the \<open>name\<close> of \<open>Cargo.toml\<close>), not
  after the \<open>SDK_NAME\<close> of the request headers.\<close>

definition verifier_identity :: "str \<Rightarrow> software_identity" where
  "verifier_identity version = \<lparr>sw_name = ''tinfoil'', sw_version = version\<rparr>"

text \<open>Step 3: the comparison, and what is reported.\<close>

definition ground_truth_of :: "verify_env \<Rightarrow> str \<Rightarrow> verification \<Rightarrow> sigstore_result \<Rightarrow> ground_truth res" where
  "ground_truth_of env repo v sr =
     try_bind (map_err (\<lambda>e. AttestationVerification ''Measurement mismatch'')
         (equals (v_measurement v) (sr_measurement sr))) (\<lambda>_.
     let target_type = m_type (v_measurement v);
         sha = s_sha256 (a_sig env); hex = s_hex (a_sig env) in
     Inr \<lparr>config_repo = repo, release_tag = Some (sr_release_tag sr), release_digest = sr_digest sr,
          tls_public_key = Some (v_tls_public_key_fp v), hpke_public_key = v_hpke_public_key v,
          code_measurement = sr_measurement sr, enclave_measurement = v_measurement v,
          code_fingerprint = fingerprint_for_target sha hex (sr_measurement sr) target_type,
          enclave_fingerprint = fingerprint sha hex (v_measurement v),
          gt_verifier = verifier_identity (a_version env), verified_at = a_now env\<rparr>)"

definition verify_complete :: "verify_env \<Rightarrow> str \<Rightarrow> str \<Rightarrow> disk \<Rightarrow> disk \<times> ground_truth res" where
  "verify_complete env host repo d =
     (case fetch_document env host of
        Inl e \<Rightarrow> (d, Inl e)
      | Inr doc \<Rightarrow>
          (case verify_full (a_sev env) doc d of
             (d', Inl e) \<Rightarrow> (d', Inl e)
           | (d', Inr v) \<Rightarrow>
               (d', try_bind (verify_repo (a_sig env) (a_cms env) (a_web env) repo) (\<lambda>sr.
                    ground_truth_of env repo v sr))))"

section \<open>Comparing measurements\<close>

text \<open>Equality of measurements is symmetric in what it accepts.\<close>

lemma equals_sym: "equals a b = Inr () \<Longrightarrow> equals b a = Inr ()"
  by (auto simp: equals_def compare_multiplatform_def split: if_splits predicate_type.splits)

text \<open>
  A measurement of the code matches one of an enclave when its register for that platform is the
  one measured, and of a TDX enclave also when the fourth RTMR is the empty one.
\<close>

definition platform_match :: "measurement \<Rightarrow> measurement \<Rightarrow> bool" where
  "platform_match code enclave =
     (case m_type enclave of
        SevGuestV2 \<Rightarrow> 3 \<le> length (registers code) \<and> registers enclave \<noteq> [] \<and> registers enclave ! 0 = registers code ! 0
      | TdxGuestV2 \<Rightarrow> 3 \<le> length (registers code) \<and> 5 \<le> length (registers enclave) \<and>
          registers enclave ! 2 = registers code ! 1 \<and> registers enclave ! 3 = registers code ! 2 \<and>
          registers enclave ! 4 = rtmr3_zero
      | SnpTdxMultiPlatformV1 \<Rightarrow> 3 \<le> length (registers code) \<and> registers enclave = registers code
      | UnknownPredicate \<Rightarrow> False)"

lemma equals_multiplatform:
  "m_type code = SnpTdxMultiPlatformV1 \<Longrightarrow> m_type enclave \<noteq> SnpTdxMultiPlatformV1 \<Longrightarrow>
     equals enclave code = Inr () \<longleftrightarrow> platform_match code enclave"
  by (cases "m_type enclave"; cases "registers enclave")
    (auto simp: equals_def compare_multiplatform_def platform_match_def not_less)

lemma sev_fingerprints_agree:
  assumes "m_type code = SnpTdxMultiPlatformV1" "m_type enclave = SevGuestV2" "platform_match code enclave"
  shows "fingerprint_for_target sha hex code SevGuestV2 = registers enclave ! 0 \<and>
    fingerprint sha hex enclave = registers enclave ! 0"
  using assms by (auto simp: platform_match_def fingerprint_def fingerprint_for_target_def fingerprint_registers_def
      Let_def split: list.splits)

text \<open>
  C21. Which pairs of measurements are equal does not depend on the order they are given in, and the
  measurement of the code equals that of an SEV-SNP or TDX enclave exactly when the registers of that
  platform agree, all of them present, with the fourth RTMR of a TDX guest zero.
\<close>

theorem measurement_equality:
  "(equals a b = Inr () \<longleftrightarrow> equals b a = Inr ()) \<and>
   (equals \<lparr>m_type = SevGuestV2, registers = rs\<rparr> \<lparr>m_type = SnpTdxMultiPlatformV1, registers = cs\<rparr> = Inr () \<longleftrightarrow>
      3 \<le> length cs \<and> rs \<noteq> [] \<and> rs ! 0 = cs ! 0) \<and>
   (equals \<lparr>m_type = TdxGuestV2, registers = rs\<rparr> \<lparr>m_type = SnpTdxMultiPlatformV1, registers = cs\<rparr> = Inr () \<longleftrightarrow>
      3 \<le> length cs \<and> 5 \<le> length rs \<and> rs ! 2 = cs ! 1 \<and> rs ! 3 = cs ! 2 \<and> rs ! 4 = rtmr3_zero)"
  using equals_sym by (auto simp: equals_multiplatform platform_match_def)

lemma ground_truth_of_Inr:
  assumes "ground_truth_of env repo v sr = Inr gt"
  shows "equals (v_measurement v) (sr_measurement sr) = Inr () \<and> config_repo gt = repo \<and>
    release_tag gt = Some (sr_release_tag sr) \<and> release_digest gt = sr_digest sr \<and>
    tls_public_key gt = Some (v_tls_public_key_fp v) \<and> hpke_public_key gt = v_hpke_public_key v \<and>
    code_measurement gt = sr_measurement sr \<and> enclave_measurement gt = v_measurement v"
  using assms by (auto simp: ground_truth_of_def Let_def result_inv)

lemma verify_complete_Inr:
  assumes "verify_complete env host repo d = (d', Inr gt)"
  obtains doc v sr where "fetch_document env host = Inr doc" "verify_full (a_sev env) doc d = (d', Inr v)"
    "verify_repo (a_sig env) (a_cms env) (a_web env) repo = Inr sr" "ground_truth_of env repo v sr = Inr gt"
  using assms that by (auto simp: verify_complete_def result_inv split: sum.splits prod.splits)

end
