(* ===== verification/Sev_Properties.thy ===== *)
theory Sev_Properties
  imports Sev_Chain
begin

text \<open>
  What an accepted SEV-SNP attestation guarantees: the state of the platform under the default
  options, the chain of trust from AMD's pinned root key to the report, freedom from panics
  on any input, and the integrity of the VCEK cache.
\<close>

section \<open>Report fields\<close>

lemma fields_fixed:
  assumes "validate_report_fields_with_options report options = Inr m"
  shows "validate_mbz_fields report = Inr ()" and "validate_signer_info report = Inr m"
    and "validate_committed_tcb report = Inr ()"
    and "u32_at report SIGNATURE_ALGO_OFFSET = 1"
    and "bit (u64_at report POLICY_OFFSET) 17" and "drop_bit 26 (u64_at report POLICY_OFFSET) = 0"
    and "validate_policy_svn report options (u64_at report POLICY_OFFSET) = Inr ()"
  by (rule validate_report_fields_Inr [OF assms],
      drule validate_fixed_fields_Inr, simp add: SIGNATURE_ALGO_ECDSA_P384_SHA384_def)+

lemma signer_key_zero:
  assumes "drop_bit 5 (w :: u32) = 0" and "drop_bit 2 w AND 7 = 0"
  shows "drop_bit 2 w = 0"
proof (rule bit_word_eqI)
  fix n assume "n < LENGTH(32)"
  have "(7 :: u32) = mask 3" by (simp add: mask_eq_exp_minus_1)
  then have "drop_bit 2 w AND mask 3 = 0" using assms(2) by simp
  then have "\<not> bit (drop_bit 2 w AND mask 3) n" by simp
  moreover have "\<not> bit (drop_bit 5 w) (n - 3)" using assms(1) by simp
  ultimately show "bit (drop_bit 2 w) n \<longleftrightarrow> bit (0 :: u32) n"
    by (cases "n < 3") (auto simp: bit_and_iff bit_mask_iff bit_drop_bit_eq)
qed

lemma signer_mask_bit: "(w :: u32) AND 2 \<noteq> 0 \<longleftrightarrow> bit w 1"
  using flag_bit [of w 1] by simp

definition TCB_OFFSETS :: "nat set" where
  "TCB_OFFSETS = {CURRENT_TCB_OFFSET, REPORTED_TCB_OFFSET, COMMITTED_TCB_OFFSET, LAUNCH_TCB_OFFSET}"

text \<open>
  C12. A report accepted under the default options runs in production mode: debug and
  migration are off, no CXL and no AES-XTS mode, bit 17 of the policy is set, TSME is on and no
  reserved platform bit is, the guest runs at VMPL 0, the signing key is the VCEK, the
  committed firmware is the current one and at least 1.55 build 21, and all four TCB values
  meet the minimum.
\<close>

theorem default_options_production:
  assumes "validate_report_fields_with_options report default_options = Inr m"
  shows "\<not> bit (u64_at report POLICY_OFFSET) 19 \<and> \<not> bit (u64_at report POLICY_OFFSET) 18 \<and>
    \<not> bit (u64_at report POLICY_OFFSET) 21 \<and> \<not> bit (u64_at report POLICY_OFFSET) 22 \<and>
    bit (u64_at report POLICY_OFFSET) 17 \<and>
    bit (u64_at report PLATFORM_INFO_OFFSET) 1 \<and>
    u64_at report PLATFORM_INFO_OFFSET AND NOT PLATFORM_INFO_VALID_MASK = 0 \<and>
    u32_at report VMPL_OFFSET = 0 \<and> u32_at report SIGNATURE_ALGO_OFFSET = 1 \<and>
    drop_bit 2 (u32_at report SIGNER_INFO_OFFSET) = 0 \<and> m = bit (u32_at report SIGNER_INFO_OFFSET) 1 \<and>
    u64_at report COMMITTED_TCB_OFFSET = u64_at report CURRENT_TCB_OFFSET \<and>
    21 \<le> report ! COMMITTED_BUILD_OFFSET \<and>
    311 \<le> version_word (report ! COMMITTED_MAJOR_OFFSET) (report ! COMMITTED_MINOR_OFFSET) \<and>
    (\<forall>off\<in>TCB_OFFSETS. meets_minimum (tcb_from_u64 (u64_at report off)) default_tcb)"
proof -
  let ?o = default_options and ?p = "u64_at report POLICY_OFFSET"
  note fixed = fields_fixed [OF assms]
  obtain p where st: "validate_build_version report ?o = Inr ()" "validate_tcbs report ?o = Inr ()"
      "validate_platform report ?o = Inr ()" "validate_vmpl report (o_vmpl ?o) = Inr ()"
    by (rule validate_report_fields_Inr [OF assms])
  have "validate_policy (policy_from_u64 ?p) default_policy = Inr ()"
    using validate_policy_svn_Inr [OF fixed(7)] by (simp add: default_options_def)
  then have policy: "\<not> bit ?p 19" "\<not> bit ?p 18" "\<not> bit ?p 21" "\<not> bit ?p 22"
    by (auto simp: result_inv policy_from_u64_bits default_policy_def)
  have build: "21 \<le> report ! COMMITTED_BUILD_OFFSET"
    "311 \<le> version_word (report ! COMMITTED_MAJOR_OFFSET) (report ! COMMITTED_MINOR_OFFSET)"
    using validate_build_version_Inr [OF st(1)] by (auto simp: default_options_def)
  have tcbs: "\<forall>off\<in>TCB_OFFSETS. meets_minimum (tcb_from_u64 (u64_at report off)) default_tcb"
    using validate_tcbs_Inr [OF st(2)] by (auto simp: default_options_def TCB_OFFSETS_def)
  have platform: "bit (u64_at report PLATFORM_INFO_OFFSET) 1"
    "u64_at report PLATFORM_INFO_OFFSET AND NOT PLATFORM_INFO_VALID_MASK = 0"
    using validate_platform_Inr [OF st(3)] by (auto simp: default_options_def result_inv platform_from_u64_bits)
  have vmpl: "u32_at report VMPL_OFFSET = 0"
    using st(4) by (simp add: default_options_def result_inv)
  have signer: "drop_bit 2 (u32_at report SIGNER_INFO_OFFSET) = 0" "m = bit (u32_at report SIGNER_INFO_OFFSET) 1"
    using fixed(2) by (auto simp: validate_signer_info_Inr signer_key_zero signer_mask_bit)
  show ?thesis
    using fixed(3,4,5) policy build tcbs platform vmpl signer by (auto simp: validate_committed_tcb_Inr)
qed

text \<open>The hypothesis holds: a version 2 report of a production platform.\<close>

definition good_byte :: "nat \<Rightarrow> u8" where
  "good_byte i =
     (if i \<in> {56, 384, 480, 496} then 7 else if i \<in> {62, 390, 486, 502} then 0xe
      else if i \<in> {63, 391, 487, 503} then 0x48 else if i \<in> {0, 10, 64} then 2
      else if i \<in> {52, 490, 494} then 1 else if i \<in> {488, 492} then 21
      else if i \<in> {489, 493} then 55 else 0)"

definition good_report :: bytes where
  "good_report = map good_byte [0..<1184]"

lemma length_good_report [simp]: "length good_report = 1184"
  by (simp add: good_report_def)

lemma good_report_nth: "i < 1184 \<Longrightarrow> good_report ! i = good_byte i"
  by (simp add: good_report_def)

lemma good_report_slice:
  "off + n \<le> 1184 \<Longrightarrow> take n (drop off good_report) = map good_byte [off..<off + n]"
  by (simp add: good_report_def take_map drop_map)

lemma good_report_u64:
  "off + 8 \<le> 1184 \<Longrightarrow> u64_at good_report off = from_le_bytes (map good_byte [off, off + 1, off + 2, off + 3, off + 4, off + 5, off + 6, off + 7])"
  using good_report_slice [of off 8] by (simp add: u64_at_def upt_conv_Cons eval_nat_numeral)

lemma good_report_u32:
  "off + 4 \<le> 1184 \<Longrightarrow> u32_at good_report off = from_le_bytes (map good_byte [off, off + 1, off + 2, off + 3])"
  using good_report_slice [of off 4] by (simp add: u32_at_def upt_conv_Cons eval_nat_numeral)

lemma good_report_reads:
  "u32_at good_report 0 = 2" "u32_at good_report GUEST_SVN_OFFSET = 0"
  "u64_at good_report POLICY_OFFSET = 0x20000" "u32_at good_report VMPL_OFFSET = 0"
  "u32_at good_report SIGNATURE_ALGO_OFFSET = 1" "u32_at good_report SIGNER_INFO_OFFSET = 0"
  "u64_at good_report PLATFORM_INFO_OFFSET = 2"
  "off \<in> TCB_OFFSETS \<Longrightarrow> u64_at good_report off = 0x480E000000000007"
  by (auto simp: good_report_u32 good_report_u64 offsets TCB_OFFSETS_def good_byte_def from_le_bytes_def)

lemma good_report_accepted:
  "validate_report_fields_with_options good_report default_options = Inr False"
proof -
  have tcb: "u64_at good_report CURRENT_TCB_OFFSET = 0x480E000000000007"
    "u64_at good_report REPORTED_TCB_OFFSET = 0x480E000000000007"
    "u64_at good_report COMMITTED_TCB_OFFSET = 0x480E000000000007"
    "u64_at good_report LAUNCH_TCB_OFFSET = 0x480E000000000007"
    by (simp_all add: good_report_reads TCB_OFFSETS_def)
  have z: "good_byte i = 0" if "i \<in> {0x4C..<0x50} \<union> {0x188..<0x1A0} \<union> {0x1EB} \<union> {0x1EF} \<union> {0x1F8..<1184}" for i
    using that by (auto simp: good_byte_def)
  have mbz: "validate_mbz_fields good_report = Inr ()"
    unfolding validate_mbz_fields_def
    by (auto simp: result_inv good_report_reads tcb good_report_nth z tcb [unfolded offsets] offsets)
  have signer: "validate_signer_info good_report = Inr False"
    by (simp add: result_inv good_report_reads) (simp add: offsets)
  have committed: "validate_committed_tcb good_report = Inr ()"
    by (simp add: result_inv tcb) (simp add: offsets good_report_nth good_byte_def)
  have fixed: "validate_fixed_fields good_report default_options = Inr (False, 0x20000)"
    by (simp add: validate_fixed_fields_def mbz signer committed result_inv good_report_reads policy_bit_17
        default_options_def SIGNATURE_ALGO_ECDSA_P384_SHA384_def) (simp add: offsets)
  have svn: "validate_policy_svn good_report default_options 0x20000 = Inr ()"
    by (simp add: validate_policy_svn_def result_inv good_report_reads policy_from_u64_bits
        default_options_def default_policy_def)
      (simp add: offsets policy_from_u64_def version_word_def)
  have build: "validate_build_version good_report default_options = Inr ()"
    by (simp add: validate_build_version_def field_read offsets good_report_nth good_byte_def
        default_options_def version_word_def)
  have tcbs: "validate_tcbs good_report default_options = Inr ()"
    by (simp add: validate_tcbs_def result_inv tcb default_options_def default_tcb_def)
      (simp add: offsets tcb_from_u64_def meets_minimum_def)
  have platform: "validate_platform good_report default_options = Inr ()"
    by (simp add: validate_platform_def result_inv good_report_reads platform_from_u64_bits
        default_options_def PLATFORM_INFO_VALID_MASK_def) (simp add: offsets)
  have vmpl: "validate_vmpl good_report (o_vmpl default_options) = Inr ()"
    by (simp add: result_inv good_report_reads default_options_def) (simp add: offsets)
  have eqs: "validate_equalities good_report default_options = Inr ()"
    by (simp add: validate_equalities_def validate_field_def default_options_def)
  show ?thesis
    by (simp add: validate_report_fields_with_options_def fixed svn build tcbs platform vmpl eqs)
qed

lemma default_options_production_witness:
  "\<not> bit (u64_at good_report POLICY_OFFSET) 19 \<and> u32_at good_report VMPL_OFFSET = 0 \<and>
    meets_minimum (tcb_from_u64 (u64_at good_report LAUNCH_TCB_OFFSET)) default_tcb"
  using default_options_production [OF good_report_accepted] by (auto simp: TCB_OFFSETS_def)

section \<open>TCB words\<close>

definition tcb_to_u64 :: "tcb_parts \<Rightarrow> u64" where
  "tcb_to_u64 t = ucast (bl_spl t) OR push_bit 8 (ucast (tee_spl t))
     OR push_bit 48 (ucast (snp_spl t)) OR push_bit 56 (ucast (ucode_spl t))"

lemma tcb_from_to_u64: "tcb_from_u64 (tcb_to_u64 t) = t"
  by (rule tcb_parts.equality; (rule bit_word_eqI)?)
    (auto simp: tcb_from_u64_bits tcb_to_u64_def bit_or_iff bit_ucast_iff bit_push_bit_iff
      dest: bit_imp_le_length)

lemma tcb_to_from_u64:
  assumes "drop_bit 16 w AND 0xFFFFFFFF = 0"
  shows "tcb_to_u64 (tcb_from_u64 w) = w"
proof (rule bit_word_eqI)
  fix n assume n: "n < LENGTH(64)"
  have zero: "\<not> bit w n" if "16 \<le> n" "n < 48"
  proof -
    have m: "(0xFFFFFFFF :: u64) = mask 32" by (simp add: mask_eq_exp_minus_1)
    have "\<not> bit (drop_bit 16 w AND mask 32) (n - 16)" using assms by (simp add: m [symmetric])
    then show ?thesis using that n by (auto simp: bit_and_iff bit_mask_iff bit_drop_bit_eq)
  qed
  consider "n < 8" | "8 \<le> n" "n < 16" | "16 \<le> n" "n < 48" | "48 \<le> n" "n < 56" | "56 \<le> n" "n < 64"
    using n by fastforce
  then show "bit (tcb_to_u64 (tcb_from_u64 w)) n \<longleftrightarrow> bit w n"
    using n zero
    by cases (simp_all add: tcb_to_u64_def bit_or_iff bit_ucast_iff bit_push_bit_iff tcb_from_u64_bits, auto)
qed

text \<open>
  In an accepted report a TCB value is its four components and nothing else: it is
  rebuilt from \<open>TcbParts::from_u64\<close>, so comparing the components, as the VCEK check does,
  compares the whole value.
\<close>

theorem accepted_tcb_roundtrip:
  assumes "validate_report_fields_with_options report options = Inr m" and "off \<in> TCB_OFFSETS"
  shows "tcb_to_u64 (tcb_from_u64 (u64_at report off)) = u64_at report off"
  using assms(2) validate_mbz_fields_tcb [OF fields_fixed(1) [OF assms(1)]]
  by (auto simp: TCB_OFFSETS_def intro!: tcb_to_from_u64)

lemma accepted_tcb_roundtrip_witness:
  "tcb_to_u64 (tcb_from_u64 (u64_at good_report REPORTED_TCB_OFFSET)) = 0x480E000000000007"
  using accepted_tcb_roundtrip [OF good_report_accepted, of REPORTED_TCB_OFFSET]
  by (simp add: TCB_OFFSETS_def good_report_reads)

section \<open>No panics\<close>

lemma no_panic_get_ext: "no_panic (get_vcek_extension c vcek oid)"
  by (auto simp: get_vcek_extension_def)

lemma no_panic_spl: "no_panic (validate_spl c vcek oid label spl)"
  unfolding validate_spl_def
  by (intro no_panic_bind no_panic_get_ext no_panic_if)
    (auto simp: decode_der_integer_def split: list.split)

lemma no_panic_vcek_extensions: "length tcb = 8 \<Longrightarrow> no_panic (validate_vcek_extensions c vcek tcb)"
  unfolding validate_vcek_extensions_def Let_def
  by (simp, intro no_panic_bind no_panic_spl no_panic_get_ext no_panic_if) auto

lemma no_panic_report_with_chain:
  assumes "REPORT_SIZE \<le> length report"
  shows "no_panic (validate_report_with_chain c report vcek options)"
  unfolding validate_report_with_chain_def
  using assms
  by (intro no_panic_bind no_panic_report_fields no_panic_vcek_extensions)
    (auto simp: offsets result_inv)

lemma no_panic_hwid: "no_panic (validate_vcek_hwid c vcek chip_id m)"
  unfolding validate_vcek_hwid_def by (intro no_panic_if no_panic_bind no_panic_get_ext) auto

lemma no_panic_signature:
  "REPORT_SIZE \<le> length report \<Longrightarrow> no_panic (verify_report_signature c report vcek)"
  unfolding verify_report_signature_def parse_signature_components_def Let_def
  by (intro no_panic_bind no_panic_if) (auto simp: offsets result_inv split: prod.splits)

lemma no_panic_name_attr: "no_panic (require_name_attr c nm oid a b e)"
  unfolding require_name_attr_def by (intro no_panic_bind no_panic_if) auto

lemma no_panic_extract_cn: "no_panic (extract_cn c nm)"
  unfolding extract_cn_def extract_name_attr_def
  by (intro no_panic_bind) (auto simp: decode_directory_string_def result_inv split: der_tag.split)

lemma no_panic_location: "no_panic (validate_amd_location c nm a)"
  unfolding validate_amd_location_def by (intro no_panic_bind no_panic_name_attr) auto

lemma no_panic_signed_by: "no_panic (verify_signed_by c cert key a b)"
  unfolding verify_signed_by_def extract_tbs_from_cert_def parse_rsa_pss_sha384_salt_len_def
    verify_rsa_pss_signature_def
  by (intro no_panic_bind no_panic_if) auto

lemma no_panic_chain: "no_panic (verify_cert_chain_crypto c clock vcek pem)"
proof -
  have "no_panic (validate_vcek_format c cert)" for cert
    unfolding validate_vcek_format_def by (intro no_panic_if) (auto split: option.split)
  moreover have "no_panic (parse_ask_ark c pem)"
    unfolding parse_ask_ark_def parse_pem_chain_def by (intro no_panic_bind no_panic_if) auto
  moreover have "no_panic (validate_certificate_validity clock cert n)" for cert n
    unfolding validate_certificate_validity_def by (intro no_panic_bind no_panic_if) auto
  moreover have "no_panic (validate_basic_constraints cert n b)" for cert n b
    by (auto simp: validate_basic_constraints_def split: sum.split option.split)
  moreover have "no_panic (compute_spki_fingerprint c cert)" for cert
    unfolding compute_spki_fingerprint_def by (intro no_panic_bind) auto
  moreover have "no_panic (validate_chain_names c v a r)" for v a r
    unfolding validate_chain_names_def validate_signature_algorithm_consistency_def
    by (intro no_panic_if no_panic_bind no_panic_extract_cn no_panic_location) auto
  moreover have "no_panic (verify_chain_signatures c v a r)" for v a r
    unfolding verify_chain_signatures_def extract_pubkey_from_cert_def
    by (intro no_panic_bind no_panic_signed_by) auto
  ultimately show ?thesis
    unfolding verify_cert_chain_crypto_def validate_chain_certs_def
    by (intro no_panic_bind no_panic_if) (auto split: prod.split intro!: no_panic_bind)
qed

lemma no_panic_with_vcek:
  assumes "REPORT_SIZE \<le> length report"
  shows "no_panic (verify_with_vcek env report options chip_id vcek)"
  unfolding verify_with_vcek_def Let_def
  using assms
  by (intro no_panic_bind no_panic_chain no_panic_report_with_chain no_panic_hwid no_panic_signature)
    (auto simp: offsets result_inv slice_from_def)

lemma no_panic_fetch_vcek:
  assumes "length tcb = 8"
  shows "no_panic (snd (fetch_vcek c io http chip_id tcb d))"
proof -
  have net: "no_panic (snd (fetch_vcek_network io p t r d'))" for p t r d'
    by (auto simp: fetch_vcek_network_def split: sum.splits option.splits)
  show ?thesis
    using assms by (auto simp: fetch_vcek_def Let_def net split: option.splits)
qed

text \<open>
  C15. No attestation document makes the verifier panic: for every body, every disk, every
  network answer and every option, \<open>sev::verify_full_with_options\<close> returns a verification or
  an error of the crate. All slices are in range because the structure check runs first.
\<close>

theorem sev_never_panics:
  "no_panic (snd (sev_verify_full_with_options env bdy options d))"
proof -
  have dec: "no_panic (decode_report (e_decode_b64 env) (e_gz_take env) bdy)"
    unfolding decode_report_def by (intro no_panic_bind no_panic_if) auto
  have str: "no_panic (validate_report_structure report)" for report
    by (auto simp: validate_report_structure_def field_read REPORT_SIZE_def)
  let ?m = "try_bind (decode_report (e_decode_b64 env) (e_gz_take env) bdy) (\<lambda>report_bytes.
           try_bind (validate_report_structure report_bytes) (\<lambda>_.
           try_bind (slice CHIP_ID_OFFSET (CHIP_ID_OFFSET + CHIP_ID_SIZE) report_bytes) (\<lambda>chip_id.
           try_bind (slice REPORTED_TCB_OFFSET (REPORTED_TCB_OFFSET + 8) report_bytes) (\<lambda>reported_tcb.
           Inr (report_bytes, chip_id, reported_tcb)))))"
  show ?thesis
  proof (cases ?m)
    case (Inl e)
    have "no_panic ?m"
      by (intro no_panic_bind dec str) (auto simp: result_inv offsets)
    then show ?thesis using Inl by (simp add: sev_verify_full_with_options_def)
  next
    case (Inr x)
    then obtain report chip tcb where x: "x = (report, chip, tcb)" "REPORT_SIZE \<le> length report" "length tcb = 8"
      by (auto simp: result_inv offsets)
    obtain d' r where f: "fetch_vcek (e_crypto env) (e_io env) (e_http env) chip tcb d = (d', r)"
      by fastforce
    have "no_panic r" using no_panic_fetch_vcek [OF x(3)] f by (metis snd_conv)
    then show ?thesis
      using Inr x f no_panic_with_vcek [OF x(2)]
      by (cases r) (simp_all add: sev_verify_full_with_options_def)
  qed
qed

section \<open>The chain of trust\<close>

text \<open>\<open>signed_by\<close>: the signature over the certificate's body verifies under a key.\<close>

definition signed_by :: "sev_crypto \<Rightarrow> certificate \<Rightarrow> bytes \<Rightarrow> bool" where
  "signed_by c cert key =
     (\<exists>tbs salt. tbs_to_der c cert = Some tbs \<and> pss_sha384_verify c key salt tbs (x_signature cert))"

definition valid_at :: "nat \<Rightarrow> certificate \<Rightarrow> bool" where
  "valid_at now cert = (x_not_before cert \<le> now \<and> now \<le> x_not_after cert)"

text \<open>
  The abstract promise of the chain check: a root with the pinned key fingerprint signs
  itself and the ASK, the ASK signs the VCEK, both issuers are CAs, the VCEK is not, and
  all three are valid now.
\<close>

definition chain_of_trust :: "sev_crypto \<Rightarrow> nat \<Rightarrow> certificate \<Rightarrow> certificate \<Rightarrow> certificate \<Rightarrow> bool" where
  "chain_of_trust c now vcek ask ark =
     (\<exists>ark_key ask_key.
       spki_to_der c ark = Some ark_key \<and> spki_to_der c ask = Some ask_key \<and>
       c_hex c (digest_bytes (c_sha256 c ark_key)) = AMD_ARK_GENOA_SPKI_FINGERPRINT \<and>
       signed_by c ark ark_key \<and> signed_by c ask ark_key \<and> signed_by c vcek ask_key \<and>
       x_issuer vcek = x_subject ask \<and> x_issuer ask = x_subject ark \<and> x_issuer ark = x_subject ark \<and>
       x_basic_constraints ark = Inr (Some True) \<and> x_basic_constraints ask = Inr (Some True) \<and>
       x_basic_constraints vcek \<noteq> Inr (Some True) \<and>
       valid_at now vcek \<and> valid_at now ask \<and> valid_at now ark)"

lemma verify_signed_by_Inr:
  "verify_signed_by c cert key a b = Inr u \<Longrightarrow> signed_by c cert key"
  by (auto simp: verify_signed_by_def extract_tbs_from_cert_def verify_rsa_pss_signature_def
      signed_by_def result_inv)

lemma validity_Inr:
  "validate_certificate_validity clock cert n = Inr u \<longleftrightarrow> (\<exists>now. clock = Some now \<and> valid_at now cert)"
  by (auto simp: validate_certificate_validity_def valid_at_def result_inv not_less)

lemma basic_constraints_Inr:
  "validate_basic_constraints cert n True = Inr u \<longleftrightarrow> x_basic_constraints cert = Inr (Some True)"
  "validate_basic_constraints cert n False = Inr u \<longleftrightarrow> x_basic_constraints cert \<in> {Inr (Some False), Inr None}"
  by (auto simp: validate_basic_constraints_def split: sum.splits option.splits)

lemma verify_chain_Inr:
  assumes "verify_cert_chain_crypto c clock vcek_der pem = Inr u"
  obtains now vcek ask ark where "clock = Some now" "cert_from_der c vcek_der = Some vcek"
    "chain_of_trust c now vcek ask ark"
proof -
  obtain vcek ask ark where v: "cert_from_der c vcek_der = Some vcek"
    and certs: "validate_chain_certs c clock vcek ask ark = Inr ()"
    and names: "validate_chain_names c vcek ask ark = Inr ()"
    and sigs: "verify_chain_signatures c vcek ask ark = Inr ()"
    using assms by (auto simp: verify_cert_chain_crypto_def result_inv)
  obtain now ark_key where now: "clock = Some now" "valid_at now vcek" "valid_at now ask" "valid_at now ark"
      "x_basic_constraints ark = Inr (Some True)" "x_basic_constraints ask = Inr (Some True)"
      "x_basic_constraints vcek \<in> {Inr (Some False), Inr None}"
    and key: "spki_to_der c ark = Some ark_key"
      "c_hex c (digest_bytes (c_sha256 c ark_key)) = AMD_ARK_GENOA_SPKI_FINGERPRINT"
    using certs by (auto simp: validate_chain_certs_def result_inv validity_Inr basic_constraints_Inr
        compute_spki_fingerprint_def)
  obtain ask_key where "spki_to_der c ask = Some ask_key" "signed_by c ark ark_key"
      "signed_by c ask ark_key" "signed_by c vcek ask_key"
    using sigs key(1)
    by (auto simp: verify_chain_signatures_def extract_pubkey_from_cert_def result_inv dest!: verify_signed_by_Inr)
  moreover have "x_issuer vcek = x_subject ask" "x_issuer ask = x_subject ark" "x_issuer ark = x_subject ark"
    using names by (auto simp: validate_chain_names_def result_inv)
  ultimately have "chain_of_trust c now vcek ask ark"
    using now key by (auto simp: chain_of_trust_def)
  with that now(1) v show ?thesis by blast
qed

definition vcek_ext :: "certificate \<Rightarrow> str \<Rightarrow> bytes option" where
  "vcek_ext cert oid =
     (case x_extensions cert of None \<Rightarrow> None
      | Some exts \<Rightarrow> map_option extn_value (find (\<lambda>e. extn_id e = oid) exts))"

lemma get_vcek_extension_Inr [result_inv]:
  "get_vcek_extension c der oid = Inr e \<longleftrightarrow> (\<exists>cert. cert_from_der c der = Some cert \<and> e = vcek_ext cert oid)"
  by (auto simp: get_vcek_extension_def vcek_ext_def result_inv)

text \<open>The VCEK extension \<open>oid\<close> is the DER integer of one byte \<open>spl\<close>.\<close>

definition vcek_spl :: "sev_crypto \<Rightarrow> certificate \<Rightarrow> str \<Rightarrow> u8 \<Rightarrow> bool" where
  "vcek_spl c cert oid spl =
     (\<exists>v. vcek_ext cert oid = Some v \<and> decode_der_integer c v = Inr spl)"

definition vcek_matches :: "sev_crypto \<Rightarrow> certificate \<Rightarrow> bytes \<Rightarrow> bool \<Rightarrow> bool" where
  "vcek_matches c vcek report m =
     (let t = tcb_from_u64 (u64_at report REPORTED_TCB_OFFSET);
          chip_id = take CHIP_ID_SIZE (drop CHIP_ID_OFFSET report) in
      vcek_spl c vcek OID_BL_SPL (bl_spl t) \<and> vcek_spl c vcek OID_TEE_SPL (tee_spl t) \<and>
      vcek_spl c vcek OID_SNP_SPL (snp_spl t) \<and> vcek_spl c vcek OID_UCODE_SPL (ucode_spl t) \<and>
      vcek_ext vcek OID_CSP_ID = None \<and>
      (if m then list_all (\<lambda>b. b = 0) chip_id else vcek_ext vcek OID_HWID = Some chip_id))"

definition report_signed :: "sev_crypto \<Rightarrow> certificate \<Rightarrow> bytes \<Rightarrow> bool" where
  "report_signed c vcek report =
     p384_verify c (x_public_key vcek) (take 672 report)
       (rev (take 48 (drop 672 report)) @ rev (take 48 (drop 744 report)))"

lemma vcek_extensions_Inr:
  assumes "validate_vcek_extensions c der tcb = Inr u" and "cert_from_der c der = Some cert"
  shows "let t = tcb_from_u64 (from_le_bytes tcb) in
      vcek_spl c cert OID_BL_SPL (bl_spl t) \<and> vcek_spl c cert OID_TEE_SPL (tee_spl t) \<and>
      vcek_spl c cert OID_SNP_SPL (snp_spl t) \<and> vcek_spl c cert OID_UCODE_SPL (ucode_spl t) \<and>
      vcek_ext cert OID_CSP_ID = None"
  using assms
  by (auto simp: validate_vcek_extensions_def validate_spl_def vcek_spl_def Let_def result_inv)

lemma hwid_Inr:
  assumes "validate_vcek_hwid c der chip_id m = Inr u" and "cert_from_der c der = Some cert"
  shows "if m then list_all (\<lambda>b. b = 0) chip_id else vcek_ext cert OID_HWID = Some chip_id"
  using assms by (auto simp: validate_vcek_hwid_def result_inv list_ex_iff list_all_iff split: if_splits)

lemma verify_report_signature_Inr:
  assumes "verify_report_signature c report der = Inr u" and "cert_from_der c der = Some cert"
  shows "report_signed c cert report"
  using assms
  by (auto simp: verify_report_signature_def parse_signature_components_def report_signed_def Let_def
      result_inv offsets drop_take)

lemma sev_accepted:
  assumes "sev_verify_full_with_options env bdy options d = (d', Inr v)"
  shows "\<exists>report vcek ask ark now m.
    decode_report (e_decode_b64 env) (e_gz_take env) bdy = Inr report \<and> 1184 \<le> length report \<and>
    e_clock env = Some now \<and> chain_of_trust (e_crypto env) now vcek ask ark \<and>
    validate_report_fields_with_options report options = Inr m \<and>
    vcek_matches (e_crypto env) vcek report m \<and> report_signed (e_crypto env) vcek report \<and>
    v = \<lparr>v_measurement = \<lparr>m_type = SevGuestV2, registers = [c_hex (e_crypto env) (take 48 (drop 144 report))]\<rparr>,
         v_tls_public_key_fp = c_hex (e_crypto env) (take 32 (drop 80 report)),
         v_hpke_public_key = Some (c_hex (e_crypto env) (take 32 (drop 112 report)))\<rparr>"
proof -
  let ?c = "e_crypto env"
  obtain report vcek_der where r: "decode_report (e_decode_b64 env) (e_gz_take env) bdy = Inr report"
      "REPORT_SIZE \<le> length report"
    and v: "verify_with_vcek env report options (take CHIP_ID_SIZE (drop CHIP_ID_OFFSET report)) vcek_der = Inr v"
    using assms by (auto simp: sev_verify_full_with_options_def result_inv split: sum.splits prod.splits)
  obtain m where chain: "verify_cert_chain_crypto ?c (e_clock env) vcek_der (e_genoa_chain env) = Inr ()"
    and fields: "validate_report_fields_with_options report options = Inr m"
    and ext: "validate_vcek_extensions ?c vcek_der (take 8 (drop REPORTED_TCB_OFFSET report)) = Inr ()"
    and hwid: "validate_vcek_hwid ?c vcek_der (take CHIP_ID_SIZE (drop CHIP_ID_OFFSET report)) m = Inr ()"
    and sig: "verify_report_signature ?c report vcek_der = Inr ()"
    and out: "v = \<lparr>v_measurement = \<lparr>m_type = SevGuestV2, registers = [c_hex ?c (take MEASUREMENT_SIZE (drop MEASUREMENT_OFFSET report))]\<rparr>,
         v_tls_public_key_fp = c_hex ?c (take 32 (take REPORT_DATA_SIZE (drop REPORT_DATA_OFFSET report))),
         v_hpke_public_key = Some (c_hex ?c (drop 32 (take REPORT_DATA_SIZE (drop REPORT_DATA_OFFSET report))))\<rparr>"
    using v by (auto simp: verify_with_vcek_def validate_report_with_chain_def Let_def result_inv)
  obtain now vcek ask ark where "e_clock env = Some now" and cert: "cert_from_der ?c vcek_der = Some vcek"
    and "chain_of_trust ?c now vcek ask ark"
    by (rule verify_chain_Inr [OF chain])
  moreover have "vcek_matches ?c vcek report m"
    using vcek_extensions_Inr [OF ext cert] hwid_Inr [OF hwid cert]
    by (simp add: vcek_matches_def u64_at_def Let_def)
  moreover have "report_signed ?c vcek report"
    by (rule verify_report_signature_Inr [OF sig cert])
  ultimately show ?thesis
    using r fields out by (auto simp: offsets drop_take)
qed

text \<open>
  C9. Step 1 of the verification: when \<open>sev::verify_full_with_options\<close> accepts, the body
  decodes to a report whose fields satisfy the options, whose first 672 bytes are signed by
  the key of a VCEK certificate that names this chip and this TCB, and that VCEK descends
  from AMD's pinned root key; measurement, TLS fingerprint and HPKE key are bytes of that
  signed report.
\<close>

theorem sev_verified_chain:
  assumes "sev_verify_full_with_options env bdy options d = (d', Inr v)"
  shows "\<exists>report vcek ask ark now m.
    decode_report (e_decode_b64 env) (e_gz_take env) bdy = Inr report \<and> 1184 \<le> length report \<and>
    e_clock env = Some now \<and> chain_of_trust (e_crypto env) now vcek ask ark \<and>
    validate_report_fields_with_options report options = Inr m \<and>
    vcek_matches (e_crypto env) vcek report m \<and> report_signed (e_crypto env) vcek report \<and>
    v = \<lparr>v_measurement = \<lparr>m_type = SevGuestV2, registers = [c_hex (e_crypto env) (take 48 (drop 144 report))]\<rparr>,
         v_tls_public_key_fp = c_hex (e_crypto env) (take 32 (drop 80 report)),
         v_hpke_public_key = Some (c_hex (e_crypto env) (take 32 (drop 112 report)))\<rparr>"
  by (rule sev_accepted [OF assms])

section \<open>The VCEK cache\<close>

text \<open>
  C16. The cache is atomic and holds nothing but certificates AMD's service returned:
  after \<open>fetch_vcek\<close> the file at the cache path is the old one, absent, or the complete body
  of a successful response, whatever writes and renames do, and no path but the cache path
  and its temporary sibling changes.
\<close>

theorem vcek_cache_atomic:
  assumes "fetch_vcek c io http chip_id tcb d = (d', r)"
    and "vcek_cache_path io ''Genoa'' (c_hex c chip_id) (from_le_bytes tcb) = Some path"
    and "vcek_tmp_path io ''Genoa'' (c_hex c chip_id) (from_le_bytes tcb) = Some tmp"
  shows "(d' path = d path \<or> d' path = None \<or>
      (\<exists>response. http (vcek_url (c_hex c chip_id) (tcb_from_u64 (from_le_bytes tcb))) = Inr response \<and>
         is_success response \<and> d' path = resp_body response)) \<and>
    (\<forall>p. p \<noteq> path \<and> p \<noteq> tmp \<longrightarrow> d' p = d p)"
proof -
  have ne: "path \<noteq> tmp"
    using assms(2,3) by (auto simp: vcek_cache_path_def vcek_tmp_path_def)
  have wc: "(write_cache io path tmp b e) path \<in> {e path, Some b} \<and> (\<forall>p. p \<noteq> path \<and> p \<noteq> tmp \<longrightarrow> write_cache io path tmp b e p = e p)" for b e
    using ne by (auto simp: write_cache_def remove_file_def Let_def)
  have net: "(e' path = e path \<or>
      (\<exists>response. f = Inr response \<and> is_success response \<and> e' path = resp_body response)) \<and>
      (\<forall>p. p \<noteq> path \<and> p \<noteq> tmp \<longrightarrow> e' p = e p)"
    if "fetch_vcek_network io (Some path) (Some tmp) f e = (e', r)" for f e e'
    using that wc by (auto simp: fetch_vcek_network_def split: sum.splits if_splits option.splits)
  have rm: "remove_file io path d path \<in> {d path, None}" "p \<noteq> path \<Longrightarrow> remove_file io path d p = d p" for p
    by (auto simp: remove_file_def)
  let ?f = "http (vcek_url (c_hex c chip_id) (tcb_from_u64 (from_le_bytes tcb)))"
  consider "d' = d" | "fetch_vcek_network io (Some path) (Some tmp) ?f d = (d', r)"
    | "fetch_vcek_network io (Some path) (Some tmp) ?f (remove_file io path d) = (d', r)"
    using assms by (auto simp: fetch_vcek_def Let_def split: if_splits option.splits)
  then show ?thesis
  proof cases
    case 1
    then show ?thesis by simp
  next
    case 2
    then show ?thesis using net by blast
  next
    case 3
    then show ?thesis using net [OF 3] rm by auto
  qed
qed

section \<open>A chain that verifies\<close>

text \<open>The hypotheses hold: a toy chain around \<open>good_report\<close> on which every check runs.\<close>

definition toy_attr :: "str \<Rightarrow> str \<Rightarrow> attribute_value list" where
  "toy_attr oid v = [\<lparr>atv_oid = oid, atv_value = \<lparr>any_tag = PrintableString, any_value = as_bytes v\<rparr>\<rparr>]"

definition toy_name :: "str \<Rightarrow> name" where
  "toy_name cn = [toy_attr ''2.5.4.6'' ''US'', toy_attr ''2.5.4.8'' ''CA'', toy_attr ''2.5.4.7'' ''Santa Clara'',
     toy_attr ''2.5.4.10'' ''Advanced Micro Devices'', toy_attr ''2.5.4.11'' ''Engineering'',
     toy_attr ''2.5.4.3'' cn]"

definition toy_pss :: algorithm_identifier where
  "toy_pss = \<lparr>alg_oid = OID_RSASSA_PSS, alg_parameters = Some \<lparr>any_tag = OtherTag 16, any_value = []\<rparr>\<rparr>"

definition toy_cert :: "str \<Rightarrow> str \<Rightarrow> str + bool option \<Rightarrow> extension list option \<Rightarrow> bytes \<Rightarrow> certificate" where
  "toy_cert issuer subject bc exts key =
     \<lparr>x_version = 3, x_issuer = toy_name issuer, x_subject = toy_name subject,
      x_not_before = 10, x_not_after = 20,
      x_spki_algorithm = \<lparr>alg_oid = OID_EC_PUBLIC_KEY, alg_parameters = Some \<lparr>any_tag = OtherTag 6, any_value = []\<rparr>\<rparr>,
      x_public_key = key, x_extensions = exts, x_basic_constraints = bc,
      x_tbs_signature = toy_pss, x_signature_algorithm = toy_pss, x_signature = key\<rparr>"

definition toy_vcek :: certificate where
  "toy_vcek = toy_cert ''SEV-Genoa'' ''SEV-VCEK'' (Inr None)
     (Some [\<lparr>extn_id = OID_BL_SPL, extn_value = [7]\<rparr>, \<lparr>extn_id = OID_TEE_SPL, extn_value = []\<rparr>,
            \<lparr>extn_id = OID_SNP_SPL, extn_value = [0xe]\<rparr>, \<lparr>extn_id = OID_UCODE_SPL, extn_value = [0x48]\<rparr>,
            \<lparr>extn_id = OID_HWID, extn_value = replicate 64 0\<rparr>,
            \<lparr>extn_id = OID_PRODUCT_NAME, extn_value = as_bytes ''Genoa''\<rparr>]) [4]"

definition toy_ask :: certificate where
  "toy_ask = toy_cert ''ARK-Genoa'' ''SEV-Genoa'' (Inr (Some True)) None [5]"

definition toy_ark :: certificate where
  "toy_ark = toy_cert ''ARK-Genoa'' ''ARK-Genoa'' (Inr (Some True)) None [6]"

definition toy_crypto :: sev_crypto where
  "toy_crypto = \<lparr>
     cert_from_der = (\<lambda>bs. if bs = [1] then Some toy_vcek else if bs = [2] then Some toy_ask
                       else if bs = [3] then Some toy_ark else None),
     spki_to_der = (\<lambda>cert. Some (x_public_key cert)), tbs_to_der = (\<lambda>cert. Some (x_signature cert)),
     pem_parse_many = (\<lambda>_. Some [[2], [3]]), uint_from_der = (\<lambda>bs. Some bs),
     ia5_from_der = (\<lambda>bs. Some (from_bytes bs)), decode_as_oid = (\<lambda>_. Some OID_SECP384R1),
     string_ref = (\<lambda>a. Some (from_bytes (any_value a))), any_to_der = (\<lambda>a. Some (any_value a)),
     pss_params_from_der = (\<lambda>_. Some \<lparr>pss_hash_oid = OID_SHA_384, pss_mgf_oid = OID_MGF1,
       pss_mgf_hash_oid = Some OID_SHA_384, pss_salt_len = 48\<rparr>),
     rsa_key_from_der = (\<lambda>_. True), rsa_signature_ok = (\<lambda>_. True),
     pss_sha384_verify = (\<lambda>key salt tbs sig. sig = tbs \<and> salt = 48),
     p384_signature_ok = (\<lambda>sig. length sig = 96), p384_key_ok = (\<lambda>key. key = [4]),
     p384_verify = (\<lambda>key m sig. length m = 672 \<and> length sig = 96),
     c_sha256 = (\<lambda>_. 0), c_hex = (\<lambda>bs. if length bs = 32 then AMD_ARK_GENOA_SPKI_FINGERPRINT else ''ab'')\<rparr>"

definition toy_io :: disk_io where
  "toy_io = \<lparr>cache_dir = Some ''/c'', read_ok = True, remove_ok = True, write_ok = True,
     failed_write = None, rename_ok = True\<rparr>"

definition toy_env :: sev_env where
  "toy_env = \<lparr>e_crypto = toy_crypto, e_io = toy_io,
     e_http = (\<lambda>_. Inr \<lparr>status = 200, retry_after_header = None, resp_body = Some [1]\<rparr>),
     e_clock = Some 15, e_genoa_chain = [], e_decode_b64 = (\<lambda>_. Some []), e_gz_take = (\<lambda>_ _. Some good_report)\<rparr>"

lemma toy_chain: "verify_cert_chain_crypto toy_crypto (Some 15) [1] pem = Inr ()"
proof -
  have format: "validate_vcek_format toy_crypto toy_vcek = Inr ()"
    by (simp add: validate_vcek_format_def toy_vcek_def toy_cert_def toy_crypto_def)
  have parse: "parse_ask_ark toy_crypto pem = Inr (toy_ask, toy_ark)"
    by (simp add: parse_ask_ark_def parse_pem_chain_def toy_crypto_def) (simp add: toy_ask_def toy_ark_def toy_cert_def)
  have certs: "validate_chain_certs toy_crypto (Some 15) toy_vcek toy_ask toy_ark = Inr ()"
    by (simp add: validate_chain_certs_def validate_certificate_validity_def validate_basic_constraints_def
        compute_spki_fingerprint_def toy_vcek_def toy_ask_def toy_ark_def toy_cert_def)
      (simp add: toy_crypto_def)
  have attr: "extract_name_attr toy_crypto (toy_name cn) ''2.5.4.6'' = Some (Inr ''US'')"
    "extract_name_attr toy_crypto (toy_name cn) ''2.5.4.8'' = Some (Inr ''CA'')"
    "extract_name_attr toy_crypto (toy_name cn) ''2.5.4.7'' = Some (Inr ''Santa Clara'')"
    "extract_name_attr toy_crypto (toy_name cn) ''2.5.4.10'' = Some (Inr ''Advanced Micro Devices'')"
    "extract_name_attr toy_crypto (toy_name cn) ''2.5.4.11'' = Some (Inr ''Engineering'')"
    "extract_name_attr toy_crypto (toy_name cn) ''2.5.4.3'' = Some (Inr cn)" for cn
    by (simp_all add: extract_name_attr_def toy_name_def toy_attr_def decode_directory_string_def toy_crypto_def)
  have loc: "validate_amd_location toy_crypto (toy_name cn) n = Inr ()" for cn n
    by (simp add: validate_amd_location_def require_name_attr_def attr)
  have names: "validate_chain_names toy_crypto toy_vcek toy_ask toy_ark = Inr ()"
    by (simp add: validate_chain_names_def toy_vcek_def toy_ask_def toy_ark_def toy_cert_def extract_cn_def
        attr loc validate_signature_algorithm_consistency_def)
  have sigs: "verify_chain_signatures toy_crypto toy_vcek toy_ask toy_ark = Inr ()"
    by (simp add: verify_chain_signatures_def verify_signed_by_def extract_pubkey_from_cert_def
        extract_tbs_from_cert_def parse_rsa_pss_sha384_salt_len_def verify_rsa_pss_signature_def
        toy_vcek_def toy_ask_def toy_ark_def toy_cert_def toy_pss_def) (simp add: toy_crypto_def)
  have "cert_from_der toy_crypto [1] = Some toy_vcek" by (simp add: toy_crypto_def)
  then show ?thesis
    by (simp add: verify_cert_chain_crypto_def format parse certs names sigs)
qed

lemma toy_env_verifies:
  "snd (sev_verify_full_with_options toy_env bdy default_options Map.empty) =
     Inr \<lparr>v_measurement = \<lparr>m_type = SevGuestV2, registers = [''ab'']\<rparr>,
          v_tls_public_key_fp = AMD_ARK_GENOA_SPKI_FINGERPRINT,
          v_hpke_public_key = Some AMD_ARK_GENOA_SPKI_FINGERPRINT\<rparr>"
proof -
  let ?chip = "take CHIP_ID_SIZE (drop CHIP_ID_OFFSET good_report)"
  let ?tcb = "take 8 (drop REPORTED_TCB_OFFSET good_report)"
  have "?chip = map good_byte [416..<416 + 64]"
    unfolding offsets by (rule good_report_slice) simp
  also have "\<dots> = map (\<lambda>_. 0) [416..<416 + 64]"
    by (rule map_cong [OF refl], simp only: set_upt atLeastLessThan_iff) (simp add: good_byte_def)
  finally have chip: "?chip = replicate 64 0"
    by (simp only: map_replicate_const length_upt diff_add_inverse)
  have tcb: "from_le_bytes ?tcb = (0x480E000000000007 :: u64)"
    using good_report_reads(8) [of REPORTED_TCB_OFFSET] by (simp add: TCB_OFFSETS_def u64_at_def)
  have cert: "cert_from_der toy_crypto [1] = Some toy_vcek" by (simp add: toy_crypto_def)
  have toy_decoders: "uint_from_der toy_crypto = Some" "ia5_from_der toy_crypto = (\<lambda>bs. Some (from_bytes bs))"
    by (simp_all add: toy_crypto_def)
  have ext: "validate_vcek_extensions toy_crypto [1] ?tcb = Inr ()"
    unfolding validate_vcek_extensions_def tcb Let_def
    by (simp add: offsets validate_spl_def get_vcek_extension_def cert toy_vcek_def toy_cert_def
        OID_BL_SPL_def OID_TEE_SPL_def OID_SNP_SPL_def OID_UCODE_SPL_def OID_HWID_def OID_PRODUCT_NAME_def
        OID_CSP_ID_def decode_der_integer_def tcb_from_u64_def toy_decoders)
  have hwid: "validate_vcek_hwid toy_crypto [1] ?chip False = Inr ()"
    by (simp add: validate_vcek_hwid_def chip get_vcek_extension_def cert toy_vcek_def toy_cert_def
        OID_BL_SPL_def OID_TEE_SPL_def OID_SNP_SPL_def OID_UCODE_SPL_def OID_HWID_def)
  have sig: "verify_report_signature toy_crypto good_report [1] = Inr ()"
    by (simp add: verify_report_signature_def cert field_read offsets parse_signature_components_def
        toy_vcek_def toy_cert_def Let_def) (simp add: toy_crypto_def)
  have vcek: "snd (fetch_vcek toy_crypto toy_io (e_http toy_env) ?chip ?tcb Map.empty) = Inr [1]"
    by (simp add: fetch_vcek_def Let_def offsets toy_io_def toy_env_def vcek_cache_path_def vcek_tmp_path_def
        fetch_vcek_network_def is_success_def split: option.split)
  have dec: "decode_report (e_decode_b64 toy_env) (e_gz_take toy_env) bdy = Inr good_report"
    by (simp add: decode_report_def toy_env_def MAX_DECOMPRESSED_SIZE_def)
  have str: "validate_report_structure good_report = Inr ()"
    by (simp add: result_inv good_report_reads REPORT_SIZE_def)
  have chain: "verify_cert_chain_crypto (e_crypto toy_env) (e_clock toy_env) [1] (e_genoa_chain toy_env) = Inr ()"
    using toy_chain by (simp add: toy_env_def)
  have "verify_with_vcek toy_env good_report default_options ?chip [1] = Inr \<lparr>v_measurement = \<lparr>m_type = SevGuestV2, registers = [''ab'']\<rparr>,
          v_tls_public_key_fp = AMD_ARK_GENOA_SPKI_FINGERPRINT,
          v_hpke_public_key = Some AMD_ARK_GENOA_SPKI_FINGERPRINT\<rparr>"
    unfolding verify_with_vcek_def Let_def chain validate_report_with_chain_def good_report_accepted
    using ext hwid sig
    by (simp add: field_read offsets toy_env_def slice_from_def) (simp add: toy_crypto_def)
  moreover have "e_crypto toy_env = toy_crypto" "e_io toy_env = toy_io" by (simp_all add: toy_env_def)
  ultimately show ?thesis
    using vcek dec str
    by (auto simp: sev_verify_full_with_options_def field_read offsets split: prod.splits)
qed

lemma sev_verified_chain_witness:
  "\<exists>vcek ask ark. chain_of_trust toy_crypto 15 vcek ask ark \<and> report_signed toy_crypto vcek good_report"
proof -
  obtain d v where "sev_verify_full_with_options toy_env ''b'' default_options Map.empty = (d, Inr v)"
    using toy_env_verifies [of "''b''"] by (metis prod.collapse)
  from sev_verified_chain [OF this] show ?thesis
    by (auto simp: toy_env_def decode_report_def MAX_DECOMPRESSED_SIZE_def)
qed

lemma vcek_cache_atomic_witness:
  "fst (fetch_vcek toy_crypto toy_io (e_http toy_env) [] (replicate 8 0) Map.empty)
     (vcek_cache_stem ''/c'' ''Genoa'' ''ab'' 0 @ ''.der'') \<in> {None, Some [1]}"
proof -
  have z: "from_le_bytes (replicate 8 0) = (0 :: u64)"
    by (simp add: from_le_bytes_def numeral_eq_Suc)
  have hex: "c_hex toy_crypto [] = ''ab''" by (simp add: toy_crypto_def)
  show ?thesis
    using vcek_cache_atomic [of toy_crypto toy_io "e_http toy_env" "[]" "replicate 8 0" Map.empty, OF surjective_pairing]
    unfolding hex z by (auto simp: vcek_cache_path_def vcek_tmp_path_def toy_io_def toy_env_def)
qed

end
