(* ===== verification/Rekor_Properties.thy ===== *)
theory Rekor_Properties
  imports Rekor
begin

text \<open>
  What an accepted transparency log entry says about the bundle, about time and about the log, and a
  concrete bundle that is accepted.
\<close>

text \<open>
  C6. An accepted bundle has exactly one log entry, and the body that was logged names the bundle's
  own certificate and signature and has the kind and version of the entry's metadata. What it says
  about the payload depends on its format: with \<open>hashedRekordV002\<close> data, its digest is the SHA-256 of
  the PAE of the bundle's envelope; as a dsse body, its \<open>payloadHash\<close> is the SHA-256 of the bundle's
  payload; and as a hashedrekord body without such data, its digest is compared with nothing, so the
  check of the payload passes with this body for every bundle, although the comment of
  \<open>verify_rekor_entry\<close> says that the digest of the payload is bound. There the entry reaches the payload
  through the signature only.
\<close>

theorem rekor_entry_bound:
  assumes "verify_rekor_entry_with_trust x y bundle nb na keys authorities = Inr ()"
  shows "\<exists>entry body_bytes body kv der sg.
     jarray bundle [''verificationMaterial'', ''tlogEntries''] = Some [entry] \<and>
     entry_body x entry = Inr body_bytes \<and> s_json x body_bytes = Some body \<and>
     jget entry ''kindVersion'' = Some kv \<and> jstr body [''kind''] = jstr kv [''kind''] \<and>
     jstr body [''apiVersion''] = jstr kv [''version''] \<and>
     rekor_cert_der x body = Inr der \<and> bundle_cert_der x bundle = Inr der \<and>
     rekor_signature x body = Inr sg \<and> bundle_dsse_signature x bundle = Inr sg \<and>
     (case jpointer body [''spec'', ''hashedRekordV002'', ''data''] of
        Some dat \<Rightarrow> pae_digest_bound x bundle dat
      | None \<Rightarrow>
          if jstr body [''kind''] = Some ''dsse'' then payload_digest_bound x bundle body
          else jstr body [''kind''] = Some ''hashedrekord'' \<and>
            (\<forall>bundle'. verify_payload_hash_binding x bundle' body_bytes = Inr ()))"
proof -
  obtain entry body_bytes body where a:
      "jarray bundle [''verificationMaterial'', ''tlogEntries''] = Some [entry]"
      "entry_body x entry = Inr body_bytes" "s_json x body_bytes = Some body"
      "verify_kind_version x entry body_bytes = Inr ()" "verify_certificate_binding x bundle body_bytes = Inr ()"
      "verify_signature_binding x bundle body_bytes = Inr ()" "payload_bound x bundle body"
    by (rule rekor_accepted [OF assms])
  have "case jpointer body [''spec'', ''hashedRekordV002'', ''data''] of
        Some dat \<Rightarrow> pae_digest_bound x bundle dat
      | None \<Rightarrow>
          if jstr body [''kind''] = Some ''dsse'' then payload_digest_bound x bundle body
          else jstr body [''kind''] = Some ''hashedrekord'' \<and>
            (\<forall>bundle'. verify_payload_hash_binding x bundle' body_bytes = Inr ())"
    using a(7) verify_payload_unchecked [OF a(3)] by (auto simp: payload_bound_def split: option.splits)
  with a(1-6) show ?thesis by (auto simp: result_inv)
qed

text \<open>
  C8. Acceptance rests on a time inside the validity of the signing certificate at which the log's
  key was valid, and that time is vouched for: by a timestamp of the bundle's signature that an
  authority of the trust root signed, or by the log's own signature over the entry's
  \<open>integratedTime\<close>. An unauthenticated \<open>integratedTime\<close> is never used.
\<close>

theorem rekor_observer_time:
  assumes "verify_rekor_entry_with_trust x y bundle nb na keys authorities = Inr ()"
  shows "\<exists>entry sg t key.
     jarray bundle [''verificationMaterial'', ''tlogEntries''] = Some [entry] \<and>
     bundle_dsse_signature x bundle = Inr sg \<and> nb \<le> t \<and> t \<le> na \<and>
     key \<in> set keys \<and> jstr entry [''logId'', ''keyId''] = Some (rk_key_id key) \<and>
     within (rk_valid_from key) (rk_valid_until key) t \<and>
     (bundle_time x y sg authorities (bundle_timestamps bundle) t \<or> set_signed x entry key t)"
proof -
  obtain entry t ip log_id log_id_bytes key sc where a:
      "jarray bundle [''verificationMaterial'', ''tlogEntries''] = Some [entry]"
      "entry_time x y bundle entry nb na authorities = Inr t"
      "jstr entry [''logId'', ''keyId''] = Some log_id" "find_rekor_key keys log_id t = Inr key"
      "entry_checkpoint x entry ip key log_id_bytes = Inr sc"
    by (rule rekor_accepted [OF assms])
  obtain sg where s: "bundle_dsse_signature x bundle = Inr sg" "nb \<le> t" "t \<le> na"
      "bundle_time x y sg authorities (bundle_timestamps bundle) t \<or>
        entry_kind entry ''version'' = ''0.0.1'' \<and> jget entry ''inclusionPromise'' \<noteq> None \<and>
        (\<exists>w. Option.bind (jget entry ''integratedTime'') json_u64 = Some w \<and> t = unat w)"
    using a(2) by (rule entry_time_Inr)
  have "set_signed x entry key (unat w)"
    if "entry_kind entry ''version'' = ''0.0.1''" "jget entry ''inclusionPromise'' \<noteq> None"
      "Option.bind (jget entry ''integratedTime'') json_u64 = Some w" for w
  proof (rule verify_signed_entry_timestamp_Inr [OF _ that(3)])
    show "verify_signed_entry_timestamp x entry key = Inr ()"
      using a(5) that(1,2) by (auto simp: entry_checkpoint_def result_inv)
  qed
  then show ?thesis using a(1,3) find_rekor_key_Inr [OF a(4)] s by blast
qed

text \<open>
  C7. The body of an accepted entry is in the log. The key that the entry names, one of the trust
  root, signed under the log's host name and key hint the checkpoint in the entry's inclusion proof;
  the root that this proof states is the one that was signed; and the proof's own hashes, at its own
  index and tree size, lead from the hash of the body to that root. So the body is a leaf of every
  tree with that root, or two of the messages hashed along this proof and in that tree are a collision
  of SHA-256. The index and the tree size of the proof need not be trusted.
\<close>

theorem rekor_entry_logged:
  assumes "verify_rekor_entry_with_trust x y bundle nb na keys authorities = Inr ()"
  shows "\<exists>entry body_bytes ip key log_id_bytes note_text sc root_b64 idx sz hashes.
     jarray bundle [''verificationMaterial'', ''tlogEntries''] = Some [entry] \<and>
     entry_body x entry = Inr body_bytes \<and> jget entry ''inclusionProof'' = Some ip \<and>
     key \<in> set keys \<and> jstr entry [''logId'', ''keyId''] = Some (rk_key_id key) \<and>
     s_b64_decode x (rk_key_id key) = Some log_id_bytes \<and>
     jstr ip [''checkpoint'', ''envelope''] = Some note_text \<and> decode_checkpoint x note_text = Inr sc \<and>
     checkpoint_signed_by x sc (rk_key_der key) (rk_key_type key) (rk_host key) log_id_bytes \<and>
     jstr ip [''rootHash''] = Some root_b64 \<and> s_b64_decode x root_b64 = Some (digest_bytes (cp_hash (cp_note sc))) \<and>
     proof_u64 ip ''logIndex'' = Inr idx \<and> proof_u64 ip ''treeSize'' = Inr sz \<and>
     proof_hashes x ip = Inr (map digest_bytes hashes) \<and> idx < sz \<and>
     root_from_inclusion_proof (hash_children (s_sha256 x)) idx (hash_leaf (s_sha256 x) body_bytes) sz hashes
       = Inr (cp_hash (cp_note sc)) \<and>
     committed x body_bytes (cp_hash (cp_note sc)) idx sz hashes"
proof -
  obtain entry body_bytes t ip log_id log_id_bytes key sc where a:
      "jarray bundle [''verificationMaterial'', ''tlogEntries''] = Some [entry]"
      "entry_body x entry = Inr body_bytes" "jget entry ''inclusionProof'' = Some ip"
      "jstr entry [''logId'', ''keyId''] = Some log_id"
      "s_b64_decode x log_id = Some log_id_bytes" "find_rekor_key keys log_id t = Inr key"
      "entry_checkpoint x entry ip key log_id_bytes = Inr sc"
      "proof_shows x ip body_bytes (cp_hash (cp_note sc))"
    by (rule rekor_accepted [OF assms])
  obtain s where s: "jstr ip [''checkpoint'', ''envelope''] = Some s" "decode_checkpoint x s = Inr sc"
      "checkpoint_signed_by x sc (rk_key_der key) (rk_key_type key) (rk_host key) log_id_bytes"
    using a(7) by (auto simp: entry_checkpoint_def result_inv)
  have k: "key \<in> set keys" "rk_key_id key = log_id" using find_rekor_key_Inr [OF a(6)] by simp_all
  show ?thesis using a(1-5) s k a(8) [unfolded proof_shows_def] by blast
qed

section \<open>A bundle that is accepted\<close>

text \<open>
  A version 1 dsse entry with a signed entry timestamp, in a log of one leaf. Text stands for its own
  bytes, the digest is constant, and a signature is valid when it is the key.
\<close>

definition toy_root :: str where "toy_root = ''0123456789abcdef0123456789abcdef''"

definition toy_note_text :: str where
  "toy_note_text = ''log'' @ [newline] @ ''1'' @ [newline] @ toy_root"

definition toy_sig_line :: str where "toy_sig_line = em_dash @ '' log LOGIKEY''"

definition toy_sig_text :: str where "toy_sig_text = toy_sig_line @ [newline]"

definition toy_body :: json where
  "toy_body =
     JObject [(''kind'', JString ''dsse''), (''apiVersion'', JString ''0.0.1''),
       (''spec'', JObject
          [(''signatures'', JArray [JObject [(''verifier'', JString ''CERT''), (''signature'', JString ''SIG'')]]),
           (''payloadHash'', JObject [(''algorithm'', JString ''sha256''), (''value'', JString toy_root)])])]"

definition toy_entry :: json where
  "toy_entry =
     JObject
       [(''canonicalizedBody'', JString ''BODY''),
        (''kindVersion'', JObject [(''kind'', JString ''dsse''), (''version'', JString ''0.0.1'')]),
        (''integratedTime'', JString ''15''), (''logIndex'', JString ''7''),
        (''logId'', JObject [(''keyId'', JString ''LOGID'')]),
        (''inclusionPromise'', JObject [(''signedEntryTimestamp'', JString ''KEY'')]),
        (''inclusionProof'', JObject
           [(''checkpoint'', JObject [(''envelope'', JString
               (toy_note_text @ [newline, newline] @ toy_sig_text))]),
            (''rootHash'', JString toy_root), (''logIndex'', JString ''0''), (''treeSize'', JString ''1''),
            (''hashes'', JArray [])])]"

definition toy_bundle :: json where
  "toy_bundle =
     JObject
       [(''verificationMaterial'', JObject
           [(''certificate'', JObject [(''rawBytes'', JString ''CERT'')]), (''tlogEntries'', JArray [toy_entry])]),
        (''dsseEnvelope'', JObject
           [(''payloadType'', JString ''application/vnd.in-toto+json''), (''payload'', JString ''PAYLOAD''),
            (''signatures'', JArray [JObject [(''sig'', JString ''SIG'')]])])]"

definition toy_rekor :: sig_ext where
  "toy_rekor =
     toy_sig\<lparr>s_b64_decode := (\<lambda>s. Some (as_bytes s)), s_b64_encode := from_bytes, s_hex := from_bytes,
       s_sha256 := (\<lambda>_. digest_from_bytes (as_bytes toy_root)),
       s_json := (\<lambda>b. if b = as_bytes ''BODY'' then Some toy_body else None),
       s_p256_verify := (\<lambda>k m sg. sg = k)\<rparr>"

definition toy_cms :: cms_ext where
  "toy_cms =
     \<lparr>m_time_stamp_resp = (\<lambda>_. None), m_content_info = (\<lambda>_. None), m_signed_data = (\<lambda>_. None),
      m_tst_info = (\<lambda>_. None), m_any_to_der = (\<lambda>_. None), m_any_oid = (\<lambda>_. None),
      m_any_octets = (\<lambda>_. None), m_attrs_to_der = (\<lambda>_. None)\<rparr>"

definition toy_rekor_key :: rekor_key where
  "toy_rekor_key =
     \<lparr>rk_key_id = ''LOGID'', rk_host = ''log'', rk_key_der = as_bytes ''KEY'',
      rk_key_type = ''PKIX_ECDSA_P256_SHA_256'', rk_valid_from = Some 10, rk_valid_until = None\<rparr>"

definition toy_signed_note :: signed_checkpoint where
  "toy_signed_note =
     \<lparr>cp_note = \<lparr>origin = ''log'', cp_size = 1, cp_hash = digest_from_bytes (as_bytes toy_root), other_content = []\<rparr>,
      signatures = [\<lparr>key_fingerprint = as_bytes ''LOGI'', raw = as_bytes ''KEY'', sig_name = ''log''\<rparr>]\<rparr>"

lemma toy_note_texts:
  "trim_quotes (toy_note_text @ [newline, newline] @ toy_sig_text) = toy_note_text @ [newline, newline] @ toy_sig_text"
  "split_once_str [newline, newline] (toy_note_text @ [newline, newline] @ toy_sig_text) = Some (toy_note_text, toy_sig_text)"
  "filter (\<lambda>l. trim l \<noteq> []) (lines toy_sig_text) = [toy_sig_line]"
  "split_on newline toy_note_text = [''log'', ''1'', toy_root]" "trim ''log'' \<noteq> []"
  "trim_newlines toy_sig_line = toy_sig_line" "starts_with toy_sig_line em_dash"
  "split_on (CHR '' '') toy_sig_line = [em_dash, ''log'', ''LOGIKEY'']" "trim_end ''LOGIKEY'' = ''LOGIKEY''"
  "length toy_root = 32"
  by code_simp+

lemma parse_u64_small: "parse_u64 ''0'' = Some 0" "parse_u64 ''1'' = Some 1" "parse_u64 ''7'' = Some 7"
  "parse_u64 ''15'' = Some 15"
  by (simp_all add: parse_u64_def dec_value_def is_ascii_digit_def)

text \<open>What a run of the entry uses of the third-party operations.\<close>

definition toy_parsers :: "sig_ext \<Rightarrow> bool" where
  "toy_parsers x =
     (s_b64_decode x = (\<lambda>s. Some (as_bytes s)) \<and> s_hex x = from_bytes \<and>
      s_sha256 x = (\<lambda>_. digest_from_bytes (as_bytes toy_root)) \<and> s_json x (as_bytes ''BODY'') = Some toy_body \<and>
      s_p256_verify x = (\<lambda>k m sg. sg = k) \<and> s_p256_spki x = Some \<and> s_p256_sig_der x = Some \<and>
      s_utf8 x = (\<lambda>m. Some (from_bytes m)) \<and> s_pem x = (\<lambda>s. Some (as_bytes s)))"

lemma toy_rekor_parsers: "toy_parsers toy_rekor"
  by (simp add: toy_parsers_def toy_rekor_def toy_sig_def)

lemma toy_parsersD:
  assumes "toy_parsers x"
  shows "s_b64_decode x s = Some (as_bytes s)" "decode_b64 x msg s = Inr (as_bytes s)" "s_hex x = from_bytes"
    "s_sha256 x = (\<lambda>_. digest_from_bytes (as_bytes toy_root))" "s_json x (as_bytes ''BODY'') = Some toy_body"
    "s_p256_verify x k m sg \<longleftrightarrow> sg = k" "s_p256_spki x = Some" "s_p256_sig_der x = Some"
    "s_utf8 x b = Some (from_bytes b)" "s_pem x s = Some (as_bytes s)"
  using assms by (simp_all add: toy_parsers_def decode_b64_def)

lemma toy_note_decoded:
  assumes "toy_parsers x"
  shows "decode_checkpoint x (toy_note_text @ newline # newline # toy_sig_text) = Inr toy_signed_note"
proof -
  note p = toy_parsersD [OF assms]
  have "decode_sig x toy_sig_line = Inr \<lparr>key_fingerprint = as_bytes ''LOGI'', raw = as_bytes ''KEY'', sig_name = ''log''\<rparr>"
    by (simp add: decode_sig_def toy_note_texts p Let_def) (simp add: as_bytes_def)
  moreover have "unmarshal x toy_note_text = Inr (cp_note toy_signed_note)"
    by (simp add: unmarshal_def toy_note_texts parse_u64_small decode_root_def toy_signed_note_def p)
  moreover have "trim_quotes (toy_note_text @ newline # newline # toy_sig_text) = toy_note_text @ newline # newline # toy_sig_text"
      "split_once_str [newline, newline] (toy_note_text @ newline # newline # toy_sig_text) = Some (toy_note_text, toy_sig_text)"
    using toy_note_texts(1,2) by simp_all
  ultimately show ?thesis
    by (simp add: decode_checkpoint_def toy_note_texts(3) toy_signed_note_def)
qed

lemma toy_merkle:
  assumes "toy_parsers x"
  shows "verify_merkle x b 0 1 [] (as_bytes toy_root) = Inr ()"
proof -
  have "root_from_inclusion_proof hn 0 h 1 [] = (Inr h :: digest merkle_error + digest)" for hn :: "digest \<Rightarrow> digest \<Rightarrow> digest" and h
    by (simp add: root_from_inclusion_proof_eq inner_bits_def)
  then show ?thesis
    by (simp add: verify_merkle_def to_digest_def toy_note_texts verify_inclusion_def verify_match_def
        hash_leaf_def Let_def toy_parsersD [OF assms])
qed

lemmas toy_json = jstr_def jarray_def jpointer_str_def toy_bundle_def toy_entry_def toy_body_def

lemma toy_bundle_parts:
  assumes "toy_parsers x"
  shows "tlog_entry toy_bundle = Inr toy_entry" "entry_body x toy_entry = Inr (as_bytes ''BODY'')"
    "bundle_dsse_signature x toy_bundle = Inr (as_bytes ''SIG'')"
    "bundle_cert_der x toy_bundle = Inr (as_bytes ''CERT'')"
    "verify_timestamps x toy_cms toy_bundle sg [] = Inr ([], [])"
  by (simp_all add: tlog_entry_Inr entry_body_def bundle_dsse_signature_def bundle_cert_der_Inr
      verify_timestamps_def toy_json parse_index_def starts_with_def parse_u64_small toy_parsersD [OF assms])

lemma toy_entry_parts:
  "entry_kind toy_entry ''kind'' = ''dsse''" "entry_kind toy_entry ''version'' = ''0.0.1''"
  "integrated_time toy_entry 10 20 = Inr 15"
  "jget toy_entry ''inclusionPromise'' \<noteq> None"
  "jpointer toy_entry [''inclusionPromise'', ''signedEntryTimestamp''] \<noteq> None"
  "jstr toy_entry [''logId'', ''keyId''] = Some ''LOGID''"
  by (simp_all add: entry_kind_def jindex_def str_or_def integrated_time_Inr json_u64_def toy_json parse_u64_small)

lemma toy_entry_signed:
  assumes "toy_parsers x"
  shows "verify_kind_version x toy_entry (as_bytes ''BODY'') = Inr ()"
    "verify_signed_entry_timestamp x toy_entry toy_rekor_key = Inr ()"
  by (simp_all add: json_u64_def verify_kind_version_Inr verify_signed_entry_timestamp_def set_field_def
      set_int_field_def toy_json parse_u64_small toy_rekor_key_def verify_log_signature_def verify_ecdsa_p256_def
      toy_parsersD [OF assms])

lemma toy_bound:
  assumes "toy_parsers x"
  shows "verify_certificate_binding x toy_bundle (as_bytes ''BODY'') = Inr ()"
    "verify_signature_binding x toy_bundle (as_bytes ''BODY'') = Inr ()"
    "verify_payload_hash_binding x toy_bundle (as_bytes ''BODY'') = Inr ()"
proof -
  note p = toy_parsersD [OF assms]
  have "rekor_cert_der x toy_body = Inr (as_bytes ''CERT'')" "rekor_signature x toy_body = Inr (as_bytes ''SIG'')"
    by (simp_all add: rekor_cert_der_def rekor_signature_def first_signature_def str_or_def
        parse_pem_certificate_def toy_json Let_def p)
  then show "verify_certificate_binding x toy_bundle (as_bytes ''BODY'') = Inr ()"
      "verify_signature_binding x toy_bundle (as_bytes ''BODY'') = Inr ()"
    by (simp_all add: verify_certificate_binding_Inr verify_signature_binding_Inr toy_bundle_parts [OF assms] p)
  have b: "parse_body x (as_bytes ''BODY'') = Inr toy_body" by (simp add: parse_body_def p)
  have d: "digest_bytes (digest_from_bytes (as_bytes toy_root)) = as_bytes toy_root"
    by (simp add: digest_to_from_bytes toy_note_texts(10))
  show "verify_payload_hash_binding x toy_bundle (as_bytes ''BODY'') = Inr ()"
    unfolding verify_payload_hash_binding_def b by (simp add: str_or_def toy_json Let_def d p)
qed

lemma toy_accepted:
  assumes "toy_parsers x"
  shows "verify_rekor_entry_with_trust x toy_cms toy_bundle 10 20 [toy_rekor_key] [] = Inr ()"
proof -
  note p = toy_parsersD [OF assms]
  obtain ip where ip: "jget toy_entry ''inclusionProof'' = Some ip"
      "jstr ip [''checkpoint'', ''envelope''] = Some (toy_note_text @ newline # newline # toy_sig_text)"
      "jstr ip [''rootHash''] = Some toy_root" "jstr ip [''logIndex''] = Some ''0''"
      "jstr ip [''treeSize''] = Some ''1''" "jarray ip [''hashes''] = Some []"
    by (simp add: toy_json)
  have t: "entry_time x toy_cms toy_bundle toy_entry 10 20 [] = Inr 15"
    using toy_entry_parts(5)
    by (simp add: entry_time_def toy_bundle_parts [OF assms] observer_time_def toy_entry_parts del: jpointer.simps)
  have k: "find_rekor_key [toy_rekor_key] ''LOGID'' 15 = Inr toy_rekor_key"
    by (simp add: find_rekor_key_def toy_rekor_key_def before_window_def after_window_def)
  have d: "digest_bytes (digest_from_bytes (as_bytes toy_root)) = as_bytes toy_root"
    by (simp add: digest_to_from_bytes toy_note_texts(10))
  have s: "verify_signature x toy_signed_note (rk_key_der toy_rekor_key) (rk_key_type toy_rekor_key)
      (rk_host toy_rekor_key) (as_bytes ''LOGID'') = Inr ()"
    by (simp add: verify_signature_Inr checkpoint_signed_by_def toy_signed_note_def toy_rekor_key_def
        log_signed_def p) (simp add: as_bytes_def)
  have c: "entry_checkpoint x toy_entry ip toy_rekor_key (as_bytes ''LOGID'') = Inr toy_signed_note"
    using toy_entry_parts(4) s
    by (simp add: entry_checkpoint_def ip toy_entry_parts toy_entry_signed [OF assms] toy_note_decoded [OF assms])
  have r: "entry_root x ip toy_signed_note = Inr (as_bytes toy_root)"
    by (simp add: entry_root_def ip toy_signed_note_def d p)
  have n: "proof_u64 ip ''logIndex'' = Inr 0" "proof_u64 ip ''treeSize'' = Inr 1" "proof_hashes x ip = Inr []"
    by (simp_all add: proof_u64_def proof_hashes_def ip parse_u64_small)
  show ?thesis
    by (simp add: verify_rekor_entry_with_trust_def toy_bundle_parts [OF assms] toy_entry_signed [OF assms]
        toy_entry_parts(6) t ip(1) k c r n toy_bound [OF assms] toy_merkle [OF assms] p)
qed

lemma rekor_entry_bound_witness:
  "\<exists>entry body_bytes body kv der sg.
     jarray toy_bundle [''verificationMaterial'', ''tlogEntries''] = Some [entry] \<and>
     entry_body toy_rekor entry = Inr body_bytes \<and> s_json toy_rekor body_bytes = Some body \<and>
     jget entry ''kindVersion'' = Some kv \<and> jstr body [''kind''] = jstr kv [''kind''] \<and>
     jstr body [''apiVersion''] = jstr kv [''version''] \<and>
     rekor_cert_der toy_rekor body = Inr der \<and> bundle_cert_der toy_rekor toy_bundle = Inr der \<and>
     rekor_signature toy_rekor body = Inr sg \<and> bundle_dsse_signature toy_rekor toy_bundle = Inr sg \<and>
     (case jpointer body [''spec'', ''hashedRekordV002'', ''data''] of
        Some dat \<Rightarrow> pae_digest_bound toy_rekor toy_bundle dat
      | None \<Rightarrow>
          if jstr body [''kind''] = Some ''dsse'' then payload_digest_bound toy_rekor toy_bundle body
          else jstr body [''kind''] = Some ''hashedrekord'' \<and>
            (\<forall>bundle'. verify_payload_hash_binding toy_rekor bundle' body_bytes = Inr ()))"
  by (rule rekor_entry_bound [OF toy_accepted [OF toy_rekor_parsers]])

lemma rekor_observer_time_witness:
  "\<exists>entry sg t key.
     jarray toy_bundle [''verificationMaterial'', ''tlogEntries''] = Some [entry] \<and>
     bundle_dsse_signature toy_rekor toy_bundle = Inr sg \<and> 10 \<le> t \<and> t \<le> 20 \<and>
     key \<in> set [toy_rekor_key] \<and> jstr entry [''logId'', ''keyId''] = Some (rk_key_id key) \<and>
     within (rk_valid_from key) (rk_valid_until key) t \<and>
     (bundle_time toy_rekor toy_cms sg [] (bundle_timestamps toy_bundle) t \<or> set_signed toy_rekor entry key t)"
  by (rule rekor_observer_time [OF toy_accepted [OF toy_rekor_parsers]])

lemma rekor_entry_logged_witness:
  "\<exists>entry body_bytes ip key log_id_bytes note_text sc root_b64 idx sz hashes.
     jarray toy_bundle [''verificationMaterial'', ''tlogEntries''] = Some [entry] \<and>
     entry_body toy_rekor entry = Inr body_bytes \<and> jget entry ''inclusionProof'' = Some ip \<and>
     key \<in> set [toy_rekor_key] \<and> jstr entry [''logId'', ''keyId''] = Some (rk_key_id key) \<and>
     s_b64_decode toy_rekor (rk_key_id key) = Some log_id_bytes \<and>
     jstr ip [''checkpoint'', ''envelope''] = Some note_text \<and> decode_checkpoint toy_rekor note_text = Inr sc \<and>
     checkpoint_signed_by toy_rekor sc (rk_key_der key) (rk_key_type key) (rk_host key) log_id_bytes \<and>
     jstr ip [''rootHash''] = Some root_b64 \<and> s_b64_decode toy_rekor root_b64 = Some (digest_bytes (cp_hash (cp_note sc))) \<and>
     proof_u64 ip ''logIndex'' = Inr idx \<and> proof_u64 ip ''treeSize'' = Inr sz \<and>
     proof_hashes toy_rekor ip = Inr (map digest_bytes hashes) \<and> idx < sz \<and>
     root_from_inclusion_proof (hash_children (s_sha256 toy_rekor)) idx (hash_leaf (s_sha256 toy_rekor) body_bytes) sz hashes
       = Inr (cp_hash (cp_note sc)) \<and>
     committed toy_rekor body_bytes (cp_hash (cp_note sc)) idx sz hashes"
  by (rule rekor_entry_logged [OF toy_accepted [OF toy_rekor_parsers]])

end
