(* ===== verification/Sigstore_Properties.thy ===== *)
theory Sigstore_Properties
  imports Sigstore Rekor_Properties
begin

text \<open>
  What the verification of a repository promises: the identity it requires, the statement it reads
  and the chain from the measurement it returns to the trusted root. The last section runs it.
\<close>

section \<open>Identity\<close>

lemma workflow_matches_text:
  "workflow_matches repo tag uri \<longleftrightarrow>
     (\<exists>workflow. workflow \<noteq> [] \<and> CHR ''@'' \<notin> set workflow \<and>
        uri = ''https://github.com/'' @ repo @ ''/.github/workflows/'' @ workflow @ ''@refs/tags/'' @ tag)"
proof
  assume "workflow_matches repo tag uri"
  then obtain rest workflow where "strip_prefix uri (''https://github.com/'' @ repo @ ''/.github/workflows/'') = Some rest"
      "split_once CHR ''@'' rest = Some (workflow, ''refs/tags/'' @ tag)" "workflow \<noteq> []"
    by (auto simp: workflow_matches_def split: option.splits)
  then show "\<exists>workflow. workflow \<noteq> [] \<and> CHR ''@'' \<notin> set workflow \<and>
      uri = ''https://github.com/'' @ repo @ ''/.github/workflows/'' @ workflow @ ''@refs/tags/'' @ tag"
    by (auto simp: strip_prefix_Some_iff split_once_Some_iff)
next
  assume "\<exists>workflow. workflow \<noteq> [] \<and> CHR ''@'' \<notin> set workflow \<and>
      uri = ''https://github.com/'' @ repo @ ''/.github/workflows/'' @ workflow @ ''@refs/tags/'' @ tag"
  then obtain workflow where w: "workflow \<noteq> []" "CHR ''@'' \<notin> set workflow"
      "uri = ''https://github.com/'' @ repo @ ''/.github/workflows/'' @ workflow @ ''@refs/tags/'' @ tag"
    by blast
  let ?rest = "workflow @ CHR ''@'' # ''refs/tags/'' @ tag"
  have "strip_prefix uri (''https://github.com/'' @ repo @ ''/.github/workflows/'') = Some ?rest"
    unfolding strip_prefix_Some_iff using w(3) by simp
  moreover have "split_once CHR ''@'' ?rest = Some (workflow, ''refs/tags/'' @ tag)"
    unfolding split_once_Some_iff using w(2) by simp
  ultimately show "workflow_matches repo tag uri" using w(1) by (simp add: workflow_matches_def)
qed

lemma verify_certificate_identity_Inr [result_inv]:
  "verify_certificate_identity info repo tag = Inr u \<longleftrightarrow>
     ci_issuer info = GITHUB_ACTIONS_ISSUER \<and> ci_repository info = repo \<and>
     workflow_matches repo tag (ci_subject_workflow info)"
  by (auto simp: verify_certificate_identity_def)

text \<open>
  A signing identity is accepted exactly when its issuer is GitHub Actions, its repository is the
  expected one, and its workflow reference is one workflow file of that repository at the expected
  tag, nothing before, between or after: in particular a repository or tag that the expected one is
  only a prefix or a pattern of is refused.
\<close>

theorem identity_accepted_iff:
  "verify_certificate_identity info repo tag = Inr () \<longleftrightarrow>
     ci_issuer info = ''https://token.actions.githubusercontent.com'' \<and> ci_repository info = repo \<and>
     (\<exists>workflow. workflow \<noteq> [] \<and> CHR ''@'' \<notin> set workflow \<and>
        ci_subject_workflow info =
          ''https://github.com/'' @ repo @ ''/.github/workflows/'' @ workflow @ ''@refs/tags/'' @ tag)"
  by (simp add: verify_certificate_identity_Inr workflow_matches_text GITHUB_ACTIONS_ISSUER_def)

section \<open>The statement\<close>

lemma only_member_Some: "only_member k kvs = Some v \<Longrightarrow> (k, v) \<in> set kvs \<and> count_list (map fst kvs) k = 1"
proof -
  assume "only_member k kvs = Some v"
  then obtain kv where kv: "filter (\<lambda>kv. fst kv = k) kvs = [kv]" "snd kv = v"
    by (auto simp: only_member_def split: list.splits)
  then have "set (filter (\<lambda>kv. fst kv = k) kvs) = {kv}" by simp
  then have "fst kv = k" by auto
  then have f: "filter (\<lambda>kv. fst kv = k) kvs = [(k, v)]" using kv by (cases kv) simp
  moreover have "count_list (map fst kvs) k = length (filter (\<lambda>kv. fst kv = k) kvs)"
    by (induction kvs) auto
  moreover have "(k, v) \<in> set (filter (\<lambda>kv. fst kv = k) kvs)" by (simp add: f)
  then have "(k, v) \<in> set kvs" by (simp only: set_filter mem_Collect_eq)
  ultimately show ?thesis by (simp add: f)
qed

lemma distinct_count_list: "(\<And>a. count_list as a \<le> 1) \<Longrightarrow> distinct as"
proof (induction as)
  case (Cons b as)
  have "count_list as a \<le> 1" for a using Cons.prems [of a] by (simp split: if_splits)
  moreover have "count_list as b = 0" using Cons.prems [of b] by simp
  ultimately show ?case using Cons.IH by (simp add: count_list_0_iff)
qed simp

lemma statement_members_once:
  assumes "statement_from_json (JObject kvs) = Some st" and "k \<in> set (map fst kvs)"
  shows "k \<in> set statement_members \<and> count_list (map fst kvs) k = 1"
proof -
  have members: "list_all (\<lambda>kv. fst kv \<in> set statement_members) kvs" "only_member ''_type'' kvs \<noteq> None"
      "only_member ''predicateType'' kvs \<noteq> None" "only_member ''predicate'' kvs \<noteq> None" "only_member ''subject'' kvs \<noteq> None"
    using assms(1) by (auto simp: statement_from_json_def split: if_splits bind_splits)
  then have "k \<in> set statement_members" using assms(2) by (auto simp: list_all_iff)
  then show ?thesis using members(2-5) by (auto simp: statement_members_def dest: only_member_Some)
qed

text \<open>
  The in-toto statement is read strictly: an object that is accepted has exactly the four
  recognised members, each once, so no member the verifier does not look at and no second version of
  one it does can hide in a signed payload.
\<close>

theorem statement_strict:
  assumes "statement_from_json (JObject kvs) = Some st"
  shows "distinct (map fst kvs) \<and> set (map fst kvs) = {''_type'', ''predicateType'', ''predicate'', ''subject''}"
proof
  note once = statement_members_once [OF assms]
  have "count_list (map fst kvs) k \<le> 1" for k
    using once [of k] by (cases "k \<in> set (map fst kvs)") (simp_all add: count_notin)
  then show "distinct (map fst kvs)" by (rule distinct_count_list)
  have all: "only_member k kvs \<noteq> None" if "k \<in> set statement_members" for k
    using that assms by (auto simp: statement_from_json_def statement_members_def split: if_splits bind_splits)
  have "k \<in> set (map fst kvs)" if k: "k \<in> set statement_members" for k
  proof -
    obtain v where "(k, v) \<in> set kvs" using all [OF k] only_member_Some [of k kvs] by blast
    then show ?thesis by (force simp: image_iff)
  qed
  then show "set (map fst kvs) = {''_type'', ''predicateType'', ''predicate'', ''subject''}"
    using once by (auto simp: statement_members_def)
qed

lemma statement_strict_witness:
  "distinct (map fst [(''subject'', JArray []), (''_type'', JString ''a''), (''predicate'', JNull), (''predicateType'', JString ''b'')]) \<and>
   set (map fst [(''subject'', JArray []), (''_type'', JString ''a''), (''predicate'', JNull), (''predicateType'', JString ''b'')])
     = {''_type'', ''predicateType'', ''predicate'', ''subject''}"
  by (rule statement_strict [where st = "\<lparr>st_type = ''a'', st_predicate_type = ''b'', st_predicate = JNull, st_subject = []\<rparr>"])
    (simp add: statement_from_json_def only_member_def statement_members_def)

section \<open>The measurement\<close>

lemma measurement_from_statement_Inr:
  "measurement_from_statement st d = Inr m \<longleftrightarrow>
     (st_type st = ''https://in-toto.io/Statement/v0.1'' \<or> st_type st = ''https://in-toto.io/Statement/v1'') \<and>
     st_predicate_type st = MULTIPLATFORM_PREDICATE \<and>
     (\<exists>subject subjects payload_digest. st_subject st = subject # subjects \<and>
        map_of (snd subject) ''sha256'' = Some payload_digest \<and> to_ascii_lowercase payload_digest = to_ascii_lowercase d) \<and>
     (\<exists>snp rtmr1 rtmr2. jstr (st_predicate st) [''snp_measurement''] = Some snp \<and>
        jstr (st_predicate st) [''tdx_measurement'', ''rtmr1''] = Some rtmr1 \<and>
        jstr (st_predicate st) [''tdx_measurement'', ''rtmr2''] = Some rtmr2 \<and>
        m = \<lparr>m_type = SnpTdxMultiPlatformV1, registers = [snp, rtmr1, rtmr2]\<rparr>)"
proof -
  have "measurement_from_predicate p = Inr m \<longleftrightarrow>
      (\<exists>snp rtmr1 rtmr2. jstr p [''snp_measurement''] = Some snp \<and> jstr p [''tdx_measurement'', ''rtmr1''] = Some rtmr1 \<and>
         jstr p [''tdx_measurement'', ''rtmr2''] = Some rtmr2 \<and>
         m = \<lparr>m_type = SnpTdxMultiPlatformV1, registers = [snp, rtmr1, rtmr2]\<rparr>)" for p
    by (cases "jget p ''tdx_measurement''") (auto simp: measurement_from_predicate_def result_inv jstr_def)
  then show ?thesis
    by (cases "st_subject st") (auto simp: measurement_from_statement_def result_inv)
qed

text \<open>
  Exactly the statements whose first subject has the release's digest and whose predicate is the
  multi-platform one yield a measurement, and its registers are the SNP measurement and the two RTMRs
  of the signed predicate, in this order.
\<close>

theorem statement_measurement_iff:
  "measurement_from_statement st d = Inr m \<longleftrightarrow>
     (st_type st = ''https://in-toto.io/Statement/v0.1'' \<or> st_type st = ''https://in-toto.io/Statement/v1'') \<and>
     st_predicate_type st = MULTIPLATFORM_PREDICATE \<and>
     (\<exists>subject subjects payload_digest. st_subject st = subject # subjects \<and>
        map_of (snd subject) ''sha256'' = Some payload_digest \<and> to_ascii_lowercase payload_digest = to_ascii_lowercase d) \<and>
     (\<exists>snp rtmr1 rtmr2. jstr (st_predicate st) [''snp_measurement''] = Some snp \<and>
        jstr (st_predicate st) [''tdx_measurement'', ''rtmr1''] = Some rtmr1 \<and>
        jstr (st_predicate st) [''tdx_measurement'', ''rtmr2''] = Some rtmr2 \<and>
        m = \<lparr>m_type = SnpTdxMultiPlatformV1, registers = [snp, rtmr1, rtmr2]\<rparr>)"
  by (rule measurement_from_statement_Inr)

section \<open>From the measurement to the trusted root\<close>

text \<open>The bundle's certificate and signature are in a trusted log, at a time in the certificate's validity:
  its only entry has a proof of its body whose root is in a checkpoint that a trusted key signed.\<close>

definition logged_bundle :: "sig_ext \<Rightarrow> json \<Rightarrow> nat \<Rightarrow> nat \<Rightarrow> bool" where
  "logged_bundle x bundle nb na =
     (\<exists>keys key entry ip body_bytes body der sg sc log_id t.
        load_rekor_keys x = Inr keys \<and> key \<in> set keys \<and>
        jarray bundle [''verificationMaterial'', ''tlogEntries''] = Some [entry] \<and>
        entry_body x entry = Inr body_bytes \<and> jget entry ''inclusionProof'' = Some ip \<and>
        checkpoint_signed_by x sc (rk_key_der key) (rk_key_type key) (rk_host key) log_id \<and>
        proof_shows x ip body_bytes (cp_hash (cp_note sc)) \<and> s_json x body_bytes = Some body \<and>
        rekor_cert_der x body = Inr der \<and> bundle_cert_der x bundle = Inr der \<and>
        rekor_signature x body = Inr sg \<and> bundle_dsse_signature x bundle = Inr sg \<and> payload_bound x bundle body \<and>
        nb \<le> t \<and> t \<le> na \<and> within (rk_valid_from key) (rk_valid_until key) t)"

lemma verify_rekor_entry_logged:
  assumes "verify_rekor_entry x y bundle nb na = Inr ()"
  shows "logged_bundle x bundle nb na"
proof -
  obtain keys authorities where k: "load_rekor_keys x = Inr keys"
      "verify_rekor_entry_with_trust x y bundle nb na keys authorities = Inr ()"
    using assms by (auto simp: verify_rekor_entry_def result_inv)
  obtain entry body_bytes body t ip log_id log_id_bytes key sc where a:
      "jarray bundle [''verificationMaterial'', ''tlogEntries''] = Some [entry]"
      "entry_body x entry = Inr body_bytes" "s_json x body_bytes = Some body" "jget entry ''inclusionProof'' = Some ip"
      "proof_shows x ip body_bytes (cp_hash (cp_note sc))" "payload_bound x bundle body"
    and b: "entry_time x y bundle entry nb na authorities = Inr t" "find_rekor_key keys log_id t = Inr key"
      "verify_certificate_binding x bundle body_bytes = Inr ()"
      "verify_signature_binding x bundle body_bytes = Inr ()" "entry_checkpoint x entry ip key log_id_bytes = Inr sc"
    by (rule rekor_accepted [OF k(2)])
  have "nb \<le> t \<and> t \<le> na" using b(1) by (auto elim: entry_time_Inr)
  moreover have "checkpoint_signed_by x sc (rk_key_der key) (rk_key_type key) (rk_host key) log_id_bytes"
    using b(5) by (auto simp: entry_checkpoint_def result_inv)
  moreover obtain der sg where "rekor_cert_der x body = Inr der" "bundle_cert_der x bundle = Inr der"
      "rekor_signature x body = Inr sg" "bundle_dsse_signature x bundle = Inr sg"
    using a(3) b(3,4) by (auto simp: result_inv)
  ultimately show ?thesis
    unfolding logged_bundle_def using k(1) a find_rekor_key_Inr [OF b(2)] by blast
qed

text \<open>Everything a signature by GitHub Actions for a repository and tag consists of.\<close>

definition release_signed :: "sig_ext \<Rightarrow> json \<Rightarrow> str \<Rightarrow> str \<Rightarrow> bytes \<Rightarrow> bool" where
  "release_signed x bundle repo tag payload =
     (\<exists>der cert info cas ca spki sg.
        bundle_cert_der x bundle = Inr der \<and> s_cert x der = Some cert \<and>
        extract_certificate_info x cert = Inr info \<and> ci_issuer info = GITHUB_ACTIONS_ISSUER \<and>
        ci_repository info = repo \<and> workflow_matches repo tag (ci_subject_workflow info) \<and>
        validate_certificate_extensions cert = Inr () \<and>
        load_fulcio_cas x = Inr cas \<and> ca \<in> set cas \<and> fulcio_vouches x cert (x_not_before cert) ca \<and>
        find_issuer_spki x cert = Inr spki \<and> ct_logged x cert spki \<and>
        logged_bundle x bundle (x_not_before cert) (x_not_after cert) \<and>
        dsse_signed x cert ''application/vnd.in-toto+json'' payload sg)"

lemma verify_bundle_Inr:
  assumes "verify_bundle x y repo rel bundle = Inr r"
  shows "\<exists>payload st. release_signed x bundle repo (r_tag rel) payload \<and> parse_statement x payload = Inr st \<and>
    measurement_from_statement st (r_digest rel) = Inr (sr_measurement r) \<and>
    sr_digest r = r_digest rel \<and> sr_release_tag r = r_tag rel"
proof -
  obtain info cert_der nb na where a: "verify_dsse_signature x bundle = Inr ()"
      "extract_certificate_info_from_bundle x bundle = Inr info"
      "verify_certificate_identity info repo (r_tag rel) = Inr ()"
      "extract_cert_with_validity x bundle = Inr (cert_der, nb, na)"
      "verify_rekor_entry x y bundle nb na = Inr ()" "verify_fulcio_chain x cert_der nb = Inr ()"
      "extract_measurement_from_bundle x bundle (r_digest rel) = Inr (sr_measurement r)"
    and r: "sr_digest r = r_digest rel" "sr_release_tag r = r_tag rel"
    using assms unfolding verify_bundle_def by (auto simp only: try_bind_Inr_iff ex_unit_iff split: prod.splits) auto
  obtain der cert spki ty p64 payload sg where d:
      "bundle_cert_der x bundle = Inr der" "s_cert x der = Some cert"
      "validate_certificate_extensions cert = Inr ()" "find_issuer_spki x cert = Inr spki" "ct_logged x cert spki"
      "jstr bundle [''dsseEnvelope'', ''payloadType''] = Some ty"
      "jstr bundle [''dsseEnvelope'', ''payload''] = Some p64" "s_b64_decode x p64 = Some payload"
      "dsse_signed x cert ty payload sg"
    by (rule verify_dsse_signature_Inr [OF a(1)])
  have bc: "bundle_cert x bundle = Inr (der, cert)" using d(1,2) by (simp add: bundle_cert_Inr)
  have v: "cert_der = der" "nb = x_not_before cert" "na = x_not_after cert"
    using a(4) by (auto simp: extract_cert_with_validity_def bc)
  have i: "extract_certificate_info x cert = Inr info"
    using a(2) by (simp add: extract_certificate_info_from_bundle_def bc)
  obtain env where env: "jget bundle ''dsseEnvelope'' = Some env" using d(7) by (auto simp: jstr_def split: bind_splits)
  have m: "ty = ''application/vnd.in-toto+json''"
      "\<exists>st. parse_statement x payload = Inr st \<and> measurement_from_statement st (r_digest rel) = Inr (sr_measurement r)"
    using a(7) d(6-8) unfolding extract_measurement_from_bundle_def
    by (auto simp: result_inv env jstr_Cons [OF env] split: if_splits)
  obtain cas ca where "load_fulcio_cas x = Inr cas" "ca \<in> set cas" "fulcio_vouches x cert (x_not_before cert) ca"
    using a(6) d(2) unfolding v verify_fulcio_chain_Inr by auto
  moreover have "logged_bundle x bundle (x_not_before cert) (x_not_after cert)"
    using verify_rekor_entry_logged a(5) unfolding v .
  ultimately have "release_signed x bundle repo (r_tag rel) payload"
    unfolding release_signed_def using d i a(3) m(1) by (auto simp: verify_certificate_identity_Inr)
  then show ?thesis using m(2) r by blast
qed

lemma verify_repo_Inr:
  assumes "verify_repo x y w repo = Inr r"
  shows "\<exists>bundle_json bundle payload st.
     fetch_attestation_bundle w repo (sr_digest r) = Inr bundle_json \<and> s_json x bundle_json = Some bundle \<and>
     digest_form (sr_digest r) \<and> release_signed x bundle repo (sr_release_tag r) payload \<and>
     parse_statement x payload = Inr st \<and> measurement_from_statement st (sr_digest r) = Inr (sr_measurement r)"
proof -
  obtain rel bundle_json b where a: "fetch_latest_release w repo = Inr rel"
      "fetch_attestation_bundle w repo (r_digest rel) = Inr bundle_json" "s_json x bundle_json = Some b"
      "verify_bundle x y repo rel b = Inr r"
    using assms by (auto simp: verify_repo_def result_inv)
  obtain payload st where v: "release_signed x b repo (r_tag rel) payload" "parse_statement x payload = Inr st"
      "measurement_from_statement st (r_digest rel) = Inr (sr_measurement r)"
      "sr_digest r = r_digest rel" "sr_release_tag r = r_tag rel"
    using verify_bundle_Inr [OF a(4)] by blast
  show ?thesis using a(2,3) v fetch_latest_release_Inr [OF a(1)] by metis
qed

text \<open>
  C5. A verified repository: the measurement that is returned comes from a statement whose subject is
  the published digest, signed in a DSSE envelope by the key of a certificate that GitHub Actions'
  identity for a workflow of this repository at this tag is in; that one certificate descends from a
  Fulcio authority of the trusted root, is in a certificate transparency log, and is the one bound, with the
  signature, in a transparency log entry whose time lies in the certificate's validity.
\<close>

theorem repo_verified:
  assumes "verify_repo x y w repo = Inr r"
  shows "\<exists>bundle_json bundle payload st.
     fetch_attestation_bundle w repo (sr_digest r) = Inr bundle_json \<and> s_json x bundle_json = Some bundle \<and>
     digest_form (sr_digest r) \<and> release_signed x bundle repo (sr_release_tag r) payload \<and>
     parse_statement x payload = Inr st \<and> measurement_from_statement st (sr_digest r) = Inr (sr_measurement r)"
  by (rule verify_repo_Inr [OF assms])

section \<open>A repository that verifies\<close>

text \<open>
  The accepted log entry of \<open>Rekor_Properties\<close>, with a certificate authority, a certificate
  transparency log, a signing certificate and a release around it.
\<close>

definition toy_p256 :: algorithm_identifier where
  "toy_p256 = \<lparr>alg_oid = ID_EC_PUBLIC_KEY, alg_parameters = Some \<lparr>any_tag = OtherTag 6, any_value = []\<rparr>\<rparr>"

definition toy_ecdsa :: algorithm_identifier where
  "toy_ecdsa = \<lparr>alg_oid = OID_ECDSA_SHA256, alg_parameters = None\<rparr>"

definition toy_dn :: name where "toy_dn = [[]]"

definition toy_workflow :: str where
  "toy_workflow = ''https://github.com/o/r/.github/workflows/b.yml@refs/tags/v1''"

definition toy_fulcio_cert :: "name \<Rightarrow> bytes \<Rightarrow> extension list \<Rightarrow> sig_cert" where
  "toy_fulcio_cert subj key exts =
     \<lparr>x_version = 3, x_issuer = toy_dn, x_subject = subj, x_not_before = 10, x_not_after = 20,
      x_spki_algorithm = toy_p256, x_public_key = key, x_extensions = Some exts,
      x_basic_constraints = Inr None, x_tbs_signature = toy_ecdsa, x_signature_algorithm = toy_ecdsa,
      x_signature = as_bytes ''CAKEY'', c_serial = [], c_key_usage = Inr (Some True),
      c_ext_key_usage = Inr (Some (False, [ID_KP_CODE_SIGNING])), c_ski = Inr None\<rparr>"

definition toy_leaf :: sig_cert where
  "toy_leaf = toy_fulcio_cert [] (as_bytes ''SIG'')
     [\<lparr>extn_id = OIDC_ISSUER_V2, extn_value = as_bytes GITHUB_ACTIONS_ISSUER\<rparr>,
      \<lparr>extn_id = BUILD_SIGNER_URI, extn_value = as_bytes toy_workflow\<rparr>,
      \<lparr>extn_id = GITHUB_WORKFLOW_REPOSITORY, extn_value = as_bytes ''o/r''\<rparr>,
      \<lparr>extn_id = CT_PRECERT_SCTS_OID, extn_value = []\<rparr>]"

definition toy_ca :: sig_cert where "toy_ca = toy_fulcio_cert toy_dn (as_bytes ''CAKEY'') []"

definition toy_public_key :: "str \<Rightarrow> public_key_info" where
  "toy_public_key k = \<lparr>pk_raw_bytes = k, pk_key_details = ''PKIX_ECDSA_P256_SHA_256'', pk_valid_for = Some \<lparr>vp_start = [], vp_end = None\<rparr>\<rparr>"

definition toy_trusted_root :: trusted_root where
  "toy_trusted_root =
     \<lparr>tr_tlogs = [\<lparr>tlog_base_url = ''https://log/'', tlog_public_key = toy_public_key ''KEY'', tlog_key_id = ''LOGID''\<rparr>],
      tr_certificate_authorities = [\<lparr>ca_cert_chain = [''CA''], ca_valid_for = \<lparr>vp_start = [], vp_end = None\<rparr>\<rparr>],
      tr_ctlogs = [\<lparr>ct_public_key = toy_public_key ''CT'', ct_log_id = []\<rparr>], tr_timestamp_authorities = []\<rparr>"

definition toy_statement :: json where
  "toy_statement =
     JObject [(''_type'', JString ''https://in-toto.io/Statement/v1''),
       (''subject'', JArray [JObject [(''name'', JString ''n''),
          (''digest'', JObject [(''sha256'', JString (replicate 64 CHR ''0''))])]]),
       (''predicateType'', JString MULTIPLATFORM_PREDICATE),
       (''predicate'', JObject [(''snp_measurement'', JString ''ab''),
          (''tdx_measurement'', JObject [(''rtmr1'', JString ''A''), (''rtmr2'', JString ''B'')])])]"

definition toy_world :: sig_ext where
  "toy_world =
     toy_rekor\<lparr>s_json := (\<lambda>b. if b = as_bytes ''BODY'' then Some toy_body
         else if b = as_bytes ''PAYLOAD'' then Some toy_statement else Some toy_bundle),
       s_json_raw := (\<lambda>b. Some toy_statement),
       s_cert := (\<lambda>b. if b = as_bytes ''CERT'' then Some toy_leaf else Some toy_ca),
       s_curve_oid := (\<lambda>_. Some OID_SECP256R1), s_trusted_root := (\<lambda>_. Some toy_trusted_root),
       s_rfc3339 := (\<lambda>_. Some 10), s_spki := (\<lambda>b. Some \<lparr>spki_algorithm = toy_p256, spki_public_key = b\<rparr>),
       s_sct_list := (\<lambda>_. Inr [[]]),
       s_sct := (\<lambda>_. Inr \<lparr>sct_log_id = digest_from_bytes (as_bytes toy_root), sct_timestamp = 15000,
                         sct_extensions = [], sct_signature = as_bytes ''CT''\<rparr>),
       s_p256_verify_prehash := (\<lambda>k m sg. sg = k)\<rparr>"

definition toy_web :: web where
  "toy_web =
     \<lparr>w_build = Inr (), w_send = (\<lambda>url k. Response \<lparr>status = 200, retry_after_header = None, resp_body = Some []\<rparr>),
      w_text = (\<lambda>_. replicate 64 CHR ''0''), w_release = (\<lambda>_. Some ''v1''),
      w_attestations = (\<lambda>_. Some [toy_bundle]), w_to_vec = (\<lambda>_. Some [])\<rparr>"

definition toy_result :: sigstore_result where
  "toy_result =
     \<lparr>sr_measurement = \<lparr>m_type = SnpTdxMultiPlatformV1, registers = [''ab'', ''A'', ''B'']\<rparr>,
      sr_digest = replicate 64 CHR ''0'', sr_release_tag = ''v1''\<rparr>"

lemma toy_world_parsers: "toy_parsers toy_world"
  by (simp add: toy_parsers_def toy_world_def toy_rekor_def toy_sig_def)

lemmas toy_world_b64 = toy_parsersD(1,2) [OF toy_world_parsers]

lemma toy_world_fields:
  "s_json toy_world [] = Some toy_bundle" "s_json_raw toy_world b = Some toy_statement"
  "s_cert toy_world (as_bytes ''CERT'') = Some toy_leaf" "s_cert toy_world (as_bytes ''CA'') = Some toy_ca"
  "s_curve_oid toy_world a = Some OID_SECP256R1" "s_trusted_root toy_world s = Some toy_trusted_root"
  "s_rfc3339 toy_world s = Some 10" "s_spki toy_world b = Some \<lparr>spki_algorithm = toy_p256, spki_public_key = b\<rparr>"
  "s_sct_list toy_world b = Inr [[]]" "s_sct_list_der toy_world b = Some b"
  "s_sct toy_world b = Inr \<lparr>sct_log_id = digest_from_bytes (as_bytes toy_root), sct_timestamp = 15000,
                         sct_extensions = [], sct_signature = as_bytes ''CT''\<rparr>"
  "s_p256_verify_prehash toy_world k m sg \<longleftrightarrow> sg = k" "s_p256_verify toy_world k m sg \<longleftrightarrow> sg = k"
  "s_p256_sec1 toy_world = Some" "s_p256_sig_der toy_world = Some" "s_p256_sig_raw toy_world = Some"
  "s_tbs_der toy_world c = Some []" "s_spki_der toy_world c = Some []"
  "s_sha256 toy_world = (\<lambda>_. digest_from_bytes (as_bytes toy_root))"
  "s_der_string toy_world n b = Some (from_bytes b)"
  by (simp_all add: toy_world_def toy_rekor_def toy_sig_def as_bytes_def)

lemma toy_world_payload: "s_json toy_world (as_bytes ''PAYLOAD'') = Some toy_statement"
  by (simp add: toy_world_def as_bytes_def)

lemmas toy_root_defs = toy_trusted_root_def toy_public_key_def parse_root_def parse_validity_def parse_end_def
  parse_rfc3339_to_unix_def toy_world_fields toy_world_b64

lemma toy_host: "host_of ''https://log/'' = ''log''"
  using host_of_url [of "''https''" "''log''" "[]"] by (simp add: contains_def starts_with_def)

definition toy_fulcio_ca :: fulcio_ca where
  "toy_fulcio_ca = \<lparr>fca_chain_der = [as_bytes ''CA''], fca_valid_from = 10, fca_valid_until = None\<rparr>"

definition toy_ct_key :: log_key where
  "toy_ct_key =
     \<lparr>key_inner = as_bytes ''CT'', log_fingerprint = digest_from_bytes (as_bytes toy_root),
      key_valid_from = Some 10, key_valid_until = None\<rparr>"

lemma toy_loaded:
  "load_rekor_keys toy_world = Inr [toy_rekor_key]" "load_timestamp_authorities toy_world = Inr []"
  "load_fulcio_cas toy_world = Inr [toy_fulcio_ca]"
  by (simp_all add: load_rekor_keys_def load_rekor_keys_from_json_def load_rekor_key_def toy_rekor_key_def
      load_timestamp_authorities_def load_timestamp_authorities_from_json_def load_fulcio_cas_def
      load_fulcio_cas_from_json_def load_fulcio_ca_def toy_fulcio_ca_def toy_host toy_root_defs)

lemma toy_keyring:
  "load_ctlog_keyring toy_world = Inr [digest_from_bytes (as_bytes toy_root) \<mapsto> toy_ct_key]"
  by (simp add: load_ctlog_keyring_def load_ctlog_keyring_from_json_def load_ct_key_def new_with_validity_def
      key_new_def with_validity_def collect_keys_def toy_ct_key_def toy_p256_def ID_EC_PUBLIC_KEY_def
      SECP_256_R_1_def OID_SECP256R1_def toy_root_defs)

lemma toy_issued: "issued_by toy_world toy_leaf toy_ca" "issued_by toy_world toy_ca toy_ca"
  by (simp_all add: issued_by_def toy_leaf_def toy_ca_def toy_fulcio_cert_def toy_ecdsa_def toy_p256_def
      toy_world_fields tbs_digest_def curve_oid_def ecdsa_p256_ok_def)

lemma toy_fulcio_chain: "verify_fulcio_chain toy_world (as_bytes ''CERT'') 10 = Inr ()"
proof -
  have "fulcio_vouches toy_world toy_leaf 10 toy_fulcio_ca"
    using toy_issued by (simp add: fulcio_vouches_def toy_fulcio_ca_def chain_ok_def toy_world_fields list_all2_Cons1)
  then show ?thesis unfolding verify_fulcio_chain_Inr using toy_loaded(3) toy_world_fields(3) by auto
qed

lemma toy_bundle_cert: "bundle_cert toy_world toy_bundle = Inr (as_bytes ''CERT'', toy_leaf)"
  by (simp add: bundle_cert_Inr toy_bundle_parts(4) [OF toy_world_parsers] toy_world_fields)

lemma toy_scts:
  "all_from_cert toy_world toy_leaf spki =
     Inr [\<lparr>es_cert = toy_leaf,
           es_sct = \<lparr>sct_log_id = digest_from_bytes (as_bytes toy_root), sct_timestamp = 15000,
                     sct_extensions = [], sct_signature = as_bytes ''CT''\<rparr>,
           es_issuer_id = s_sha256 toy_world spki\<rparr>]"
  by (simp add: all_from_cert_def parse_scts_from_cert_def toy_leaf_def toy_fulcio_cert_def toy_world_fields
      fulcio_oids CT_PRECERT_SCTS_OID_def)

lemma toy_sct_verified: "dsse_verify_sct toy_world (as_bytes ''CERT'') spki = Inr ()"
  by (simp add: dsse_verify_sct_def toy_scts toy_keyring toy_world_fields(3) verify_embedded_sct_def
      to_digitally_signed_def tls_serialize_def tls_vec_u24_def tls_vec_u16_def verify_at_def toy_ct_key_def
      before_window_def after_window_def check_signature_def toy_world_fields(13,15,17))

lemma toy_dsse: "verify_dsse_signature toy_world toy_bundle = Inr ()"
proof -
  have v: "validate_certificate_extensions toy_leaf = Inr ()"
    by (auto simp: validate_certificate_extensions_Inr toy_leaf_def toy_fulcio_cert_def)
  have i: "find_issuer_spki toy_world toy_leaf = Inr []"
    by (simp add: find_issuer_spki_def toy_loaded toy_fulcio_ca_def toy_world_fields toy_leaf_def toy_ca_def toy_fulcio_cert_def)
  have k: "x_public_key toy_leaf = as_bytes ''SIG''" by (simp add: toy_leaf_def toy_fulcio_cert_def)
  have s: "parse_signature toy_world (as_bytes ''SIG'') = Inr (as_bytes ''SIG'')"
    by (simp add: parse_signature_def toy_world_fields(15,16))
  obtain env sgs where env: "jget toy_bundle ''dsseEnvelope'' = Some env"
      "jstr env [''payloadType''] = Some ''application/vnd.in-toto+json''" "jstr env [''payload''] = Some ''PAYLOAD''"
      "jarray env [''signatures''] = Some [sgs]" "jstr sgs [''sig''] = Some ''SIG''"
    by (simp add: toy_json)
  show ?thesis
    by (simp add: verify_dsse_signature_def toy_bundle_cert v i toy_sct_verified k env s toy_world_b64
        toy_world_fields(13,14) index_at_def)
qed

definition toy_info :: certificate_info where
  "toy_info = \<lparr>ci_issuer = GITHUB_ACTIONS_ISSUER, ci_subject_workflow = toy_workflow, ci_repository = ''o/r''\<rparr>"

lemma toy_identity:
  "extract_certificate_info toy_world toy_leaf = Inr toy_info"
  "verify_certificate_identity toy_info ''o/r'' ''v1'' = Inr ()"
proof -
  have d: "decode_asn1_string toy_world b = Some (from_bytes b)" for b
    by (simp add: decode_asn1_string_def toy_world_fields)
  show "extract_certificate_info toy_world toy_leaf = Inr toy_info"
    by (simp add: extract_certificate_info_def toy_leaf_def toy_fulcio_cert_def info_step_def d fulcio_oids
        CT_PRECERT_SCTS_OID_def toy_info_def GITHUB_ACTIONS_ISSUER_def toy_workflow_def)
  show "verify_certificate_identity toy_info ''o/r'' ''v1'' = Inr ()"
    unfolding verify_certificate_identity_Inr workflow_matches_text toy_info_def toy_workflow_def
    by (intro conjI exI [of _ "''b.yml''"]) simp_all
qed

lemma toy_extracted:
  "extract_measurement_from_bundle toy_world toy_bundle (replicate 64 CHR ''0'') = Inr (sr_measurement toy_result)"
proof -
  define dig where "dig = replicate 64 CHR ''0''"
  obtain env where env: "jget toy_bundle ''dsseEnvelope'' = Some env"
      "jstr env [''payloadType''] = Some ''application/vnd.in-toto+json''" "jstr env [''payload''] = Some ''PAYLOAD''"
    by (simp add: toy_json)
  have st: "\<exists>st. parse_statement toy_world b = Inr st \<and> measurement_from_statement st dig = Inr (sr_measurement toy_result)" for b
    unfolding dig_def [symmetric]
    by (simp add: parse_statement_def toy_world_fields toy_statement_def statement_from_json_def statement_members_def
        only_member_def subject_from_json_def string_map_def measurement_from_statement_def
        measurement_from_predicate_def jstr_def toy_result_def dig_def [symmetric])
  obtain st where "parse_statement toy_world (as_bytes ''PAYLOAD'') = Inr st"
      "measurement_from_statement st dig = Inr (sr_measurement toy_result)"
    using st by blast
  then show ?thesis
    unfolding dig_def [symmetric] by (simp add: extract_measurement_from_bundle_def env toy_world_b64)
qed

lemma toy_repo_verified: "verify_repo toy_world toy_cms toy_web ''o/r'' = Inr toy_result"
proof -
  have g: "web_get toy_web url = Inr \<lparr>status = 200, retry_after_header = None, resp_body = Some []\<rparr>" for url
    unfolding web_get_def fetch_with_retry_def upt_3
    by (simp add: toy_web_def retry_status_def is_server_error_def)
  have trim: "trim (replicate 64 CHR ''0'') = replicate 64 CHR ''0''"
    by (rule trim_graphic) (simp add: is_graphic_def)
  have hex: "list_all is_ascii_hexdigit (replicate 64 CHR ''0'')"
    by (simp add: list_all_iff is_ascii_hexdigit_def is_ascii_digit_def)
  have f: "fetch_latest_release toy_web ''o/r'' = Inr \<lparr>r_tag = ''v1'', r_digest = replicate 64 CHR ''0''\<rparr>"
    using trim hex
    by (simp add: fetch_latest_release_def fetch_latest_tag_def fetch_digest_def g is_success_def body_of_def) (simp add: toy_web_def)
  have b: "fetch_attestation_bundle toy_web ''o/r'' d = Inr []" for d
    by (simp add: fetch_attestation_bundle_def g is_success_def body_of_def) (simp add: toy_web_def index_at_def)
  have v: "extract_cert_with_validity toy_world toy_bundle = Inr (as_bytes ''CERT'', 10, 20)"
      "extract_certificate_info_from_bundle toy_world toy_bundle = Inr toy_info"
    by (simp_all add: extract_cert_with_validity_def extract_certificate_info_from_bundle_def toy_bundle_cert toy_identity)
      (simp add: toy_leaf_def toy_fulcio_cert_def)
  have r: "verify_rekor_entry toy_world toy_cms toy_bundle 10 20 = Inr ()"
    by (simp add: verify_rekor_entry_def toy_loaded toy_accepted [OF toy_world_parsers])
  show ?thesis
    by (simp add: verify_repo_def f b toy_world_fields(1) verify_bundle_def toy_dsse v toy_identity r toy_fulcio_chain
        toy_extracted toy_result_def)
qed

lemma repo_verified_witness:
  "\<exists>bundle_json bundle payload st.
     fetch_attestation_bundle toy_web ''o/r'' (sr_digest toy_result) = Inr bundle_json \<and>
     s_json toy_world bundle_json = Some bundle \<and> digest_form (sr_digest toy_result) \<and>
     release_signed toy_world bundle ''o/r'' (sr_release_tag toy_result) payload \<and>
     parse_statement toy_world payload = Inr st \<and>
     measurement_from_statement st (sr_digest toy_result) = Inr (sr_measurement toy_result)"
  by (rule repo_verified [OF toy_repo_verified])

end
