(* ===== verification/Attestation_Properties.thy ===== *)
theory Attestation_Properties
  imports Attestation Sev_Properties Sigstore_Properties
begin

text \<open>
  An enclave and a repository that verify: the report of \<open>Sev_Properties\<close> and the release of
  \<open>Sigstore_Properties\<close>, behind the network of a verification environment.
\<close>

definition toy_verify_env :: verify_env where
  "toy_verify_env =
     \<lparr>a_sev = toy_env, a_sig = toy_world, a_cms = toy_cms, a_web = toy_web,
      a_doc_send = (\<lambda>url hs k. Response \<lparr>status = 200, retry_after_header = None, resp_body = Some []\<rparr>),
      a_doc = (\<lambda>_. Some \<lparr>doc_format = SevGuestV2, doc_body = ''b''\<rparr>), a_routers = (\<lambda>_. Some []),
      a_version = ''1'', a_now = ''now''\<rparr>"

definition toy_document :: attestation_document where
  "toy_document = \<lparr>doc_format = SevGuestV2, doc_body = ''b''\<rparr>"

definition toy_verification :: verification where
  "toy_verification = \<lparr>v_measurement = \<lparr>m_type = SevGuestV2, registers = [''ab'']\<rparr>,
     v_tls_public_key_fp = AMD_ARK_GENOA_SPKI_FINGERPRINT, v_hpke_public_key = Some AMD_ARK_GENOA_SPKI_FINGERPRINT\<rparr>"

lemma toy_fetch: "fetch_document toy_verify_env host = Inr toy_document"
  unfolding fetch_document_def fetch_with_retry_def upt_3
  by (simp add: toy_verify_env_def toy_web_def retry_status_def is_server_error_def is_success_def toy_document_def)

lemma toy_verify_full: "\<exists>d'. verify_full toy_env toy_document Map.empty = (d', Inr toy_verification)"
  using toy_env_verifies [of "''b''"]
  by (auto simp: verify_full_def verify_full_with_options_def prod_eq_iff toy_document_def toy_verification_def)

lemma toy_measurements_equal:
  "equals (v_measurement toy_verification) (sr_measurement toy_result) = Inr ()"
  "equals (sr_measurement toy_result) (v_measurement toy_verification) = Inr ()"
  by (simp_all add: toy_verification_def toy_result_def equals_def compare_multiplatform_def)

lemma toy_complete: "\<exists>d' gt. verify_complete toy_verify_env ''h'' ''o/r'' Map.empty = (d', Inr gt)"
proof -
  obtain d' where "verify_full toy_env toy_document Map.empty = (d', Inr toy_verification)"
    using toy_verify_full by blast
  moreover have "\<exists>gt. ground_truth_of toy_verify_env ''o/r'' toy_verification toy_result = Inr gt"
    by (simp add: ground_truth_of_def toy_measurements_equal Let_def)
  moreover have "a_sev toy_verify_env = toy_env" "a_sig toy_verify_env = toy_world" "a_cms toy_verify_env = toy_cms"
      "a_web toy_verify_env = toy_web"
    by (simp_all add: toy_verify_env_def)
  ultimately show ?thesis
    using toy_repo_verified toy_fetch [of "''h''"] by (auto simp: verify_complete_def)
qed

end
