(* ===== verification/Http_Request.thy ===== *)
theory Http_Request
  imports Errors Text
begin

text \<open>
  What the request paths share: a request with its headers and body, the parts of a parsed URL the
  source looks at, and \<open>std::net::IpAddr\<close>'s parser with \<open>is_loopback\<close>. The URL parser and the HTTP
  stack are other crates: a parsed URL is a value the model is given.
\<close>

section \<open>Requests\<close>

text \<open>A header name is lower case, as the header map stores it. A body that streams has no bytes to
  look at (\<open>Body::as_bytes\<close> is \<open>None\<close>).\<close>

datatype body = Buffered bytes | Streaming str

fun body_bytes :: "body \<Rightarrow> bytes option" where
  "body_bytes (Buffered b) = Some b"
| "body_bytes (Streaming _) = None"

record http_request =
  req_method :: str
  req_path :: str
  req_url :: str
  req_headers :: "(str \<times> str) list"
  req_body :: "body option"

definition contains_key :: "str \<Rightarrow> (str \<times> str) list \<Rightarrow> bool" where
  "contains_key k hs \<longleftrightarrow> k \<in> fst ` set hs"

text \<open>\<open>HeaderMap::insert\<close> replaces every value the name had.\<close>

definition header_insert :: "str \<Rightarrow> str \<Rightarrow> (str \<times> str) list \<Rightarrow> (str \<times> str) list" where
  "header_insert k v hs = filter (\<lambda>kv. fst kv \<noteq> k) hs @ [(k, v)]"

lemma header_insert_values [simp]:
  "(k', v') \<in> set (header_insert k v hs) \<longleftrightarrow> (if k' = k then v' = v else (k', v') \<in> set hs)"
  by (auto simp: header_insert_def)

lemma contains_key_insert [simp]: "contains_key k' (header_insert k v hs) \<longleftrightarrow> k' = k \<or> contains_key k' hs"
  by (force simp: contains_key_def header_insert_def)

section \<open>Parsed URLs\<close>

record url =
  u_scheme :: str
  u_username :: str
  u_password :: "str option"
  u_host_str :: "str option"
  u_port :: "u16 option"
  u_query :: "str option"
  u_fragment :: "str option"

section \<open>IP addresses\<close>

text \<open>\<open>read_number\<close>: at most \<open>n\<close> digits of the radix, at least one, the value within the limit.\<close>

definition hex_digit_value :: "char \<Rightarrow> nat" where
  "hex_digit_value c = (let n = of_char c in
     if is_ascii_digit c then n - 48 else if n \<ge> 97 then n - 87 else n - 55)"

definition digits_value :: "nat \<Rightarrow> str \<Rightarrow> nat" where
  "digits_value radix s = foldl (\<lambda>n c. radix * n + hex_digit_value c) 0 s"

definition read_u8 :: "str \<Rightarrow> (nat \<times> str) option" where
  "read_u8 s = (let ds = takeWhile is_ascii_digit s in
     if ds = [] \<or> 3 < length ds \<or> (1 < length ds \<and> hd ds = CHR ''0'') \<or> 255 < digits_value 10 ds then None
     else Some (digits_value 10 ds, dropWhile is_ascii_digit s))"

definition read_u16_hex :: "str \<Rightarrow> (nat \<times> str) option" where
  "read_u16_hex s = (let ds = takeWhile is_ascii_hexdigit s in
     if ds = [] \<or> 4 < length ds then None
     else Some (digits_value 16 ds, dropWhile is_ascii_hexdigit s))"

text \<open>\<open>read_separator\<close>: before every element but the first.\<close>

fun read_separator :: "char \<Rightarrow> nat \<Rightarrow> (str \<Rightarrow> ('a \<times> str) option) \<Rightarrow> str \<Rightarrow> ('a \<times> str) option" where
  "read_separator c 0 f s = f s"
| "read_separator c (Suc i) f [] = None"
| "read_separator c (Suc i) f (x # s) = (if x = c then f s else None)"

fun read_octets :: "nat \<Rightarrow> nat \<Rightarrow> str \<Rightarrow> (nat list \<times> str) option" where
  "read_octets i 0 s = Some ([], s)"
| "read_octets i (Suc n) s = (case read_separator (CHR ''.'') i read_u8 s of
     None \<Rightarrow> None
   | Some (x, s') \<Rightarrow> map_option (\<lambda>(xs, r). (x # xs, r)) (read_octets (Suc i) n s'))"

definition read_ipv4_addr :: "str \<Rightarrow> (nat list \<times> str) option" where
  "read_ipv4_addr s = read_octets 0 4 s"

text \<open>\<open>read_groups\<close>: up to \<open>n\<close> more groups from position \<open>i\<close>; \<open>True\<close> when the last two came from
  an embedded IPv4 address.\<close>

fun read_groups :: "nat \<Rightarrow> nat \<Rightarrow> str \<Rightarrow> nat list \<times> bool \<times> str" where
  "read_groups i 0 s = ([], False, s)"
| "read_groups i (Suc n) s =
     (case (if n = 0 then None else read_separator (CHR '':'') i read_ipv4_addr s) of
        Some ([a, b, c, d], r) \<Rightarrow> ([256 * a + b, 256 * c + d], True, r)
      | _ \<Rightarrow> (case read_separator (CHR '':'') i read_u16_hex s of
            None \<Rightarrow> ([], False, s)
          | Some (g, r) \<Rightarrow> (case read_groups (Suc i) n r of (gs, v4, r') \<Rightarrow> (g # gs, v4, r'))))"

definition read_ipv6_addr :: "str \<Rightarrow> (nat list \<times> str) option" where
  "read_ipv6_addr s = (case read_groups 0 8 s of (front, v4, r) \<Rightarrow>
     if length front = 8 then Some (front, r)
     else if v4 then None
     else (case strip_prefix r ''::'' of
         None \<Rightarrow> None
       | Some r' \<Rightarrow> (case read_groups 0 (8 - (length front + 1)) r' of (back, _, r'') \<Rightarrow>
           Some (front @ replicate (8 - length front - length back) 0 @ back, r''))))"

datatype ip_addr = V4 "nat list" | V6 "nat list"

definition parse_ip_addr :: "str \<Rightarrow> ip_addr option" where
  "parse_ip_addr s = (case read_ipv4_addr s of
     Some (os, r) \<Rightarrow> (if r = [] then Some (V4 os) else None)
   | None \<Rightarrow> (case read_ipv6_addr s of
       Some (gs, r) \<Rightarrow> (if r = [] then Some (V6 gs) else None)
     | None \<Rightarrow> None))"

fun is_loopback :: "ip_addr \<Rightarrow> bool" where
  "is_loopback (V4 os) \<longleftrightarrow> os ! 0 = 127"
| "is_loopback (V6 gs) \<longleftrightarrow> gs = [0, 0, 0, 0, 0, 0, 0, 1]"

lemmas ip_parse_defs = parse_ip_addr_def read_ipv4_addr_def read_ipv6_addr_def read_u8_def read_u16_hex_def
  is_ascii_digit_def is_ascii_hexdigit_def digits_value_def hex_digit_value_def strip_prefix_def
  starts_with_def Let_def

lemma loopback_examples:
  "parse_ip_addr ''127.0.0.1'' = Some (V4 [127, 0, 0, 1])"
  "parse_ip_addr ''::1'' = Some (V6 [0, 0, 0, 0, 0, 0, 0, 1])"
  "parse_ip_addr ''127.0.0.01'' = None"
  "parse_ip_addr ''127.1'' = None"
  by (simp_all add: ip_parse_defs numeral_eq_Suc)

end
