(* ===== verification/Ehbp.thy ===== *)
theory Ehbp
  imports Http_Request Attestation_Types
begin

text \<open>
  \<open>ehbp_transport.rs\<close>: the proxy handle and its sealing channel. The HPKE client of the
  \<open>tinfoil-ehbp\<close> crate is the type variable \<open>'c\<close>; making one from a key and executing a request on it
  are parameters. The operations here are the critical sections of the source, each a function of
  the channel; their interleaving is the step relation of \<open>Ehbp_Machine\<close>.
\<close>

section \<open>The channel\<close>

definition ENCLAVE_URL_HEADER :: str where
  "ENCLAVE_URL_HEADER = ''x-tinfoil-enclave-url''"

record refreshed_state =
  rs_key :: str
  rs_ground_truth :: "ground_truth option"

definition refreshed_from_key :: "str \<Rightarrow> refreshed_state" where
  "refreshed_from_key k = \<lparr>rs_key = k, rs_ground_truth = None\<rparr>"

record 'c ehbp_channel =
  ch_client :: "'c option"
  ch_public_key :: "str option"
  ch_rejected_key :: "str option"
  ch_ground_truth :: "ground_truth option"
  ch_generation :: u64

definition new_channel :: "'c ehbp_channel" where
  "new_channel = \<lparr>ch_client = None, ch_public_key = None, ch_rejected_key = None,
     ch_ground_truth = None, ch_generation = 0\<rparr>"

definition set_active :: "'c \<Rightarrow> refreshed_state \<Rightarrow> 'c ehbp_channel \<Rightarrow> 'c ehbp_channel" where
  "set_active c r ch = \<lparr>ch_client = Some c, ch_public_key = Some (rs_key r), ch_rejected_key = None,
     ch_ground_truth = rs_ground_truth r, ch_generation = ch_generation ch + 1\<rparr>"

definition clear_channel :: "'c ehbp_channel \<Rightarrow> 'c ehbp_channel" where
  "clear_channel ch = \<lparr>ch_client = None, ch_public_key = None, ch_rejected_key = None,
     ch_ground_truth = None, ch_generation = ch_generation ch + 1\<rparr>"

definition reject_channel :: "'c ehbp_channel \<Rightarrow> 'c ehbp_channel" where
  "reject_channel ch = (clear_channel (ch\<lparr>ch_public_key := None\<rparr>))\<lparr>ch_rejected_key := ch_public_key ch\<rparr>"

section \<open>Errors of the EHBP crate\<close>

datatype ehbp_code = KeyConfigMismatch | OtherCode

datatype ehbp_error = Coded ehbp_code str | Ehbp_Http str | Other_Ehbp str

fun map_ehbp_error :: "ehbp_error \<Rightarrow> error" where
  "map_ehbp_error (Coded KeyConfigMismatch title) = EhbpKeyMismatch title"
| "map_ehbp_error (Ehbp_Http inner) = Http inner"
| "map_ehbp_error (Coded OtherCode title) = Ehbp title"
| "map_ehbp_error (Other_Ehbp msg) = Ehbp msg"

fun into_openai_error :: "error \<Rightarrow> openai_error" where
  "into_openai_error (Api inner) = inner"
| "into_openai_error (Http inner) = Reqwest inner"
| "into_openai_error _ = OtherOpenAIError ''boxed''"

section \<open>The proxy address\<close>

definition is_loopback_host :: "str \<Rightarrow> bool" where
  "is_loopback_host host \<longleftrightarrow> eq_ignore_ascii_case host ''localhost'' \<or>
     (case parse_ip_addr (rev (dropWhile (\<lambda>c. c = CHR '']'') (rev (dropWhile (\<lambda>c. c = CHR ''['') host)))) of
        Some address \<Rightarrow> is_loopback address | None \<Rightarrow> False)"

definition validate_proxy_url :: "(str \<Rightarrow> url option) \<Rightarrow> str \<Rightarrow> unit res" where
  "validate_proxy_url parse base_url =
     try_bind (ok_or (Configuration ''invalid proxy URL'') (parse base_url)) (\<lambda>url.
     if u_scheme url \<noteq> ''http'' \<and> u_scheme url \<noteq> ''https'' then
       Inl (Configuration ''proxy URL must use http:// or https://'')
     else if u_username url \<noteq> [] \<or> u_password url \<noteq> None then
       Inl (Configuration ''proxy URL must not include credentials'')
     else case u_host_str url of
       None \<Rightarrow> Inl (Configuration ''proxy URL must be an absolute HTTP URL without a query or fragment'')
     | Some host \<Rightarrow>
         if u_query url \<noteq> None \<or> u_fragment url \<noteq> None then
           Inl (Configuration ''proxy URL must be an absolute HTTP URL without a query or fragment'')
         else if u_scheme url = ''http'' \<and> \<not> is_loopback_host host then
           Inl (Configuration ''cleartext proxy URL must use a loopback host; remote proxies require https://'')
         else Inr ())"

section \<open>The proxy handle\<close>

text \<open>What the handle calls: \<open>Url::parse\<close>, building an HTTP client and a sealing client,
  \<open>HeaderValue::from_str\<close> and executing the \<open>k\<close>-th sealed exchange.\<close>

record ('c, 'r) ehbp_ext =
  h_parse_url :: "str \<Rightarrow> url option"
  h_build_http :: "bool"
  h_connect :: "str \<Rightarrow> str \<Rightarrow> ehbp_error + 'c"
  h_header_ok :: "str \<Rightarrow> bool"
  h_execute :: "nat \<Rightarrow> 'c \<Rightarrow> http_request \<Rightarrow> ehbp_error + 'r"

record 'c ehbp_proxy =
  px_base_url :: str
  px_enclave_url :: str
  px_channel :: "'c ehbp_channel"

definition install_state ::
  "('c, 'r) ehbp_ext \<Rightarrow> str \<Rightarrow> refreshed_state \<Rightarrow> 'c ehbp_channel \<Rightarrow> 'c ehbp_channel \<times> unit res" where
  "install_state h base_url r ch = (case h_connect h base_url (rs_key r) of
     Inl e \<Rightarrow> (ch, Inl (map_ehbp_error e))
   | Inr c \<Rightarrow> (set_active c r ch, Inr ()))"

definition rekey :: "('c, 'r) ehbp_ext \<Rightarrow> str \<Rightarrow> str \<Rightarrow> 'c ehbp_channel \<Rightarrow> 'c ehbp_channel \<times> unit res" where
  "rekey h base_url key = install_state h base_url (refreshed_from_key key)"

definition install_verified_state ::
  "('c, 'r) ehbp_ext \<Rightarrow> str \<Rightarrow> str \<Rightarrow> ground_truth \<Rightarrow> 'c ehbp_channel \<Rightarrow> 'c ehbp_channel \<times> unit res" where
  "install_verified_state h base_url key gt =
     install_state h base_url \<lparr>rs_key = key, rs_ground_truth = Some gt\<rparr>"

definition trim_slashes :: "str \<Rightarrow> str" where
  "trim_slashes s = rev (dropWhile (\<lambda>c. c = CHR ''/'') (rev s))"

definition new_proxy :: "('c, 'r) ehbp_ext \<Rightarrow> str \<Rightarrow> str \<Rightarrow> str \<Rightarrow> 'c ehbp_proxy res" where
  "new_proxy h proxy_url enclave_url key =
     try_bind (validate_proxy_url (h_parse_url h) (trim_slashes proxy_url)) (\<lambda>_.
     if \<not> h_build_http h then Inl (Configuration ''failed to build proxy HTTP client'')
     else case rekey h (trim_slashes proxy_url) key new_channel of (ch, r) \<Rightarrow> try_bind r (\<lambda>_.
       Inr \<lparr>px_base_url = trim_slashes proxy_url, px_enclave_url = enclave_url, px_channel = ch\<rparr>))"

definition verified_ground_truth :: "'c ehbp_channel \<Rightarrow> ground_truth option" where
  "verified_ground_truth ch = Option.bind (ch_client ch) (\<lambda>_. ch_ground_truth ch)"

definition revoke :: "'c ehbp_channel \<Rightarrow> 'c ehbp_channel" where
  "revoke ch = clear_channel ch"

definition reject_if_generation :: "u64 \<Rightarrow> 'c ehbp_channel \<Rightarrow> ('c ehbp_channel \<times> u64) option" where
  "reject_if_generation g ch = (if ch_generation ch \<noteq> g then None
     else let ch' = reject_channel ch in Some (ch', ch_generation ch'))"

section \<open>Refreshing after a key mismatch\<close>

text \<open>The part of \<open>refresh_after_mismatch\<close> that follows the refresher's answer.\<close>

definition install_refreshed ::
  "('c, 'r) ehbp_ext \<Rightarrow> str \<Rightarrow> u64 \<Rightarrow> refreshed_state \<Rightarrow> 'c ehbp_channel \<Rightarrow> 'c ehbp_channel \<times> unit res" where
  "install_refreshed h base_url refresh_generation r ch = (case h_connect h base_url (rs_key r) of
     Inl e \<Rightarrow> (ch, Inl (map_ehbp_error e))
   | Inr c \<Rightarrow>
       if ch_generation ch \<noteq> refresh_generation then (ch, Inr ())
       else if ch_rejected_key ch = Some (rs_key r) then
         (clear_channel ch, Inl (EhbpKeyMismatch ''attestation returned the previously rejected HPKE key''))
       else (set_active c r ch, Inr ()))"

definition no_refresher :: error where
  "no_refresher = EhbpKeyMismatch ''EHBP key rotated; re-run verify() before retrying the request''"

definition refresh_after_mismatch ::
  "('c, 'r) ehbp_ext \<Rightarrow> str \<Rightarrow> refreshed_state res option \<Rightarrow> u64 \<Rightarrow> 'c ehbp_channel \<Rightarrow> 'c ehbp_channel \<times> unit res" where
  "refresh_after_mismatch h base_url refresher seen ch = (case reject_if_generation seen ch of
     None \<Rightarrow> (ch, Inr ())
   | Some (ch1, rg) \<Rightarrow> (case refresher of
       None \<Rightarrow> (ch1, Inl no_refresher)
     | Some (Inl e) \<Rightarrow> (ch1, Inl e)
     | Some (Inr r) \<Rightarrow> install_refreshed h base_url rg r ch1))"

section \<open>Sending\<close>

definition body_is_empty :: "http_request \<Rightarrow> bool" where
  "body_is_empty q \<longleftrightarrow> (case req_body q of None \<Rightarrow> True | Some b \<Rightarrow> body_bytes b = Some [])"

text \<open>The request that is handed to a sealing client, and the client it is handed to.\<close>

definition prepare_send ::
  "('c, 'r) ehbp_ext \<Rightarrow> str \<Rightarrow> 'c ehbp_channel \<Rightarrow> http_request \<Rightarrow> ('c \<times> http_request) res" where
  "prepare_send h enclave_url ch q =
     (if body_is_empty q \<and> contains_key ''authorization'' (req_headers q) then
        Inl (Ehbp ''authenticated bodyless requests cannot use the EHBP proxy'')
      else if \<not> h_header_ok h enclave_url then Inl (Ehbp ''invalid enclave URL header'')
      else try_bind (ok_or (Ehbp ''EHBP transport has been revoked; re-run verify() before sending requests'')
          (ch_client ch)) (\<lambda>c.
        Inr (c, q\<lparr>req_headers := header_insert ENCLAVE_URL_HEADER enclave_url (req_headers q)\<rparr>)))"

definition ehbp_send ::
  "('c, 'r) ehbp_ext \<Rightarrow> str \<Rightarrow> nat \<Rightarrow> 'c ehbp_channel \<Rightarrow> http_request \<Rightarrow> 'r res" where
  "ehbp_send h enclave_url k ch q = try_bind (prepare_send h enclave_url ch q) (\<lambda>(c, q').
     map_err map_ehbp_error (h_execute h k c q'))"

fun retry_after_mismatch ::
  "('c, 'r) ehbp_ext \<Rightarrow> str \<Rightarrow> refreshed_state res option \<Rightarrow> u64 \<Rightarrow> 'r res \<Rightarrow>
     ('c ehbp_channel \<Rightarrow> 'r res) \<Rightarrow> 'c ehbp_channel \<Rightarrow> 'c ehbp_channel \<times> 'r res" where
  "retry_after_mismatch h base_url refresher seen (Inr response) retry ch = (ch, Inr response)"
| "retry_after_mismatch h base_url refresher seen (Inl (EhbpKeyMismatch m)) retry ch =
     (case refresh_after_mismatch h base_url refresher seen ch of
        (ch', Inl e) \<Rightarrow> (ch', Inl e)
      | (ch', Inr _) \<Rightarrow> (ch', retry ch'))"
| "retry_after_mismatch h base_url refresher seen (Inl e) retry ch = (ch, Inl e)"

text \<open>\<open>send_replayable\<close> of one task that runs alone; \<open>build\<close> makes the request of each attempt.\<close>

definition send_replayable ::
  "('c, 'r) ehbp_ext \<Rightarrow> str \<Rightarrow> str \<Rightarrow> refreshed_state res option \<Rightarrow> (nat \<Rightarrow> http_request res) \<Rightarrow>
     'c ehbp_channel \<Rightarrow> 'c ehbp_channel \<times> 'r res" where
  "send_replayable h base_url enclave_url refresher build ch = (case build 0 of
     Inl e \<Rightarrow> (ch, Inl e)
   | Inr q \<Rightarrow> retry_after_mismatch h base_url refresher (ch_generation ch) (ehbp_send h enclave_url 0 ch q)
       (\<lambda>ch'. try_bind (build 1) (ehbp_send h enclave_url 1 ch')) ch)"

text \<open>\<open>EhbpTransport::call\<close> builds the request before it reads the generation, and its errors are
  those of the OpenAI client.\<close>

definition transport_call ::
  "('c, 'r) ehbp_ext \<Rightarrow> str \<Rightarrow> str \<Rightarrow> refreshed_state res option \<Rightarrow> (nat \<Rightarrow> openai_error + http_request) \<Rightarrow>
     'c ehbp_channel \<Rightarrow> 'c ehbp_channel \<times> (openai_error + 'r)" where
  "transport_call h base_url enclave_url refresher build ch = (case build 0 of
     Inl e \<Rightarrow> (ch, Inl e)
   | Inr q \<Rightarrow> map_prod id (map_err into_openai_error)
       (retry_after_mismatch h base_url refresher (ch_generation ch) (ehbp_send h enclave_url 0 ch q)
         (\<lambda>ch'. try_bind (map_err Api (build 1)) (ehbp_send h enclave_url 1 ch')) ch))"

end
