(* ===== verification/Transitions.thy ===== *)
theory Transitions
  imports Main
begin

text \<open>
  Runs of a labelled step relation, the states reachable from an initial one, and two contracts that
  the state machines of the development share: an invariant, and the simulation of a more abstract
  relation. A label that the abstract relation does not see is mapped to \<open>None\<close>.
\<close>

inductive run :: "('s \<Rightarrow> 'a \<Rightarrow> 's \<Rightarrow> bool) \<Rightarrow> 's \<Rightarrow> 'a list \<Rightarrow> 's \<Rightarrow> bool" for step where
  Run_Nil [intro]: "run step s [] s"
| Run_Cons [intro]: "step s a s' \<Longrightarrow> run step s' as s'' \<Longrightarrow> run step s (a # as) s''"

inductive_simps run_Nil_iff [simp]: "run step s [] s'"
inductive_simps run_Cons_iff: "run step s (a # as) s'"

definition reachable :: "('s \<Rightarrow> bool) \<Rightarrow> ('s \<Rightarrow> 'a \<Rightarrow> 's \<Rightarrow> bool) \<Rightarrow> 's \<Rightarrow> bool" where
  "reachable init step s \<longleftrightarrow> (\<exists>s0 as. init s0 \<and> run step s0 as s)"

lemma run_append: "run step s as s' \<Longrightarrow> run step s' bs s'' \<Longrightarrow> run step s (as @ bs) s''"
  by (induction rule: run.induct) auto

lemma run_single [intro]: "step s a s' \<Longrightarrow> run step s [a] s'"
  by blast

lemma run_append_iff: "run step s (as @ bs) s'' \<longleftrightarrow> (\<exists>s'. run step s as s' \<and> run step s' bs s'')"
  by (induction as arbitrary: s) (auto simp: run_Cons_iff)

lemma reachable_init [intro]: "init s \<Longrightarrow> reachable init step s"
  by (auto simp: reachable_def)

lemma reachable_step: "reachable init step s \<Longrightarrow> step s a s' \<Longrightarrow> reachable init step s'"
  unfolding reachable_def by (blast intro: run_append run_single)

lemma reachable_run: "reachable init step s \<Longrightarrow> run step s as s' \<Longrightarrow> reachable init step s'"
  by (auto simp: reachable_def intro: run_append)

locale invariant_system =
  fixes init :: "'s \<Rightarrow> bool"
    and step :: "'s \<Rightarrow> 'a \<Rightarrow> 's \<Rightarrow> bool"
    and inv :: "'s \<Rightarrow> bool"
  assumes inv_init: "init s \<Longrightarrow> inv s"
    and inv_step: "reachable init step s \<Longrightarrow> inv s \<Longrightarrow> step s a s' \<Longrightarrow> inv s'"
begin

lemma inv_run: "run step s as s' \<Longrightarrow> reachable init step s \<Longrightarrow> inv s \<Longrightarrow> inv s'"
  by (induction rule: run.induct) (blast intro: inv_step reachable_step)+

lemma inv_reachable: "reachable init step s \<Longrightarrow> inv s"
  by (metis inv_run inv_init reachable_def reachable_init)

end

locale simulation = invariant_system init step inv
  for init :: "'s \<Rightarrow> bool" and step :: "'s \<Rightarrow> 'a \<Rightarrow> 's \<Rightarrow> bool" and inv :: "'s \<Rightarrow> bool" +
  fixes astep :: "'t \<Rightarrow> 'b \<Rightarrow> 't \<Rightarrow> bool"
    and abs :: "'s \<Rightarrow> 't"
  assumes sim_step: "reachable init step s \<Longrightarrow> inv s \<Longrightarrow> step s a s' \<Longrightarrow> abs s' = abs s \<or> (\<exists>b. astep (abs s) b (abs s'))"
begin

lemma sim_run: "run step s as s' \<Longrightarrow> reachable init step s \<Longrightarrow> \<exists>bs. length bs \<le> length as \<and> run astep (abs s) bs (abs s')"
proof (induction rule: run.induct)
  case (Run_Nil s)
  show ?case by (intro exI [of _ "[]"]) simp
next
  case (Run_Cons s a s' as s'')
  obtain bs where bs: "length bs \<le> length as" "run astep (abs s') bs (abs s'')"
    using Run_Cons.IH reachable_step [OF Run_Cons.prems Run_Cons.hyps(1)] by blast
  consider "abs s' = abs s" | b where "astep (abs s) b (abs s')"
    using sim_step [OF Run_Cons.prems inv_reachable [OF Run_Cons.prems] Run_Cons.hyps(1)] by blast
  then show ?case
  proof cases
    case 1
    then show ?thesis using bs by (intro exI [of _ bs]) simp
  next
    case 2
    then show ?thesis using bs by (intro exI [of _ "b # bs"]) auto
  qed
qed

end

end
