(* ===== verification/Ehbp_Machine.thy ===== *)
theory Ehbp_Machine
  imports Ehbp Transitions
begin

text \<open>
  The interleaving of the tasks that share a proxy handle: requests that are sent and retried,
  re-verifications, and direct calls of \<open>rekey\<close> and \<open>revoke\<close>. One step is one critical section
  of the source, an answer from outside, or the drop of a future at an \<open>await\<close>.
\<close>

section \<open>Tasks\<close>

text \<open>
  Where a task is. A request starts at \<open>Fresh\<close>, a re-verification at \<open>Verify_Waiting\<close>.
    \<open>Sent g\<close>: the generation \<open>g\<close> was read, the request is not yet handed to a client;
    \<open>In_Flight g c\<close>: client \<open>c\<close> executes the first attempt;
    \<open>Waiting g\<close>: a mismatch was answered and the refresh lock is awaited;
    \<open>Locked g\<close>: the lock is held, the channel not yet looked at;
    \<open>Refreshing g\<close>: the channel was rejected, leaving generation \<open>g\<close>, and the refresher runs;
    \<open>Retrying\<close> and \<open>Retry_In_Flight c\<close>: the one further attempt;
    \<open>Verify_Locked\<close> and \<open>Verifying\<close>: \<open>SecureClient::verify\<close> with the lock, before and after it revoked.
\<close>

datatype 'c task =
    Fresh
  | Sent u64
  | In_Flight u64 'c
  | Waiting u64
  | Locked u64
  | Refreshing u64
  | Retrying
  | Retry_In_Flight 'c
  | Verify_Waiting
  | Verify_Locked
  | Verifying
  | Finished

fun holds_lock :: "'c task \<Rightarrow> bool" where
  "holds_lock (Locked _) = True"
| "holds_lock (Refreshing _) = True"
| "holds_lock Verify_Locked = True"
| "holds_lock Verifying = True"
| "holds_lock _ = False"

fun at_await :: "'c task \<Rightarrow> bool" where
  "at_await (In_Flight _ _) = True"
| "at_await (Waiting _) = True"
| "at_await (Refreshing _) = True"
| "at_await (Retry_In_Flight _) = True"
| "at_await Verify_Waiting = True"
| "at_await Verifying = True"
| "at_await _ = False"

text \<open>
  The shared state. The last three fields are not the program's: how many times the channel was
  replaced, that number when a task last read or set the generation, and the client a task's
  first attempt was handed to.
\<close>

record 'c system =
  sys_channel :: "'c ehbp_channel"
  sys_lock :: "nat option"
  sys_task :: "nat \<Rightarrow> 'c task"
  g_updates :: nat
  g_seen :: "nat \<Rightarrow> nat"
  g_used :: "nat \<Rightarrow> 'c option"

text \<open>What surrounds the machine: the crates, the address, whether a refresher was set, and which
  states come from a verification.\<close>

record ('c, 'r) machine =
  m_ext :: "('c, 'r) ehbp_ext"
  m_base_url :: str
  m_refresher :: bool
  m_genuine :: "refreshed_state \<Rightarrow> bool"

definition goto :: "nat \<Rightarrow> 'c task \<Rightarrow> 'c system \<Rightarrow> 'c system" where
  "goto t p s = s\<lparr>sys_task := (sys_task s)(t := p)\<rparr>"

definition release :: "'c system \<Rightarrow> 'c system" where
  "release s = s\<lparr>sys_lock := None\<rparr>"

definition put_channel :: "'c ehbp_channel \<Rightarrow> 'c system \<Rightarrow> 'c system" where
  "put_channel ch s = s\<lparr>sys_channel := ch, g_updates := Suc (g_updates s)\<rparr>"

definition note_seen :: "nat \<Rightarrow> 'c system \<Rightarrow> 'c system" where
  "note_seen t s = s\<lparr>g_seen := (g_seen s)(t := g_updates s)\<rparr>"

section \<open>Steps\<close>

datatype action = Own nat | Drop nat | Handle

inductive sys_step :: "('c, 'r) machine \<Rightarrow> 'c system \<Rightarrow> action \<Rightarrow> 'c system \<Rightarrow> bool" for m where
  Start: "sys_task s t = Fresh \<Longrightarrow>
    sys_step m s (Own t) (goto t (Sent (ch_generation (sys_channel s))) (note_seen t s))"
| Build_Fails: "sys_task s t \<in> {Fresh, Retrying} \<union> range Sent \<Longrightarrow> sys_step m s (Own t) (goto t Finished s)"
| Send: "sys_task s t = Sent g \<Longrightarrow> ch_client (sys_channel s) = Some c \<Longrightarrow>
    sys_step m s (Own t) (goto t (In_Flight g c) (s\<lparr>g_used := (g_used s)(t := Some c)\<rparr>))"
| Send_Refused: "sys_task s t = Sent g \<Longrightarrow> sys_step m s (Own t) (goto t Finished s)"
| Answer: "sys_task s t = In_Flight g c \<Longrightarrow> sys_step m s (Own t) (goto t Finished s)"
| Mismatch: "sys_task s t = In_Flight g c \<Longrightarrow> sys_step m s (Own t) (goto t (Waiting g) s)"
| Acquire: "sys_task s t = Waiting g \<Longrightarrow> sys_lock s = None \<Longrightarrow>
    sys_step m s (Own t) (goto t (Locked g) (s\<lparr>sys_lock := Some t\<rparr>))"
| Superseded: "sys_task s t = Locked g \<Longrightarrow> reject_if_generation g (sys_channel s) = None \<Longrightarrow>
    sys_step m s (Own t) (goto t Retrying (release s))"
| Reject: "sys_task s t = Locked g \<Longrightarrow> reject_if_generation g (sys_channel s) = Some (ch, g') \<Longrightarrow>
    sys_step m s (Own t) (goto t (Refreshing g') (note_seen t (put_channel ch s)))"
| Refresh_Fails: "sys_task s t = Refreshing g \<Longrightarrow> sys_step m s (Own t) (goto t Finished (release s))"
| Refresh: "sys_task s t = Refreshing g \<Longrightarrow> m_refresher m \<Longrightarrow> m_genuine m r \<Longrightarrow>
    install_refreshed (m_ext m) (m_base_url m) g r (sys_channel s) = (ch, res) \<Longrightarrow>
    sys_step m s (Own t) (goto t (if is_ok res then Retrying else Finished)
      (release (if ch = sys_channel s then s else put_channel ch s)))"
| Retry: "sys_task s t = Retrying \<Longrightarrow> ch_client (sys_channel s) = Some c \<Longrightarrow>
    sys_step m s (Own t) (goto t (Retry_In_Flight c) s)"
| Retry_Refused: "sys_task s t = Retrying \<Longrightarrow> sys_step m s (Own t) (goto t Finished s)"
| Retry_Answer: "sys_task s t = Retry_In_Flight c \<Longrightarrow> sys_step m s (Own t) (goto t Finished s)"
| Verify_Acquire: "sys_task s t = Verify_Waiting \<Longrightarrow> sys_lock s = None \<Longrightarrow>
    sys_step m s (Own t) (goto t Verify_Locked (s\<lparr>sys_lock := Some t\<rparr>))"
| Verify_Revoke: "sys_task s t = Verify_Locked \<Longrightarrow>
    sys_step m s (Own t) (goto t Verifying (put_channel (revoke (sys_channel s)) s))"
| Verify_Fails: "sys_task s t = Verifying \<Longrightarrow> sys_step m s (Own t) (goto t Finished (release s))"
| Verify_Installs: "sys_task s t = Verifying \<Longrightarrow> m_genuine m r \<Longrightarrow>
    install_state (m_ext m) (m_base_url m) r (sys_channel s) = (ch, Inr ()) \<Longrightarrow>
    sys_step m s (Own t) (goto t Finished (release (put_channel ch s)))"
| Drop_Future: "at_await (sys_task s t) \<Longrightarrow>
    sys_step m s (Drop t) (goto t Finished (if holds_lock (sys_task s t) then release s else s))"
| Handle_Rekey: "m_genuine m r \<Longrightarrow>
    install_state (m_ext m) (m_base_url m) r (sys_channel s) = (ch, Inr ()) \<Longrightarrow>
    sys_step m s Handle (put_channel ch s)"
| Handle_Revoke: "sys_step m s Handle (put_channel (revoke (sys_channel s)) s)"

inductive_cases sys_step_ownE: "sys_step m s (Own t) s'"
inductive_cases sys_step_dropE: "sys_step m s (Drop t) s'"
inductive_cases sys_step_handleE: "sys_step m s Handle s'"

text \<open>A system starts with a genuine channel, the lock free and every task at its beginning.\<close>

definition sys_init :: "('c, 'r) machine \<Rightarrow> 'c system \<Rightarrow> bool" where
  "sys_init m s \<longleftrightarrow> (\<exists>r. m_genuine m r \<and>
     install_state (m_ext m) (m_base_url m) r new_channel = (sys_channel s, Inr ())) \<and>
     sys_lock s = None \<and> g_updates s = 1 \<and> (\<forall>t. sys_task s t \<in> {Fresh, Verify_Waiting})"

abbreviation sys_reachable :: "('c, 'r) machine \<Rightarrow> 'c system \<Rightarrow> bool" where
  "sys_reachable m \<equiv> reachable (sys_init m) (sys_step m)"

end
