(* ===== verification/Ehbp_Properties.thy ===== *)
theory Ehbp_Properties
  imports Ehbp_Machine
begin

text \<open>
  What holds of a proxy handle however the tasks that share it interleave: its invariant, which
  channel a key mismatch rejects and what a refresh may install, mutual exclusion, the bound on a
  task's own steps and its progress, and the abstract trust state the channel implements.
\<close>

lemmas system_updates = goto_def release_def put_channel_def note_seen_def

section \<open>The channel\<close>

text \<open>A client is active exactly with the key and ground truth of the one verification it was made
  from; without a client neither is left.\<close>

definition active_from :: "('c, 'r) machine \<Rightarrow> refreshed_state \<Rightarrow> 'c \<Rightarrow> bool" where
  "active_from m r c \<longleftrightarrow> m_genuine m r \<and> h_connect (m_ext m) (m_base_url m) (rs_key r) = Inr c"

definition channel_ok :: "('c, 'r) machine \<Rightarrow> 'c ehbp_channel \<Rightarrow> bool" where
  "channel_ok m ch \<longleftrightarrow> (case ch_client ch of
     None \<Rightarrow> ch_public_key ch = None \<and> ch_ground_truth ch = None
   | Some c \<Rightarrow> ch_rejected_key ch = None \<and> (\<exists>r. active_from m r c \<and> ch_public_key ch = Some (rs_key r) \<and>
       ch_ground_truth ch = rs_ground_truth r))"

lemma channel_ok_ops [simp, intro]:
  "channel_ok m (clear_channel ch)"
  "channel_ok m (reject_channel ch)"
  "active_from m r c \<Longrightarrow> channel_ok m (set_active c r ch)"
  by (auto simp: channel_ok_def clear_channel_def reject_channel_def set_active_def)

lemma channel_op_simps [simp]:
  "ch_generation (clear_channel ch) = ch_generation ch + 1"
  "ch_generation (reject_channel ch) = ch_generation ch + 1"
  "ch_generation (set_active c r ch) = ch_generation ch + 1"
  "ch_client (clear_channel ch) = None"
  "ch_client (reject_channel ch) = None"
  "ch_client (set_active c r ch) = Some c"
  "ch_rejected_key (reject_channel ch) = ch_public_key ch"
  "ch_rejected_key (clear_channel ch) = None"
  "ch_rejected_key (set_active c r ch) = None"
  "ch_public_key (set_active c r ch) = Some (rs_key r)"
  "ch_ground_truth (set_active c r ch) = rs_ground_truth r"
  by (simp_all add: clear_channel_def reject_channel_def set_active_def)

lemma channel_op_neq [simp]:
  "clear_channel ch \<noteq> ch" "reject_channel ch \<noteq> ch" "set_active c r ch \<noteq> ch"
  by (metis channel_op_simps(1-3) add_cancel_right_right one_neq_zero)+

lemma install_state_Inr:
  "install_state h base r ch = (ch', Inr u) \<longleftrightarrow> (\<exists>c. h_connect h base (rs_key r) = Inr c \<and> ch' = set_active c r ch)"
  by (auto simp: install_state_def split: sum.splits)

lemma reject_if_generation_Some:
  "reject_if_generation g ch = Some (ch', g') \<longleftrightarrow>
     ch_generation ch = g \<and> ch' = reject_channel ch \<and> g' = ch_generation ch + 1"
  by (auto simp: reject_if_generation_def Let_def)

lemma install_refreshed_cases:
  assumes "install_refreshed h base g r ch = (ch', res)"
  obtains "ch' = ch"
  | "ch' = clear_channel ch" "\<not> is_ok res" "ch_generation ch = g" "ch_rejected_key ch = Some (rs_key r)"
  | c where "ch' = set_active c r ch" "res = Inr ()" "h_connect h base (rs_key r) = Inr c"
      "ch_generation ch = g" "ch_rejected_key ch \<noteq> Some (rs_key r)"
  using assms by (auto simp: install_refreshed_def split: sum.splits if_splits)

section \<open>What one step changes\<close>

definition replaced :: "('c, 'r) machine \<Rightarrow> 'c ehbp_channel \<Rightarrow> 'c ehbp_channel \<Rightarrow> bool" where
  "replaced m ch ch' \<longleftrightarrow> ch' = clear_channel ch \<or> ch' = reject_channel ch \<or>
     (\<exists>r c. active_from m r c \<and> ch' = set_active c r ch)"

lemma replaced_props:
  assumes "replaced m ch ch'"
  shows "channel_ok m ch'" "ch_generation ch' = ch_generation ch + 1"
  using assms by (auto simp: replaced_def)

lemma sys_step_channel:
  assumes "sys_step m s a s'"
  shows "sys_channel s' = sys_channel s \<and> g_updates s' = g_updates s \<or>
    replaced m (sys_channel s) (sys_channel s') \<and> g_updates s' = Suc (g_updates s)"
  using assms
proof cases
  case (Refresh t g r ch res)
  from Refresh(6) have "ch = sys_channel s \<or> replaced m (sys_channel s) ch"
    using Refresh(5) unfolding replaced_def active_from_def by (cases rule: install_refreshed_cases) blast+
  then show ?thesis by (auto simp: Refresh(2) system_updates)
qed (auto simp: system_updates replaced_def reject_if_generation_Some install_state_Inr active_from_def revoke_def)

lemma sys_step_others:
  assumes "sys_step m s a s'" and "a \<noteq> Own t" and "a \<noteq> Drop t"
  shows "sys_task s' t = sys_task s t" "g_seen s' t = g_seen s t" "g_used s' t = g_used s t"
  using assms by (auto simp: system_updates elim!: sys_step.cases split: if_splits)

section \<open>The invariant\<close>

definition lock_ok :: "'c system \<Rightarrow> bool" where
  "lock_ok s \<longleftrightarrow> (\<forall>t. sys_lock s = Some t \<longleftrightarrow> holds_lock (sys_task s t))"

text \<open>A task that read generation \<open>g\<close> read it at update \<open>g_seen\<close>; if the channel was not replaced since,
  the active client is still the one its request was handed to.\<close>

definition read_ok :: "'c system \<Rightarrow> nat \<Rightarrow> u64 \<Rightarrow> bool" where
  "read_ok s t g \<longleftrightarrow> g = of_nat (g_seen s t) \<and> g_seen s t \<le> g_updates s"

definition sent_ok :: "('c, 'r) machine \<Rightarrow> 'c system \<Rightarrow> nat \<Rightarrow> bool" where
  "sent_ok m s t \<longleftrightarrow> (\<exists>c r. g_used s t = Some c \<and> active_from m r c \<and>
     (g_updates s = g_seen s t \<longrightarrow> ch_client (sys_channel s) = Some c))"

definition rejected_ok :: "('c, 'r) machine \<Rightarrow> 'c system \<Rightarrow> nat \<Rightarrow> bool" where
  "rejected_ok m s t \<longleftrightarrow> (g_updates s < 2 ^ 64 \<longrightarrow> g_updates s = g_seen s t \<longrightarrow>
     (\<exists>c r. g_used s t = Some c \<and> active_from m r c \<and> ch_client (sys_channel s) = None \<and>
        ch_rejected_key (sys_channel s) = Some (rs_key r)))"

fun task_ok :: "('c, 'r) machine \<Rightarrow> 'c system \<Rightarrow> nat \<Rightarrow> 'c task \<Rightarrow> bool" where
  "task_ok m s t (Sent g) \<longleftrightarrow> read_ok s t g"
| "task_ok m s t (In_Flight g c) \<longleftrightarrow> read_ok s t g \<and> sent_ok m s t \<and> g_used s t = Some c"
| "task_ok m s t (Waiting g) \<longleftrightarrow> read_ok s t g \<and> sent_ok m s t"
| "task_ok m s t (Locked g) \<longleftrightarrow> read_ok s t g \<and> sent_ok m s t"
| "task_ok m s t (Refreshing g) \<longleftrightarrow> read_ok s t g \<and> rejected_ok m s t"
| "task_ok m s t (Retry_In_Flight c) \<longleftrightarrow> (\<exists>r. active_from m r c)"
| "task_ok m s t _ \<longleftrightarrow> True"

definition sys_inv :: "('c, 'r) machine \<Rightarrow> 'c system \<Rightarrow> bool" where
  "sys_inv m s \<longleftrightarrow> channel_ok m (sys_channel s) \<and> ch_generation (sys_channel s) = of_nat (g_updates s) \<and>
     lock_ok s \<and> (\<forall>t. task_ok m s t (sys_task s t))"

lemma sys_inv_init: "sys_init m s \<Longrightarrow> sys_inv m s"
proof -
  assume i: "sys_init m s"
  then have "task_ok m s t (sys_task s t)" "\<not> holds_lock (sys_task s t)" for t
    by (cases "sys_task s t"; auto simp: sys_init_def dest: spec [of _ t])+
  then show "sys_inv m s"
    using i by (auto simp: sys_init_def sys_inv_def lock_ok_def install_state_Inr active_from_def new_channel_def
        set_active_def channel_ok_def)
qed

text \<open>A task's facts do not depend on the others: they survive whatever happens to the channel.\<close>

lemma task_ok_stable:
  assumes "task_ok m s t p"
    and "g_seen s' t = g_seen s t" "g_used s' t = g_used s t"
    and "sys_channel s' = sys_channel s \<and> g_updates s' = g_updates s \<or>
      replaced m (sys_channel s) (sys_channel s') \<and> g_updates s' = Suc (g_updates s)"
    and "task_ok m s t p \<Longrightarrow> p \<in> range Refreshing \<union> range Locked \<union> range Waiting \<union> range Sent \<union>
      range (\<lambda>(g, c). In_Flight g c) \<Longrightarrow> g_seen s t \<le> g_updates s"
  shows "task_ok m s' t p"
  using assms by (cases p) (auto simp: read_ok_def sent_ok_def rejected_ok_def)

lemma lock_ok_step: "sys_step m s a s' \<Longrightarrow> lock_ok s \<Longrightarrow> lock_ok s'"
proof (induction rule: sys_step.induct)
  case (Refresh s t g r ch res)
  then have "sys_lock s = Some t" by (simp add: lock_ok_def)
  then show ?case using Refresh by (auto simp: lock_ok_def system_updates)
qed (auto simp: lock_ok_def system_updates, (metis holds_lock.simps option.inject)+)

text \<open>The generation a task read names the current channel as long as fewer than \<open>2 ^ 64\<close> replacements
  were made.\<close>

lemma generation_unique:
  assumes "sys_inv m s" and "read_ok s t (ch_generation (sys_channel s))" and "g_updates s < 2 ^ 64"
  shows "g_seen s t = g_updates s"
proof -
  have "(of_nat (g_seen s t) :: u64) = of_nat (g_updates s)"
    using assms(1,2) by (simp add: sys_inv_def read_ok_def)
  moreover have "g_seen s t \<le> g_updates s" using assms(2) by (simp add: read_ok_def)
  ultimately have "unat (of_nat (g_seen s t) :: u64) = unat (of_nat (g_updates s) :: u64)"
      "g_seen s t < 2 ^ LENGTH(64)" "g_updates s < 2 ^ LENGTH(64)"
    using assms(3) by simp_all
  then show ?thesis by (simp add: unat_of_nat)
qed

lemma task_ok_own_step:
  assumes "sys_step m s (Own t) s'" and inv: "sys_inv m s"
  shows "task_ok m s' t (sys_task s' t)"
proof -
  note ok = inv [unfolded sys_inv_def, THEN conjunct2, THEN conjunct2, THEN conjunct2, rule_format, of t]
  show ?thesis
    using assms(1)
  proof cases
    case Start
    then show ?thesis using inv by (simp add: system_updates read_ok_def sys_inv_def)
  next
    case (Send g c)
    have "channel_ok m (sys_channel s)" using inv by (simp add: sys_inv_def)
    then obtain r where "active_from m r c" using Send by (auto simp: channel_ok_def)
    then show ?thesis using Send ok by (auto simp: system_updates read_ok_def sent_ok_def)
  next
    case (Reject g ch g')
    then have sent: "sent_ok m s t" "ch_generation (sys_channel s) = g" "ch = reject_channel (sys_channel s)" "g' = g + 1"
      using ok by (auto simp: reject_if_generation_Some)
    have read: "read_ok s t g" using ok Reject by simp
    have gen: "ch_generation (sys_channel s) = of_nat (g_updates s)" "channel_ok m (sys_channel s)"
      using inv by (auto simp: sys_inv_def)
    have "rejected_ok m s' t"
      unfolding rejected_ok_def
    proof (intro impI)
      assume "g_updates s' < 2 ^ 64"
      then have "g_updates s < 2 ^ 64" using Reject by (simp add: system_updates)
      then have "g_seen s t = g_updates s" using generation_unique inv read sent(2) by blast
      then obtain c r where c: "g_used s t = Some c" "ch_client (sys_channel s) = Some c"
        using sent(1) by (auto simp: sent_ok_def)
      then obtain r where "active_from m r c" "ch_public_key (sys_channel s) = Some (rs_key r)"
        using gen(2) by (auto simp: channel_ok_def)
      then show "\<exists>c r. g_used s' t = Some c \<and> active_from m r c \<and> ch_client (sys_channel s') = None \<and>
          ch_rejected_key (sys_channel s') = Some (rs_key r)"
        using Reject sent c by (auto simp: system_updates)
    qed
    moreover have "read_ok s' t g'"
      using Reject sent gen by (simp add: system_updates read_ok_def)
    ultimately show ?thesis using Reject by (simp add: system_updates)
  next
    case (Retry c)
    have "channel_ok m (sys_channel s)" using inv by (simp add: sys_inv_def)
    then show ?thesis using Retry by (auto simp: system_updates channel_ok_def)
  qed (use ok in \<open>auto simp: system_updates read_ok_def sent_ok_def\<close>)
qed

lemma task_ok_seen: "task_ok m s t p \<Longrightarrow>
    p \<in> range Refreshing \<union> range Locked \<union> range Waiting \<union> range Sent \<union> range (\<lambda>(g, c). In_Flight g c) \<Longrightarrow>
    g_seen s t \<le> g_updates s"
  by (auto simp: read_ok_def)

lemma sys_inv_step:
  assumes "sys_step m s a s'" and inv: "sys_inv m s"
  shows "sys_inv m s'"
proof -
  note ch = sys_step_channel [OF assms(1)]
  have "channel_ok m (sys_channel s') \<and> ch_generation (sys_channel s') = of_nat (g_updates s')"
    using ch replaced_props [of m "sys_channel s" "sys_channel s'"] inv by (auto simp: sys_inv_def)
  moreover have "lock_ok s'" using lock_ok_step assms by (auto simp: sys_inv_def)
  moreover have "task_ok m s' t (sys_task s' t)" for t
  proof -
    have ok: "task_ok m s t (sys_task s t)" using inv by (simp add: sys_inv_def)
    consider "a = Own t" | "a = Drop t" | "a \<noteq> Own t" "a \<noteq> Drop t" by blast
    then show ?thesis
    proof cases
      case 1
      then show ?thesis using task_ok_own_step assms by blast
    next
      case 2
      then have "sys_task s' t = Finished"
        using assms(1) by (auto simp: system_updates elim: sys_step_dropE)
      then show ?thesis by simp
    next
      case 3
      note o = sys_step_others [OF assms(1) 3]
      show ?thesis
        unfolding o(1) by (rule task_ok_stable [OF ok o(2,3) ch task_ok_seen])
    qed
  qed
  ultimately show ?thesis by (simp add: sys_inv_def)
qed

interpretation ehbp: invariant_system "sys_init m" "sys_step m" "sys_inv m" for m
  by unfold_locales (rule sys_inv_init, blast, rule sys_inv_step)

section \<open>Trust in the channel\<close>

text \<open>
  C22. However requests, refreshes, re-verifications, direct calls and dropped futures interleave: the
  channel's client, its public key and its ground truth always belong to one and the same
  verification, the ground truth that is shown exists only together with the client that seals to
  its key, a rejected or revoked channel keeps neither, every body in flight was sealed by a client
  made from a verified key, and at most one task holds the refresh lock.
\<close>

theorem ehbp_invariant:
  assumes "sys_reachable m s"
  shows "(\<forall>gt. verified_ground_truth (sys_channel s) = Some gt \<longrightarrow>
       (\<exists>r c. m_genuine m r \<and> h_connect (m_ext m) (m_base_url m) (rs_key r) = Inr c \<and>
          ch_client (sys_channel s) = Some c \<and> ch_public_key (sys_channel s) = Some (rs_key r) \<and>
          rs_ground_truth r = Some gt)) \<and>
     (ch_client (sys_channel s) = None \<longrightarrow>
        ch_public_key (sys_channel s) = None \<and> ch_ground_truth (sys_channel s) = None) \<and>
     (\<forall>t c. sys_task s t = Retry_In_Flight c \<or> (\<exists>g. sys_task s t = In_Flight g c) \<longrightarrow>
        (\<exists>r. m_genuine m r \<and> h_connect (m_ext m) (m_base_url m) (rs_key r) = Inr c)) \<and>
     (\<forall>t t'. holds_lock (sys_task s t) \<longrightarrow> holds_lock (sys_task s t') \<longrightarrow> t = t')"
proof (intro conjI allI impI)
  have inv: "sys_inv m s" using ehbp.inv_reachable assms by blast
  then have ch: "channel_ok m (sys_channel s)" by (simp add: sys_inv_def)
  show "\<exists>r c. m_genuine m r \<and> h_connect (m_ext m) (m_base_url m) (rs_key r) = Inr c \<and>
          ch_client (sys_channel s) = Some c \<and> ch_public_key (sys_channel s) = Some (rs_key r) \<and>
          rs_ground_truth r = Some gt" if "verified_ground_truth (sys_channel s) = Some gt" for gt
    using that ch by (auto simp: verified_ground_truth_def channel_ok_def active_from_def split: bind_splits)
  show "ch_public_key (sys_channel s) = None" "ch_ground_truth (sys_channel s) = None"
    if "ch_client (sys_channel s) = None"
    using that ch by (auto simp: channel_ok_def)
  fix t t'
  have ok: "task_ok m s t (sys_task s t)" using inv by (simp add: sys_inv_def)
  show "\<exists>r. m_genuine m r \<and> h_connect (m_ext m) (m_base_url m) (rs_key r) = Inr c"
    if "sys_task s t = Retry_In_Flight c \<or> (\<exists>g. sys_task s t = In_Flight g c)" for c
    using that ok by (auto simp: sent_ok_def active_from_def, blast+)
  assume "holds_lock (sys_task s t)" "holds_lock (sys_task s t')"
  then have "sys_lock s = Some t" "sys_lock s = Some t'" using inv by (auto simp: sys_inv_def lock_ok_def)
  then show "t = t'" by simp
qed

text \<open>
  C23. A key mismatch takes down the channel it came from and no other: while the channel was replaced
  fewer than \<open>2 ^ 64\<close> times, the wrapping generation is never confused, a task that rejects the
  channel rejects the very client its own request was sealed with, and leaves no client behind. A task
  that finds the channel replaced in the meantime leaves it alone and retries.
\<close>

theorem mismatch_rejects_own_channel:
  assumes "sys_reachable m s" and "g_updates s < 2 ^ 64"
    and "sys_task s t = Locked g" and "sys_step m s (Own t) s'"
  shows "(sys_task s' t = Retrying \<and> sys_channel s' = sys_channel s) \<or>
    (\<exists>c. g_used s t = Some c \<and> ch_client (sys_channel s) = Some c \<and> ch_client (sys_channel s') = None \<and>
       ch_rejected_key (sys_channel s') = ch_public_key (sys_channel s) \<and> sys_task s' t = Refreshing (g + 1))"
proof -
  have inv: "sys_inv m s" using ehbp.inv_reachable assms(1) by blast
  then have ok: "task_ok m s t (sys_task s t)" by (simp add: sys_inv_def)
  show ?thesis
    using assms(4)
  proof cases
    case (Reject g' ch g'')
    then have g: "g' = g" "ch = reject_channel (sys_channel s)" "ch_generation (sys_channel s) = g" "g'' = g + 1"
      using assms(3) by (auto simp: reject_if_generation_Some)
    then have "g_seen s t = g_updates s"
      using generation_unique [OF inv _ assms(2)] ok assms(3) by auto
    then obtain c where "g_used s t = Some c" "ch_client (sys_channel s) = Some c"
      using ok assms(3) by (auto simp: sent_ok_def)
    then show ?thesis using Reject g by (simp add: system_updates)
  qed (use assms(3) in \<open>auto simp: system_updates\<close>)
qed

text \<open>
  C24. A refresh never undoes a newer decision and never brings a rejected key back: the answer of a
  task's refresher changes the channel only if nobody replaced it since this task rejected it; what
  it installs is a client for a verified key other than the one whose client was rejected, and with the
  rejected key it leaves the channel without a client.
\<close>

theorem refresh_installs_new_key:
  assumes "sys_reachable m s" and "g_updates s < 2 ^ 64"
    and "sys_task s t = Refreshing g" and "sys_step m s (Own t) s'" and "sys_channel s' \<noteq> sys_channel s"
  shows "g_updates s = g_seen s t \<and>
    (\<exists>c r. g_used s t = Some c \<and> m_genuine m r \<and> h_connect (m_ext m) (m_base_url m) (rs_key r) = Inr c \<and>
       ch_client (sys_channel s) = None \<and>
       (ch_client (sys_channel s') = None \<and> sys_task s' t = Finished \<or>
        (\<exists>c' r'. ch_client (sys_channel s') = Some c' \<and> sys_task s' t = Retrying \<and> m_genuine m r' \<and>
           h_connect (m_ext m) (m_base_url m) (rs_key r') = Inr c' \<and> rs_key r' \<noteq> rs_key r \<and>
           ch_ground_truth (sys_channel s') = rs_ground_truth r')))"
proof -
  have inv: "sys_inv m s" using ehbp.inv_reachable assms(1) by blast
  then have "task_ok m s t (sys_task s t)" by (simp add: sys_inv_def)
  then have ok: "read_ok s t g" "rejected_ok m s t" using assms(3) by simp_all
  show ?thesis
    using assms(4)
  proof cases
    case (Refresh g' r' ch res)
    have ch: "ch \<noteq> sys_channel s" using assms(5) Refresh by (auto simp: system_updates)
    have gen: "ch_generation (sys_channel s) = g"
      using Refresh(5) ch assms(3) Refresh(2) by (cases rule: install_refreshed_cases) auto
    have seen: "g_updates s = g_seen s t" using generation_unique [OF inv _ assms(2)] ok(1) gen by simp
    then obtain c r where c: "g_used s t = Some c" "active_from m r c" "ch_client (sys_channel s) = None"
        "ch_rejected_key (sys_channel s) = Some (rs_key r)"
      using ok(2) assms(2) by (auto simp: rejected_ok_def)
    have s': "sys_channel s' = ch" "sys_task s' t = (if is_ok res then Retrying else Finished)"
      using Refresh(1) ch by (simp_all add: system_updates)
    have "ch_client ch = None \<and> \<not> is_ok res \<or> (\<exists>c'. ch = set_active c' r' (sys_channel s) \<and> res = Inr () \<and>
        h_connect (m_ext m) (m_base_url m) (rs_key r') = Inr c' \<and> rs_key r' \<noteq> rs_key r)"
      using Refresh(5) ch c(4) by (cases rule: install_refreshed_cases) auto
    then consider "ch_client ch = None" "\<not> is_ok res" |
        c' where "ch = set_active c' r' (sys_channel s)" "res = Inr ()" "active_from m r' c'" "rs_key r' \<noteq> rs_key r"
      using Refresh(4) by (auto simp: active_from_def)
    then show ?thesis
    proof cases
      case 1
      then show ?thesis using s' seen c(1-3) by (auto simp: active_from_def)
    next
      case 2
      then have "ch_client (sys_channel s') = Some c'" "ch_ground_truth (sys_channel s') = rs_ground_truth r'"
          "sys_task s' t = Retrying"
        using s' by simp_all
      then show ?thesis using 2(3,4) seen c(1-3) unfolding active_from_def by blast
    qed
  qed (use assms(3,5) in \<open>auto simp: system_updates\<close>)
qed

section \<open>Progress\<close>

fun steps_left :: "'c task \<Rightarrow> nat" where
  "steps_left Fresh = 8"
| "steps_left (Sent _) = 7"
| "steps_left (In_Flight _ _) = 6"
| "steps_left (Waiting _) = 5"
| "steps_left (Locked _) = 4"
| "steps_left (Refreshing _) = 3"
| "steps_left Retrying = 2"
| "steps_left (Retry_In_Flight _) = 1"
| "steps_left Verify_Waiting = 3"
| "steps_left Verify_Locked = 2"
| "steps_left Verifying = 1"
| "steps_left Finished = 0"

lemma own_step_decreases: "sys_step m s (Own t) s' \<Longrightarrow> steps_left (sys_task s' t) < steps_left (sys_task s t)"
  by (erule sys_step_ownE) (auto simp: system_updates)

lemma drop_decreases: "sys_step m s (Drop t) s' \<Longrightarrow> steps_left (sys_task s' t) \<le> steps_left (sys_task s t)"
  by (erule sys_step_dropE) (auto simp: system_updates)

text \<open>
  C25. No request loops and no request is sent more than twice: in every run a request takes at most eight
  steps of its own and a re-verification at most three, whatever mismatches the enclave answers
  and however many other tasks refresh the channel in between.
\<close>

theorem own_steps_bounded:
  assumes "run (sys_step m) s as s'"
  shows "count_list as (Own t) + steps_left (sys_task s' t) \<le> steps_left (sys_task s t)"
  using assms
proof (induction rule: run.induct)
  case (Run_Cons s a s' as s'')
  consider "a = Own t" | "a = Drop t" | "a \<noteq> Own t" "a \<noteq> Drop t" by blast
  then show ?case
    using Run_Cons own_step_decreases [of m s t s'] drop_decreases [of m s t s'] sys_step_others(1) [of m s a s' t]
    by cases auto
qed simp

text \<open>A holder of the lock gives it up within two steps of its own, the last of which ends or retries.\<close>

lemma holder_releases:
  assumes "holds_lock (sys_task s t)"
  shows "\<exists>as s'. run (sys_step m) s as s' \<and> set as \<subseteq> {Own t} \<and> sys_lock s' = None \<and>
    sys_task s' t \<in> {Finished, Retrying} \<and> (\<forall>t'. t' \<noteq> t \<longrightarrow> sys_task s' t' = sys_task s t')"
proof -
  have one: ?thesis if "sys_step m s (Own t) s'" "sys_lock s' = None" "sys_task s' t \<in> {Finished, Retrying}" for s'
    using that sys_step_others(1) [OF that(1)] by (intro exI [of _ "[Own t]"] exI [of _ s']) auto
  have two: ?thesis
    if "sys_step m s (Own t) s1" "sys_step m s1 (Own t) s2" "sys_lock s2 = None" "sys_task s2 t = Finished" for s1 s2
    using that sys_step_others(1) [OF that(1)] sys_step_others(1) [OF that(2)]
    by (intro exI [of _ "[Own t, Own t]"] exI [of _ s2]) (auto simp: run_Cons_iff)
  show ?thesis
  proof (cases "sys_task s t")
    case (Locked g)
    show ?thesis
    proof (cases "reject_if_generation g (sys_channel s)")
      case None
      then show ?thesis using one [OF Superseded [OF Locked None]] by (simp add: system_updates)
    next
      case (Some p)
      obtain ch g' where p: "p = (ch, g')" by force
      show ?thesis
        by (rule two [OF Reject [OF Locked Some [unfolded p]] Refresh_Fails]) (simp_all add: system_updates)
    qed
  next
    case (Refreshing g)
    then show ?thesis using one [OF Refresh_Fails [OF Refreshing]] by (simp add: system_updates)
  next
    case Verify_Locked
    show ?thesis by (rule two [OF Verify_Revoke [OF Verify_Locked] Verify_Fails]) (simp_all add: system_updates)
  next
    case Verifying
    then show ?thesis using one [OF Verify_Fails [OF Verifying]] by (simp add: system_updates)
  qed (use assms in auto)
qed

lemma finishes_unless_waiting:
  assumes "\<not> holds_lock (sys_task s t)" and "\<forall>g. sys_task s t \<noteq> Waiting g" and "sys_task s t \<noteq> Verify_Waiting"
  shows "\<exists>as s'. run (sys_step m) s as s' \<and> set as \<subseteq> {Own t} \<and> sys_task s' t = Finished"
proof -
  have "sys_task s t = Finished \<or> (\<exists>s'. sys_step m s (Own t) s' \<and> sys_task s' t = Finished)"
  proof (cases "sys_task s t")
    case Fresh
    then have "sys_step m s (Own t) (goto t Finished s)" by (auto intro: Build_Fails)
    then show ?thesis by (force simp: system_updates)
  next
    case (Sent g)
    then have "sys_step m s (Own t) (goto t Finished s)" by (auto intro: Send_Refused)
    then show ?thesis by (force simp: system_updates)
  next
    case (In_Flight g c)
    then have "sys_step m s (Own t) (goto t Finished s)" by (auto intro: Answer)
    then show ?thesis by (force simp: system_updates)
  next
    case Retrying
    then have "sys_step m s (Own t) (goto t Finished s)" by (auto intro: Retry_Refused)
    then show ?thesis by (force simp: system_updates)
  next
    case (Retry_In_Flight c)
    then have "sys_step m s (Own t) (goto t Finished s)" by (auto intro: Retry_Answer)
    then show ?thesis by (force simp: system_updates)
  qed (use assms in auto)
  then show ?thesis
  proof (elim disjE exE conjE)
    assume "sys_task s t = Finished"
    then show ?thesis by (intro exI [of _ "[]"] exI [of _ s]) simp
  next
    fix s' assume "sys_step m s (Own t) s'" "sys_task s' t = Finished"
    then show ?thesis by (intro exI [of _ "[Own t]"] exI [of _ s']) auto
  qed
qed

lemma holder_finishes:
  assumes "holds_lock (sys_task s t)"
  shows "\<exists>as s'. run (sys_step m) s as s' \<and> set as \<subseteq> {Own t} \<and> sys_task s' t = Finished"
proof -
  obtain as s' where r: "run (sys_step m) s as s'" "set as \<subseteq> {Own t}" "sys_task s' t \<in> {Finished, Retrying}"
    using holder_releases [OF assms] by blast
  then obtain bs s'' where "run (sys_step m) s' bs s''" "set bs \<subseteq> {Own t}" "sys_task s'' t = Finished"
    using finishes_unless_waiting [of s' t m] by auto
  then show ?thesis using r by (intro exI [of _ "as @ bs"] exI [of _ s'']) (auto intro: run_append)
qed

lemma waiting_finishes:
  assumes "sys_task s t = Verify_Waiting \<or> (\<exists>g. sys_task s t = Waiting g)" and "sys_lock s = None"
  shows "\<exists>as s'. run (sys_step m) s as s' \<and> set as \<subseteq> {Own t} \<and> sys_task s' t = Finished"
proof -
  obtain s' where s': "sys_step m s (Own t) s'" "holds_lock (sys_task s' t)"
    using assms
  proof (elim disjE exE)
    assume w: "sys_task s t = Verify_Waiting"
    show ?thesis by (rule that [OF Verify_Acquire [OF w assms(2)]]) (simp add: system_updates)
  next
    fix g assume w: "sys_task s t = Waiting g"
    show ?thesis by (rule that [OF Acquire [OF w assms(2)]]) (simp add: system_updates)
  qed
  obtain as s'' where "run (sys_step m) s' as s''" "set as \<subseteq> {Own t}" "sys_task s'' t = Finished"
    using holder_finishes [OF s'(2)] by blast
  then show ?thesis using s'(1) by (intro exI [of _ "Own t # as"] exI [of _ s'']) auto
qed

text \<open>
  C26. No deadlock: in every reachable state every task, whatever the others left undone, can be brought
  to its end by steps of its own and of the one task that holds the refresh lock; the lock is never
  held by a task that is gone, also when futures were dropped.
\<close>

theorem every_task_can_finish:
  assumes "sys_reachable m s"
  shows "\<exists>as s'. run (sys_step m) s as s' \<and> sys_task s' t = Finished \<and>
    set as \<subseteq> {Own t'| t'. t' = t \<or> sys_lock s = Some t'}"
proof (cases "holds_lock (sys_task s t)")
  case True
  then show ?thesis using holder_finishes [OF True] by blast
next
  case free: False
  show ?thesis
  proof (cases "sys_task s t = Verify_Waiting \<or> (\<exists>g. sys_task s t = Waiting g)")
    case False
    then show ?thesis using finishes_unless_waiting [OF free, of m] by blast
  next
    case waits: True
    show ?thesis
    proof (cases "sys_lock s")
      case None
      then show ?thesis using waiting_finishes [OF waits] by blast
    next
      case (Some h)
      then have h: "holds_lock (sys_task s h)" "h \<noteq> t"
        using ehbp.inv_reachable [OF assms] free by (auto simp: sys_inv_def lock_ok_def)
      obtain as s' where r: "run (sys_step m) s as s'" "set as \<subseteq> {Own h}" "sys_lock s' = None"
          "sys_task s' t = sys_task s t"
        using holder_releases [OF h(1)] h(2) by metis
      then obtain bs s'' where "run (sys_step m) s' bs s''" "set bs \<subseteq> {Own t}" "sys_task s'' t = Finished"
        using waiting_finishes [of s' t m] waits by auto
      then show ?thesis
        using r Some by (intro exI [of _ "as @ bs"] exI [of _ s'']) (auto intro: run_append)
    qed
  qed
qed

section \<open>The channel implements a trust state\<close>

text \<open>The abstract view: nothing is trusted, one key was rejected, or a verified key is trusted with its
  ground truth.\<close>

datatype trust = Untrusted | Rejected str | Trusted str "ground_truth option"

datatype trust_event = Verified refreshed_state | Refreshed refreshed_state | Mismatched | Revoked

inductive trust_step :: "(refreshed_state \<Rightarrow> bool) \<Rightarrow> trust \<Rightarrow> trust_event \<Rightarrow> trust \<Rightarrow> bool" for genuine where
  Trust_Verified: "genuine r \<Longrightarrow> trust_step genuine u (Verified r) (Trusted (rs_key r) (rs_ground_truth r))"
| Trust_Refreshed: "genuine r \<Longrightarrow> rs_key r \<noteq> k \<Longrightarrow>
    trust_step genuine (Rejected k) (Refreshed r) (Trusted (rs_key r) (rs_ground_truth r))"
| Trust_Mismatched: "trust_step genuine (Trusted k gt) Mismatched (Rejected k)"
| Trust_Revoked: "trust_step genuine u Revoked Untrusted"

inductive_simps trust_step_Refreshed_iff: "trust_step genuine u (Refreshed r) u'"

definition trust_of :: "'c ehbp_channel \<Rightarrow> trust" where
  "trust_of ch = (case (ch_client ch, ch_public_key ch) of
     (Some _, Some k) \<Rightarrow> Trusted k (ch_ground_truth ch)
   | _ \<Rightarrow> (case ch_rejected_key ch of None \<Rightarrow> Untrusted | Some k \<Rightarrow> Rejected k))"

text \<open>Which events a step may be: only a refresher's answer refreshes, only a verification trusts
  without looking at the rejected key.\<close>

fun event_of :: "'c task \<Rightarrow> trust_event \<Rightarrow> bool" where
  "event_of (Locked _) e \<longleftrightarrow> e = Mismatched"
| "event_of (Refreshing _) e \<longleftrightarrow> e = Revoked \<or> (\<exists>r. e = Refreshed r)"
| "event_of Verify_Locked e \<longleftrightarrow> e = Revoked"
| "event_of Verifying e \<longleftrightarrow> (\<exists>r. e = Verified r)"
| "event_of _ e \<longleftrightarrow> False"

fun action_event :: "'c system \<Rightarrow> action \<Rightarrow> trust_event \<Rightarrow> bool" where
  "action_event s (Own t) e \<longleftrightarrow> event_of (sys_task s t) e"
| "action_event s (Drop t) e \<longleftrightarrow> False"
| "action_event s Handle e \<longleftrightarrow> e = Revoked \<or> (\<exists>r. e = Verified r)"

lemma trust_of_ops [simp]:
  "trust_of (clear_channel ch) = Untrusted"
  "trust_of (set_active c r ch) = Trusted (rs_key r) (rs_ground_truth r)"
  "ch_public_key ch = Some k \<Longrightarrow> trust_of (reject_channel ch) = Rejected k"
  "ch_public_key ch = None \<Longrightarrow> trust_of (reject_channel ch) = Untrusted"
  by (simp_all add: trust_of_def)

lemma trust_of_active:
  "channel_ok m ch \<Longrightarrow> ch_client ch = Some c \<Longrightarrow>
    \<exists>k. ch_public_key ch = Some k \<and> trust_of ch = Trusted k (ch_ground_truth ch)"
  by (auto simp: channel_ok_def trust_of_def)

text \<open>The two steps whose task has to know that the channel is still the one it saw: rejecting it, and
  installing a refreshed state.\<close>

lemma reject_trust:
  assumes inv: "sys_inv m s" and few: "g_updates s < 2 ^ 64" and task: "sys_task s t = Locked g"
    and reject: "reject_if_generation g (sys_channel s) = Some (ch', g')"
  shows "\<exists>k gt. trust_of (sys_channel s) = Trusted k gt \<and> trust_of ch' = Rejected k"
proof -
  have ch: "channel_ok m (sys_channel s)" and ok: "task_ok m s t (sys_task s t)"
    using inv by (auto simp: sys_inv_def)
  have r: "ch_generation (sys_channel s) = g" "ch' = reject_channel (sys_channel s)"
    using reject by (auto simp: reject_if_generation_Some)
  then have "g_seen s t = g_updates s" using generation_unique [OF inv _ few] ok task by auto
  then obtain c where "ch_client (sys_channel s) = Some c" using ok task by (auto simp: sent_ok_def)
  then show ?thesis using trust_of_active [OF ch] r(2) by auto
qed

lemma refresh_trust:
  assumes inv: "sys_inv m s" and few: "g_updates s < 2 ^ 64" and task: "sys_task s t = Refreshing g"
    and install: "install_refreshed (m_ext m) (m_base_url m) g r (sys_channel s) = (ch', res)"
  shows "ch' = sys_channel s \<or> trust_of ch' = Untrusted \<or>
    (\<exists>k. trust_of (sys_channel s) = Rejected k \<and> rs_key r \<noteq> k \<and> trust_of ch' = Trusted (rs_key r) (rs_ground_truth r))"
  using install
proof (cases rule: install_refreshed_cases)
  case (3 c)
  have ok: "task_ok m s t (sys_task s t)" using inv by (auto simp: sys_inv_def)
  have "g_updates s = g_seen s t" using generation_unique [OF inv _ few] ok task 3 by auto
  then obtain k where "ch_client (sys_channel s) = None" "ch_rejected_key (sys_channel s) = Some k"
    using ok few task by (auto simp: rejected_ok_def)
  then have "trust_of (sys_channel s) = Rejected k" "rs_key r \<noteq> k" using 3 by (auto simp: trust_of_def)
  then show ?thesis using 3 by auto
qed auto

text \<open>
  C27. The channel, under every interleaving, implements the trust state: each step leaves it alone or is
  one abstract event that this step may cause. So a rejected key is trusted again only by an explicit
  verification, a refresh only ever leads from a rejected key to another verified one, and a mismatch
  takes down exactly the trusted key.
\<close>

theorem channel_implements_trust:
  assumes "sys_reachable m s" and "g_updates s < 2 ^ 64" and "sys_step m s a s'"
  shows "sys_channel s' = sys_channel s \<or>
    (\<exists>e. action_event s a e \<and> trust_step (m_genuine m) (trust_of (sys_channel s)) e (trust_of (sys_channel s')))"
proof -
  have inv: "sys_inv m s" using ehbp.inv_reachable assms(1) by blast
  show ?thesis
    using assms(3)
  proof cases
    case (Reject t g ch' g')
    then show ?thesis
      using reject_trust [OF inv assms(2) Reject(3,4)] Trust_Mismatched [of "m_genuine m"]
      by (intro disjI2 exI [of _ Mismatched]) (auto simp: system_updates)
  next
    case (Refresh t g r ch' res)
    from refresh_trust [OF inv assms(2) Refresh(3,6)] Refresh show ?thesis
      by (elim disjE exE conjE)
        (auto simp: system_updates intro: exI [of _ Revoked] exI [of _ "Refreshed r"] Trust_Revoked Trust_Refreshed)
  next
    case (Verify_Revoke t)
    then show ?thesis
      by (intro disjI2 exI [of _ Revoked]) (simp add: system_updates revoke_def Trust_Revoked)
  next
    case (Verify_Installs t r ch')
    then show ?thesis
      by (intro disjI2 exI [of _ "Verified r"]) (auto simp: system_updates install_state_Inr Trust_Verified)
  next
    case (Handle_Rekey r ch')
    then show ?thesis
      by (intro disjI2 exI [of _ "Verified r"]) (auto simp: system_updates install_state_Inr Trust_Verified)
  next
    case Handle_Revoke
    then show ?thesis
      by (intro disjI2 exI [of _ Revoked]) (simp add: system_updates revoke_def Trust_Revoked)
  qed (auto simp: system_updates)
qed

text \<open>Without the bound on replacements the runs of the machine are still runs of the trust state.\<close>

interpretation ehbp_trust: simulation "sys_init m" "sys_step m" "sys_inv m" "trust_step (m_genuine m)"
  "\<lambda>s. trust_of (sys_channel s)" for m
proof unfold_locales
  fix s a s' assume "sys_inv m s" "sys_step m s a s'"
  note ch = sys_step_channel [OF this(2)] and inv = this(1)
  show "trust_of (sys_channel s') = trust_of (sys_channel s) \<or>
      (\<exists>e. trust_step (m_genuine m) (trust_of (sys_channel s)) e (trust_of (sys_channel s')))"
  proof (cases "sys_channel s' = sys_channel s")
    case False
    then consider "sys_channel s' = clear_channel (sys_channel s)" | "sys_channel s' = reject_channel (sys_channel s)" |
        r c where "active_from m r c" "sys_channel s' = set_active c r (sys_channel s)"
      using ch by (auto simp: replaced_def)
    then show ?thesis
    proof cases
      case 1
      then show ?thesis using Trust_Revoked [of "m_genuine m"] by auto
    next
      case 2
      show ?thesis
      proof (cases "ch_client (sys_channel s)")
        case None
        then have "trust_of (sys_channel s') = Untrusted"
          using inv 2 by (simp add: sys_inv_def channel_ok_def)
        then show ?thesis using Trust_Revoked [of "m_genuine m"] by auto
      next
        case (Some c)
        then obtain k where "ch_public_key (sys_channel s) = Some k"
            "trust_of (sys_channel s) = Trusted k (ch_ground_truth (sys_channel s))"
          using trust_of_active [of m "sys_channel s"] inv by (auto simp: sys_inv_def)
        then show ?thesis using 2 Trust_Mismatched [of "m_genuine m" k] by auto
      qed
    next
      case 3
      then show ?thesis using Trust_Verified [of "m_genuine m" r] by (auto simp: active_from_def)
    qed
  qed simp
qed

lemma trust_runs:
  assumes "sys_init m s0" and "run (sys_step m) s0 as s"
  shows "\<exists>es. length es \<le> length as \<and>
    run (trust_step (m_genuine m)) (trust_of (sys_channel s0)) es (trust_of (sys_channel s))"
  by (rule ehbp_trust.sim_run [OF assms(2)]) (rule reachable_init, rule assms(1))

section \<open>One request\<close>

text \<open>The functions of a task that runs alone are runs of the machine.\<close>

lemma alone_refresh:
  assumes w: "sys_task s t = Waiting g" and "sys_lock s = None"
    and "\<And>r. refresher = Some (Inr r) \<Longrightarrow> m_refresher m \<and> m_genuine m r"
    and "refresh_after_mismatch (m_ext m) (m_base_url m) refresher g (sys_channel s) = (ch, res)"
  shows "\<exists>as s'. run (sys_step m) s as s' \<and> set as \<subseteq> {Own t} \<and> sys_channel s' = ch \<and>
    sys_task s' t = (if is_ok res then Retrying else Finished)"
proof -
  define s1 where "s1 = goto t (Locked g) (s\<lparr>sys_lock := Some t\<rparr>)"
  have a: "sys_step m s (Own t) s1" unfolding s1_def by (rule Acquire [OF w assms(2)])
  have s1: "sys_task s1 t = Locked g" "sys_channel s1 = sys_channel s" by (simp_all add: s1_def system_updates)
  have one: ?thesis if "sys_step m s1 (Own t) s'" "sys_channel s' = ch"
      "sys_task s' t = (if is_ok res then Retrying else Finished)" for s'
    using a that by (intro exI [of _ "[Own t, Own t]"] exI [of _ s']) (auto simp: run_Cons_iff)
  have two: ?thesis if "sys_step m s1 (Own t) s2" "sys_step m s2 (Own t) s'" "sys_channel s' = ch"
      "sys_task s' t = (if is_ok res then Retrying else Finished)" for s2 s'
    using a that by (intro exI [of _ "[Own t, Own t, Own t]"] exI [of _ s']) (auto simp: run_Cons_iff)
  show ?thesis
  proof (cases "reject_if_generation g (sys_channel s1)")
    case None
    then show ?thesis
      using assms(4) one [OF Superseded [OF s1(1) None]] s1 by (auto simp: refresh_after_mismatch_def system_updates)
  next
    case (Some p)
    obtain ch1 g' where p: "p = (ch1, g')" by force
    define s2 where "s2 = goto t (Refreshing g') (note_seen t (put_channel ch1 s1))"
    have b: "sys_step m s1 (Own t) s2" unfolding s2_def by (rule Reject [OF s1(1) Some [unfolded p]])
    have s2: "sys_task s2 t = Refreshing g'" "sys_channel s2 = ch1" by (simp_all add: s2_def system_updates)
    show ?thesis
    proof (cases "\<exists>r. refresher = Some (Inr r)")
      case True
      then obtain r where r: "refresher = Some (Inr r)" by blast
      have i: "install_refreshed (m_ext m) (m_base_url m) g' r (sys_channel s2) = (ch, res)"
        using assms(4) Some p r s1 s2 by (simp add: refresh_after_mismatch_def)
      show ?thesis
        using two [OF b Refresh [OF s2(1) _ _ i]] assms(3) [OF r] by (simp add: system_updates)
    next
      case False
      then have "ch = ch1" "\<not> is_ok res"
        using assms(4) Some p s1 by (auto simp: refresh_after_mismatch_def split: option.splits sum.splits)
      then show ?thesis using two [OF b Refresh_Fails [OF s2(1)]] s2 by (simp add: system_updates)
    qed
  qed
qed

lemma retry_after_mismatch_channel:
  "fst (retry_after_mismatch h base refresher g first retry ch) =
    (case first of Inl (EhbpKeyMismatch _) \<Rightarrow> fst (refresh_after_mismatch h base refresher g ch) | _ \<Rightarrow> ch)"
  by (induction h base refresher g first retry ch rule: retry_after_mismatch.induct) (auto split: prod.splits sum.splits)

lemma ehbp_send_mismatch:
  "ehbp_send h url k ch q = Inl (EhbpKeyMismatch e) \<Longrightarrow> \<exists>c. ch_client ch = Some c"
  by (cases "ch_client ch") (auto simp: ehbp_send_def prepare_send_def split: if_splits)

lemma send_replayable_is_run:
  assumes "sys_task s t = Fresh" and "sys_lock s = None"
    and "\<And>r. refresher = Some (Inr r) \<Longrightarrow> m_refresher m \<and> m_genuine m r"
  shows "\<exists>as s'. run (sys_step m) s as s' \<and> set as \<subseteq> {Own t} \<and> sys_task s' t = Finished \<and>
    sys_channel s' = fst (send_replayable (m_ext m) (m_base_url m) url refresher build (sys_channel s))"
proof -
  let ?ch = "sys_channel s" and ?g = "ch_generation (sys_channel s)"
  let ?send = "\<lambda>q. ehbp_send (m_ext m) url 0 ?ch q"
  have stop: ?thesis if "fst (send_replayable (m_ext m) (m_base_url m) url refresher build ?ch) = ?ch"
    using Build_Fails [of s t m] assms(1) that
    by (intro exI [of _ "[Own t]"] exI [of _ "goto t Finished s"]) (auto simp: system_updates)
  show ?thesis
  proof (cases "\<exists>q e. build 0 = Inr q \<and> ?send q = Inl (EhbpKeyMismatch e)")
    case False
    have "fst (send_replayable (m_ext m) (m_base_url m) url refresher build ?ch) = ?ch"
      using False by (auto simp: send_replayable_def retry_after_mismatch_channel split: sum.splits error.splits)
    then show ?thesis by (rule stop)
  next
    case True
    then obtain q e where q: "build 0 = Inr q" "?send q = Inl (EhbpKeyMismatch e)" by blast
    obtain c where c: "ch_client ?ch = Some c" using ehbp_send_mismatch [OF q(2)] by blast
    define s1 where "s1 = goto t (Sent ?g) (note_seen t s)"
    define s2 where "s2 = goto t (In_Flight ?g c) (s1\<lparr>g_used := (g_used s1)(t := Some c)\<rparr>)"
    define s3 where "s3 = goto t (Waiting ?g) s2"
    note defs = s1_def s2_def s3_def system_updates
    have a: "sys_step m s (Own t) s1" unfolding s1_def by (rule Start [OF assms(1)])
    have b: "sys_step m s1 (Own t) s2" unfolding s2_def by (rule Send) (simp_all add: s1_def system_updates c)
    have d: "sys_step m s2 (Own t) s3" unfolding s3_def by (rule Mismatch [of _ _ _ c]) (simp add: s2_def system_updates)
    have s3: "sys_task s3 t = Waiting ?g" "sys_lock s3 = None" "sys_channel s3 = ?ch"
      using assms(2) by (simp_all add: defs)
    obtain ch res where r: "refresh_after_mismatch (m_ext m) (m_base_url m) refresher ?g (sys_channel s3) = (ch, res)"
      by force
    obtain as s4 where s4: "run (sys_step m) s3 as s4" "set as \<subseteq> {Own t}" "sys_channel s4 = ch"
        "sys_task s4 t = (if is_ok res then Retrying else Finished)"
      using alone_refresh [OF s3(1,2) assms(3) r] by blast
    define s5 where "s5 = goto t Finished s4"
    have final: "\<exists>bs s5. run (sys_step m) s4 bs s5 \<and> set bs \<subseteq> {Own t} \<and> sys_channel s5 = ch \<and> sys_task s5 t = Finished"
    proof (cases "is_ok res")
      case True
      then have "sys_step m s4 (Own t) s5" unfolding s5_def by (intro Build_Fails) (simp add: s4(4))
      then show ?thesis using s4(3) by (intro exI [of _ "[Own t]"] exI [of _ s5]) (auto simp: s5_def system_updates)
    next
      case False
      then show ?thesis using s4 by (intro exI [of _ "[]"] exI [of _ s4]) auto
    qed
    have "fst (send_replayable (m_ext m) (m_base_url m) url refresher build ?ch) = ch"
      using q r s3(3) by (simp add: send_replayable_def retry_after_mismatch_channel split: sum.splits)
    moreover obtain bs s5 where "run (sys_step m) s4 bs s5" "set bs \<subseteq> {Own t}" "sys_channel s5 = ch" "sys_task s5 t = Finished"
      using final by blast
    ultimately show ?thesis
      using a b d s4(1,2) by (intro exI [of _ "Own t # Own t # Own t # as @ bs"] exI [of _ s5]) (auto intro: run_append)
  qed
qed

text \<open>
  C28. After the enclave rotated its key, one refresh that attests a new key is enough: the request whose
  first attempt was answered with a key mismatch is rebuilt and sent once more, sealed by the client of
  the new key, and the channel then holds the new key and its ground truth.
\<close>

theorem rotation_recovers:
  assumes "prepare_send h url ch q = Inr (c, q')" and "h_execute h 0 c q' = Inl (Coded KeyConfigMismatch title)"
    and "build 0 = Inr q" and "build 1 = Inr q"
    and "h_connect h base (rs_key r) = Inr c'" and "ch_public_key ch \<noteq> Some (rs_key r)"
  shows "send_replayable h base url (Some (Inr r)) build ch =
    (set_active c' r (reject_channel ch), map_err map_ehbp_error (h_execute h 1 c' q'))"
proof -
  have first: "ehbp_send h url 0 ch q = Inl (EhbpKeyMismatch title)"
    using assms(1,2) by (simp add: ehbp_send_def)
  have "refresh_after_mismatch h base (Some (Inr r)) (ch_generation ch) ch = (set_active c' r (reject_channel ch), Inr ())"
    using assms(5,6) by (simp add: refresh_after_mismatch_def reject_if_generation_def install_refreshed_def)
  moreover have "prepare_send h url (set_active c' r (reject_channel ch)) q = Inr (c', q')"
    using assms(1) by (auto simp: prepare_send_def result_inv)
  ultimately show ?thesis using assms(3,4) first by (simp add: send_replayable_def ehbp_send_def)
qed

text \<open>
  What is handed to a sealing client: exactly the requests whose body is not empty, or that carry no
  authorization, and only while a client is active; they go to that client, with their body
  unchanged and the verified enclave named in the routing header, whatever the caller put there.
\<close>

theorem prepare_send_iff:
  "prepare_send h url ch q = Inr (c, q') \<longleftrightarrow>
     ch_client ch = Some c \<and> h_header_ok h url \<and>
     (contains_key ''authorization'' (req_headers q) \<longrightarrow> (\<exists>b. req_body q = Some b \<and> body_bytes b \<noteq> Some [])) \<and>
     q' = q\<lparr>req_headers := header_insert ''x-tinfoil-enclave-url'' url (req_headers q)\<rparr>"
  by (auto simp: prepare_send_def result_inv body_is_empty_def ENCLAVE_URL_HEADER_def split: option.splits)

text \<open>
  A proxy address is accepted exactly when it is an absolute address with a host and neither
  credentials, query nor fragment, and either HTTPS or cleartext to this machine: \<open>localhost\<close>, an IPv4
  address of the block 127, or the IPv6 loopback address.
\<close>

theorem proxy_url_accepted_iff:
  "validate_proxy_url parse base = Inr () \<longleftrightarrow>
     (\<exists>url host. parse base = Some url \<and> u_host_str url = Some host \<and> u_username url = [] \<and>
        u_password url = None \<and> u_query url = None \<and> u_fragment url = None \<and>
        (u_scheme url = ''https'' \<or> u_scheme url = ''http'' \<and> is_loopback_host host))"
  by (auto simp: validate_proxy_url_def result_inv split: option.splits)

section \<open>A rotation\<close>

text \<open>A machine whose clients are the keys they were made from, with two verified keys: the first is
  rotated away while a request is in flight, a refresh brings the second.\<close>

definition toy_ehbp :: "(str, str) ehbp_ext" where
  "toy_ehbp = \<lparr>h_parse_url = (\<lambda>_. None), h_build_http = True, h_connect = (\<lambda>_ k. Inr k), h_header_ok = (\<lambda>_. True),
     h_execute = (\<lambda>k c q. if c = ''a'' then Inl (Coded KeyConfigMismatch ''rotated'') else Inr c)\<rparr>"

definition toy_machine :: "(str, str) machine" where
  "toy_machine = \<lparr>m_ext = toy_ehbp, m_base_url = ''p'', m_refresher = True,
     m_genuine = (\<lambda>r. rs_key r \<in> {''a'', ''b''})\<rparr>"

definition toy_state :: "nat \<Rightarrow> str system" where
  "toy_state n =
    (let active = set_active ''a'' (refreshed_from_key ''a'') new_channel;
         s0 = \<lparr>sys_channel = active, sys_lock = None, sys_task = (\<lambda>_. Fresh), g_updates = 1,
           g_seen = (\<lambda>_. 0), g_used = (\<lambda>_. None)\<rparr>;
         s1 = goto 0 (Sent 1) (note_seen 0 s0);
         s2 = goto 0 (In_Flight 1 ''a'') (s1\<lparr>g_used := (g_used s1)(0 := Some ''a'')\<rparr>);
         s3 = goto 0 (Waiting 1) s2;
         s4 = goto 0 (Locked 1) (s3\<lparr>sys_lock := Some 0\<rparr>);
         s5 = goto 0 (Refreshing 2) (note_seen 0 (put_channel (reject_channel active) s4));
         s6 = goto 0 Retrying (release (put_channel
           (set_active ''b'' (refreshed_from_key ''b'') (reject_channel active)) s5))
     in [s0, s1, s2, s3, s4, s5, s6] ! n)"

lemmas toy_defs = toy_state_def toy_machine_def toy_ehbp_def Let_def refreshed_from_key_def set_active_def
  reject_channel_def clear_channel_def new_channel_def system_updates

lemma toy_init: "sys_init toy_machine (toy_state 0)"
  unfolding sys_init_def
  by (intro conjI exI [of _ "refreshed_from_key ''a''"]) (simp_all add: toy_defs install_state_def)

lemma toy_steps:
  "sys_step toy_machine (toy_state 0) (Own 0) (toy_state 1)"
  "sys_step toy_machine (toy_state 1) (Own 0) (toy_state 2)"
  "sys_step toy_machine (toy_state 2) (Own 0) (toy_state 3)"
  "sys_step toy_machine (toy_state 3) (Own 0) (toy_state 4)"
  "sys_step toy_machine (toy_state 4) (Own 0) (toy_state 5)"
proof -
  have s: "toy_state 1 = goto 0 (Sent (ch_generation (sys_channel (toy_state 0)))) (note_seen 0 (toy_state 0))"
    by (simp add: toy_defs)
  show "sys_step toy_machine (toy_state 0) (Own 0) (toy_state 1)"
    unfolding s by (rule Start) (simp add: toy_defs)
  have s: "toy_state 2 = goto 0 (In_Flight 1 ''a'') ((toy_state 1)\<lparr>g_used := (g_used (toy_state 1))(0 := Some ''a'')\<rparr>)"
    by (simp add: toy_defs)
  show "sys_step toy_machine (toy_state 1) (Own 0) (toy_state 2)"
    unfolding s by (rule Send) (simp_all add: toy_defs)
  have s: "toy_state 3 = goto 0 (Waiting 1) (toy_state 2)" by (simp add: toy_defs)
  show "sys_step toy_machine (toy_state 2) (Own 0) (toy_state 3)"
    unfolding s by (rule Mismatch [of _ _ _ "''a''"]) (simp add: toy_defs)
  have s: "toy_state 4 = goto 0 (Locked 1) ((toy_state 3)\<lparr>sys_lock := Some 0\<rparr>)" by (simp add: toy_defs)
  show "sys_step toy_machine (toy_state 3) (Own 0) (toy_state 4)"
    unfolding s by (rule Acquire) (simp_all add: toy_defs)
  have s: "toy_state 5 = goto 0 (Refreshing 2)
      (note_seen 0 (put_channel (reject_channel (sys_channel (toy_state 4))) (toy_state 4)))" by (simp add: toy_defs)
  show "sys_step toy_machine (toy_state 4) (Own 0) (toy_state 5)"
    unfolding s by (rule Reject) (simp_all add: toy_defs reject_if_generation_def)
qed

lemma toy_refresh: "sys_step toy_machine (toy_state 5) (Own 0) (toy_state 6)"
proof -
  let ?r = "refreshed_from_key ''b''"
  let ?ch = "set_active ''b'' ?r (sys_channel (toy_state 5))"
  have i: "install_refreshed (m_ext toy_machine) (m_base_url toy_machine) 2 ?r (sys_channel (toy_state 5)) = (?ch, Inr ())"
    by (simp add: toy_defs install_refreshed_def)
  have s: "toy_state 6 = goto 0 (if is_ok (Inr () :: unit res) then Retrying else Finished)
      (release (if ?ch = sys_channel (toy_state 5) then toy_state 5 else put_channel ?ch (toy_state 5)))"
    by (simp add: toy_defs)
  show ?thesis
    unfolding s by (rule Refresh [OF _ _ _ i]) (simp_all add: toy_defs)
qed

lemma toy_reachable:
  "sys_reachable toy_machine (toy_state 0)" "sys_reachable toy_machine (toy_state 4)"
  "sys_reachable toy_machine (toy_state 5)"
proof -
  show r0: "sys_reachable toy_machine (toy_state 0)" using toy_init by (rule reachable_init)
  show r4: "sys_reachable toy_machine (toy_state 4)"
    using reachable_step [OF reachable_step [OF reachable_step [OF reachable_step [OF r0 toy_steps(1)] toy_steps(2)]
      toy_steps(3)] toy_steps(4)] .
  show "sys_reachable toy_machine (toy_state 5)" using reachable_step [OF r4 toy_steps(5)] .
qed

lemma ehbp_invariant_witness:
  "\<exists>r. m_genuine toy_machine r \<and> h_connect (m_ext toy_machine) (m_base_url toy_machine) (rs_key r) = Inr ''a''"
proof -
  have r: "sys_reachable toy_machine (toy_state 2)"
    using reachable_step [OF reachable_step [OF toy_reachable(1) toy_steps(1)] toy_steps(2)] .
  have "sys_task (toy_state 2) 0 = In_Flight 1 ''a''" by (simp add: toy_defs)
  then show ?thesis using ehbp_invariant [OF r] by blast
qed

lemma mismatch_rejects_own_channel_witness:
  "ch_client (sys_channel (toy_state 5)) = None \<and> ch_rejected_key (sys_channel (toy_state 5)) = Some ''a''"
  using mismatch_rejects_own_channel [OF toy_reachable(2) _ _ toy_steps(5), of 1]
  by (simp add: toy_defs)

lemma refresh_installs_new_key_witness:
  "\<exists>c. ch_client (sys_channel (toy_state 6)) = Some c \<and> c \<noteq> ''a''"
proof -
  have "sys_task (toy_state 5) 0 = Refreshing 2" "g_updates (toy_state 5) < 2 ^ 64"
      "sys_channel (toy_state 6) \<noteq> sys_channel (toy_state 5)"
    by (simp_all add: toy_defs)
  from refresh_installs_new_key [OF toy_reachable(3) this(2,1) toy_refresh this(3)] show ?thesis
    by (auto simp: toy_machine_def toy_ehbp_def) (auto simp: toy_defs)
qed

lemma channel_implements_trust_witness:
  "\<exists>e. trust_step (\<lambda>r. rs_key r \<in> {''a'', ''b''}) (Rejected ''a'') e (Trusted ''b'' None)"
proof -
  have "sys_channel (toy_state 6) \<noteq> sys_channel (toy_state 5)" "g_updates (toy_state 5) < 2 ^ 64"
      "trust_of (sys_channel (toy_state 5)) = Rejected ''a''" "trust_of (sys_channel (toy_state 6)) = Trusted ''b'' None"
      "m_genuine toy_machine = (\<lambda>r. rs_key r \<in> {''a'', ''b''})"
    by (simp_all add: toy_defs trust_of_def)
  then show ?thesis using channel_implements_trust [OF toy_reachable(3) _ toy_refresh] by auto
qed

lemma own_steps_bounded_witness:
  "count_list [Own 0, Own 0] (Own 0) + steps_left (sys_task (toy_state 2) 0) \<le> 8"
proof -
  have "run (sys_step toy_machine) (toy_state 0) [Own 0, Own 0] (toy_state 2)"
    using toy_steps(1,2) by blast
  from own_steps_bounded [OF this, of 0] show ?thesis by (simp add: toy_defs)
qed

lemma every_task_can_finish_witness:
  "\<exists>as s'. run (sys_step toy_machine) (toy_state 4) as s' \<and> sys_task s' 1 = Finished"
  using every_task_can_finish [OF toy_reachable(2), of 1] by blast

lemma rotation_recovers_witness:
  "send_replayable toy_ehbp ''p'' ''e'' (Some (Inr (refreshed_from_key ''b'')))
     (\<lambda>_. Inr \<lparr>req_method = ''POST'', req_path = ''/'', req_url = ''p/'', req_headers = [], req_body = Some (Streaming ''x'')\<rparr>)
     (sys_channel (toy_state 0)) =
   (set_active ''b'' (refreshed_from_key ''b'') (reject_channel (sys_channel (toy_state 0))), Inr ''b'')"
proof -
  let ?q = "\<lparr>req_method = ''POST'', req_path = ''/'', req_url = ''p/'', req_headers = [], req_body = Some (Streaming ''x'')\<rparr>"
  have "prepare_send toy_ehbp ''e'' (sys_channel (toy_state 0)) ?q =
      Inr (''a'', ?q\<lparr>req_headers := [(''x-tinfoil-enclave-url'', ''e'')]\<rparr>)"
    by (simp add: toy_defs prepare_send_def body_is_empty_def header_insert_def ENCLAVE_URL_HEADER_def)
  from rotation_recovers [OF this, of "''rotated''" "\<lambda>_. Inr ?q" "''p''" "refreshed_from_key ''b''" "''b''"] show ?thesis
    by (simp add: toy_defs)
qed

end
