(* ===== verification/Secret_File.thy ===== *)
theory Secret_File
  imports Text
begin

text \<open>
  The persisted secret of \<open>user_cache_secret.rs\<close>: the part of a Unix file system it uses, with names,
  inodes and hard links, and the functions that read, create and publish the secret. Every call of the
  system may fail, as an oracle decides; \<open>hex::encode\<close> and the random generator are parameters.
\<close>

section \<open>The file system\<close>

datatype io_error = NotFound | AlreadyExists | InvalidData | OtherIo

datatype node = File nat | Directory | Symlink str | Special

record fs =
  names :: "str \<Rightarrow> node option"
  inode :: "nat \<Rightarrow> bytes"
  next_inode :: nat

text \<open>Following symbolic links, as \<open>Path::is_dir\<close> does; a chain longer than the limit of the kernel is
  an error.\<close>

fun follow_links :: "nat \<Rightarrow> fs \<Rightarrow> str \<Rightarrow> node option" where
  "follow_links 0 f p = None"
| "follow_links (Suc n) f p = (case names f p of Some (Symlink q) \<Rightarrow> follow_links n f q | v \<Rightarrow> v)"

definition is_dir :: "fs \<Rightarrow> str \<Rightarrow> bool" where
  "is_dir f p \<longleftrightarrow> follow_links 40 f p = Some Directory"

definition create_new :: "str \<Rightarrow> fs \<Rightarrow> (io_error + nat) \<times> fs" where
  "create_new p f = (if names f p \<noteq> None then (Inl AlreadyExists, f)
     else (Inr (next_inode f), f\<lparr>names := (names f)(p \<mapsto> File (next_inode f)),
       inode := (inode f)(next_inode f := []), next_inode := next_inode f + 1\<rparr>))"

definition write_inode :: "nat \<Rightarrow> bytes \<Rightarrow> fs \<Rightarrow> fs" where
  "write_inode i b f = f\<lparr>inode := (inode f)(i := b)\<rparr>"

definition hard_link :: "str \<Rightarrow> str \<Rightarrow> fs \<Rightarrow> (io_error + unit) \<times> fs" where
  "hard_link p q f = (case names f p of
     None \<Rightarrow> (Inl NotFound, f)
   | Some n \<Rightarrow> if names f q \<noteq> None then (Inl AlreadyExists, f)
       else (Inr (), f\<lparr>names := (names f)(q \<mapsto> n)\<rparr>))"

definition remove_file :: "str \<Rightarrow> fs \<Rightarrow> fs" where
  "remove_file p f = (case names f p of Some Directory \<Rightarrow> f | _ \<Rightarrow> f\<lparr>names := (names f)(p := None)\<rparr>)"

section \<open>Calls that may fail\<close>

datatype io_call =
  Make_Dir | Stat_Dir | Open_Dir | Open_Secret nat | Stat_Secret nat | Read_Secret nat | Lstat_Secret
| Open_Candidate | Stat_Candidate | Write_Candidate | Link_Candidate | Remove_Candidate

text \<open>What the functions are given: which calls fail, how many bytes a failing write wrote, the
  random generator, the process id and \<open>hex::encode\<close>.\<close>

record secret_env =
  se_fails :: "io_call \<Rightarrow> bool"
  se_partial :: nat
  se_random :: "nat \<Rightarrow> bytes option"
  se_pid :: str
  se_hex :: "bytes \<Rightarrow> str"

definition USER_CACHE_SECRET_DIR_NAME :: str where "USER_CACHE_SECRET_DIR_NAME = ''.tinfoil''"

definition USER_CACHE_SECRET_FILE_NAME :: str where "USER_CACHE_SECRET_FILE_NAME = ''user_cache_secret''"

definition path_join :: "str \<Rightarrow> str \<Rightarrow> str" where
  "path_join p q = (if ends_with p ''/'' then p @ q else p @ ''/'' @ q)"

section \<open>The directory\<close>

text \<open>\<open>DirBuilder::create\<close> with \<open>recursive\<close>, for the directory and its parent.\<close>

definition make_dir :: "str \<Rightarrow> fs \<Rightarrow> (io_error + unit) \<times> fs" where
  "make_dir p f = (case names f p of
     None \<Rightarrow> (Inr (), f\<lparr>names := (names f)(p \<mapsto> Directory)\<rparr>)
   | Some _ \<Rightarrow> if is_dir f p then (Inr (), f) else (Inl AlreadyExists, f))"

definition make_dirs :: "str \<Rightarrow> str \<Rightarrow> fs \<Rightarrow> (io_error + unit) \<times> fs" where
  "make_dirs parent p f = (case make_dir parent f of
     (Inl e, f') \<Rightarrow> (Inl e, f')
   | (Inr _, f') \<Rightarrow> make_dir p f')"

definition open_secret_dir :: "secret_env \<Rightarrow> str \<Rightarrow> fs \<Rightarrow> io_error + unit" where
  "open_secret_dir e dir f =
     (if se_fails e Open_Dir then Inl OtherIo
      else case names f dir of
        None \<Rightarrow> Inl NotFound
      | Some Directory \<Rightarrow> Inr ()
      | Some _ \<Rightarrow> Inl OtherIo)"

definition create_secret_dir :: "secret_env \<Rightarrow> str \<Rightarrow> str \<Rightarrow> fs \<Rightarrow> (io_error + unit) \<times> fs" where
  "create_secret_dir e home dir f =
     (if se_fails e Make_Dir then (Inl OtherIo, f)
      else case make_dirs home dir f of
        (Inl x, f') \<Rightarrow> (Inl x, f')
      | (Inr _, f') \<Rightarrow>
          (if se_fails e Stat_Dir then Inl OtherIo
           else case names f' dir of
             None \<Rightarrow> Inl NotFound
           | Some (Symlink _) \<Rightarrow> Inl InvalidData
           | Some _ \<Rightarrow> open_secret_dir e dir f', f'))"

section \<open>Reading\<close>

text \<open>\<open>k\<close> tells the two places that read apart. A symbolic link is not followed.\<close>

definition open_secret_file_for_read :: "secret_env \<Rightarrow> nat \<Rightarrow> str \<Rightarrow> fs \<Rightarrow> io_error + nat option" where
  "open_secret_file_for_read e k p f =
     (if se_fails e (Open_Secret k) then Inl OtherIo
      else case names f p of
        None \<Rightarrow> Inr None
      | Some (Symlink _) \<Rightarrow> Inl OtherIo
      | Some n \<Rightarrow>
          if se_fails e (Stat_Secret k) then Inl OtherIo
          else case n of File i \<Rightarrow> Inr (Some i) | _ \<Rightarrow> Inl InvalidData)"

definition secret_of_bytes :: "bytes \<Rightarrow> io_error + str option" where
  "secret_of_bytes b = (case from_utf8 b of
     None \<Rightarrow> Inl InvalidData
   | Some contents \<Rightarrow> Inr (if trim contents = [] then None else Some (trim contents)))"

definition read_secret_file :: "secret_env \<Rightarrow> nat \<Rightarrow> str \<Rightarrow> fs \<Rightarrow> io_error + str option" where
  "read_secret_file e k p f = (case open_secret_file_for_read e k p f of
     Inl x \<Rightarrow> Inl x
   | Inr None \<Rightarrow> Inr None
   | Inr (Some i) \<Rightarrow> if se_fails e (Read_Secret k) then Inl OtherIo else secret_of_bytes (inode f i))"

section \<open>Publishing\<close>

definition new_user_cache_secret :: "secret_env \<Rightarrow> nat \<Rightarrow> str" where
  "new_user_cache_secret e k = (case se_random e k of Some b \<Rightarrow> se_hex e b | None \<Rightarrow> [])"

definition candidate_path :: "secret_env \<Rightarrow> str \<Rightarrow> str \<Rightarrow> str" where
  "candidate_path e dir candidate_id =
     path_join dir (USER_CACHE_SECRET_FILE_NAME @ ''.'' @ se_pid e @ ''.'' @ candidate_id @ ''.tmp'')"

definition write_secret_file_exclusive :: "secret_env \<Rightarrow> str \<Rightarrow> bytes \<Rightarrow> fs \<Rightarrow> (io_error + unit) \<times> fs" where
  "write_secret_file_exclusive e p contents f =
     (if se_fails e Open_Candidate then (Inl OtherIo, f)
      else case create_new p f of
        (Inl x, f') \<Rightarrow> (Inl x, f')
      | (Inr i, f') \<Rightarrow>
          if se_fails e Stat_Candidate then (Inl OtherIo, f')
          else if se_fails e Write_Candidate then (Inl OtherIo, write_inode i (take (se_partial e) contents) f')
          else (Inr (), write_inode i contents f'))"

definition remove_candidate :: "secret_env \<Rightarrow> str \<Rightarrow> fs \<Rightarrow> fs" where
  "remove_candidate e p f = (if se_fails e Remove_Candidate then f else remove_file p f)"

definition link_result :: "secret_env \<Rightarrow> str \<Rightarrow> str \<Rightarrow> str \<Rightarrow> fs \<Rightarrow> (io_error + str) \<times> fs" where
  "link_result e p path secret f =
     (case (if se_fails e Link_Candidate then (Inl OtherIo, f) else hard_link p path f) of
        (Inr _, f') \<Rightarrow> (Inr secret, f')
      | (Inl AlreadyExists, f') \<Rightarrow>
          (case read_secret_file e 1 path f' of
             Inr (Some existing) \<Rightarrow> Inr existing
           | Inr None \<Rightarrow> Inl InvalidData
           | Inl x \<Rightarrow> Inl x, f')
      | (Inl x, f') \<Rightarrow> (Inl x, f'))"

text \<open>Draws two numbers from the generator, unless the first is already refused.\<close>

definition publish_secret_file :: "secret_env \<Rightarrow> nat \<Rightarrow> str \<Rightarrow> str \<Rightarrow> fs \<Rightarrow> nat \<times> (io_error + str) \<times> fs" where
  "publish_secret_file e k dir path f =
     (let secret = new_user_cache_secret e k in
      if secret = [] then (k + 1, Inr secret, f)
      else let candidate_id = new_user_cache_secret e (k + 1) in
      if candidate_id = [] then (k + 2, Inr candidate_id, f)
      else let p = candidate_path e dir candidate_id in
      case write_secret_file_exclusive e p (as_bytes secret) f of
        (Inl x, f') \<Rightarrow> (k + 2, Inl x, remove_candidate e p f')
      | (Inr _, f') \<Rightarrow> (case link_result e p path secret f' of
          (r, f'') \<Rightarrow> (k + 2, r, remove_candidate e p f'')))"

section \<open>Resolution\<close>

text \<open>The state of the process and its machine: the files, how many random numbers were drawn, and the
  process-wide fallback once it was made.\<close>

record secret_world =
  sw_fs :: fs
  sw_draws :: nat
  sw_ephemeral :: "str option"

definition ephemeral_user_cache_secret :: "secret_env \<Rightarrow> secret_world \<Rightarrow> secret_world \<times> str" where
  "ephemeral_user_cache_secret e w = (case sw_ephemeral w of
     Some s \<Rightarrow> (w, s)
   | None \<Rightarrow> let s = new_user_cache_secret e (sw_draws w) in
       (w\<lparr>sw_draws := sw_draws w + 1, sw_ephemeral := Some s\<rparr>, s))"

definition load_or_generate :: "secret_env \<Rightarrow> str option \<Rightarrow> secret_world \<Rightarrow> secret_world \<times> str" where
  "load_or_generate e home w = (case home of
     None \<Rightarrow> ephemeral_user_cache_secret e w
   | Some h \<Rightarrow>
       if h = [] then ephemeral_user_cache_secret e w
       else let dir = path_join h USER_CACHE_SECRET_DIR_NAME; path = path_join dir USER_CACHE_SECRET_FILE_NAME in
       (case create_secret_dir e h dir (sw_fs w) of
          (Inl _, f) \<Rightarrow> ephemeral_user_cache_secret e (w\<lparr>sw_fs := f\<rparr>)
        | (Inr _, f) \<Rightarrow>
            let w1 = w\<lparr>sw_fs := f\<rparr> in
            (case read_secret_file e 0 path f of
               Inr (Some existing) \<Rightarrow> (w1, existing)
             | Inl _ \<Rightarrow> ephemeral_user_cache_secret e w1
             | Inr None \<Rightarrow>
                 if se_fails e Lstat_Secret \<or> names f path \<noteq> None then ephemeral_user_cache_secret e w1
                 else (case publish_secret_file e (sw_draws w1) dir path f of
                   (k, Inr secret, f') \<Rightarrow> (w1\<lparr>sw_fs := f', sw_draws := k\<rparr>, secret)
                 | (k, Inl _, f') \<Rightarrow> ephemeral_user_cache_secret e (w1\<lparr>sw_fs := f', sw_draws := k\<rparr>)))))"

definition resolve_env_or_file :: "secret_env \<Rightarrow> str option \<Rightarrow> str option \<Rightarrow> secret_world \<Rightarrow> secret_world \<times> str" where
  "resolve_env_or_file e env home w = (case env of
     Some v \<Rightarrow> if v \<noteq> [] then (w, v) else load_or_generate e home w
   | None \<Rightarrow> load_or_generate e home w)"

end
