(* ===== verification/Secret_Properties.thy ===== *)
theory Secret_Properties
  imports Secret_File
begin

text \<open>
  What the persisted secret promises to one process: an existing file is never changed, a fresh secret is
  found again, and the fallback is the same for the whole process.
\<close>

section \<open>What the operations leave alone\<close>

definition fs_ok :: "fs \<Rightarrow> bool" where
  "fs_ok f \<longleftrightarrow> (\<forall>p i. names f p = Some (File i) \<longrightarrow> i < next_inode f)"

text \<open>\<open>q\<close> has what it had: its name, and its contents if it is a file.\<close>

definition same_at :: "str \<Rightarrow> fs \<Rightarrow> fs \<Rightarrow> bool" where
  "same_at q f f' \<longleftrightarrow> names f' q = names f q \<and> (\<forall>i. names f q = Some (File i) \<longrightarrow> inode f' i = inode f i)"

lemma same_at_refl [simp]: "same_at q f f"
  by (simp add: same_at_def)

lemma same_at_trans: "same_at q f f' \<Longrightarrow> same_at q f' f'' \<Longrightarrow> same_at q f f''"
  by (auto simp: same_at_def)

lemma make_dir_same: "make_dir p f = (r, f') \<Longrightarrow> names f q \<noteq> None \<Longrightarrow> same_at q f f' \<and> inode f' = inode f \<and> next_inode f' = next_inode f"
  by (auto simp: make_dir_def same_at_def split: option.splits if_splits)

lemma create_secret_dir_same:
  assumes "create_secret_dir e home dir f = (r, f')" and "names f q \<noteq> None"
  shows "same_at q f f'"
proof -
  obtain r1 f1 where d: "make_dirs home dir f = (r1, f1)" by force
  obtain r2 f2 where h: "make_dir home f = (r2, f2)" by force
  obtain r3 f3 where g: "make_dir dir f2 = (r3, f3)" by force
  have s2: "same_at q f f2" using make_dir_same [OF h assms(2)] by blast
  moreover have "same_at q f2 f3" using make_dir_same [OF g, of q] s2 assms(2) by (auto simp: same_at_def)
  ultimately have "same_at q f f1"
    using d h g same_at_trans by (auto simp: make_dirs_def split: sum.splits)
  then show ?thesis using assms(1) d by (auto simp: create_secret_dir_def split: if_splits sum.splits)
qed

lemma write_candidate_same:
  assumes "write_secret_file_exclusive e p b f = (r, f')" and "fs_ok f" and "names f q \<noteq> None"
  shows "same_at q f f'"
  using assms
  by (fastforce simp: write_secret_file_exclusive_def create_new_def write_inode_def same_at_def fs_ok_def
      split: if_splits)

lemma link_result_same: "link_result e p path s f = (r, f') \<Longrightarrow> names f path \<noteq> None \<Longrightarrow> f' = f"
  by (auto simp: link_result_def hard_link_def split: if_splits option.splits sum.splits io_error.splits)

lemma remove_candidate_same: "p \<noteq> q \<Longrightarrow> same_at q f (remove_candidate e p f)"
  by (auto simp: remove_candidate_def remove_file_def same_at_def split: option.splits node.splits)

lemma candidate_path_neq: "candidate_path e dir c \<noteq> path_join dir USER_CACHE_SECRET_FILE_NAME"
  by (auto simp: candidate_path_def path_join_def)

lemma publish_same:
  assumes "publish_secret_file e k dir path f = (k', r, f')" and "fs_ok f" and "names f path \<noteq> None"
    and path: "path = path_join dir USER_CACHE_SECRET_FILE_NAME"
  shows "same_at path f f'"
proof -
  let ?s = "new_user_cache_secret e k" and ?c = "new_user_cache_secret e (k + 1)"
  let ?p = "candidate_path e dir ?c"
  have p: "?p \<noteq> path" using candidate_path_neq path by simp
  obtain r1 f1 where w: "write_secret_file_exclusive e ?p (as_bytes ?s) f = (r1, f1)" by force
  have s1: "same_at path f f1" by (rule write_candidate_same [OF w assms(2,3)])
  obtain r2 f2 where l: "link_result e ?p path ?s f1 = (r2, f2)" by force
  have "f2 = f1" using link_result_same [OF l] s1 assms(3) by (simp add: same_at_def)
  then show ?thesis
    using assms(1) w l s1 remove_candidate_same [OF p] same_at_trans [OF s1]
    by (auto simp: publish_secret_file_def Let_def split: if_splits sum.splits)
qed

lemma load_or_generate_same:
  assumes "names (sw_fs w) path \<noteq> None"
    and path: "path = path_join (path_join home USER_CACHE_SECRET_DIR_NAME) USER_CACHE_SECRET_FILE_NAME"
  shows "same_at path (sw_fs w) (sw_fs (fst (load_or_generate e (Some home) w)))"
proof -
  let ?dir = "path_join home USER_CACHE_SECRET_DIR_NAME"
  have eph: "sw_fs (fst (ephemeral_user_cache_secret e v)) = sw_fs v" for v
    by (simp add: ephemeral_user_cache_secret_def Let_def split: option.splits)
  obtain r1 f1 where c: "create_secret_dir e home ?dir (sw_fs w) = (r1, f1)" by force
  have s1: "same_at path (sw_fs w) f1" by (rule create_secret_dir_same [OF c assms(1)])
  then have "names f1 path \<noteq> None" using assms(1) by (simp add: same_at_def)
  then have "sw_fs (fst (load_or_generate e (Some home) w)) \<in> {sw_fs w, f1}"
    using c path eph by (auto simp: load_or_generate_def Let_def split: sum.splits option.splits)
  then show ?thesis using s1 by auto
qed

text \<open>
  C31. Whatever is at the path of the secret, a secret, an empty file, a link or anything else, and
  whichever calls of the system fail: resolving leaves it there with the same contents, and so does
  publishing when it appears after the process found nothing.
\<close>

theorem secret_file_never_overwritten:
  assumes "names (sw_fs w) path \<noteq> None" and "fs_ok (sw_fs w)"
    and "path = path_join dir USER_CACHE_SECRET_FILE_NAME" and "dir = path_join home USER_CACHE_SECRET_DIR_NAME"
  shows "same_at path (sw_fs w) (sw_fs (fst (load_or_generate e (Some home) w))) \<and>
    same_at path (sw_fs w) (snd (snd (publish_secret_file e k dir path (sw_fs w))))"
proof
  show "same_at path (sw_fs w) (sw_fs (fst (load_or_generate e (Some home) w)))"
    using load_or_generate_same assms by blast
  obtain k' r f' where p: "publish_secret_file e k dir path (sw_fs w) = (k', r, f')" by (metis prod.exhaust)
  then show "same_at path (sw_fs w) (snd (snd (publish_secret_file e k dir path (sw_fs w))))"
    using publish_same [OF p assms(2,1,3)] by simp
qed

section \<open>A secret that was published is found again\<close>

definition graphic_text :: "str \<Rightarrow> bool" where
  "graphic_text s \<longleftrightarrow> s \<noteq> [] \<and> list_all is_graphic s"

lemma secret_of_graphic: "graphic_text s \<Longrightarrow> secret_of_bytes (as_bytes s) = Inr (Some s)"
  by (simp add: secret_of_bytes_def graphic_text_def from_utf8_graphic trim_graphic list_all_iff)

lemma create_secret_dir_exists:
  assumes "\<And>c. \<not> se_fails e c" and "names f home = Some Directory" and "names f dir = Some Directory"
  shows "create_secret_dir e home dir f = (Inr (), f)"
  using assms by (simp add: create_secret_dir_def make_dirs_def make_dir_def is_dir_def numeral_eq_Suc open_secret_dir_def)

lemma create_secret_dir_new:
  assumes "\<And>c. \<not> se_fails e c" and "names f home = Some Directory" and "names f dir = None"
  shows "create_secret_dir e home dir f = (Inr (), f\<lparr>names := (names f)(dir \<mapsto> Directory)\<rparr>)"
  using assms by (auto simp: create_secret_dir_def make_dirs_def make_dir_def is_dir_def numeral_eq_Suc open_secret_dir_def)

lemma publish_new:
  assumes "\<And>c. \<not> se_fails e c" and "graphic_text (new_user_cache_secret e k)"
    and "graphic_text (new_user_cache_secret e (k + 1))" and "names f path = None"
    and "path = path_join dir USER_CACHE_SECRET_FILE_NAME"
    and "names f (candidate_path e dir (new_user_cache_secret e (k + 1))) = None"
  shows "\<exists>f' i. publish_secret_file e k dir path f = (k + 2, Inr (new_user_cache_secret e k), f') \<and>
    names f' = (names f)(path \<mapsto> File i) \<and> inode f' i = as_bytes (new_user_cache_secret e k)"
proof -
  let ?s = "new_user_cache_secret e k" and ?c = "new_user_cache_secret e (k + 1)"
  let ?p = "candidate_path e dir ?c"
  have ne: "?p \<noteq> path" "?s \<noteq> []" "?c \<noteq> []" using candidate_path_neq assms by (auto simp: graphic_text_def)
  then show ?thesis
    using assms(1,4,6)
    by (simp add: publish_secret_file_def write_secret_file_exclusive_def create_new_def write_inode_def Let_def
        link_result_def hard_link_def remove_candidate_def remove_file_def fun_eq_iff)
      (intro exI [of _ "next_inode f"], simp)
qed

text \<open>
  C32. A process that finds no secret creates one that every later process finds: with a working disk and
  generator the secret that is returned is in the file at the agreed path, no candidate is left behind,
  and whoever resolves next, with whatever generator, gets the same secret and changes nothing.
\<close>

theorem secret_persists:
  assumes "\<And>c. \<not> se_fails e c" and "home \<noteq> []"
    and "dir = path_join home USER_CACHE_SECRET_DIR_NAME" and "path = path_join dir USER_CACHE_SECRET_FILE_NAME"
    and "names (sw_fs w) home = Some Directory" and "names (sw_fs w) dir = None \<or> names (sw_fs w) dir = Some Directory"
    and "names (sw_fs w) path = None" and "dir \<noteq> path" and "dir \<noteq> candidate" and "home \<noteq> path"
    and "candidate = candidate_path e dir (new_user_cache_secret e (sw_draws w + 1))" and "names (sw_fs w) candidate = None"
    and "graphic_text (new_user_cache_secret e (sw_draws w))" and "graphic_text (new_user_cache_secret e (sw_draws w + 1))"
  shows "\<exists>w'. load_or_generate e (Some home) w = (w', new_user_cache_secret e (sw_draws w)) \<and>
    names (sw_fs w') candidate = None \<and>
    (\<forall>e' v. (\<forall>c. \<not> se_fails e' c) \<longrightarrow> sw_fs v = sw_fs w' \<longrightarrow>
       load_or_generate e' (Some home) v = (v, new_user_cache_secret e (sw_draws w)))"
proof -
  let ?s = "new_user_cache_secret e (sw_draws w)"
  obtain f1 where f1: "create_secret_dir e home dir (sw_fs w) = (Inr (), f1)" "names f1 = (names (sw_fs w))(dir \<mapsto> Directory)"
    using assms(6) create_secret_dir_exists [OF assms(1,5)] create_secret_dir_new [OF assms(1,5)] by (auto simp: fun_upd_idem)
  obtain f2 i where f2: "publish_secret_file e (sw_draws w) dir path f1 = (sw_draws w + 2, Inr ?s, f2)"
      "names f2 = (names f1)(path \<mapsto> File i)" "inode f2 i = as_bytes ?s"
    using publish_new [OF assms(1,13,14), of f1 path dir] f1(2) assms(4,7-12) by auto
  have n: "names f1 path = None" using f1(2) assms(7,8) by simp
  have first: "load_or_generate e (Some home) w = (w\<lparr>sw_fs := f2, sw_draws := sw_draws w + 2\<rparr>, ?s)"
    using f1(1) f2(1) n assms(1-4)
    by (simp add: load_or_generate_def Let_def read_secret_file_def open_secret_file_for_read_def)
  have "load_or_generate e' (Some home) v = (v, ?s)" if "\<And>c. \<not> se_fails e' c" "sw_fs v = f2" for e' v
  proof -
    have "create_secret_dir e' home dir f2 = (Inr (), f2)"
      using f1(2) f2(2) assms(5,8,10) by (intro create_secret_dir_exists [OF that(1)]) auto
    moreover have "read_secret_file e' 0 path f2 = Inr (Some ?s)"
      using f2 that(1) secret_of_graphic [OF assms(13)] by (simp add: read_secret_file_def open_secret_file_for_read_def)
    ultimately show ?thesis using that(2) assms(2-4) by (simp add: load_or_generate_def Let_def)
  qed
  then show ?thesis
    using first f1(2) f2(2) assms(9,11,12) candidate_path_neq [of e dir] assms(4)
    by (intro exI [of _ "w\<lparr>sw_fs := f2, sw_draws := sw_draws w + 2\<rparr>"]) auto
qed

section \<open>A first use\<close>

definition toy_secret_env :: secret_env where
  "toy_secret_env = \<lparr>se_fails = (\<lambda>_. False), se_partial = 0, se_random = (\<lambda>k. Some [97]), se_pid = ''7'', se_hex = (\<lambda>_. ''a'')\<rparr>"

definition toy_secret_world :: secret_world where
  "toy_secret_world = \<lparr>sw_fs = \<lparr>names = [''h'' \<mapsto> Directory], inode = (\<lambda>_. []), next_inode = 0\<rparr>, sw_draws = 0, sw_ephemeral = None\<rparr>"

lemma toy_secret:
  "new_user_cache_secret toy_secret_env k = ''a''" "\<not> se_fails toy_secret_env c" "se_pid toy_secret_env = ''7''"
  by (simp_all add: new_user_cache_secret_def toy_secret_env_def)

lemma toy_paths:
  "path_join ''h'' USER_CACHE_SECRET_DIR_NAME = ''h/.tinfoil''"
  "path_join ''h/.tinfoil'' USER_CACHE_SECRET_FILE_NAME = ''h/.tinfoil/user_cache_secret''"
  "candidate_path toy_secret_env ''h/.tinfoil'' ''a'' = ''h/.tinfoil/user_cache_secret.7.a.tmp''"
  by (simp_all add: path_join_def ends_with_def starts_with_def USER_CACHE_SECRET_DIR_NAME_def USER_CACHE_SECRET_FILE_NAME_def
      candidate_path_def toy_secret)

lemma secret_persists_witness:
  "\<exists>w'. load_or_generate toy_secret_env (Some ''h'') toy_secret_world = (w', ''a'') \<and>
    load_or_generate toy_secret_env (Some ''h'') w' = (w', ''a'')"
proof -
  have "graphic_text ''a''" by (simp add: graphic_text_def is_graphic_def)
  then have "\<exists>w'. load_or_generate toy_secret_env (Some ''h'') toy_secret_world = (w', new_user_cache_secret toy_secret_env (sw_draws toy_secret_world)) \<and>
      names (sw_fs w') ''h/.tinfoil/user_cache_secret.7.a.tmp'' = None \<and>
      (\<forall>e' v. (\<forall>c. \<not> se_fails e' c) \<longrightarrow> sw_fs v = sw_fs w' \<longrightarrow>
         load_or_generate e' (Some ''h'') v = (v, new_user_cache_secret toy_secret_env (sw_draws toy_secret_world)))"
    by (intro secret_persists [where dir = "''h/.tinfoil''" and path = "''h/.tinfoil/user_cache_secret''"]) (simp_all add: toy_secret toy_paths, simp_all add: toy_secret_world_def)
  then show ?thesis using toy_secret by metis
qed

definition toy_taken_world :: secret_world where
  "toy_taken_world = \<lparr>sw_fs = \<lparr>names = [''h/.tinfoil/user_cache_secret'' \<mapsto> Special], inode = (\<lambda>_. []), next_inode = 0\<rparr>,
     sw_draws = 0, sw_ephemeral = None\<rparr>"

lemma secret_file_never_overwritten_witness:
  "same_at ''h/.tinfoil/user_cache_secret'' (sw_fs toy_taken_world)
     (snd (snd (publish_secret_file toy_secret_env 0 ''h/.tinfoil'' ''h/.tinfoil/user_cache_secret'' (sw_fs toy_taken_world))))"
  by (rule secret_file_never_overwritten [where home = "''h''", THEN conjunct2])
    (simp_all add: toy_paths, simp_all add: toy_taken_world_def fs_ok_def)

end
