(* ===== verification/Secret_Machine.thy ===== *)
theory Secret_Machine
  imports Secret_Properties Transitions
begin

text \<open>
  Several processes that use the secret for the first time at once: one step is one call of the system,
  a write may come in pieces, every call may fail and a process may die at any point.
\<close>

section \<open>Processes\<close>

text \<open>The result of a resolution: a shared secret, or the fallback of the process alone.\<close>

datatype outcome = Shared str | Fallback

text \<open>
  \<open>Looking\<close> is before the first read, \<open>Missing\<close> after it found nothing; \<open>Writing i n\<close> has created
  the candidate as inode \<open>i\<close> and written \<open>n\<close> bytes of the secret; \<open>Written i\<close> all of them; \<open>Taken\<close>
  was told that the path exists; \<open>Cleaning r\<close> has its result and the candidate to remove.
\<close>

datatype process =
    Looking
  | Missing
  | Writing nat nat
  | Written nat
  | Taken
  | Cleaning outcome
  | Resolved outcome
  | Crashed

record secret_system =
  ss_fs :: fs
  ss_proc :: "nat \<Rightarrow> process"

record secret_setup =
  su_path :: str
  su_candidate :: "nat \<Rightarrow> str"
  su_secret :: "nat \<Rightarrow> str"

definition become :: "nat \<Rightarrow> process \<Rightarrow> fs \<Rightarrow> secret_system \<Rightarrow> secret_system" where
  "become p v f s = s\<lparr>ss_fs := f, ss_proc := (ss_proc s)(p := v)\<rparr>"

inductive secret_step :: "secret_setup \<Rightarrow> secret_system \<Rightarrow> nat \<Rightarrow> secret_system \<Rightarrow> bool" for su where
  Look_Found: "ss_proc s p = Looking \<Longrightarrow> names (ss_fs s) (su_path su) = Some (File i) \<Longrightarrow>
    secret_of_bytes (inode (ss_fs s) i) = Inr (Some t) \<Longrightarrow>
    secret_step su s p (become p (Resolved (Shared t)) (ss_fs s) s)"
| Look_Missing: "ss_proc s p = Looking \<Longrightarrow> names (ss_fs s) (su_path su) = None \<Longrightarrow>
    secret_step su s p (become p Missing (ss_fs s) s)"
| Look_Fails: "ss_proc s p = Looking \<Longrightarrow> secret_step su s p (become p (Resolved Fallback) (ss_fs s) s)"
| Create: "ss_proc s p = Missing \<Longrightarrow> create_new (su_candidate su p) (ss_fs s) = (Inr i, f) \<Longrightarrow>
    secret_step su s p (become p (Writing i 0) f s)"
| Create_Fails: "ss_proc s p = Missing \<Longrightarrow> secret_step su s p (become p (Cleaning Fallback) (ss_fs s) s)"
| Write_Part: "ss_proc s p = Writing i n \<Longrightarrow> n < n' \<Longrightarrow> n' < length (su_secret su p) \<Longrightarrow>
    secret_step su s p (become p (Writing i n') (write_inode i (take n' (as_bytes (su_secret su p))) (ss_fs s)) s)"
| Write_All: "ss_proc s p = Writing i n \<Longrightarrow>
    secret_step su s p (become p (Written i) (write_inode i (as_bytes (su_secret su p)) (ss_fs s)) s)"
| Write_Fails: "ss_proc s p = Writing i n \<Longrightarrow> secret_step su s p (become p (Cleaning Fallback) (ss_fs s) s)"
| Link: "ss_proc s p = Written i \<Longrightarrow> hard_link (su_candidate su p) (su_path su) (ss_fs s) = (Inr (), f) \<Longrightarrow>
    secret_step su s p (become p (Cleaning (Shared (su_secret su p))) f s)"
| Link_Taken: "ss_proc s p = Written i \<Longrightarrow> hard_link (su_candidate su p) (su_path su) (ss_fs s) = (Inl AlreadyExists, f) \<Longrightarrow>
    secret_step su s p (become p Taken f s)"
| Link_Fails: "ss_proc s p = Written i \<Longrightarrow> secret_step su s p (become p (Cleaning Fallback) (ss_fs s) s)"
| Taken_Found: "ss_proc s p = Taken \<Longrightarrow> names (ss_fs s) (su_path su) = Some (File i) \<Longrightarrow>
    secret_of_bytes (inode (ss_fs s) i) = Inr (Some t) \<Longrightarrow>
    secret_step su s p (become p (Cleaning (Shared t)) (ss_fs s) s)"
| Taken_Fails: "ss_proc s p = Taken \<Longrightarrow> secret_step su s p (become p (Cleaning Fallback) (ss_fs s) s)"
| Clean: "ss_proc s p = Cleaning r \<Longrightarrow>
    secret_step su s p (become p (Resolved r) (remove_file (su_candidate su p) (ss_fs s)) s)"
| Clean_Fails: "ss_proc s p = Cleaning r \<Longrightarrow> secret_step su s p (become p (Resolved r) (ss_fs s) s)"
| Crash: "\<forall>r. ss_proc s p \<noteq> Resolved r \<Longrightarrow> secret_step su s p (become p Crashed (ss_fs s) s)"

inductive_cases secret_stepE: "secret_step su s p s'"

text \<open>Distinct processes have distinct candidates, none of them the path itself; a file that is there
  at the beginning holds a complete secret.\<close>

definition setup_ok :: "secret_setup \<Rightarrow> bool" where
  "setup_ok su \<longleftrightarrow> inj (su_candidate su) \<and> su_path su \<notin> range (su_candidate su) \<and> (\<forall>p. graphic_text (su_secret su p))"

definition complete_secret :: "secret_setup \<Rightarrow> fs \<Rightarrow> str \<Rightarrow> bool" where
  "complete_secret su f t \<longleftrightarrow> graphic_text t \<and>
     (\<exists>i. names f (su_path su) = Some (File i) \<and> inode f i = as_bytes t)"

definition secret_init :: "secret_setup \<Rightarrow> secret_system \<Rightarrow> bool" where
  "secret_init su s \<longleftrightarrow> setup_ok su \<and> fs_ok (ss_fs s) \<and> (\<forall>p. ss_proc s p = Looking \<and> names (ss_fs s) (su_candidate su p) = None) \<and>
     (names (ss_fs s) (su_path su) = None \<or> (\<exists>t. complete_secret su (ss_fs s) t))"

section \<open>The invariant\<close>

text \<open>An inode that is still being written has no name but the candidate of its writer.\<close>

fun process_ok :: "secret_setup \<Rightarrow> fs \<Rightarrow> nat \<Rightarrow> process \<Rightarrow> bool" where
  "process_ok su f p (Writing i n) \<longleftrightarrow> (\<forall>q. names f q = Some (File i) \<longleftrightarrow> q = su_candidate su p)"
| "process_ok su f p (Written i) \<longleftrightarrow> names f (su_candidate su p) = Some (File i) \<and> inode f i = as_bytes (su_secret su p)"
| "process_ok su f p (Cleaning (Shared t)) \<longleftrightarrow> complete_secret su f t"
| "process_ok su f p (Resolved (Shared t)) \<longleftrightarrow> complete_secret su f t"
| "process_ok su f p _ \<longleftrightarrow> True"

definition secret_inv :: "secret_setup \<Rightarrow> secret_system \<Rightarrow> bool" where
  "secret_inv su s \<longleftrightarrow> setup_ok su \<and> fs_ok (ss_fs s) \<and> (\<forall>p. process_ok su (ss_fs s) p (ss_proc s p)) \<and>
     (names (ss_fs s) (su_path su) = None \<or> (\<exists>t. complete_secret su (ss_fs s) t))"

lemma secret_inv_init: "secret_init su s \<Longrightarrow> secret_inv su s"
  by (simp add: secret_init_def secret_inv_def)

text \<open>What a step by one process leaves of the file system for the others.\<close>

definition fs_step :: "secret_setup \<Rightarrow> nat \<Rightarrow> fs \<Rightarrow> fs \<Rightarrow> bool" where
  "fs_step su p f f' \<longleftrightarrow>
     (\<forall>q. q \<noteq> su_path su \<longrightarrow> q \<noteq> su_candidate su p \<longrightarrow> names f' q = names f q) \<and>
     (names f (su_path su) \<noteq> None \<longrightarrow> names f' (su_path su) = names f (su_path su)) \<and>
     (\<forall>q i. q \<noteq> su_candidate su p \<longrightarrow> names f q = Some (File i) \<longrightarrow> inode f' i = inode f i) \<and>
     (\<forall>q i. names f' q = Some (File i) \<longrightarrow>
        names f q = Some (File i) \<or> names f (su_candidate su p) = Some (File i) \<or> i = next_inode f)"

lemma fs_step_refl [simp]: "fs_step su p f f"
  by (simp add: fs_step_def)

lemma fs_step_complete:
  assumes "setup_ok su" and "fs_step su p f f'" and "complete_secret su f t"
  shows "complete_secret su f' t"
proof -
  have "su_path su \<noteq> su_candidate su p" using assms(1) by (auto simp: setup_ok_def)
  then show ?thesis using assms(2,3) by (auto simp: complete_secret_def fs_step_def)
qed

lemma process_ok_other:
  assumes su: "setup_ok su" and f: "fs_ok f" and st: "fs_step su p f f'" and "p' \<noteq> p" and ok: "process_ok su f p' v"
  shows "process_ok su f' p' v"
proof -
  have c: "su_candidate su p' \<noteq> su_candidate su p" "su_candidate su p' \<noteq> su_path su"
    using su assms(4) by (auto simp: setup_ok_def inj_eq) (metis rangeI)
  show ?thesis
  proof (cases v)
    case (Writing i n)
    then have w: "names f q = Some (File i) \<longleftrightarrow> q = su_candidate su p'" for q using ok by simp
    then have less: "i < next_inode f" using f by (auto simp: fs_ok_def)
    have old: "names f q = Some (File i) \<or> names f (su_candidate su p) = Some (File i) \<or> i = next_inode f"
      if "names f' q = Some (File i)" for q
      using st that unfolding fs_step_def by blast
    have "q = su_candidate su p'" if n: "names f' q = Some (File i)" for q
      using old [OF n]
    proof (elim disjE)
      assume "names f (su_candidate su p) = Some (File i)"
      then show ?thesis using w [of "su_candidate su p"] c(1) by simp
    qed (use w less in simp_all)
    moreover have "names f' (su_candidate su p') = names f (su_candidate su p')"
      using st c unfolding fs_step_def by blast
    ultimately have "names f' q = Some (File i) \<longleftrightarrow> q = su_candidate su p'" for q
      using w by metis
    then show ?thesis using Writing by simp
  next
    case (Written i)
    then show ?thesis using st c ok by (auto simp: fs_step_def)
  next
    case (Cleaning r)
    then show ?thesis using ok fs_step_complete [OF su st] by (cases r) auto
  next
    case (Resolved r)
    then show ?thesis using ok fs_step_complete [OF su st] by (cases r) auto
  qed auto
qed

text \<open>The calls of the system, as one process makes them.\<close>

lemma create_new_step:
  assumes "create_new (su_candidate su p) f = (Inr i, f')" and "fs_ok f" and "setup_ok su"
  shows "fs_step su p f f'" "fs_ok f'" "process_ok su f' p (Writing i 0)"
  using assms by (fastforce simp: create_new_def fs_step_def fs_ok_def setup_ok_def split: if_splits)+

lemma write_inode_step:
  assumes "process_ok su f p (Writing i n)" and "fs_ok f"
  shows "fs_step su p f (write_inode i b f)" "fs_ok (write_inode i b f)" "process_ok su (write_inode i b f) p (Writing i n')"
  using assms by (auto simp: write_inode_def fs_step_def fs_ok_def)

lemma hard_link_step:
  assumes "hard_link (su_candidate su p) (su_path su) f = (Inr u, f')" and "fs_ok f" and "setup_ok su"
    and "process_ok su f p (Written i)"
  shows "fs_step su p f f'" "fs_ok f'" "complete_secret su f' (su_secret su p)"
  using assms by (auto simp: hard_link_def fs_step_def fs_ok_def complete_secret_def setup_ok_def split: option.splits if_splits)

lemma hard_link_fails: "hard_link p q f = (Inl e, f') \<Longrightarrow> f' = f"
  by (auto simp: hard_link_def split: option.splits if_splits)

lemma remove_file_step:
  assumes "setup_ok su" and "fs_ok f"
  shows "fs_step su p f (remove_file (su_candidate su p) f)" "fs_ok (remove_file (su_candidate su p) f)"
proof -
  have "su_path su \<noteq> su_candidate su p" using assms(1) by (auto simp: setup_ok_def)
  then show "fs_step su p f (remove_file (su_candidate su p) f)" "fs_ok (remove_file (su_candidate su p) f)"
    using assms(2) by (auto simp: remove_file_def fs_step_def fs_ok_def split: option.splits node.splits if_splits)
qed

lemma complete_secret_read:
  assumes "complete_secret su f t" and "names f (su_path su) = Some (File i)" and "secret_of_bytes (inode f i) = Inr (Some t')"
  shows "t' = t"
  using assms by (auto simp: complete_secret_def secret_of_graphic)

lemma secret_step_effect:
  assumes "secret_step su s p s'" and inv: "secret_inv su s"
  shows "fs_step su p (ss_fs s) (ss_fs s') \<and> fs_ok (ss_fs s') \<and> process_ok su (ss_fs s') p (ss_proc s' p) \<and>
    (\<forall>q. q \<noteq> p \<longrightarrow> ss_proc s' q = ss_proc s q) \<and>
    (names (ss_fs s') (su_path su) = None \<or> (\<exists>t. complete_secret su (ss_fs s') t))"
proof -
  have su: "setup_ok su" and f: "fs_ok (ss_fs s)" and ok: "process_ok su (ss_fs s) p (ss_proc s p)"
    and path: "names (ss_fs s) (su_path su) = None \<or> (\<exists>t. complete_secret su (ss_fs s) t)"
    using inv by (auto simp: secret_inv_def)
  have ne: "su_path su \<noteq> su_candidate su p" using su by (auto simp: setup_ok_def)
  have found: "complete_secret su (ss_fs s) t"
    if "names (ss_fs s) (su_path su) = Some (File i)" "secret_of_bytes (inode (ss_fs s) i) = Inr (Some t)" for i t
    using path that complete_secret_read by fastforce
  have keep: "names f' (su_path su) = None \<or> (\<exists>t. complete_secret su f' t)"
    if "fs_step su p (ss_fs s) f'" "names (ss_fs s) (su_path su) = None \<Longrightarrow> names f' (su_path su) = None" for f'
    using path that fs_step_complete [OF su] by blast
  show ?thesis
    using assms(1)
  proof cases
    case (Create i f')
    note c = create_new_step [OF Create(3) f su]
    have "names f' (su_path su) = None" if "names (ss_fs s) (su_path su) = None"
      using that Create(3) ne by (auto simp: create_new_def split: if_splits)
    then show ?thesis using Create c keep by (auto simp: become_def)
  next
    case (Write_Part i n n')
    have "process_ok su (ss_fs s) p (Writing i n)" using ok Write_Part by simp
    note w = write_inode_step [OF this f]
    then show ?thesis using Write_Part keep [OF w(1)] by (auto simp: become_def write_inode_def)
  next
    case (Write_All i n)
    have "process_ok su (ss_fs s) p (Writing i n)" using ok Write_All by simp
    note w = write_inode_step [OF this f]
    then show ?thesis using Write_All keep [OF w(1)] ok by (auto simp: become_def write_inode_def)
  next
    case (Link i f')
    have "process_ok su (ss_fs s) p (Written i)" using ok Link by simp
    note l = hard_link_step [OF Link(3) f su this]
    then show ?thesis using Link by (auto simp: become_def)
  next
    case (Link_Taken i f')
    then have "f' = ss_fs s" using hard_link_fails by blast
    then show ?thesis using Link_Taken f path by (simp add: become_def)
  next
    case (Clean r)
    note c = remove_file_step [OF su f, of p]
    have "names (remove_file (su_candidate su p) (ss_fs s)) (su_path su) = names (ss_fs s) (su_path su)"
      using ne by (auto simp: remove_file_def split: option.splits node.splits)
    then show ?thesis
      using Clean c keep [OF c(1)] ok fs_step_complete [OF su c(1)] by (cases r) (auto simp: become_def)
  next
    case (Clean_Fails r)
    then show ?thesis using f path ok by (cases r) (auto simp: become_def)
  qed (use f path found in \<open>auto simp: become_def\<close>)
qed

lemma secret_inv_step: "secret_step su s p s' \<Longrightarrow> secret_inv su s \<Longrightarrow> secret_inv su s'"
proof -
  assume st: "secret_step su s p s'" and inv: "secret_inv su s"
  note e = secret_step_effect [OF st inv]
  have i: "setup_ok su" "fs_ok (ss_fs s)" "\<And>q. process_ok su (ss_fs s) q (ss_proc s q)" using inv by (auto simp: secret_inv_def)
  have "process_ok su (ss_fs s') q (ss_proc s' q)" for q
    using e process_ok_other [OF i(1,2) _ _ i(3)] by (cases "q = p") auto
  then show ?thesis using e i(1) by (simp add: secret_inv_def)
qed

interpretation first_use: invariant_system "secret_init su" "secret_step su" "secret_inv su" for su
  by unfold_locales (rule secret_inv_init, blast, rule secret_inv_step)

section \<open>Convergence\<close>

text \<open>
  C30. However many processes use the secret for the first time at once, whatever calls fail and whoever
  dies in between: what is at the path is at every moment nothing or one complete secret, never an
  empty or partial one, and all processes that end with a shared secret end with that one.
\<close>

theorem first_use_converges:
  assumes "reachable (secret_init su) (secret_step su) s"
  shows "(\<forall>n. names (ss_fs s) (su_path su) = Some n \<longrightarrow>
       (\<exists>i t. n = File i \<and> graphic_text t \<and> inode (ss_fs s) i = as_bytes t)) \<and>
     (\<forall>p t. ss_proc s p = Resolved (Shared t) \<longrightarrow>
       (\<exists>i. names (ss_fs s) (su_path su) = Some (File i) \<and> inode (ss_fs s) i = as_bytes t)) \<and>
     (\<forall>p q t u. ss_proc s p = Resolved (Shared t) \<longrightarrow> ss_proc s q = Resolved (Shared u) \<longrightarrow> t = u)"
proof (intro conjI allI impI)
  have inv: "secret_inv su s" using first_use.inv_reachable assms by blast
  have shared: "complete_secret su (ss_fs s) t" if "ss_proc s p = Resolved (Shared t)" for p t
  proof -
    have "process_ok su (ss_fs s) p (ss_proc s p)" using inv by (simp add: secret_inv_def)
    then show ?thesis using that by simp
  qed
  show "\<exists>i t. n = File i \<and> graphic_text t \<and> inode (ss_fs s) i = as_bytes t" if "names (ss_fs s) (su_path su) = Some n" for n
    using inv that by (auto simp: secret_inv_def complete_secret_def)
  show "\<exists>i. names (ss_fs s) (su_path su) = Some (File i) \<and> inode (ss_fs s) i = as_bytes t"
    if "ss_proc s p = Resolved (Shared t)" for p t
    using shared [OF that] by (auto simp: complete_secret_def)
  show "t = u" if "ss_proc s p = Resolved (Shared t)" "ss_proc s q = Resolved (Shared u)" for p q t u
    using shared [OF that(1)] shared [OF that(2)] by (auto simp: complete_secret_def)
qed

text \<open>
  A published secret is final: once a complete secret is at the path, no run of the processes changes it,
  so a process that resolves later gets the secret of those before it.
\<close>

theorem published_is_final:
  assumes "reachable (secret_init su) (secret_step su) s" and "complete_secret su (ss_fs s) t"
    and "run (secret_step su) s ps s'"
  shows "complete_secret su (ss_fs s') t"
  using assms(3,1,2)
proof (induction rule: run.induct)
  case (Run_Cons s p s' ps s'')
  have inv: "secret_inv su s" using first_use.inv_reachable Run_Cons.prems(1) by blast
  then have "setup_ok su" by (simp add: secret_inv_def)
  then have "complete_secret su (ss_fs s') t"
    using fs_step_complete secret_step_effect [OF Run_Cons.hyps(1) inv] Run_Cons.prems(2) by blast
  then show ?case using Run_Cons.IH reachable_step [OF Run_Cons.prems(1) Run_Cons.hyps(1)] by blast
qed simp

text \<open>One process that creates the secret.\<close>

definition toy_setup :: secret_setup where
  "toy_setup = \<lparr>su_path = ''s'', su_candidate = (\<lambda>p. replicate p CHR ''c'' @ ''t''), su_secret = (\<lambda>_. ''a'')\<rparr>"

definition toy_first :: "process \<Rightarrow> fs \<Rightarrow> secret_system" where
  "toy_first v f = \<lparr>ss_fs = f, ss_proc = (\<lambda>_. Looking)(0 := v)\<rparr>"

definition toy_fs :: "nat \<Rightarrow> fs" where
  "toy_fs k = [\<lparr>names = Map.empty, inode = (\<lambda>_. []), next_inode = 0\<rparr>,
     \<lparr>names = [''t'' \<mapsto> File 0], inode = (\<lambda>_. []), next_inode = 1\<rparr>,
     \<lparr>names = [''t'' \<mapsto> File 0], inode = (\<lambda>_. [])(0 := as_bytes ''a''), next_inode = 1\<rparr>,
     \<lparr>names = [''t'' \<mapsto> File 0, ''s'' \<mapsto> File 0], inode = (\<lambda>_. [])(0 := as_bytes ''a''), next_inode = 1\<rparr>] ! k"

lemma become_toy: "become 0 v f (toy_first u g) = toy_first v f"
  by (simp add: become_def toy_first_def)

lemma toy_first_steps:
  "secret_step toy_setup (toy_first Looking (toy_fs 0)) 0 (toy_first Missing (toy_fs 0))"
  "secret_step toy_setup (toy_first Missing (toy_fs 0)) 0 (toy_first (Writing 0 0) (toy_fs 1))"
  "secret_step toy_setup (toy_first (Writing 0 0) (toy_fs 1)) 0 (toy_first (Written 0) (toy_fs 2))"
  "secret_step toy_setup (toy_first (Written 0) (toy_fs 2)) 0 (toy_first (Cleaning (Shared ''a'')) (toy_fs 3))"
  "secret_step toy_setup (toy_first (Cleaning (Shared ''a'')) (toy_fs 3)) 0 (toy_first (Resolved (Shared ''a'')) (toy_fs 3))"
proof -
  have fs: "ss_fs (toy_first v f) = f" "ss_proc (toy_first v f) 0 = v" for v f
    by (simp_all add: toy_first_def)
  show "secret_step toy_setup (toy_first Looking (toy_fs 0)) 0 (toy_first Missing (toy_fs 0))"
    using Look_Missing [of "toy_first Looking (toy_fs 0)" 0 toy_setup] by (simp add: fs become_toy, simp add: toy_fs_def)
  have "create_new (su_candidate toy_setup 0) (toy_fs 0) = (Inr 0, toy_fs 1)"
    by (auto simp: create_new_def toy_fs_def toy_setup_def)
  then show "secret_step toy_setup (toy_first Missing (toy_fs 0)) 0 (toy_first (Writing 0 0) (toy_fs 1))"
    using Create [of "toy_first Missing (toy_fs 0)" 0 toy_setup 0 "toy_fs 1"] by (simp add: fs become_toy)
  have "write_inode 0 (as_bytes (su_secret toy_setup 0)) (toy_fs 1) = toy_fs 2"
    by (simp add: write_inode_def toy_fs_def toy_setup_def)
  then show "secret_step toy_setup (toy_first (Writing 0 0) (toy_fs 1)) 0 (toy_first (Written 0) (toy_fs 2))"
    using Write_All [of "toy_first (Writing 0 0) (toy_fs 1)" 0 0 0 toy_setup] by (simp add: fs become_toy)
  have "hard_link (su_candidate toy_setup 0) (su_path toy_setup) (toy_fs 2) = (Inr (), toy_fs 3)"
      "su_secret toy_setup 0 = ''a''"
    by (simp_all add: hard_link_def toy_fs_def toy_setup_def numeral_eq_Suc)
  then show "secret_step toy_setup (toy_first (Written 0) (toy_fs 2)) 0 (toy_first (Cleaning (Shared ''a'')) (toy_fs 3))"
    using Link [of "toy_first (Written 0) (toy_fs 2)" 0 0 toy_setup "toy_fs 3"] by (simp add: fs become_toy)
  show "secret_step toy_setup (toy_first (Cleaning (Shared ''a'')) (toy_fs 3)) 0 (toy_first (Resolved (Shared ''a'')) (toy_fs 3))"
    using Clean_Fails [of "toy_first (Cleaning (Shared ''a'')) (toy_fs 3)" 0 "Shared ''a''" toy_setup]
    by (simp add: fs become_toy)
qed

lemma toy_first_init: "secret_init toy_setup (toy_first Looking (toy_fs 0))"
proof -
  have "inj (su_candidate toy_setup)" by (rule injI) (simp add: toy_setup_def)
  moreover have "su_path toy_setup \<noteq> su_candidate toy_setup p" for p
    by (cases p) (simp_all add: toy_setup_def)
  ultimately show ?thesis
    by (auto simp: secret_init_def setup_ok_def toy_first_def toy_fs_def fs_ok_def)
      (simp_all add: toy_setup_def graphic_text_def is_graphic_def)
qed

abbreviation toy_reach :: "secret_system \<Rightarrow> bool" where
  "toy_reach \<equiv> reachable (secret_init toy_setup) (secret_step toy_setup)"

lemma toy_first_reachable: "toy_reach (toy_first (Cleaning (Shared ''a'')) (toy_fs 3))"
proof -
  have "toy_reach (toy_first Looking (toy_fs 0))" by (rule reachable_init) (rule toy_first_init)
  from reachable_step [OF this toy_first_steps(1)] have "toy_reach (toy_first Missing (toy_fs 0))" .
  from reachable_step [OF this toy_first_steps(2)] have "toy_reach (toy_first (Writing 0 0) (toy_fs 1))" .
  from reachable_step [OF this toy_first_steps(3)] have "toy_reach (toy_first (Written 0) (toy_fs 2))" .
  from reachable_step [OF this toy_first_steps(4)] show ?thesis .
qed

lemma first_use_converges_witness: "inode (toy_fs 3) 0 = as_bytes ''a''"
proof -
  let ?s = "toy_first (Resolved (Shared ''a'')) (toy_fs 3)"
  have p: "ss_proc ?s 0 = Resolved (Shared ''a'')" "ss_fs ?s = toy_fs 3" "names (toy_fs 3) (su_path toy_setup) = Some (File 0)"
    by (simp_all add: toy_first_def toy_fs_def toy_setup_def)
  have r: "toy_reach ?s"
    by (rule reachable_step [OF toy_first_reachable]) (rule toy_first_steps(5))
  obtain i where "names (ss_fs ?s) (su_path toy_setup) = Some (File i)" "inode (ss_fs ?s) i = as_bytes ''a''"
    using conjunct1 [OF conjunct2 [OF first_use_converges [OF r]]] p(1) by blast
  then show ?thesis unfolding p(2) p(3) by simp
qed

lemma published_is_final_witness: "complete_secret toy_setup (toy_fs 3) ''a''"
proof -
  have fs: "ss_fs (toy_first v f) = f" for v f by (simp add: toy_first_def)
  have "complete_secret toy_setup (ss_fs (toy_first (Cleaning (Shared ''a'')) (toy_fs 3))) ''a''"
    by (simp add: complete_secret_def fs toy_fs_def toy_setup_def graphic_text_def is_graphic_def)
  moreover have "run (secret_step toy_setup) (toy_first (Cleaning (Shared ''a'')) (toy_fs 3)) [0]
      (toy_first (Resolved (Shared ''a'')) (toy_fs 3))"
    by (rule run_single) (rule toy_first_steps(5))
  ultimately show ?thesis using published_is_final [OF toy_first_reachable] by (metis fs)
qed

end
