(* ===== verification/Json_Splice.thy ===== *)
theory Json_Splice
  imports Errors
begin

text \<open>
  The byte scanner of \<open>user_cache_secret.rs\<close> and the splice of the field into a JSON object. The JSON
  crate's parser and printer are parameters.
\<close>

abbreviation (input) "QUOTE \<equiv> (34 :: u8)"
abbreviation (input) "BACKSLASH \<equiv> (92 :: u8)"
abbreviation (input) "COMMA \<equiv> (44 :: u8)"
abbreviation (input) "COLON \<equiv> (58 :: u8)"
abbreviation (input) "LBRACE \<equiv> (123 :: u8)"
abbreviation (input) "RBRACE \<equiv> (125 :: u8)"
abbreviation (input) "LBRACKET \<equiv> (91 :: u8)"
abbreviation (input) "RBRACKET \<equiv> (93 :: u8)"

section \<open>Scanning\<close>

definition json_ws :: "u8 \<Rightarrow> bool" where
  "json_ws b \<longleftrightarrow> b = 32 \<or> b = 9 \<or> b = 10 \<or> b = 13"

text \<open>\<open>raw.get(i)\<close>\<close>

definition byte_at :: "bytes \<Rightarrow> nat \<Rightarrow> u8 option" where
  "byte_at raw i = (if i < length raw then Some (raw ! i) else None)"

lemma byte_at_Some: "byte_at raw i = Some b \<longleftrightarrow> i < length raw \<and> raw ! i = b"
  by (simp add: byte_at_def)

function skip_json_whitespace :: "bytes \<Rightarrow> nat \<Rightarrow> nat" where
  "skip_json_whitespace raw i =
     (case byte_at raw i of Some b \<Rightarrow> if json_ws b then skip_json_whitespace raw (i + 1) else i | None \<Rightarrow> i)"
  by pat_completeness auto
termination by (relation "measure (\<lambda>(raw, i). length raw - i)") (auto simp: byte_at_def split: if_splits)

declare skip_json_whitespace.simps [simp del]

fun scan_string :: "nat \<Rightarrow> bool \<Rightarrow> bytes \<Rightarrow> nat option" where
  "scan_string i escaped [] = None"
| "scan_string i escaped (b # bs) =
     (if escaped then scan_string (i + 1) False bs
      else if b = BACKSLASH then scan_string (i + 1) True bs
      else if b = QUOTE then Some (i + 1)
      else scan_string (i + 1) False bs)"

definition json_string_end :: "bytes \<Rightarrow> nat \<Rightarrow> nat option" where
  "json_string_end raw start = (if byte_at raw start \<noteq> Some QUOTE then None
     else scan_string (start + 1) False (drop (start + 1) raw))"

fun scan_container :: "nat \<Rightarrow> nat \<Rightarrow> bool \<Rightarrow> bool \<Rightarrow> bytes \<Rightarrow> nat option" where
  "scan_container i depth in_string escaped [] = None"
| "scan_container i depth in_string escaped (b # bs) =
     (if in_string then
        (if escaped then scan_container (i + 1) depth True False bs
         else if b = BACKSLASH then scan_container (i + 1) depth True True bs
         else if b = QUOTE then scan_container (i + 1) depth False False bs
         else scan_container (i + 1) depth True False bs)
      else if b = QUOTE then scan_container (i + 1) depth True escaped bs
      else if b = LBRACE \<or> b = LBRACKET then scan_container (i + 1) (depth + 1) False escaped bs
      else if b = RBRACE \<or> b = RBRACKET then
        (if depth = 0 then None
         else if depth = 1 then Some (i + 1)
         else scan_container (i + 1) (depth - 1) False escaped bs)
      else scan_container (i + 1) depth False escaped bs)"

text \<open>A number, a literal or anything else runs to the next comma or brace, less trailing white space.\<close>

definition scalar_end :: "bytes \<Rightarrow> nat \<Rightarrow> nat" where
  "scalar_end raw start = (let run = takeWhile (\<lambda>b. b \<noteq> COMMA \<and> b \<noteq> RBRACE) (drop start raw) in
     start + length (dropWhile json_ws (rev run)))"

definition json_value_end :: "bytes \<Rightarrow> nat \<Rightarrow> nat option" where
  "json_value_end raw start = (case byte_at raw start of
     None \<Rightarrow> None
   | Some b \<Rightarrow>
       if b = QUOTE then json_string_end raw start
       else if b = LBRACE \<or> b = LBRACKET then scan_container start 0 False False (drop start raw)
       else let e = scalar_end raw start in if start < e then Some e else None)"

lemma skip_ws_ge: "i \<le> skip_json_whitespace raw i"
proof (induction raw i rule: skip_json_whitespace.induct)
  case (1 raw i)
  show ?case
  proof (cases "\<exists>b. byte_at raw i = Some b \<and> json_ws b")
    case True
    then obtain b where b: "byte_at raw i = Some b" "json_ws b" by blast
    then have "i + 1 \<le> skip_json_whitespace raw (i + 1)" using 1 by blast
    then show ?thesis by (subst skip_json_whitespace.simps) (simp add: b)
  next
    case False
    then show ?thesis by (subst skip_json_whitespace.simps) (auto split: option.splits)
  qed
qed

lemma scan_string_bound: "scan_string i e bs = Some j \<Longrightarrow> i < j \<and> j \<le> i + length bs"
  by (induction i e bs rule: scan_string.induct) (auto split: if_splits)

lemma scan_container_bound: "scan_container i d s e bs = Some j \<Longrightarrow> i < j \<and> j \<le> i + length bs"
proof (induction bs arbitrary: i d s e)
  case (Cons b bs)
  have "j = i + 1 \<or> (\<exists>d' s' e'. scan_container (i + 1) d' s' e' bs = Some j)"
    using Cons.prems by (simp split: if_splits; blast)
  then show ?case using Cons.IH [of "i + 1"] by fastforce
qed simp

lemma json_string_end_gt: "json_string_end raw i = Some j \<Longrightarrow> i < j"
  by (auto simp: json_string_end_def dest: scan_string_bound split: if_splits)

lemma json_value_end_gt: "json_value_end raw i = Some j \<Longrightarrow> i < j"
  by (auto simp: json_value_end_def Let_def dest: json_string_end_gt scan_container_bound split: option.splits if_splits)

section \<open>Members\<close>

record json_ext =
  j_object :: "bytes \<Rightarrow> (str \<times> bytes) list option"
  j_key :: "bytes \<Rightarrow> str option"
  j_quote :: "str \<Rightarrow> bytes option"

text \<open>One round of the loop: the range of the value at the member that starts at \<open>i\<close>, its key, and
  where the next byte after the member is.\<close>

definition member_at :: "json_ext \<Rightarrow> bytes \<Rightarrow> nat \<Rightarrow> (str \<times> nat \<times> nat \<times> nat) option" where
  "member_at x raw i =
     Option.bind (json_string_end raw i) (\<lambda>key_end.
     Option.bind (j_key x (take (key_end - i) (drop i raw))) (\<lambda>key.
     let c = skip_json_whitespace raw key_end in
     if byte_at raw c \<noteq> Some COLON then None
     else let vs = skip_json_whitespace raw (c + 1) in
       Option.bind (json_value_end raw vs) (\<lambda>ve.
       Some (key, vs, ve, skip_json_whitespace raw ve))))"

lemma member_at_gt: "member_at x raw i = Some (k, vs, ve, n) \<Longrightarrow> i < n"
proof -
  assume "member_at x raw i = Some (k, vs, ve, n)"
  then obtain ke where ke: "json_string_end raw i = Some ke" "vs = skip_json_whitespace raw (skip_json_whitespace raw ke + 1)"
      "json_value_end raw vs = Some ve" "n = skip_json_whitespace raw ve"
    by (auto simp: member_at_def Let_def bind_eq_Some_conv split: if_splits)
  have "i < ke" "vs < ve" using json_string_end_gt json_value_end_gt ke by blast+
  then show ?thesis
    using ke skip_ws_ge [of ke raw] skip_ws_ge [of "skip_json_whitespace raw ke + 1" raw] skip_ws_ge [of ve raw]
    by linarith
qed

function scan_members :: "json_ext \<Rightarrow> bytes \<Rightarrow> str \<Rightarrow> nat \<Rightarrow> (nat \<times> nat) option \<Rightarrow> (nat \<times> nat) option" where
  "scan_members x raw field index found =
     (if index < length raw then
        let i = skip_json_whitespace raw index in
        if byte_at raw i = Some RBRACE then found
        else (case member_at x raw i of
            None \<Rightarrow> None
          | Some (key, vs, ve, n) \<Rightarrow>
              if key = field \<and> found \<noteq> None then None
              else let found' = (if key = field then Some (vs, ve) else found) in
                (case byte_at raw n of
                   None \<Rightarrow> None
                 | Some b \<Rightarrow>
                     if b = COMMA then scan_members x raw field (n + 1) found'
                     else if b = RBRACE then found' else None))
      else None)"
  by pat_completeness auto
termination
proof (relation "measure (\<lambda>(x, raw, field, index, found). length raw - index)", goal_cases)
  case (2 x raw field index found i p key r vs s ve n found' b)
  then have "skip_json_whitespace raw index < n" by (auto dest: member_at_gt)
  then show ?case using 2 skip_ws_ge [of index raw] by auto
qed simp

declare scan_members.simps [simp del]

definition top_level_value_range :: "json_ext \<Rightarrow> bytes \<Rightarrow> str \<Rightarrow> (nat \<times> nat) option" where
  "top_level_value_range x raw field = (let i = skip_json_whitespace raw 0 in
     if byte_at raw i \<noteq> Some LBRACE then None else scan_members x raw field (i + 1) None)"

section \<open>Splicing\<close>

definition USER_CACHE_SECRET_FIELD :: str where
  "USER_CACHE_SECRET_FIELD = ''user_cache_secret''"

definition EMPTY_STRING :: bytes where
  "EMPTY_STRING = [QUOTE, QUOTE]"

text \<open>The position of the last byte that is not white space.\<close>

definition last_non_ws :: "bytes \<Rightarrow> nat option" where
  "last_non_ws raw = (case length (dropWhile json_ws (rev raw)) of 0 \<Rightarrow> None | Suc n \<Rightarrow> Some n)"

definition inject_user_cache_secret :: "json_ext \<Rightarrow> bytes \<Rightarrow> str \<Rightarrow> bytes option" where
  "inject_user_cache_secret x raw secret =
     Option.bind (j_object x raw) (\<lambda>members.
     case map_of members USER_CACHE_SECRET_FIELD of
       Some existing \<Rightarrow>
         if existing \<noteq> EMPTY_STRING then None
         else Option.bind (top_level_value_range x raw USER_CACHE_SECRET_FIELD) (\<lambda>(a, b).
           Option.bind (j_quote x secret) (\<lambda>quoted.
           Some (take a raw @ quoted @ drop b raw)))
     | None \<Rightarrow>
         Option.bind (last_non_ws raw) (\<lambda>close.
         if raw ! close \<noteq> RBRACE then None
         else Option.bind (j_quote x secret) (\<lambda>quoted.
           Some (take close raw @ (if members = [] then [] else [COMMA]) @ [QUOTE] @
             as_bytes USER_CACHE_SECRET_FIELD @ [QUOTE, COLON] @ quoted @ drop close raw))))"

end
