(* ===== verification/Json_Splice_Properties.thy ===== *)
theory Json_Splice_Properties
  imports Json_Splice
begin

text \<open>
  The scanner is right about every JSON object: a grammar of the text of an object, as wide as JSON's,
  and what the splice makes of such a text.
\<close>

section \<open>The text of a JSON object\<close>

text \<open>The inside of a string: no bare quote, every backslash with the byte it escapes.\<close>

inductive str_body :: "bytes \<Rightarrow> bool" where
  Body_Nil: "str_body []"
| Body_Char: "b \<noteq> QUOTE \<Longrightarrow> b \<noteq> BACKSLASH \<Longrightarrow> str_body bs \<Longrightarrow> str_body (b # bs)"
| Body_Escape: "str_body bs \<Longrightarrow> str_body (BACKSLASH # b # bs)"

definition string_token :: "bytes \<Rightarrow> bool" where
  "string_token s \<longleftrightarrow> (\<exists>b. str_body b \<and> s = QUOTE # b @ [QUOTE])"

definition brackets :: "(u8 \<times> u8) set" where
  "brackets = {(LBRACE, RBRACE), (LBRACKET, RBRACKET)}"

text \<open>The inside of an array or object: strings, balanced brackets and any other bytes.\<close>

inductive balanced :: "bytes \<Rightarrow> bool" where
  Bal_Nil: "balanced []"
| Bal_Char: "b \<notin> {QUOTE, LBRACE, RBRACE, LBRACKET, RBRACKET} \<Longrightarrow> balanced bs \<Longrightarrow> balanced (b # bs)"
| Bal_String: "str_body s \<Longrightarrow> balanced bs \<Longrightarrow> balanced (QUOTE # s @ QUOTE # bs)"
| Bal_Nest: "(l, r) \<in> brackets \<Longrightarrow> balanced as \<Longrightarrow> balanced bs \<Longrightarrow> balanced (l # as @ r # bs)"

definition scalar_token :: "bytes \<Rightarrow> bool" where
  "scalar_token v \<longleftrightarrow> v \<noteq> [] \<and> COMMA \<notin> set v \<and> RBRACE \<notin> set v \<and>
     hd v \<notin> {QUOTE, LBRACE, LBRACKET} \<and> \<not> json_ws (hd v) \<and> \<not> json_ws (last v)"

definition value_token :: "bytes \<Rightarrow> bool" where
  "value_token v \<longleftrightarrow> string_token v \<or> scalar_token v \<or>
     (\<exists>l r as. (l, r) \<in> brackets \<and> balanced as \<and> v = l # as @ [r])"

abbreviation white :: "bytes \<Rightarrow> bool" where
  "white ws \<equiv> list_all json_ws ws"

section \<open>The scanner on tokens\<close>

lemma scan_string_body: "str_body b \<Longrightarrow> scan_string i False (b @ QUOTE # rest) = Some (i + length b + 1)"
  by (induction arbitrary: i rule: str_body.induct) auto

lemma scan_container_body:
  "str_body b \<Longrightarrow> scan_container i d True False (b @ QUOTE # rest) = scan_container (i + length b + 1) d False False rest"
  by (induction arbitrary: i rule: str_body.induct) auto

lemma scan_container_balanced:
  "balanced as \<Longrightarrow> 0 < d \<Longrightarrow> scan_container i d False False (as @ rest) = scan_container (i + length as) d False False rest"
proof (induction arbitrary: i d rest rule: balanced.induct)
  case (Bal_String s bs)
  then show ?case by (simp add: scan_container_body ac_simps)
next
  case (Bal_Nest l r as bs)
  have "scan_container i d False False ((l # as @ r # bs) @ rest) = scan_container (i + 1) (d + 1) False False (as @ r # bs @ rest)"
    using Bal_Nest.hyps(1) by (auto simp: brackets_def)
  also have "\<dots> = scan_container (i + 1 + length as) (d + 1) False False (r # bs @ rest)"
    using Bal_Nest.IH(1) by simp
  also have "\<dots> = scan_container (i + 1 + length as + 1) d False False (bs @ rest)"
    using Bal_Nest.hyps(1) Bal_Nest.prems by (auto simp: brackets_def)
  also have "\<dots> = scan_container (i + length (l # as @ r # bs)) d False False rest"
    using Bal_Nest.IH(2) [OF Bal_Nest.prems] by (simp add: ac_simps)
  finally show ?case .
qed auto

lemma byte_at_append [simp]: "byte_at (pre @ b # rest) (length pre) = Some b"
  by (simp add: byte_at_def)

lemma skip_ws_append:
  "white ws \<Longrightarrow> rest = [] \<or> \<not> json_ws (hd rest) \<Longrightarrow> skip_json_whitespace (pre @ ws @ rest) (length pre) = length pre + length ws"
proof (induction ws arbitrary: pre)
  case Nil
  then show ?case
    by (subst skip_json_whitespace.simps) (auto simp: byte_at_def nth_append hd_conv_nth split: option.splits)
next
  case (Cons w ws)
  have "skip_json_whitespace (pre @ (w # ws) @ rest) (length pre) = skip_json_whitespace ((pre @ [w]) @ ws @ rest) (length (pre @ [w]))"
    using Cons.prems by (subst skip_json_whitespace.simps) simp
  then show ?case using Cons.IH [of "pre @ [w]"] Cons.prems by simp
qed

lemma json_string_end_token: "string_token s \<Longrightarrow> json_string_end (pre @ s @ rest) (length pre) = Some (length pre + length s)"
  by (auto simp: string_token_def json_string_end_def scan_string_body)

text \<open>A value is followed by white space and a comma or the closing brace.\<close>

lemma takeWhile_stop: "P ` set as \<subseteq> {True} \<Longrightarrow> \<not> P b \<Longrightarrow> takeWhile P (as @ b # bs) = as"
  by (induction as) auto

lemma json_value_end_token:
  assumes "value_token v" and "white ws" and "c = COMMA \<or> c = RBRACE"
  shows "json_value_end (pre @ v @ ws @ c # rest) (length pre) = Some (length pre + length v)"
proof -
  consider "string_token v" | (container) l r as where "(l, r) \<in> brackets" "balanced as" "v = l # as @ [r]" | (scalar) "scalar_token v"
    using assms(1) by (auto simp: value_token_def)
  then show ?thesis
  proof cases
    case 1
    then obtain b where "v = QUOTE # b" by (auto simp: string_token_def)
    then show ?thesis using json_string_end_token [OF 1] by (simp add: json_value_end_def)
  next
    case container
    have "scan_container (length pre) 0 False False (l # as @ r # ws @ c # rest) =
        scan_container (length pre + 1) 1 False False (as @ r # ws @ c # rest)"
      using container(1) by (auto simp: brackets_def)
    also have "\<dots> = Some (length pre + length v)"
      using container by (auto simp: scan_container_balanced brackets_def)
    finally show ?thesis using container by (auto simp: json_value_end_def brackets_def)
  next
    case scalar
    have "\<not> json_ws COMMA" "\<not> json_ws RBRACE" by (simp_all add: json_ws_def)
    then have "takeWhile (\<lambda>b. b \<noteq> COMMA \<and> b \<noteq> RBRACE) ((v @ ws) @ c # rest) = v @ ws"
      using scalar assms(2,3) by (intro takeWhile_stop) (auto simp: scalar_token_def list_all_iff)
    moreover have "dropWhile json_ws (rev (v @ ws)) = rev v"
      using scalar assms(2) by (cases v rule: rev_cases) (auto simp: scalar_token_def dropWhile_append list_all_iff)
    ultimately have "scalar_end (pre @ v @ ws @ c # rest) (length pre) = length pre + length v"
      by (simp add: scalar_end_def)
    moreover obtain b bs where "v = b # bs" "b \<notin> {QUOTE, LBRACE, LBRACKET}"
      using scalar by (cases v) (auto simp: scalar_token_def)
    ultimately show ?thesis by (auto simp: json_value_end_def)
  qed
qed

section \<open>Members\<close>

record member =
  mb_pre :: bytes
  mb_key :: bytes
  mb_gap :: bytes
  mb_gap2 :: bytes
  mb_value :: bytes
  mb_post :: bytes

definition member_text :: "member \<Rightarrow> bytes" where
  "member_text m = mb_pre m @ mb_key m @ mb_gap m @ [COLON] @ mb_gap2 m @ mb_value m @ mb_post m"

fun members_text :: "member list \<Rightarrow> bytes" where
  "members_text [] = []"
| "members_text [m] = member_text m"
| "members_text (m # ms) = member_text m @ [COMMA] @ members_text ms"

text \<open>White space, an object, white space; \<open>inner\<close> is what an empty object has between its braces.\<close>

definition object_text :: "bytes \<Rightarrow> member list \<Rightarrow> bytes \<Rightarrow> bytes \<Rightarrow> bytes" where
  "object_text pre ms inner post = pre @ [LBRACE] @ members_text ms @ inner @ [RBRACE] @ post"

definition member_ok :: "json_ext \<Rightarrow> member \<Rightarrow> bool" where
  "member_ok x m \<longleftrightarrow> white (mb_pre m) \<and> string_token (mb_key m) \<and> j_key x (mb_key m) \<noteq> None \<and> white (mb_gap m) \<and>
     white (mb_gap2 m) \<and> value_token (mb_value m) \<and> white (mb_post m)"

definition object_ok :: "json_ext \<Rightarrow> bytes \<Rightarrow> member list \<Rightarrow> bytes \<Rightarrow> bytes \<Rightarrow> bool" where
  "object_ok x pre ms inner post \<longleftrightarrow> white pre \<and> white inner \<and> white post \<and> list_all (member_ok x) ms \<and>
     (ms \<noteq> [] \<longrightarrow> inner = [])"

text \<open>Where the values of the members with a given key are, from position \<open>i\<close> on.\<close>

fun hits :: "json_ext \<Rightarrow> str \<Rightarrow> nat \<Rightarrow> member list \<Rightarrow> (nat \<times> nat) list" where
  "hits x k i [] = []"
| "hits x k i (m # ms) =
     (let a = i + length (mb_pre m) + length (mb_key m) + length (mb_gap m) + 1 + length (mb_gap2 m) in
      (if j_key x (mb_key m) = Some k then [(a, a + length (mb_value m))] else []) @
      hits x k (i + length (member_text m) + 1) ms)"

lemma token_not_ws:
  "string_token s \<Longrightarrow> s \<noteq> [] \<and> \<not> json_ws (hd s)"
  by (auto simp: string_token_def json_ws_def)

lemma value_token_not_ws: "value_token v \<Longrightarrow> v \<noteq> [] \<and> \<not> json_ws (hd v)"
  by (auto simp: value_token_def string_token_def scalar_token_def brackets_def json_ws_def)

lemma member_at_text:
  assumes "member_ok x m" and "c = COMMA \<or> c = RBRACE" and "j_key x (mb_key m) = Some k"
  shows "member_at x (pre @ mb_key m @ mb_gap m @ [COLON] @ mb_gap2 m @ mb_value m @ mb_post m @ c # rest) (length pre) =
    (let a = length pre + length (mb_key m) + length (mb_gap m) + 1 + length (mb_gap2 m) in
     Some (k, a, a + length (mb_value m), a + length (mb_value m) + length (mb_post m)))"
proof -
  let ?raw = "pre @ mb_key m @ mb_gap m @ [COLON] @ mb_gap2 m @ mb_value m @ mb_post m @ c # rest"
  let ?p1 = "pre @ mb_key m" and ?p2 = "pre @ mb_key m @ mb_gap m" and ?p3 = "pre @ mb_key m @ mb_gap m @ [COLON]"
  let ?p4 = "?p3 @ mb_gap2 m" and ?p5 = "?p3 @ mb_gap2 m @ mb_value m"
  note ok = assms(1) [unfolded member_ok_def]
  have ne: "mb_value m \<noteq> []" "\<not> json_ws (hd (mb_value m))" "\<not> json_ws c" "\<not> json_ws COLON"
    using ok assms(2) value_token_not_ws by (auto simp: json_ws_def)
  have s: "json_string_end ?raw (length pre) = Some (length ?p1)"
    using json_string_end_token [of "mb_key m" pre] ok by simp
  have w1: "skip_json_whitespace ?raw (length ?p1) = length ?p2"
    using skip_ws_append [of "mb_gap m" "COLON # mb_gap2 m @ mb_value m @ mb_post m @ c # rest" ?p1] ok ne by simp
  have w2: "skip_json_whitespace ?raw (length ?p3) = length ?p4"
    using skip_ws_append [of "mb_gap2 m" "mb_value m @ mb_post m @ c # rest" ?p3] ok ne by simp
  have v: "json_value_end ?raw (length ?p4) = Some (length ?p5)"
    using json_value_end_token [of "mb_value m" "mb_post m" c ?p4 rest] ok assms(2) by simp
  have w3: "skip_json_whitespace ?raw (length ?p5) = length ?p5 + length (mb_post m)"
    using skip_ws_append [of "mb_post m" "c # rest" ?p5] ok ne by simp
  have b: "byte_at ?raw (length ?p2) = Some COLON"
    using byte_at_append [of ?p2] by simp
  show ?thesis
    using s w1 w2 v w3 b assms(3) by (simp add: member_at_def Let_def ac_simps)
qed

text \<open>One round of the loop on the text of a member.\<close>

lemma scan_members_round:
  assumes facts: "index < length raw" "skip_json_whitespace raw index = i" "byte_at raw i \<noteq> Some RBRACE"
      "member_at x raw i = Some (key, a, b, n)" "byte_at raw n = Some c"
    and c: "c = COMMA \<or> c = RBRACE"
  shows "scan_members x raw k index found =
    (if key = k \<and> found \<noteq> None then None
     else let f = (if key = k then Some (a, b) else found) in
       if c = COMMA then scan_members x raw k (n + 1) f else f)"
  using c by (subst scan_members.simps) (auto simp: facts Let_def)

definition value_start :: "nat \<Rightarrow> member \<Rightarrow> nat" where
  "value_start i m = i + length (mb_pre m) + length (mb_key m) + length (mb_gap m) + 1 + length (mb_gap2 m)"

lemma scan_members_member:
  assumes ok: "member_ok x m" and c: "c = COMMA \<or> c = RBRACE" and key: "j_key x (mb_key m) = Some key"
    and raw: "raw = pre @ member_text m @ c # rest"
  shows "scan_members x raw k (length pre) found =
    (if key = k \<and> found \<noteq> None then None
     else let a = value_start (length pre) m; f = (if key = k then Some (a, a + length (mb_value m)) else found) in
       if c = COMMA then scan_members x raw k (length (pre @ member_text m @ [c])) f else f)"
proof -
  let ?tail = "mb_key m @ mb_gap m @ [COLON] @ mb_gap2 m @ mb_value m @ mb_post m @ c # rest"
  let ?a = "value_start (length pre) m"
  have raw': "raw = pre @ mb_pre m @ ?tail" by (simp add: raw member_text_def)
  have tok: "string_token (mb_key m)" "white (mb_pre m)" using ok by (auto simp: member_ok_def)
  have l: "length pre < length raw" by (simp add: raw)
  have w: "skip_json_whitespace raw (length pre) = length (pre @ mb_pre m)"
    using skip_ws_append [of "mb_pre m" ?tail pre] tok token_not_ws by (simp add: raw')
  have q: "byte_at raw (length (pre @ mb_pre m)) \<noteq> Some RBRACE"
    using tok(1) by (auto simp: string_token_def byte_at_def nth_append raw')
  have e: "?a + length (mb_value m) + length (mb_post m) = length (pre @ member_text m)"
    by (simp add: value_start_def member_text_def)
  have "member_at x raw (length (pre @ mb_pre m)) =
      Some (key, ?a, ?a + length (mb_value m), ?a + length (mb_value m) + length (mb_post m))"
    using member_at_text [OF ok c key, of "pre @ mb_pre m" rest] by (simp add: raw' value_start_def Let_def ac_simps)
  then have m: "member_at x raw (length (pre @ mb_pre m)) = Some (key, ?a, ?a + length (mb_value m), length (pre @ member_text m))"
    by (simp only: e)
  have n: "byte_at raw (length (pre @ member_text m)) = Some c"
    using byte_at_append [of "pre @ member_text m" c rest] by (simp add: raw)
  show ?thesis
    using scan_members_round [OF l w q m n c, of k found] c by (simp add: Let_def)
qed

lemma scan_members_text:
  assumes "ms \<noteq> []" and "list_all (member_ok x) ms"
  shows "scan_members x (pre @ members_text ms @ RBRACE # post) k (length pre) found =
    (case (case found of None \<Rightarrow> [] | Some r \<Rightarrow> [r]) @ hits x k (length pre) ms of [r] \<Rightarrow> Some r | _ \<Rightarrow> None)"
  using assms
proof (induction ms arbitrary: pre found rule: members_text.induct)
  case (2 m)
  then have ok: "member_ok x m" by simp
  then obtain key where key: "j_key x (mb_key m) = Some key" by (auto simp: member_ok_def)
  show ?case
    using scan_members_member [OF ok _ key, of RBRACE "pre @ members_text [m] @ RBRACE # post" pre post k found] key
    by (auto simp: Let_def value_start_def split: option.splits)
next
  case (3 m m' ms)
  let ?raw = "pre @ members_text (m # m' # ms) @ RBRACE # post"
  let ?pre' = "pre @ member_text m @ [COMMA]"
  let ?r = "(value_start (length pre) m, value_start (length pre) m + length (mb_value m))"
  have ok: "member_ok x m" using 3 by simp
  then obtain key where key: "j_key x (mb_key m) = Some key" by (auto simp: member_ok_def)
  have raw: "?raw = ?pre' @ members_text (m' # ms) @ RBRACE # post" by simp
  have ih: "scan_members x ?raw k (length ?pre') f =
      (case (case f of None \<Rightarrow> [] | Some r \<Rightarrow> [r]) @ hits x k (length ?pre') (m' # ms) of [r] \<Rightarrow> Some r | _ \<Rightarrow> None)" for f
    unfolding raw using 3 by (intro "3.IH") auto
  have hits: "hits x k (length pre) (m # m' # ms) = (if key = k then [?r] else []) @ hits x k (length ?pre') (m' # ms)"
    using key by (simp add: value_start_def Let_def)
  have step: "scan_members x ?raw k (length pre) found =
      (if key = k \<and> found \<noteq> None then None else scan_members x ?raw k (length ?pre') (if key = k then Some ?r else found))"
    using scan_members_member [OF ok _ key, of COMMA ?raw pre "members_text (m' # ms) @ RBRACE # post" k found]
    by (cases found) (simp_all add: Let_def)
  show ?case
    unfolding step hits ih by (auto split: option.splits)
qed simp

lemma top_level_value_range_text:
  assumes "object_ok x pre ms inner post"
  shows "top_level_value_range x (object_text pre ms inner post) k =
    (case hits x k (length pre + 1) ms of [r] \<Rightarrow> Some r | _ \<Rightarrow> None)"
proof -
  let ?raw = "object_text pre ms inner post"
  have ws: "white pre" "white inner" "list_all (member_ok x) ms" "ms \<noteq> [] \<longrightarrow> inner = []"
    using assms by (auto simp: object_ok_def)
  have w: "skip_json_whitespace ?raw 0 = length pre"
    using skip_ws_append [of pre "LBRACE # members_text ms @ inner @ RBRACE # post" "[]"] ws
    by (simp add: object_text_def json_ws_def)
  have b: "byte_at ?raw (length pre) = Some LBRACE" by (simp add: object_text_def)
  have range: "top_level_value_range x ?raw k = scan_members x ?raw k (length (pre @ [LBRACE])) None"
    using w b by (simp add: top_level_value_range_def)
  show ?thesis
  proof (cases "ms = []")
    case False
    then have raw: "?raw = (pre @ [LBRACE]) @ members_text ms @ RBRACE # post"
      using ws(4) by (simp add: object_text_def)
    show ?thesis
      unfolding range unfolding raw by (subst scan_members_text [OF False ws(3)]) simp
  next
    case True
    let ?i = "length (pre @ [LBRACE] @ inner)"
    have raw: "?raw = (pre @ [LBRACE] @ inner) @ RBRACE # post" using True by (simp add: object_text_def)
    have "skip_json_whitespace ?raw (length (pre @ [LBRACE])) = ?i"
      using skip_ws_append [of inner "RBRACE # post" "pre @ [LBRACE]"] ws(2) by (simp add: raw json_ws_def)
    moreover have "byte_at ?raw ?i = Some RBRACE" unfolding raw by (rule byte_at_append)
    moreover have "length (pre @ [LBRACE]) < length ?raw" by (simp add: raw)
    ultimately have "scan_members x ?raw k (length (pre @ [LBRACE])) None = None"
      by (subst scan_members.simps) (simp add: Let_def)
    then show ?thesis using True range by simp
  qed
qed

section \<open>The splice\<close>

text \<open>What the JSON crate says of a text whose members are \<open>ms\<close>: each key, decoded, with the text of
  its last value.\<close>

definition reads_members :: "json_ext \<Rightarrow> bytes \<Rightarrow> member list \<Rightarrow> bool" where
  "reads_members x raw ms \<longleftrightarrow> (\<exists>body. j_object x raw = Some body \<and> (body = [] \<longleftrightarrow> ms = []) \<and>
     (\<forall>k. map_of body k = map_option mb_value (find (\<lambda>m. j_key x (mb_key m) = Some k) (rev ms))))"

definition has_key :: "json_ext \<Rightarrow> str \<Rightarrow> member \<Rightarrow> bool" where
  "has_key x k m \<longleftrightarrow> j_key x (mb_key m) = Some k"

definition new_member :: "bytes \<Rightarrow> bytes \<Rightarrow> member" where
  "new_member inner quoted = \<lparr>mb_pre = inner, mb_key = [QUOTE] @ as_bytes USER_CACHE_SECRET_FIELD @ [QUOTE],
     mb_gap = [], mb_gap2 = [], mb_value = quoted, mb_post = []\<rparr>"

lemma has_key_eq: "has_key x k = (\<lambda>m. j_key x (mb_key m) = Some k)"
  by (rule ext) (simp add: has_key_def)

lemma find_filter: "find P xs = (case filter P xs of [] \<Rightarrow> None | y # _ \<Rightarrow> Some y)"
  by (induction xs) auto

lemma filter_single:
  assumes "filter P xs = [y]"
  shows "\<exists>as bs. xs = as @ y # bs \<and> filter P as = [] \<and> P y \<and> filter P bs = []"
proof -
  obtain as bs where "xs = as @ y # bs" "\<forall>a\<in>set as. \<not> P a" "P y" "[] = filter P bs"
    using assms by (auto simp: filter_eq_Cons_iff)
  then show ?thesis by (intro exI [of _ as] exI [of _ bs]) auto
qed

lemma hits_none: "filter (has_key x k) ms = [] \<Longrightarrow> hits x k i ms = []"
  by (induction ms arbitrary: i) (auto simp: has_key_def Let_def split: if_splits)

lemma length_hits: "length (hits x k i ms) = length (filter (has_key x k) ms)"
  by (induction ms arbitrary: i) (auto simp: has_key_def Let_def)

lemma members_text_append: "ms \<noteq> [] \<Longrightarrow> members_text (ms @ [m]) = members_text ms @ [COMMA] @ member_text m"
  by (induction ms rule: members_text.induct) auto

definition prefix_text :: "member list \<Rightarrow> bytes" where
  "prefix_text ms = concat (map (\<lambda>m. member_text m @ [COMMA]) ms)"

definition suffix_text :: "member list \<Rightarrow> bytes" where
  "suffix_text ms = (if ms = [] then [] else COMMA # members_text ms)"

lemma members_text_split: "members_text (as @ m # bs) = prefix_text as @ member_text m @ suffix_text bs"
proof (induction as)
  case Nil
  then show ?case by (cases bs) (simp_all add: prefix_text_def suffix_text_def)
next
  case (Cons a as)
  then show ?case by (cases as) (simp_all add: prefix_text_def)
qed

lemma hits_single:
  assumes "filter (has_key x k) as = []" and "has_key x k m" and "filter (has_key x k) bs = []"
  shows "hits x k i (as @ m # bs) =
    [(value_start (i + length (prefix_text as)) m, value_start (i + length (prefix_text as)) m + length (mb_value m))]"
  using assms(1)
proof (induction as arbitrary: i)
  case Nil
  then show ?case
    using assms(2,3) by (simp add: hits_none has_key_def value_start_def prefix_text_def Let_def)
next
  case (Cons a as)
  then show ?case by (simp add: has_key_def prefix_text_def Let_def ac_simps split: if_splits)
qed

lemma splice_value:
  assumes "object_ok x pre (as @ m # bs) inner post"
    and "filter (has_key x k) as = []" and "has_key x k m" and "filter (has_key x k) bs = []"
  shows "\<exists>a b. top_level_value_range x (object_text pre (as @ m # bs) inner post) k = Some (a, b) \<and>
    take a (object_text pre (as @ m # bs) inner post) @ q @ drop b (object_text pre (as @ m # bs) inner post) =
    object_text pre (as @ m\<lparr>mb_value := q\<rparr> # bs) inner post"
proof -
  let ?l = "pre @ [LBRACE] @ prefix_text as @ mb_pre m @ mb_key m @ mb_gap m @ [COLON] @ mb_gap2 m"
  let ?r = "mb_post m @ suffix_text bs @ inner @ [RBRACE] @ post"
  have raw: "object_text pre (as @ m\<lparr>mb_value := v\<rparr> # bs) inner post = ?l @ v @ ?r" for v
    by (simp add: object_text_def members_text_split member_text_def)
  have raw0: "object_text pre (as @ m # bs) inner post = ?l @ mb_value m @ ?r"
    using raw [of "mb_value m"] by simp
  have a: "value_start (length pre + 1 + length (prefix_text as)) m = length ?l"
    by (simp add: value_start_def)
  have "top_level_value_range x (object_text pre (as @ m # bs) inner post) k = Some (length ?l, length ?l + length (mb_value m))"
    using top_level_value_range_text [OF assms(1), of k] hits_single [OF assms(2-4)] a by simp
  then show ?thesis unfolding raw by (intro exI conjI) (auto simp: raw0)
qed

lemma last_non_ws_object:
  assumes "white post"
  shows "last_non_ws (l @ RBRACE # post) = Some (length l)"
proof -
  have "dropWhile json_ws (rev post @ RBRACE # rev l) = RBRACE # rev l"
    using assms by (auto simp: dropWhile_append list_all_iff json_ws_def)
  then show ?thesis by (simp add: last_non_ws_def)
qed

lemma splice_close:
  assumes "object_ok x pre ms inner post"
  shows "\<exists>close. last_non_ws (object_text pre ms inner post) = Some close \<and> object_text pre ms inner post ! close = RBRACE \<and>
    take close (object_text pre ms inner post) @ (if ms = [] then [] else [COMMA]) @ [QUOTE] @
      as_bytes USER_CACHE_SECRET_FIELD @ [QUOTE, COLON] @ q @ drop close (object_text pre ms inner post) =
    object_text pre (ms @ [new_member inner q]) [] post"
proof -
  let ?l = "pre @ [LBRACE] @ members_text ms @ inner"
  have raw: "object_text pre ms inner post = ?l @ RBRACE # post" by (simp add: object_text_def)
  have ws: "white post" "ms \<noteq> [] \<longrightarrow> inner = []" using assms by (auto simp: object_ok_def)
  have "last_non_ws (object_text pre ms inner post) = Some (length ?l)"
    unfolding raw by (rule last_non_ws_object [OF ws(1)])
  moreover have "object_text pre ms inner post ! length ?l = RBRACE"
    unfolding raw by (simp only: nth_append_length)
  moreover have "take (length ?l) (object_text pre ms inner post) @ (if ms = [] then [] else [COMMA]) @ [QUOTE] @
      as_bytes USER_CACHE_SECRET_FIELD @ [QUOTE, COLON] @ q @ drop (length ?l) (object_text pre ms inner post) =
    object_text pre (ms @ [new_member inner q]) [] post"
    using ws(2) by (cases "ms = []")
      (simp_all add: raw object_text_def members_text_append member_text_def new_member_def)
  ultimately show ?thesis by blast
qed

text \<open>
  C29. What becomes of the text of a JSON object, whatever its white space, nesting, escapes and numbers:
  without the field, the field is added as the last member; with the field once and empty, exactly its
  value is replaced; in all other cases, a value the caller chose or the field given twice, the body
  is left as it is. Every other member keeps every byte.
\<close>

theorem inject_object:
  assumes "object_ok x pre ms inner post" and "reads_members x (object_text pre ms inner post) ms"
    and "j_quote x secret = Some q"
  shows "inject_user_cache_secret x (object_text pre ms inner post) secret =
    (case filter (has_key x USER_CACHE_SECRET_FIELD) ms of
       [] \<Rightarrow> Some (object_text pre (ms @ [new_member inner q]) [] post)
     | [m] \<Rightarrow> if mb_value m = EMPTY_STRING
         then Some (object_text pre (map (\<lambda>m. if has_key x USER_CACHE_SECRET_FIELD m then m\<lparr>mb_value := q\<rparr> else m) ms) inner post)
         else None
     | _ \<Rightarrow> None)"
proof -
  let ?k = "USER_CACHE_SECRET_FIELD" and ?raw = "object_text pre ms inner post"
  let ?hits = "filter (has_key x ?k) ms"
  obtain body where body: "j_object x ?raw = Some body" "body = [] \<longleftrightarrow> ms = []"
      "map_of body ?k = map_option mb_value (find (has_key x ?k) (rev ms))"
    using assms(2) by (auto simp: reads_members_def has_key_eq)
  consider (none) "?hits = []" | (one) m where "?hits = [m]" | (more) m m' rest where "?hits = m # m' # rest"
    by (cases ?hits rule: remdups_adj.cases) auto
  then show ?thesis
  proof cases
    case none
    then have "map_of body ?k = None" by (auto simp: body(3) find_None_iff filter_empty_conv)
    then show ?thesis
      using none body splice_close [OF assms(1), of q] assms(3)
      by (fastforce simp: inject_user_cache_secret_def)
  next
    case one
    then obtain as bs where ms: "ms = as @ m # bs" "filter (has_key x ?k) as = []" "has_key x ?k m" "filter (has_key x ?k) bs = []"
      by (blast dest: filter_single)
    have "map_of body ?k = Some (mb_value m)"
      by (simp add: body(3) find_filter rev_filter [symmetric] one)
    moreover have "map (\<lambda>m. if has_key x ?k m then m\<lparr>mb_value := q\<rparr> else m) ms = as @ m\<lparr>mb_value := q\<rparr> # bs"
      using ms by (auto simp: filter_empty_conv intro!: map_idI)
    ultimately show ?thesis
      using one body(1) splice_value [OF assms(1) [unfolded ms(1)] ms(2-4), of q] assms(3) unfolding ms(1)
      by (auto simp: inject_user_cache_secret_def)
  next
    case more
    have "length (hits x ?k (length pre + 1) ms) \<noteq> 1" by (simp only: length_hits more) simp
    then have "top_level_value_range x ?raw ?k = None"
      by (auto simp: top_level_value_range_text [OF assms(1)] split: list.splits)
    moreover have "map_of body ?k \<noteq> None"
      using more by (auto simp: body(3) find_None_iff filter_eq_Cons_iff)
    ultimately show ?thesis using more body(1) by (auto simp: inject_user_cache_secret_def)
  qed
qed

text \<open>A body with an empty field between two others.\<close>

definition toy_json :: json_ext where
  "toy_json = \<lparr>j_object = (\<lambda>_. Some [(''a'', as_bytes ''1''), (''user_cache_secret'', EMPTY_STRING)]),
     j_key = (\<lambda>b. Some (if b = [QUOTE, 97, QUOTE] then ''a'' else ''user_cache_secret'')), j_quote = (\<lambda>s. Some (as_bytes s))\<rparr>"

definition toy_members :: "member list" where
  "toy_members = [\<lparr>mb_pre = [32], mb_key = [QUOTE, 97, QUOTE], mb_gap = [], mb_gap2 = [], mb_value = [49], mb_post = []\<rparr>,
     new_member [] EMPTY_STRING]"

lemma str_body_field: "str_body (as_bytes USER_CACHE_SECRET_FIELD)"
  by (simp add: USER_CACHE_SECRET_FIELD_def as_bytes_def) (intro Body_Char Body_Nil; simp)

lemma toy_object_ok: "object_ok toy_json [] toy_members [] []"
proof -
  have "string_token [QUOTE, 97, QUOTE]" "string_token EMPTY_STRING"
    unfolding string_token_def EMPTY_STRING_def
    by (intro exI [of _ "[97]"] conjI Body_Char Body_Nil; simp) (intro exI [of _ "[]"] conjI Body_Nil; simp)
  moreover have "string_token ([QUOTE] @ as_bytes USER_CACHE_SECRET_FIELD @ [QUOTE])"
    unfolding string_token_def using str_body_field by auto
  moreover have "scalar_token [49]" by (simp add: scalar_token_def json_ws_def)
  ultimately show ?thesis
    by (simp add: object_ok_def toy_members_def member_ok_def new_member_def toy_json_def value_token_def json_ws_def)
qed

lemma inject_object_witness:
  "inject_user_cache_secret toy_json (object_text [] toy_members [] []) ''s'' =
     Some (object_text [] [toy_members ! 0, new_member [] [115]] [] [])"
proof -
  have keys: "j_key toy_json (mb_key (toy_members ! 0)) = Some ''a''" "j_key toy_json (mb_key (toy_members ! 1)) = Some ''user_cache_secret''"
    by (simp_all add: toy_json_def toy_members_def new_member_def USER_CACHE_SECRET_FIELD_def as_bytes_def)
  have ms: "toy_members = [toy_members ! 0, toy_members ! 1]" by (simp add: toy_members_def)
  have reads: "reads_members toy_json (object_text [] toy_members [] []) toy_members"
    unfolding reads_members_def
    by (rule exI [of _ "[(''a'', as_bytes ''1''), (''user_cache_secret'', EMPTY_STRING)]"])
      (use keys in \<open>auto simp: toy_json_def toy_members_def new_member_def as_bytes_def\<close>)
  have "j_quote toy_json ''s'' = Some [115]" by (simp add: toy_json_def as_bytes_def)
  from inject_object [OF toy_object_ok reads this] show ?thesis
    using keys by (simp add: has_key_def toy_members_def new_member_def USER_CACHE_SECRET_FIELD_def)
qed

end
