(* ===== verification/Cache_Secret.thy ===== *)
theory Cache_Secret
  imports Secret_Properties Json_Splice_Properties Json Http_Request
begin

text \<open>
  The rest of \<open>user_cache_secret.rs\<close>: the source of the secret with its memo, the cell the request
  paths share, and the injection into a typed request and into a JSON value. Resolving a deferred
  source is a parameter here, a state transformer that \<open>Secret_File\<close> provides.
\<close>

section \<open>The source\<close>

datatype secret_source = Deferred "str option" | Explicit str

definition deferred :: secret_source where
  "deferred = Deferred None"

definition explicit :: "str \<Rightarrow> secret_source" where
  "explicit s = (if s = [] then deferred else Explicit s)"

text \<open>\<open>get\<close>: a deferred source is resolved once, and memoized for everyone who shares it.\<close>

fun source_get :: "('w \<Rightarrow> 'w \<times> str) \<Rightarrow> secret_source \<Rightarrow> 'w \<Rightarrow> (secret_source \<times> 'w) \<times> str option" where
  "source_get resolve (Explicit s) w = ((Explicit s, w), if s = [] then None else Some s)"
| "source_get resolve (Deferred (Some s)) w = ((Deferred (Some s), w), if s = [] then None else Some s)"
| "source_get resolve (Deferred None) w = (case resolve w of (w', s) \<Rightarrow>
     ((Deferred (Some s), w'), if s = [] then None else Some s))"

text \<open>The shared cell is read by both request paths and replaced as a whole.\<close>

definition cell_replace :: "secret_source \<Rightarrow> secret_source \<Rightarrow> secret_source" where
  "cell_replace new_source cell = new_source"

definition with_user_cache_secret :: "str \<Rightarrow> secret_source \<Rightarrow> secret_source" where
  "with_user_cache_secret s cell = cell_replace (explicit s) cell"

definition resolve_default :: "secret_env \<Rightarrow> str option \<Rightarrow> str option \<Rightarrow> secret_world \<Rightarrow> secret_world \<times> str" where
  "resolve_default e env home w = resolve_env_or_file e env home w"

section \<open>Typed requests\<close>

definition USER_CACHE_SECRET_PATHS :: "str list" where
  "USER_CACHE_SECRET_PATHS = [''/chat/completions'', ''/completions'', ''/responses'']"

definition provision_request :: "json_ext \<Rightarrow> http_request \<Rightarrow> str \<Rightarrow> http_request" where
  "provision_request x q secret =
     (if req_method q \<noteq> ''POST'' then q
      else if \<not> list_ex (ends_with (req_path q)) USER_CACHE_SECRET_PATHS then q
      else case Option.bind (req_body q) body_bytes of
        None \<Rightarrow> q
      | Some raw \<Rightarrow>
          if raw = [] then q
          else (case inject_user_cache_secret x raw secret of
            None \<Rightarrow> q
          | Some injected \<Rightarrow>
              (let q' = (if contains_key ''content-length'' (req_headers q)
                 then q\<lparr>req_headers := header_insert ''content-length'' (dec_str (length injected)) (req_headers q)\<rparr> else q) in
               q'\<lparr>req_body := Some (Buffered injected)\<rparr>)))"

text \<open>\<open>UserCacheSecretService::call\<close>: the factory the inner service is given. Every build passes through
  the injection with the source as it is then.\<close>

definition injecting_build ::
  "json_ext \<Rightarrow> ('w \<Rightarrow> 'w \<times> str) \<Rightarrow> (openai_error + http_request) \<Rightarrow> secret_source \<Rightarrow> 'w \<Rightarrow>
     (secret_source \<times> 'w) \<times> (openai_error + http_request)" where
  "injecting_build x resolve built cell w = (case built of
     Inl e \<Rightarrow> ((cell, w), Inl e)
   | Inr q \<Rightarrow> (case source_get resolve cell w of
       (st, Some secret) \<Rightarrow> (st, Inr (provision_request x q secret))
     | (st, None) \<Rightarrow> (st, Inr q)))"

section \<open>JSON values\<close>

definition member_insert :: "str \<Rightarrow> json \<Rightarrow> (str \<times> json) list \<Rightarrow> (str \<times> json) list" where
  "member_insert k v kvs = (if k \<in> fst ` set kvs
     then map (\<lambda>kv. if fst kv = k then (k, v) else kv) kvs else kvs @ [(k, v)])"

fun provision_value :: "('w \<Rightarrow> 'w \<times> str) \<Rightarrow> json \<Rightarrow> secret_source \<Rightarrow> 'w \<Rightarrow> (secret_source \<times> 'w) \<times> json" where
  "provision_value resolve (JObject kvs) src w =
     (if map_of kvs USER_CACHE_SECRET_FIELD \<notin> {None, Some (JString [])} then ((src, w), JObject kvs)
      else case source_get resolve src w of
        (st, None) \<Rightarrow> (st, JObject kvs)
      | (st, Some secret) \<Rightarrow> (st, JObject (member_insert USER_CACHE_SECRET_FIELD (JString secret) kvs)))"
| "provision_value resolve v src w = ((src, w), v)"

section \<open>Which secret a request carries\<close>

lemma source_get_memo:
  assumes "source_get resolve src w = ((src', w'), r)"
  shows "source_get resolve' src' v = ((src', v), r)"
  using assms by (induction resolve src w rule: source_get.induct) (auto split: prod.splits)

lemma map_of_replace:
  "map_of (map (\<lambda>kv. if fst kv = k then (k, v) else kv) kvs) k' =
    (if k' = k \<and> k \<in> fst ` set kvs then Some v else map_of kvs k')"
  by (induction kvs) (auto, force)

lemma map_of_member_insert: "map_of (member_insert k v kvs) k' = (if k' = k then Some v else map_of kvs k')"
proof (cases "k \<in> fst ` set kvs")
  case True
  then show ?thesis unfolding member_insert_def by (simp add: map_of_replace)
next
  case False
  then have "map_of kvs k = None" by (simp add: map_of_eq_None_iff)
  then show ?thesis using False by (auto simp: member_insert_def map_add_def split: option.splits)
qed

text \<open>
  C33. The precedence of the sources: a value the caller put into the body stays, whatever it is, and
  nothing is resolved for it; otherwise the body carries the secret pinned for the client, else the
  one of the environment, else the persisted or generated one; and the other members are untouched.
\<close>

theorem provision_precedence:
  assumes "provision_value (resolve_default e env home) (JObject kvs) src w = ((src', w'), v)"
  shows "\<exists>kvs'. v = JObject kvs' \<and> (\<forall>k. k \<noteq> ''user_cache_secret'' \<longrightarrow> map_of kvs' k = map_of kvs k) \<and>
    (if map_of kvs ''user_cache_secret'' \<notin> {None, Some (JString [])} then kvs' = kvs \<and> src' = src \<and> w' = w
     else let secret = (case src of
         Explicit s \<Rightarrow> s
       | Deferred (Some s) \<Rightarrow> s
       | Deferred None \<Rightarrow> (case env of
           Some s \<Rightarrow> if s \<noteq> [] then s else snd (load_or_generate e home w)
         | None \<Rightarrow> snd (load_or_generate e home w)))
       in if secret = [] then kvs' = kvs else map_of kvs' ''user_cache_secret'' = Some (JString secret))"
proof -
  have field: "USER_CACHE_SECRET_FIELD = ''user_cache_secret''" by (simp add: USER_CACHE_SECRET_FIELD_def)
  show ?thesis
  proof (cases "map_of kvs ''user_cache_secret'' \<notin> {None, Some (JString [])}")
    case True
    then show ?thesis using assms by (auto simp: field)
  next
    case False
    define r where "r = source_get (resolve_default e env home) src w"
    obtain st found where r: "r = (st, found)" by (cases r)
    have "v = JObject (case found of None \<Rightarrow> kvs | Some s \<Rightarrow> member_insert ''user_cache_secret'' (JString s) kvs)"
      using assms False r by (auto simp: field r_def split: option.splits)
    moreover have "found = (let secret = (case src of
         Explicit s \<Rightarrow> s
       | Deferred (Some s) \<Rightarrow> s
       | Deferred None \<Rightarrow> (case env of
           Some s \<Rightarrow> if s \<noteq> [] then s else snd (load_or_generate e home w)
         | None \<Rightarrow> snd (load_or_generate e home w))) in if secret = [] then None else Some secret)"
      using r by (cases "(resolve_default e env home, src, w)" rule: source_get.cases)
        (auto simp: r_def resolve_default_def resolve_env_or_file_def Let_def split: option.splits prod.splits if_splits)
    ultimately show ?thesis using False by (auto simp: map_of_member_insert Let_def split: option.splits)
  qed
qed

lemma provision_precedence_witness:
  "map_of [(''a'', JNull), (''user_cache_secret'', JString ''s'')] ''a'' = Some JNull"
proof -
  have "provision_value (resolve_default toy_secret_env None None) (JObject [(''a'', JNull)]) (Explicit ''s'') toy_secret_world =
      ((Explicit ''s'', toy_secret_world), JObject [(''a'', JNull), (''user_cache_secret'', JString ''s'')])"
    by (simp add: USER_CACHE_SECRET_FIELD_def member_insert_def)
  from provision_precedence [OF this] show ?thesis by auto
qed

text \<open>
  The typed path only ever adds the secret: a request that is not a POST to one of the three
  endpoints, that streams, that is empty or whose body the splice refuses goes out unchanged, and
  otherwise only the body is the spliced one and a content length the caller gave is that of the new body.
\<close>

theorem provision_request_frame:
  "provision_request x q s = q \<or>
   (\<exists>raw injected. req_method q = ''POST'' \<and> req_body q = Some (Buffered raw) \<and>
      (\<exists>p \<in> {''/chat/completions'', ''/completions'', ''/responses''}. ends_with (req_path q) p) \<and>
      inject_user_cache_secret x raw s = Some injected \<and>
      req_body (provision_request x q s) = Some (Buffered injected) \<and>
      req_method (provision_request x q s) = req_method q \<and> req_path (provision_request x q s) = req_path q \<and>
      req_url (provision_request x q s) = req_url q \<and>
      (\<forall>k v. (k, v) \<in> set (req_headers (provision_request x q s)) \<longleftrightarrow>
         (if k = ''content-length'' \<and> contains_key k (req_headers q) then v = dec_str (length injected)
          else (k, v) \<in> set (req_headers q))))"
proof (cases "provision_request x q s = q")
  case False
  then obtain raw injected where r: "req_method q = ''POST''" "list_ex (ends_with (req_path q)) USER_CACHE_SECRET_PATHS"
      "req_body q = Some (Buffered raw)" "raw \<noteq> []" "inject_user_cache_secret x raw s = Some injected"
    by (auto simp: provision_request_def bind_eq_Some_conv split: if_splits option.splits bind_splits elim!: body_bytes.elims)
  then show ?thesis
    by (intro disjI2 exI [of _ raw] exI [of _ injected])
      (auto simp: provision_request_def Let_def USER_CACHE_SECRET_PATHS_def contains_key_def)
qed simp

section \<open>What a log shows\<close>

text \<open>\<open>Debug\<close> of the source: neither a memoized nor a pinned secret is printed.\<close>

fun secret_fmt :: "secret_source \<Rightarrow> str" where
  "secret_fmt (Deferred _) = ''UserCacheSecret::Deferred(..)''"
| "secret_fmt (Explicit _) = ''UserCacheSecret::Explicit([REDACTED])''"

lemma secret_fmt_independent: "secret_fmt (Explicit s) = secret_fmt (Explicit s') \<and> secret_fmt (Deferred m) = secret_fmt (Deferred m')"
  by simp

end
