(* ===== verification/Cache_Writer.thy ===== *)
theory Cache_Writer
  imports Cert_Chain Secret_Properties
begin

text \<open>
  The cache of chip certificates of \<open>cert_chain.rs\<close> call by call, on the file system of \<open>Secret_File\<close>
  (the Unix branches): the directory, the temporary file, which is created or truncated under a name that
  all processes share, and the rename. \<open>Cert_Chain\<close> has the same steps as one function of their outcomes;
  here that function is shown to be what the calls amount to.
\<close>

section \<open>Calls of the system\<close>

text \<open>Opening a file for writing with \<open>create\<close> and \<open>truncate\<close> follows symbolic links; a special file has
  no contents to truncate or write.\<close>

fun resolve_links :: "nat \<Rightarrow> fs \<Rightarrow> str \<Rightarrow> str option" where
  "resolve_links 0 f p = None"
| "resolve_links (Suc n) f p = (case names f p of Some (Symlink q) \<Rightarrow> resolve_links n f q | _ \<Rightarrow> Some p)"

definition open_truncate :: "str \<Rightarrow> str \<Rightarrow> fs \<Rightarrow> (io_error + nat option) \<times> fs" where
  "open_truncate dir p f =
     (if \<not> is_dir f dir then (Inl NotFound, f)
      else case resolve_links 40 f p of
        None \<Rightarrow> (Inl OtherIo, f)
      | Some q \<Rightarrow> (case names f q of
          None \<Rightarrow> (case create_new q f of (r, f') \<Rightarrow> (try_bind r (\<lambda>i. Inr (Some i)), f'))
        | Some (File i) \<Rightarrow> (Inr (Some i), write_inode i [] f)
        | Some Special \<Rightarrow> (Inr None, f)
        | Some _ \<Rightarrow> (Inl OtherIo, f)))"

text \<open>Renaming replaces what is not a directory, and does nothing for two names of one file.\<close>

definition rename_file :: "str \<Rightarrow> str \<Rightarrow> fs \<Rightarrow> (io_error + unit) \<times> fs" where
  "rename_file p q f = (case names f p of
     None \<Rightarrow> (Inl NotFound, f)
   | Some n \<Rightarrow>
       if names f q = Some Directory \<or> n = Directory \<and> names f q \<noteq> None then (Inl OtherIo, f)
       else if names f q = Some n \<and> (case n of File _ \<Rightarrow> True | _ \<Rightarrow> False) then (Inr (), f)
       else (Inr (), f\<lparr>names := (names f)(q \<mapsto> n, p := None)\<rparr>))"

datatype cache_call = Make_Cache_Dir | Open_Tmp | Write_Tmp | Sync_Tmp | Rename_Tmp | Remove_Tmp

record cache_calls =
  cw_fails :: "cache_call \<Rightarrow> bool"
  cw_partial :: nat

section \<open>Storing a certificate\<close>

text \<open>\<open>DirBuilder::create\<close> with \<open>recursive\<close>: the ancestors of the directory from the root, and itself.\<close>

fun make_dirs_all :: "str list \<Rightarrow> fs \<Rightarrow> (io_error + unit) \<times> fs" where
  "make_dirs_all [] f = (Inr (), f)"
| "make_dirs_all (p # ps) f = (case make_dir p f of
     (Inl e, f') \<Rightarrow> (Inl e, f')
   | (Inr _, f') \<Rightarrow> make_dirs_all ps f')"

definition create_cache_dir :: "cache_calls \<Rightarrow> str list \<Rightarrow> fs \<Rightarrow> (io_error + unit) \<times> fs" where
  "create_cache_dir e dirs f = (if cw_fails e Make_Cache_Dir then (Inl OtherIo, f) else make_dirs_all dirs f)"

definition write_opened :: "nat option \<Rightarrow> bytes \<Rightarrow> fs \<Rightarrow> fs" where
  "write_opened h b f = (case h of None \<Rightarrow> f | Some i \<Rightarrow> write_inode i b f)"

definition write_user_only :: "cache_calls \<Rightarrow> str \<Rightarrow> str \<Rightarrow> bytes \<Rightarrow> fs \<Rightarrow> (io_error + unit) \<times> fs" where
  "write_user_only e dir p content f =
     (if cw_fails e Open_Tmp then (Inl OtherIo, f)
      else case open_truncate dir p f of
        (Inl x, f') \<Rightarrow> (Inl x, f')
      | (Inr h, f') \<Rightarrow>
          if cw_fails e Write_Tmp then (Inl OtherIo, write_opened h (take (cw_partial e) content) f')
          else (if cw_fails e Sync_Tmp then Inl OtherIo else Inr (), write_opened h content f'))"

definition store_vcek :: "cache_calls \<Rightarrow> str list \<Rightarrow> str \<Rightarrow> str \<Rightarrow> str \<Rightarrow> bytes \<Rightarrow> fs \<Rightarrow> fs" where
  "store_vcek e ancestors parent tmp path vcek_der f =
     (case create_cache_dir e (ancestors @ [parent]) f of (_, f0) \<Rightarrow>
     (case write_user_only e parent tmp vcek_der f0 of
        (Inl _, f1) \<Rightarrow> f1
      | (Inr _, f1) \<Rightarrow>
          (case (if cw_fails e Rename_Tmp then (Inl OtherIo, f1) else rename_file tmp path f1) of
             (Inr _, f2) \<Rightarrow> f2
           | (Inl _, f2) \<Rightarrow> if cw_fails e Remove_Tmp then f2 else Secret_File.remove_file tmp f2)))"

section \<open>The outcomes are those of \<open>write_cache\<close>\<close>

definition disk_of :: "fs \<Rightarrow> disk" where
  "disk_of f p = (case names f p of Some (File i) \<Rightarrow> Some (inode f i) | _ \<Rightarrow> None)"

text \<open>The cache path is no directory, and the temporary file, if there is one, has no second name.\<close>

definition cache_files_ok :: "str \<Rightarrow> str \<Rightarrow> fs \<Rightarrow> bool" where
  "cache_files_ok tmp path f \<longleftrightarrow> fs_ok f \<and> tmp \<noteq> path \<and> names f path \<noteq> Some Directory \<and>
     (names f tmp = None \<or> (\<exists>i. names f tmp = Some (File i) \<and> (\<forall>q. q \<noteq> tmp \<longrightarrow> names f q \<noteq> Some (File i))))"

lemma resolve_no_link: "(\<And>q. names f p \<noteq> Some (Symlink q)) \<Longrightarrow> resolve_links 40 f p = Some p"
  by (simp add: numeral_eq_Suc split: option.splits node.splits)

lemma make_dir_disk:
  assumes "make_dir p f = (r, f')"
  shows "disk_of f' = disk_of f \<and> (p \<noteq> tmp \<and> p \<noteq> path \<longrightarrow> cache_files_ok tmp path f \<longrightarrow> cache_files_ok tmp path f')"
proof (cases "names f p")
  case None
  then have f': "f' = f\<lparr>names := (names f)(p \<mapsto> Directory)\<rparr>" using assms by (simp add: make_dir_def)
  have "disk_of f' = disk_of f" using None unfolding f' by (intro ext) (simp add: disk_of_def split: option.split node.split)
  then show ?thesis using f' by (auto simp: cache_files_ok_def fs_ok_def)
next
  case (Some n)
  then show ?thesis using assms by (auto simp: make_dir_def split: if_splits)
qed

lemma make_dirs_all_disk:
  "make_dirs_all ps f = (r, f') \<Longrightarrow> tmp \<notin> set ps \<Longrightarrow> path \<notin> set ps \<Longrightarrow> cache_files_ok tmp path f \<Longrightarrow>
    disk_of f' = disk_of f \<and> cache_files_ok tmp path f'"
proof (induction ps arbitrary: f)
  case (Cons p ps)
  obtain r' f1 where m: "make_dir p f = (r', f1)" by fastforce
  have *: "disk_of f1 = disk_of f" "cache_files_ok tmp path f1"
    using make_dir_disk [OF m, of tmp path] Cons.prems by auto
  show ?case
    using Cons.prems(1) m Cons.IH [OF _ _ _ *(2)] Cons.prems(2,3) * by (auto split: sum.splits)
qed simp

lemma open_truncate_disk:
  assumes "open_truncate dir tmp f = (r, f')" "cache_files_ok tmp path f"
  shows "cache_files_ok tmp path f' \<and>
    (case r of Inl _ \<Rightarrow> f' = f
     | Inr h \<Rightarrow> \<exists>i. h = Some i \<and> names f' tmp = Some (File i) \<and>
         (\<forall>b. disk_of (write_inode i b f') = (disk_of f)(tmp \<mapsto> b)))"
proof -
  have r: "resolve_links 40 f tmp = Some tmp"
    using assms(2) by (intro resolve_no_link) (auto simp: cache_files_ok_def)
  from assms(2) consider (no_file) "names f tmp = None"
    | (one_file) i where "names f tmp = Some (File i)" "\<And>q. q \<noteq> tmp \<Longrightarrow> names f q \<noteq> Some (File i)"
    by (auto simp: cache_files_ok_def)
  then show ?thesis
  proof cases
    case no_file
    have "names f q \<noteq> Some (File (next_inode f))" for q
      using assms(2) by (auto simp: cache_files_ok_def fs_ok_def)
    with no_file assms r show ?thesis
      by (auto simp: open_truncate_def create_new_def cache_files_ok_def fs_ok_def disk_of_def write_inode_def
          fun_eq_iff less_Suc_eq split: if_splits option.splits node.splits)
  next
    case one_file
    with assms r show ?thesis
      by (auto simp: open_truncate_def cache_files_ok_def fs_ok_def disk_of_def write_inode_def fun_eq_iff
          split: if_splits option.splits node.splits)
  qed
qed

lemma write_inode_ok [simp]: "cache_files_ok tmp path (write_inode i b f) = cache_files_ok tmp path f"
  by (simp add: cache_files_ok_def write_inode_def fs_ok_def)

lemma write_inode_names [simp]: "names (write_inode i b f) = names f"
  by (simp add: write_inode_def)

lemma same_but_at: "\<exists>c. d = (d :: disk)(p := c)"
  by (metis fun_upd_triv)

lemma write_user_only_disk:
  assumes "write_user_only e dir tmp content f = (r, f')" "cache_files_ok tmp path f"
  shows "cache_files_ok tmp path f' \<and> (case r of
      Inl _ \<Rightarrow> \<exists>c. disk_of f' = (disk_of f)(tmp := c)
    | Inr _ \<Rightarrow> disk_of f' = (disk_of f)(tmp \<mapsto> content) \<and> (\<exists>i. names f' tmp = Some (File i)))"
proof (cases "cw_fails e Open_Tmp")
  case True
  with assms show ?thesis by (auto simp: write_user_only_def same_but_at)
next
  case False
  obtain r1 f1 where o: "open_truncate dir tmp f = (r1, f1)" by fastforce
  note opened = open_truncate_disk [OF o assms(2)]
  show ?thesis
  proof (cases r1)
    case (Inl x)
    with assms(1) False o opened show ?thesis
      by (auto simp: write_user_only_def same_but_at)
  next
    case (Inr h)
    with opened obtain i where "h = Some i" "names f1 tmp = Some (File i)" "cache_files_ok tmp path f1"
        "\<And>b. disk_of (write_inode i b f1) = (disk_of f)(tmp \<mapsto> b)" by auto
    with assms(1) False o Inr show ?thesis
      by (auto simp: write_user_only_def write_opened_def split: if_splits)
  qed
qed

lemma rename_disk:
  assumes "rename_file tmp path f = (r, f')" "cache_files_ok tmp path f" "names f tmp = Some (File i)"
  shows "r = Inr () \<and> disk_of f' = (disk_of f)(path := disk_of f tmp, tmp := None)"
proof -
  have "r = Inr ()" "f' = f\<lparr>names := (names f)(path \<mapsto> File i, tmp := None)\<rparr>"
    using assms by (auto simp: rename_file_def cache_files_ok_def)
  moreover have "disk_of f tmp = Some (inode f i)" using assms(3) by (simp add: disk_of_def)
  ultimately show ?thesis by (auto simp: fun_eq_iff disk_of_def split: option.split node.split)
qed

lemma remove_tmp_disk:
  "cache_files_ok tmp path f \<Longrightarrow> disk_of (Secret_File.remove_file tmp f) = (disk_of f)(tmp := None)"
  by (auto simp: Secret_File.remove_file_def cache_files_ok_def disk_of_def fun_eq_iff split: option.split node.split)

text \<open>
  C18. The function of the outcomes is what the calls amount to: whatever calls fail, and wherever a write
  stops, storing a certificate changes the files as \<open>write_cache\<close> does for some outcomes of its steps.
\<close>

theorem store_vcek_refines:
  assumes "cache_files_ok tmp path f" and "tmp \<notin> set (parent # ancestors)" and "path \<notin> set (parent # ancestors)"
  shows "\<exists>io. disk_of (store_vcek e ancestors parent tmp path vcek_der f) = write_cache io path tmp vcek_der (disk_of f)"
proof -
  obtain r0 f0 where d: "create_cache_dir e (ancestors @ [parent]) f = (r0, f0)" by fastforce
  have f0: "disk_of f0 = disk_of f" "cache_files_ok tmp path f0"
    using d assms make_dirs_all_disk [of "ancestors @ [parent]" f r0 f0 tmp path]
    by (auto simp: create_cache_dir_def split: if_splits)
  obtain r1 f1 where w: "write_user_only e parent tmp vcek_der f0 = (r1, f1)" by fastforce
  note f1 = write_user_only_disk [OF w f0(2)]
  define io where "io = (\<lambda>wr rn c. \<lparr>cache_dir = None, read_ok = True, remove_ok = \<not> cw_fails e Remove_Tmp,
    write_ok = wr, failed_write = c, rename_ok = rn\<rparr>)"
  show ?thesis
  proof (cases r1)
    case (Inl x)
    with f1 obtain c where "disk_of f1 = (disk_of f)(tmp := c)" using f0 by auto
    then have "disk_of (store_vcek e ancestors parent tmp path vcek_der f) = write_cache (io False True c) path tmp vcek_der (disk_of f)"
      using d w Inl by (simp add: store_vcek_def write_cache_def io_def)
    then show ?thesis by blast
  next
    case (Inr u)
    with f1 obtain i where f1': "disk_of f1 = (disk_of f)(tmp \<mapsto> vcek_der)" "names f1 tmp = Some (File i)"
        "cache_files_ok tmp path f1" using f0 by auto
    obtain r2 f2 where rn: "rename_file tmp path f1 = (r2, f2)" by fastforce
    have "disk_of (store_vcek e ancestors parent tmp path vcek_der f) =
        write_cache (io True (\<not> cw_fails e Rename_Tmp) None) path tmp vcek_der (disk_of f)"
      using d w Inr rn rename_disk [OF rn f1'(3,2)] remove_tmp_disk [OF f1'(3)] f1'(1)
      by (auto simp: store_vcek_def write_cache_def io_def Cert_Chain.remove_file_def fun_upd_twist)
    then show ?thesis by blast
  qed
qed

definition no_failures :: cache_calls where
  "no_failures = \<lparr>cw_fails = (\<lambda>_. False), cw_partial = 0\<rparr>"

definition empty_fs :: fs where
  "empty_fs = \<lparr>names = [''/c'' \<mapsto> Directory], inode = (\<lambda>_. []), next_inode = 0\<rparr>"

lemma store_vcek_refines_witness:
  "\<exists>io. disk_of (store_vcek no_failures [] ''/c'' ''/c/t'' ''/c/p'' [1] empty_fs) =
     write_cache io ''/c/p'' ''/c/t'' [1] (disk_of empty_fs)"
  by (rule store_vcek_refines) (simp_all add: empty_fs_def cache_files_ok_def fs_ok_def)

end
