(* ===== verification/Cache_Machine.thy ===== *)
theory Cache_Machine
  imports Cache_Writer Transitions
begin

text \<open>
  Several processes that store a fetched chip certificate at once: one step is one call of the system, a
  write may come in pieces, every call may fail and a process may die at any point. Unlike the persisted
  secret, whose candidate files have random names, the temporary file has one name for everybody.
\<close>

section \<open>Processes that fetch at once\<close>

text \<open>
  A process that has fetched its certificate opens the temporary file, writes it in pieces, syncs and
  renames. \<open>Storing i n\<close> has inode \<open>i\<close> open with \<open>n\<close> bytes written; a call that fails, and the death of
  the process, end it wherever it is.
\<close>

datatype writer = Fetched | Storing nat nat | Stored | Over

record cache_system =
  cs_fs :: fs
  cs_proc :: "nat \<Rightarrow> writer"

record cache_setup =
  cu_parent :: str
  cu_tmp :: str
  cu_path :: str
  cu_der :: "nat \<Rightarrow> bytes"

definition advance :: "nat \<Rightarrow> writer \<Rightarrow> fs \<Rightarrow> cache_system \<Rightarrow> cache_system" where
  "advance p v f s = s\<lparr>cs_fs := f, cs_proc := (cs_proc s)(p := v)\<rparr>"

text \<open>Writing at an offset of its own; what was cut off before it reads as zero.\<close>

definition write_at :: "nat \<Rightarrow> bytes \<Rightarrow> bytes \<Rightarrow> bytes" where
  "write_at n b c = take n (c @ replicate (n - length c) 0) @ b @ drop (n + length b) c"

inductive cache_step :: "cache_setup \<Rightarrow> cache_system \<Rightarrow> nat \<Rightarrow> cache_system \<Rightarrow> bool" for su where
  Open_Shared: "cs_proc s p = Fetched \<Longrightarrow> open_truncate (cu_parent su) (cu_tmp su) (cs_fs s) = (Inr (Some i), f) \<Longrightarrow>
    cache_step su s p (advance p (Storing i 0) f s)"
| Write_Some: "cs_proc s p = Storing i n \<Longrightarrow> n < n' \<Longrightarrow> n' \<le> length (cu_der su p) \<Longrightarrow>
    cache_step su s p (advance p (Storing i n')
      (write_inode i (write_at n (take (n' - n) (drop n (cu_der su p))) (inode (cs_fs s) i)) (cs_fs s)) s)"
| Sync: "cs_proc s p = Storing i (length (cu_der su p)) \<Longrightarrow> cache_step su s p (advance p Stored (cs_fs s) s)"
| Rename: "cs_proc s p = Stored \<Longrightarrow> rename_file (cu_tmp su) (cu_path su) (cs_fs s) = (Inr (), f) \<Longrightarrow>
    cache_step su s p (advance p Over f s)"
| Rename_Fails: "cs_proc s p = Stored \<Longrightarrow>
    cache_step su s p (advance p Over (Secret_File.remove_file (cu_tmp su) (cs_fs s)) s)"
| Stop: "cs_proc s p \<noteq> Over \<Longrightarrow> cache_step su s p (advance p Over (cs_fs s) s)"

text \<open>One process after the other: the file is opened only when nobody else is between its open and its
  rename.\<close>

definition cache_step_serial :: "cache_setup \<Rightarrow> cache_system \<Rightarrow> nat \<Rightarrow> cache_system \<Rightarrow> bool" where
  "cache_step_serial su s p s' \<longleftrightarrow> cache_step su s p s' \<and>
     (cs_proc s p = Fetched \<longrightarrow> (\<forall>q. cs_proc s q \<in> {Fetched, Over}))"

definition cache_init :: "cache_setup \<Rightarrow> fs \<Rightarrow> cache_system \<Rightarrow> bool" where
  "cache_init su f s \<longleftrightarrow> cs_fs s = f \<and> cache_files_ok (cu_tmp su) (cu_path su) f \<and> (\<forall>p. cs_proc s p = Fetched)"

section \<open>One after the other\<close>

fun serial_ok :: "cache_setup \<Rightarrow> cache_system \<Rightarrow> nat \<Rightarrow> writer \<Rightarrow> bool" where
  "serial_ok su s p (Storing i n) \<longleftrightarrow> names (cs_fs s) (cu_tmp su) = Some (File i) \<and> n \<le> length (cu_der su p) \<and>
     inode (cs_fs s) i = take n (cu_der su p) \<and> (\<forall>q. q \<noteq> p \<longrightarrow> cs_proc s q \<in> {Fetched, Over})"
| "serial_ok su s p Stored \<longleftrightarrow> disk_of (cs_fs s) (cu_tmp su) = Some (cu_der su p) \<and>
     (\<forall>q. q \<noteq> p \<longrightarrow> cs_proc s q \<in> {Fetched, Over})"
| "serial_ok su s p _ \<longleftrightarrow> True"

definition serial_inv :: "cache_setup \<Rightarrow> fs \<Rightarrow> cache_system \<Rightarrow> bool" where
  "serial_inv su f s \<longleftrightarrow> cache_files_ok (cu_tmp su) (cu_path su) (cs_fs s) \<and>
     (\<forall>p. serial_ok su s p (cs_proc s p)) \<and>
     (disk_of (cs_fs s) (cu_path su) = disk_of f (cu_path su) \<or> (\<exists>p. disk_of (cs_fs s) (cu_path su) = Some (cu_der su p)))"

lemma write_at_next: "n < n' \<Longrightarrow> n' \<le> length der \<Longrightarrow> write_at n (take (n' - n) (drop n der)) (take n der) = take n' der"
  by (simp add: write_at_def min_def) (metis le_add_diff_inverse less_imp_le take_add)

lemma disk_of_written:
  assumes "cache_files_ok tmp path f" "names f tmp = Some (File i)"
  shows "disk_of (write_inode i b f) = (disk_of f)(tmp \<mapsto> b)"
  using assms by (auto simp: cache_files_ok_def disk_of_def write_inode_def fun_eq_iff split: option.split node.split)

lemma rename_inv:
  assumes "rename_file tmp path f = (Inr (), f')" "cache_files_ok tmp path f"
  shows "cache_files_ok tmp path f' \<and> (\<exists>i. names f tmp = Some (File i)) \<and> inode f' = inode f \<and>
    names f' = (names f)(path := names f tmp, tmp := None) \<and> next_inode f' = next_inode f"
  using assms by (auto simp: rename_file_def cache_files_ok_def fs_ok_def split: option.splits if_splits)

lemma remove_inv:
  assumes "cache_files_ok tmp path f"
  shows "cache_files_ok tmp path (Secret_File.remove_file tmp f) \<and> inode (Secret_File.remove_file tmp f) = inode f \<and>
    names (Secret_File.remove_file tmp f) = (names f)(tmp := None) \<and>
    next_inode (Secret_File.remove_file tmp f) = next_inode f"
  using assms by (auto simp: Secret_File.remove_file_def cache_files_ok_def fs_ok_def split: option.splits node.splits)

lemma write_inode_inode [simp]: "inode (write_inode i b f) = (inode f)(i := b)"
  by (simp add: write_inode_def)

lemma write_inode_next [simp]: "next_inode (write_inode i b f) = next_inode f"
  by (simp add: write_inode_def)

lemma write_inode_same: "inode f i = b \<Longrightarrow> write_inode i b f = f"
  by (auto simp: write_inode_def)

lemma open_truncate_empty: "open_truncate dir p f = (Inr (Some i), f') \<Longrightarrow> inode f' i = []"
  by (auto simp: open_truncate_def create_new_def split: if_splits option.splits node.splits)

lemma open_shared_tmp:
  assumes "open_truncate dir tmp f = (Inr (Some i), f')" "cache_files_ok tmp path f"
  shows "cache_files_ok tmp path f'" "names f' tmp = Some (File i)" "inode f' i = []"
    "disk_of f' = (disk_of f)(tmp \<mapsto> [])"
proof -
  show e: "inode f' i = []" by (rule open_truncate_empty [OF assms(1)])
  have o: "cache_files_ok tmp path f' \<and> names f' tmp = Some (File i) \<and>
      (\<forall>b. disk_of (write_inode i b f') = (disk_of f)(tmp \<mapsto> b))"
    using open_truncate_disk [OF assms] by auto
  then show "cache_files_ok tmp path f'" "names f' tmp = Some (File i)" by blast+
  show "disk_of f' = (disk_of f)(tmp \<mapsto> [])"
    using o e write_inode_same [OF e] by metis
qed

lemma serial_idle: "cs_proc s q \<in> {Fetched, Over} \<Longrightarrow> serial_ok su s' q (cs_proc s q)"
  by auto

lemma serial_active:
  assumes "serial_inv su f s" "cs_proc s p \<notin> {Fetched, Over}"
  shows "serial_ok su s p (cs_proc s p)" "\<forall>q. q \<noteq> p \<longrightarrow> cs_proc s q \<in> {Fetched, Over}"
proof -
  show "serial_ok su s p (cs_proc s p)" using assms(1) by (auto simp: serial_inv_def)
  then show "\<forall>q. q \<noteq> p \<longrightarrow> cs_proc s q \<in> {Fetched, Over}" using assms(2) by (cases "cs_proc s p") auto
qed

lemma advance_simps [simp]:
  "cs_fs (advance p v f s) = f" "cs_proc (advance p v f s) = (cs_proc s)(p := v)"
  by (simp_all add: advance_def)

text \<open>A step keeps the invariant when the stepping process is right about its new state and the path
  holds what it held or a whole certificate.\<close>

lemma serial_advance:
  assumes "serial_inv su f s" "\<forall>q. q \<noteq> p \<longrightarrow> cs_proc s q \<in> {Fetched, Over}"
    and "cache_files_ok (cu_tmp su) (cu_path su) f'" "serial_ok su (advance p v f' s) p v"
    and "disk_of f' (cu_path su) = disk_of (cs_fs s) (cu_path su) \<or> (\<exists>p. disk_of f' (cu_path su) = Some (cu_der su p))"
  shows "serial_inv su f (advance p v f' s)"
  using assms unfolding serial_inv_def by (auto intro: serial_idle)

lemma serial_inv_step:
  assumes "serial_inv su f s" "cache_step_serial su s p s'"
  shows "serial_inv su f s'"
proof -
  have ok: "cache_files_ok (cu_tmp su) (cu_path su) (cs_fs s)" using assms(1) by (simp add: serial_inv_def)
  then have ne: "cu_tmp su \<noteq> cu_path su" by (simp add: cache_files_ok_def)
  have others: "\<forall>q. q \<noteq> p \<longrightarrow> cs_proc s q \<in> {Fetched, Over}" if "cs_proc s p \<noteq> Over"
    using that assms serial_active [OF assms(1), of p] by (cases "cs_proc s p") (auto simp: cache_step_serial_def)
  have "cache_step su s p s'" using assms(2) by (simp add: cache_step_serial_def)
  then show ?thesis
  proof cases
    case (Open_Shared i f')
    note w = open_shared_tmp [OF Open_Shared(3) ok]
    show ?thesis unfolding Open_Shared(1)
      by (rule serial_advance [OF assms(1) others]) (use Open_Shared(2) w others ne in auto)
  next
    case (Write_Some i n n')
    note act = serial_active [OF assms(1), of p] 
    have "names (cs_fs s) (cu_tmp su) = Some (File i)" "inode (cs_fs s) i = take n (cu_der su p)"
      using act(1) Write_Some(2) by auto
    then show ?thesis unfolding Write_Some(1)
      by (intro serial_advance [OF assms(1) others])
        (use Write_Some(2-4) ok others ne in \<open>auto simp: write_at_next disk_of_written\<close>)
  next
    case Sync
    have "serial_ok su s p (cs_proc s p)" using serial_active [OF assms(1), of p] Sync(2) by auto
    then show ?thesis unfolding Sync(1)
      by (intro serial_advance [OF assms(1) others]) (use Sync(2) ok others in \<open>auto simp: disk_of_def\<close>)
  next
    case (Rename f')
    have "disk_of (cs_fs s) (cu_tmp su) = Some (cu_der su p)" using serial_active [OF assms(1), of p] Rename(2) by auto
    then show ?thesis unfolding Rename(1)
      by (intro serial_advance [OF assms(1) others])
        (use Rename(2) rename_inv [OF Rename(3) ok] ne in \<open>auto simp: disk_of_def\<close>)
  next
    case Rename_Fails
    show ?thesis unfolding Rename_Fails(1)
      by (intro serial_advance [OF assms(1) others]) (use Rename_Fails(2) remove_inv [OF ok] remove_tmp_disk [OF ok] ne in auto)
  next
    case Stop
    show ?thesis unfolding Stop(1)
      by (intro serial_advance [OF assms(1) others]) (use Stop(2) ok in auto)
  qed
qed

interpretation serial: invariant_system "cache_init su f" "cache_step_serial su" "serial_inv su f" for su f
proof
  show "serial_inv su f s" if "cache_init su f s" for s using that by (auto simp: cache_init_def serial_inv_def)
qed (rule serial_inv_step)

section \<open>All at once\<close>

text \<open>With one certificate for everybody: a file is an echo of it when every byte is the certificate's or
  zero.\<close>

definition echo :: "bytes \<Rightarrow> bytes \<Rightarrow> bool" where
  "echo der c \<longleftrightarrow> length c \<le> length der \<and> (\<forall>k < length c. c ! k = der ! k \<or> c ! k = 0)"

definition held_inodes :: "cache_system \<Rightarrow> nat set" where
  "held_inodes s = {i. \<exists>p n. cs_proc s p = Storing i n}"

definition race_init :: "cache_setup \<Rightarrow> bytes \<Rightarrow> fs \<Rightarrow> cache_system \<Rightarrow> bool" where
  "race_init su der f s \<longleftrightarrow> cache_init su f s \<and> (\<forall>p. cu_der su p = der)"

text \<open>The file at the path is the old one, which nobody has open, or an echo.\<close>

definition path_ok :: "cache_setup \<Rightarrow> bytes \<Rightarrow> fs \<Rightarrow> cache_system \<Rightarrow> bool" where
  "path_ok su der f s \<longleftrightarrow>
     disk_of (cs_fs s) (cu_path su) = disk_of f (cu_path su) \<and>
       (\<forall>i \<in> held_inodes s. names (cs_fs s) (cu_path su) \<noteq> Some (File i)) \<or>
     (\<exists>i. names (cs_fs s) (cu_path su) = Some (File i) \<and> echo der (inode (cs_fs s) i))"

definition race_inv :: "cache_setup \<Rightarrow> bytes \<Rightarrow> fs \<Rightarrow> cache_system \<Rightarrow> bool" where
  "race_inv su der f s \<longleftrightarrow> (\<forall>p. cu_der su p = der) \<and>
     cache_files_ok (cu_tmp su) (cu_path su) (cs_fs s) \<and>
     (\<forall>i \<in> held_inodes s. echo der (inode (cs_fs s) i) \<and> i < next_inode (cs_fs s)) \<and>
     (\<forall>i p. names (cs_fs s) (cu_tmp su) = Some (File i) \<longrightarrow> cs_proc s p \<notin> {Fetched, Over} \<longrightarrow>
        echo der (inode (cs_fs s) i)) \<and>
     path_ok su der f s"

lemma echo_Nil [simp]: "echo der []"
  by (simp add: echo_def)

lemma echo_write_at:
  assumes "echo der c" "n < n'" "n' \<le> length der"
  shows "echo der (write_at n (take (n' - n) (drop n der)) c)"
  using assms
  by (auto simp: echo_def write_at_def nth_append min_def)


lemma open_shared_fs:
  assumes "open_truncate dir tmp f = (Inr (Some i), f')" "cache_files_ok tmp path f"
  shows "names f' = (names f)(tmp \<mapsto> File i)" "inode f' = (inode f)(i := [])" "i < next_inode f'"
    "next_inode f \<le> next_inode f'" "\<forall>q. q \<noteq> tmp \<longrightarrow> names f q \<noteq> Some (File i)"
proof -
  have r: "resolve_links 40 f tmp = Some tmp"
    using assms(2) by (intro resolve_no_link) (auto simp: cache_files_ok_def)
  have "names f' = (names f)(tmp \<mapsto> File i) \<and> inode f' = (inode f)(i := []) \<and> i < next_inode f' \<and>
      next_inode f \<le> next_inode f' \<and> (\<forall>q. q \<noteq> tmp \<longrightarrow> names f q \<noteq> Some (File i))"
  proof (cases "names f tmp")
    case None
    have "names f q \<noteq> Some (File (next_inode f))" for q
      using assms(2) by (auto simp: cache_files_ok_def fs_ok_def)
    with None assms r show ?thesis by (auto simp: open_truncate_def create_new_def split: if_splits)
  next
    case (Some n)
    with assms r show ?thesis
      by (auto simp: open_truncate_def cache_files_ok_def fs_ok_def fun_upd_idem split: if_splits)
  qed
  then show "names f' = (names f)(tmp \<mapsto> File i)" "inode f' = (inode f)(i := [])" "i < next_inode f'"
    "next_inode f \<le> next_inode f'" "\<forall>q. q \<noteq> tmp \<longrightarrow> names f q \<noteq> Some (File i)" by blast+
qed

lemma held_advance:
  "held_inodes (advance p v f s) \<subseteq> (case v of Storing i n \<Rightarrow> insert i (held_inodes s) | _ \<Rightarrow> held_inodes s)"
  by (auto simp: held_inodes_def split: if_splits writer.splits)

lemma race_invD:
  assumes "race_inv su der f s"
  shows "cache_files_ok (cu_tmp su) (cu_path su) (cs_fs s)" "path_ok su der f s"
    "i \<in> held_inodes s \<Longrightarrow> echo der (inode (cs_fs s) i) \<and> i < next_inode (cs_fs s)"
    "names (cs_fs s) (cu_tmp su) = Some (File i) \<Longrightarrow> cs_proc s p \<noteq> Fetched \<Longrightarrow> cs_proc s p \<noteq> Over \<Longrightarrow>
      echo der (inode (cs_fs s) i)"
  using assms unfolding race_inv_def by auto

lemma race_open:
  assumes "race_inv su der f s" "open_truncate (cu_parent su) (cu_tmp su) (cs_fs s) = (Inr (Some i), f')"
  shows "race_inv su der f (advance p (Storing i 0) f' s)"
proof -
  have ok: "cache_files_ok (cu_tmp su) (cu_path su) (cs_fs s)" using assms(1) by (simp add: race_inv_def)
  then have ne: "cu_path su \<noteq> cu_tmp su" by (auto simp: cache_files_ok_def)
  note o = open_shared_fs [OF assms(2) ok] and ok' = open_shared_tmp(1) [OF assms(2) ok]
  have h: "held_inodes (advance p (Storing i 0) f' s) \<subseteq> insert i (held_inodes s)"
    using held_advance [of p "Storing i 0" f' s] by simp
  have same: "disk_of f' (cu_path su) = disk_of (cs_fs s) (cu_path su)"
    using o ne by (auto simp: disk_of_def split: option.split node.split)
  have "path_ok su der f (advance p (Storing i 0) f' s)"
    using assms(1) h same o ne unfolding race_inv_def path_ok_def by fastforce
  with assms(1) h o ok' show ?thesis unfolding race_inv_def by fastforce
qed

lemma path_ok_keep:
  assumes "path_ok su der f s" "held_inodes s' \<subseteq> held_inodes s"
    "names (cs_fs s') (cu_path su) = names (cs_fs s) (cu_path su)"
    "disk_of (cs_fs s') (cu_path su) = disk_of (cs_fs s) (cu_path su)"
  shows "path_ok su der f s'"
proof -
  from assms(1) consider "disk_of (cs_fs s) (cu_path su) = disk_of f (cu_path su)"
      "\<forall>i \<in> held_inodes s. names (cs_fs s) (cu_path su) \<noteq> Some (File i)"
    | i where "names (cs_fs s) (cu_path su) = Some (File i)" "echo der (inode (cs_fs s) i)"
    unfolding path_ok_def by blast
  then show ?thesis
  proof cases
    case 1
    then show ?thesis using assms(2-4) unfolding path_ok_def by auto
  next
    case 2
    then have "inode (cs_fs s') i = inode (cs_fs s) i" using assms(3,4) by (simp add: disk_of_def)
    then show ?thesis using 2 assms(3) unfolding path_ok_def by auto
  qed
qed

lemma race_write:
  assumes "race_inv su der f s" "cs_proc s p = Storing i n" "n < n'" "n' \<le> length der"
  shows "race_inv su der f (advance p (Storing i n')
    (write_inode i (write_at n (take (n' - n) (drop n der)) (inode (cs_fs s) i)) (cs_fs s)) s)"
    (is "race_inv su der f (advance p _ ?f s)")
proof -
  have held: "i \<in> held_inodes s" using assms(2) by (auto simp: held_inodes_def)
  then have e: "echo der (write_at n (take (n' - n) (drop n der)) (inode (cs_fs s) i))"
    using assms(1) by (intro echo_write_at [OF _ assms(3,4)]) (simp add: race_inv_def)
  have h: "held_inodes (advance p (Storing i n') ?f s) \<subseteq> held_inodes s"
    using held_advance [of p "Storing i n'" ?f s] held by auto
  have keep: "echo der (inode ?f j)" if "echo der (inode (cs_fs s) j)" for j
    using that e by simp
  have "path_ok su der f (advance p (Storing i n') ?f s)"
  proof (cases "names (cs_fs s) (cu_path su) = Some (File i)")
    case True
    then show ?thesis using e by (auto simp: path_ok_def)
  next
    case False
    then have "disk_of ?f (cu_path su) = disk_of (cs_fs s) (cu_path su)"
      by (auto simp: disk_of_def split: option.split node.split)
    then show ?thesis by (intro path_ok_keep [OF race_invD(2) [OF assms(1)] h]) (simp_all del: write_inode_inode)
  qed
  moreover have "echo der (inode ?f j) \<and> j < next_inode ?f" if "j \<in> held_inodes (advance p (Storing i n') ?f s)" for j
    using race_invD(3) [OF assms(1), of j] h keep that unfolding write_inode_next by blast
  moreover have "echo der (inode ?f j)" if "names ?f (cu_tmp su) = Some (File j)" for j
    using race_invD(4) [OF assms(1), of j p] assms(2) that keep unfolding write_inode_names by simp
  ultimately show ?thesis using assms(1) unfolding race_inv_def advance_simps write_inode_ok by blast
qed

lemma race_end:
  assumes "race_inv su der f s" "f' = cs_fs s \<or> f' = Secret_File.remove_file (cu_tmp su) (cs_fs s)"
    "v \<in> {Stored, Over}" "v = Stored \<Longrightarrow> \<exists>i n. cs_proc s p = Storing i n"
  shows "race_inv su der f (advance p v f' s)"
proof -
  have ok: "cache_files_ok (cu_tmp su) (cu_path su) (cs_fs s)" using assms(1) by (simp add: race_inv_def)
  then have ne: "cu_path su \<noteq> cu_tmp su" by (auto simp: cache_files_ok_def)
  have f': "cache_files_ok (cu_tmp su) (cu_path su) f'" "inode f' = inode (cs_fs s)" "next_inode f' = next_inode (cs_fs s)"
      "names f' (cu_path su) = names (cs_fs s) (cu_path su)" "disk_of f' (cu_path su) = disk_of (cs_fs s) (cu_path su)"
      "names f' (cu_tmp su) \<in> {None, names (cs_fs s) (cu_tmp su)}"
    using assms(2) ok ne remove_inv [OF ok] remove_tmp_disk [OF ok] by auto
  have h: "held_inodes (advance p v f' s) \<subseteq> held_inodes s"
    using held_advance [of p v f' s] assms(3) by auto
  have "path_ok su der f (advance p v f' s)"
    by (rule path_ok_keep [OF race_invD(2) [OF assms(1)] h]) (simp_all add: f')
  moreover have "echo der (inode f' j)"
    if tmp: "names f' (cu_tmp su) = Some (File j)" and busy: "((cs_proc s)(p := v)) q \<notin> {Fetched, Over}" for j q
  proof -
    have "names (cs_fs s) (cu_tmp su) = Some (File j)" using tmp f'(6) by auto
    moreover have "\<exists>q'. cs_proc s q' \<notin> {Fetched, Over}"
    proof (cases "q = p")
      case True
      then obtain i n where "cs_proc s p = Storing i n" using busy assms(3,4) by auto
      then show ?thesis by (intro exI [of _ p]) simp
    next
      case False
      then show ?thesis using busy by (intro exI [of _ q]) simp
    qed
    ultimately show ?thesis using assms(1) f'(2) unfolding race_inv_def by auto
  qed
  ultimately show ?thesis using assms(1) h f' unfolding race_inv_def by auto
qed

lemma race_rename:
  assumes "race_inv su der f s" "cs_proc s p = Stored" "rename_file (cu_tmp su) (cu_path su) (cs_fs s) = (Inr (), f')"
  shows "race_inv su der f (advance p Over f' s)"
proof -
  have ok: "cache_files_ok (cu_tmp su) (cu_path su) (cs_fs s)" using assms(1) by (simp add: race_inv_def)
  then have ne: "cu_path su \<noteq> cu_tmp su" by (auto simp: cache_files_ok_def)
  note r = rename_inv [OF assms(3) ok]
  then obtain i where i: "names (cs_fs s) (cu_tmp su) = Some (File i)" by blast
  then have "echo der (inode (cs_fs s) i)" using race_invD(4) [OF assms(1), of i p] assms(2) by simp
  then have "path_ok su der f (advance p Over f' s)" using r i ne by (auto simp: path_ok_def)
  moreover have "held_inodes (advance p Over f' s) \<subseteq> held_inodes s"
    using held_advance [of p Over f' s] by simp
  ultimately show ?thesis using assms(1) r unfolding race_inv_def by auto
qed

lemma race_inv_step:
  assumes "race_inv su der f s" "cache_step su s p s'"
  shows "race_inv su der f s'"
  using assms(2)
proof cases
  case (Open_Shared i f')
  then show ?thesis using race_open [OF assms(1)] by simp
next
  case (Write_Some i n n')
  moreover have "cu_der su p = der" using assms(1) by (simp add: race_inv_def)
  ultimately show ?thesis using race_write [OF assms(1)] by simp
next
  case Sync
  then show ?thesis using race_end [OF assms(1), of _ Stored p] by auto
next
  case (Rename f')
  then show ?thesis using race_rename [OF assms(1)] by simp
next
  case Rename_Fails
  then show ?thesis using race_end [OF assms(1), of _ Over p] by auto
next
  case Stop
  then show ?thesis using race_end [OF assms(1), of _ Over p] by auto
qed

interpretation race: invariant_system "race_init su der f" "cache_step su" "race_inv su der f" for su der f
proof
  show "race_inv su der f s" if "race_init su der f s" for s
    using that by (auto simp: race_init_def cache_init_def race_inv_def path_ok_def held_inodes_def)
qed (rule race_inv_step)

text \<open>
  C17. The cache when several processes fetch at once. If they store one after the other, the file at the
  cache path is the old one or the whole certificate of one of them, whatever fails and wherever a process
  dies. If they overlap, which the shared name of the temporary file allows, and the service gave them the
  same certificate, then the file is the old one or holds nothing but bytes of that certificate at their
  places, and zeros: it may be cut short, but it is never another certificate.
\<close>

theorem cache_file_interleaved:
  assumes "cache_init su f s"
  shows "(run (cache_step_serial su) s ps s' \<longrightarrow>
      disk_of (cs_fs s') (cu_path su) = disk_of f (cu_path su) \<or> (\<exists>p. disk_of (cs_fs s') (cu_path su) = Some (cu_der su p))) \<and>
    (run (cache_step su) s ps s' \<longrightarrow> (\<forall>p. cu_der su p = der) \<longrightarrow>
      disk_of (cs_fs s') (cu_path su) = disk_of f (cu_path su) \<or>
      (\<exists>c. disk_of (cs_fs s') (cu_path su) = Some c \<and> length c \<le> length der \<and>
        (\<forall>k < length c. c ! k = der ! k \<or> c ! k = 0)))"
proof (intro conjI impI)
  assume "run (cache_step_serial su) s ps s'"
  then have "serial_inv su f s'" using assms by (intro serial.inv_reachable) (auto simp: reachable_def)
  then show "disk_of (cs_fs s') (cu_path su) = disk_of f (cu_path su) \<or> (\<exists>p. disk_of (cs_fs s') (cu_path su) = Some (cu_der su p))"
    by (simp add: serial_inv_def)
next
  assume "run (cache_step su) s ps s'" "\<forall>p. cu_der su p = der"
  then have "race_inv su der f s'" using assms by (intro race.inv_reachable) (auto simp: reachable_def race_init_def)
  then have "path_ok su der f s'" by (rule race_invD(2))
  then show "disk_of (cs_fs s') (cu_path su) = disk_of f (cu_path su) \<or> (\<exists>c. disk_of (cs_fs s') (cu_path su) = Some c \<and>
      length c \<le> length der \<and> (\<forall>k < length c. c ! k = der ! k \<or> c ! k = 0))"
    by (auto simp: path_ok_def echo_def disk_of_def)
qed

definition toy_cache :: cache_setup where
  "toy_cache = \<lparr>cu_parent = ''/c'', cu_tmp = ''/c/t'', cu_path = ''/c/p'', cu_der = (\<lambda>_. [1])\<rparr>"

definition toy_start :: cache_system where
  "toy_start = \<lparr>cs_fs = empty_fs, cs_proc = (\<lambda>_. Fetched)\<rparr>"

definition toy_files :: "str \<Rightarrow> bytes \<Rightarrow> fs" where
  "toy_files p c = \<lparr>names = [''/c'' \<mapsto> Directory, p \<mapsto> File 0], inode = (\<lambda>_. [])(0 := c), next_inode = 1\<rparr>"

lemma toy_open:
  "open_truncate ''/c'' ''/c/t'' empty_fs = (Inr (Some 0), toy_files ''/c/t'' [])"
  "open_truncate ''/c'' ''/c/t'' (toy_files ''/c/t'' c) = (Inr (Some 0), toy_files ''/c/t'' [])"
  "rename_file ''/c/t'' ''/c/p'' (toy_files ''/c/t'' c) = (Inr (), toy_files ''/c/p'' c)"
  by (simp_all add: open_truncate_def empty_fs_def toy_files_def create_new_def is_dir_def numeral_eq_Suc
      write_inode_def rename_file_def fun_eq_iff)

lemma toy_inode [simp]: "inode (toy_files p c) 0 = c"
  by (simp add: toy_files_def)

lemma toy_write: "write_inode 0 c' (toy_files p c) = toy_files p c'"
  by (simp add: write_inode_def toy_files_def)

text \<open>One process alone up to its rename, with any other in the same place as before.\<close>

definition toy_stored :: cache_system where
  "toy_stored = advance 0 Stored (toy_files ''/c/t'' [1]) toy_start"

lemma advance_advance [simp]: "advance p v f (advance p v' f' s) = advance p v f s"
  by (simp add: advance_def)

lemma toy_until_stored: "run (cache_step_serial toy_cache) toy_start [0, 0, 0] toy_stored"
proof -
  have a: "cache_step_serial toy_cache toy_start 0 (advance 0 (Storing 0 0) (toy_files ''/c/t'' []) toy_start)"
    using Open_Shared [of toy_start 0 toy_cache 0 "toy_files ''/c/t'' []"]
    by (simp add: cache_step_serial_def toy_cache_def toy_start_def toy_open)
  have b: "cache_step_serial toy_cache (advance 0 (Storing 0 0) (toy_files ''/c/t'' []) toy_start) 0
      (advance 0 (Storing 0 1) (toy_files ''/c/t'' [1]) toy_start)"
    using Write_Some [of "advance 0 (Storing 0 0) (toy_files ''/c/t'' []) toy_start" 0 0 0 1 toy_cache]
    by (simp add: cache_step_serial_def toy_cache_def toy_write write_at_def)
  have c: "cache_step_serial toy_cache (advance 0 (Storing 0 1) (toy_files ''/c/t'' [1]) toy_start) 0 toy_stored"
    using Sync [of "advance 0 (Storing 0 1) (toy_files ''/c/t'' [1]) toy_start" 0 0 toy_cache]
    by (simp add: cache_step_serial_def toy_cache_def toy_stored_def)
  from a b c show ?thesis by blast
qed

lemma serial_is_run: "run (cache_step_serial su) s ps s' \<Longrightarrow> run (cache_step su) s ps s'"
  by (induction rule: run.induct) (auto simp: cache_step_serial_def)

lemma toy_cache_init: "cache_init toy_cache empty_fs toy_start"
  by (simp add: cache_init_def toy_start_def toy_cache_def cache_files_ok_def empty_fs_def fs_ok_def)

text \<open>A second process that opens the file before the first renames it leaves an empty file in the cache,
  although both would have stored the whole certificate.\<close>

lemma race_leaves_empty:
  "\<exists>s'. run (cache_step toy_cache) toy_start [0, 0, 0, 1, 0, 1] s' \<and> disk_of (cs_fs s') ''/c/p'' = Some [] \<and>
     cs_proc s' 0 = Over \<and> cs_proc s' 1 = Over"
proof -
  define s1 where "s1 = advance 1 (Storing 0 0) (toy_files ''/c/t'' []) toy_stored"
  define s2 where "s2 = advance 0 Over (toy_files ''/c/p'' []) s1"
  have "cache_step toy_cache toy_stored 1 s1"
    using Open_Shared [of toy_stored 1 toy_cache 0 "toy_files ''/c/t'' []"]
    by (simp add: s1_def toy_stored_def toy_start_def toy_cache_def toy_open)
  moreover have "cache_step toy_cache s1 0 s2"
    using Rename [of s1 0 toy_cache "toy_files ''/c/p'' []"]
    by (simp add: s1_def s2_def toy_stored_def toy_cache_def toy_open)
  moreover have "cache_step toy_cache s2 1 (advance 1 Over (cs_fs s2) s2)"
    by (rule Stop) (simp add: s2_def s1_def)
  ultimately have "run (cache_step toy_cache) toy_stored [1, 0, 1] (advance 1 Over (cs_fs s2) s2)" by blast
  from run_append [OF serial_is_run [OF toy_until_stored] this]
  have "run (cache_step toy_cache) toy_start [0, 0, 0, 1, 0, 1] (advance 1 Over (cs_fs s2) s2)" by simp
  then show ?thesis
    by (intro exI [of _ "advance 1 Over (cs_fs s2) s2"]) (simp add: s2_def disk_of_def toy_files_def)
qed

lemma cache_file_interleaved_witness:
  "\<exists>s'. run (cache_step_serial toy_cache) toy_start [0, 0, 0, 0] s' \<and>
     disk_of (cs_fs s') ''/c/p'' = Some [1]"
proof -
  let ?s = "advance 0 Over (toy_files ''/c/p'' [1]) toy_stored"
  have "cache_step_serial toy_cache toy_stored 0 ?s"
    using Rename [of toy_stored 0 toy_cache "toy_files ''/c/p'' [1]"]
    by (simp add: cache_step_serial_def toy_stored_def toy_cache_def toy_open)
  with run_append [OF toy_until_stored] have r: "run (cache_step_serial toy_cache) toy_start [0, 0, 0, 0] ?s"
    by (metis append_Cons append_Nil run_single)
  have "disk_of (cs_fs ?s) (cu_path toy_cache) \<in> {None, Some [1]}"
    using cache_file_interleaved [OF toy_cache_init, of "[0, 0, 0, 0]" ?s "[1]"] r
    by (auto simp: toy_cache_def disk_of_def empty_fs_def)
  moreover have "disk_of (cs_fs ?s) ''/c/p'' \<noteq> None" by (simp add: disk_of_def toy_files_def)
  ultimately show ?thesis using r by (intro exI [of _ ?s]) (auto simp: toy_cache_def)
qed

end
