(* ===== verification/Tls.thy ===== *)
theory Tls
  imports Http_Request Attestation_Types
begin

text \<open>
  \<open>verifier/tls.rs\<close>: the fingerprint of a certificate, the verifier that pins it, and the client that is
  bound to one origin. X.509 and DER, the web PKI verifier, name and origin parsing and the HTTP client
  builder belong to other crates and are parameters.
\<close>

datatype general_name = DnsName str | OtherName

record tls_cert =
  tc_key_oid :: str
  tc_spki :: "bytes option"
  tc_san :: "general_name list option"

record tls_ext =
  t_cert :: "bytes \<Rightarrow> tls_cert option"
  t_sha256 :: "bytes \<Rightarrow> digest"
  t_hex :: "bytes \<Rightarrow> str"
  t_roots_ok :: bool
  t_web_pki :: "bytes \<Rightarrow> bytes list \<Rightarrow> str \<Rightarrow> bytes \<Rightarrow> nat \<Rightarrow> str + unit"
  t_server_name :: "str \<Rightarrow> str option"
  t_parse_url :: "str \<Rightarrow> url option"
  t_origin :: "url \<Rightarrow> str"
  t_build :: bool

section \<open>Pinning\<close>

definition cert_pubkey_fingerprint :: "tls_ext \<Rightarrow> bytes \<Rightarrow> str res" where
  "cert_pubkey_fingerprint t der =
     try_bind (ok_or (Tls ''Failed to parse certificate'') (t_cert t der)) (\<lambda>cert.
     try_bind (ok_or (Tls ''Failed to encode SPKI'') (tc_spki cert)) (\<lambda>spki.
     Inr (t_hex t (digest_bytes (t_sha256 t spki)))))"

record pinned_verifier =
  pv_fingerprint :: str
  pv_server_name :: "str option"

definition new_verifier :: "tls_ext \<Rightarrow> str \<Rightarrow> pinned_verifier res" where
  "new_verifier t fp =
     (if t_roots_ok t then Inr \<lparr>pv_fingerprint = fp, pv_server_name = None\<rparr>
      else Inl (Tls ''Failed to build verifier''))"

definition with_server_name :: "str \<Rightarrow> pinned_verifier \<Rightarrow> pinned_verifier" where
  "with_server_name expected v = v\<lparr>pv_server_name := Some expected\<rparr>"

text \<open>An error of the TLS library is its text.\<close>

definition verify_server_cert ::
  "tls_ext \<Rightarrow> pinned_verifier \<Rightarrow> bytes \<Rightarrow> bytes list \<Rightarrow> str \<Rightarrow> bytes \<Rightarrow> nat \<Rightarrow> str + unit" where
  "verify_server_cert t v end_entity intermediates server_name ocsp now =
     (if (case pv_server_name v of Some expected \<Rightarrow> server_name \<noteq> expected | None \<Rightarrow> False)
      then Inl ''request origin is not the verified enclave origin''
      else try_bind (t_web_pki t end_entity intermediates server_name ocsp now) (\<lambda>_.
        try_bind (map_err (\<lambda>_. ''Fingerprint computation failed'') (cert_pubkey_fingerprint t end_entity)) (\<lambda>actual.
        if actual \<noteq> pv_fingerprint v then Inl ''Certificate fingerprint mismatch'' else Inr ())))"

section \<open>One origin\<close>

definition request_origin_matches :: "tls_ext \<Rightarrow> str \<Rightarrow> url \<Rightarrow> bool" where
  "request_origin_matches t expected_origin u \<longleftrightarrow> t_origin t u = expected_origin"

definition strip_brackets :: "str \<Rightarrow> str" where
  "strip_brackets host = (case strip_prefix host ''['' of
     Some h \<Rightarrow> if ends_with h '']'' then butlast h else host
   | None \<Rightarrow> host)"

definition server_name_from_origin :: "tls_ext \<Rightarrow> url \<Rightarrow> str res" where
  "server_name_from_origin t origin =
     try_bind (ok_or (Configuration ''Verified enclave origin has no host'') (u_host_str origin)) (\<lambda>host.
     ok_or (Configuration ''Verified enclave origin has an invalid host'') (t_server_name t (strip_brackets host)))"

text \<open>A client is what decides its connections: the verifier, HTTPS only, and where redirects may lead.
  The exposed client also refuses requests to another origin before anything is sent.\<close>

record http_client =
  hc_verifier :: pinned_verifier
  hc_https_only :: bool
  hc_redirect_origin :: "str option"

record bound_client =
  bc_transport :: http_client
  bc_origin :: str

definition build_pinned_client :: "tls_ext \<Rightarrow> str \<Rightarrow> str option \<Rightarrow> str option \<Rightarrow> http_client res" where
  "build_pinned_client t fp server_name redirect_origin =
     try_bind (new_verifier t fp) (\<lambda>v.
     if t_build t
     then Inr \<lparr>hc_verifier = (case server_name of Some n \<Rightarrow> with_server_name n v | None \<Rightarrow> v),
       hc_https_only = True, hc_redirect_origin = redirect_origin\<rparr>
     else Inl (Tls ''Failed to build HTTP client''))"

definition create_pinned_client :: "tls_ext \<Rightarrow> str \<Rightarrow> http_client res" where
  "create_pinned_client t fp = build_pinned_client t fp None None"

definition create_host_bound_pinned_client :: "tls_ext \<Rightarrow> str \<Rightarrow> url \<Rightarrow> bound_client res" where
  "create_host_bound_pinned_client t fp origin =
     try_bind (server_name_from_origin t origin) (\<lambda>server_name.
     let expected_origin = t_origin t origin in
     try_bind (build_pinned_client t fp (Some server_name) (Some expected_origin)) (\<lambda>transport.
     Inr \<lparr>bc_transport = transport, bc_origin = expected_origin\<rparr>))"

definition follows_redirect :: "tls_ext \<Rightarrow> http_client \<Rightarrow> url \<Rightarrow> bool" where
  "follows_redirect t c u = (case hc_redirect_origin c of Some o' \<Rightarrow> request_origin_matches t o' u | None \<Rightarrow> True)"

text \<open>The middleware of the exposed client.\<close>

definition middleware_handle :: "tls_ext \<Rightarrow> bound_client \<Rightarrow> url \<Rightarrow> (url \<Rightarrow> str + 'r) \<Rightarrow> str + 'r" where
  "middleware_handle t c u forward =
     (if \<not> request_origin_matches t (bc_origin c) u
      then Inl ''request origin is outside the verified enclave origin'' else forward u)"

section \<open>What the client lets through\<close>

lemma cert_pubkey_fingerprint_Inr [result_inv]:
  "cert_pubkey_fingerprint t der = Inr fp \<longleftrightarrow>
     (\<exists>cert spki. t_cert t der = Some cert \<and> tc_spki cert = Some spki \<and> fp = t_hex t (digest_bytes (t_sha256 t spki)))"
  by (auto simp: cert_pubkey_fingerprint_def result_inv)

lemma create_host_bound_Inr [result_inv]:
  "create_host_bound_pinned_client t fp origin = Inr c \<longleftrightarrow>
     (\<exists>name host. u_host_str origin = Some host \<and> t_server_name t (strip_brackets host) = Some name \<and>
        t_roots_ok t \<and> t_build t \<and>
        c = \<lparr>bc_transport = \<lparr>hc_verifier = \<lparr>pv_fingerprint = fp, pv_server_name = Some name\<rparr>,
               hc_https_only = True, hc_redirect_origin = Some (t_origin t origin)\<rparr>,
             bc_origin = t_origin t origin\<rparr>)"
  by (auto simp: create_host_bound_pinned_client_def server_name_from_origin_def build_pinned_client_def
      new_verifier_def with_server_name_def result_inv Let_def split: if_splits)

text \<open>
  C39. A client that was bound to the verified origin talks to nobody else: it accepts a server exactly
  when it is asked for the name of that origin, passes the web PKI and has a key with the pinned
  fingerprint; it follows exactly the redirects that stay in the origin; and the exposed client hands on
  exactly the requests to the origin.
\<close>

theorem bound_client_accepts:
  assumes "create_host_bound_pinned_client t fp origin = Inr c"
  shows "(verify_server_cert t (hc_verifier (bc_transport c)) end_entity chain_ders server_name ocsp now = Inr () \<longleftrightarrow>
       (\<exists>host. u_host_str origin = Some host \<and> t_server_name t (strip_brackets host) = Some server_name) \<and>
       t_web_pki t end_entity chain_ders server_name ocsp now = Inr () \<and>
       (\<exists>cert spki. t_cert t end_entity = Some cert \<and> tc_spki cert = Some spki \<and> t_hex t (digest_bytes (t_sha256 t spki)) = fp)) \<and>
     hc_https_only (bc_transport c) \<and> (follows_redirect t (bc_transport c) u \<longleftrightarrow> t_origin t u = t_origin t origin) \<and>
     (middleware_handle t c u forward = (if t_origin t u = t_origin t origin then forward u
        else Inl ''request origin is outside the verified enclave origin''))"
  using assms
  by (auto simp: result_inv verify_server_cert_def follows_redirect_def middleware_handle_def request_origin_matches_def)

definition toy_tls :: tls_ext where
  "toy_tls = \<lparr>t_cert = (\<lambda>b. Some \<lparr>tc_key_oid = ''1.2.840.10045.2.1'', tc_spki = Some b, tc_san = None\<rparr>),
     t_sha256 = (\<lambda>_. 0), t_hex = (\<lambda>_. ''f''), t_roots_ok = True, t_web_pki = (\<lambda>_ _ _ _ _. Inr ()),
     t_server_name = Some, t_parse_url = (\<lambda>s. Some \<lparr>u_scheme = ''https'', u_username = [], u_password = None,
       u_host_str = Some (drop 8 s), u_port = None, u_query = None, u_fragment = None\<rparr>),
     t_origin = (\<lambda>u. case u_host_str u of Some h \<Rightarrow> h | None \<Rightarrow> []), t_build = True\<rparr>"

lemma bound_client_accepts_witness:
  "\<exists>c :: bound_client. verify_server_cert toy_tls (hc_verifier (bc_transport c)) [1] [] ''h'' [] 0 = Inr () \<and>
     \<not> follows_redirect toy_tls (bc_transport c) (the (t_parse_url toy_tls ''https://other''))"
proof -
  obtain c where "create_host_bound_pinned_client toy_tls ''f'' (the (t_parse_url toy_tls ''https://h'')) = Inr c"
    by (simp add: result_inv) (simp add: toy_tls_def strip_brackets_def strip_prefix_def starts_with_def)
  from bound_client_accepts [OF this, of "[1]" "[]" "''h''" "[]" 0 "the (t_parse_url toy_tls ''https://other'')" "\<lambda>_. Inr ()"]
  have "verify_server_cert toy_tls (hc_verifier (bc_transport c)) [1] [] ''h'' [] 0 = Inr ()"
      "\<not> follows_redirect toy_tls (bc_transport c) (the (t_parse_url toy_tls ''https://other''))"
    by (simp_all add: toy_tls_def strip_brackets_def strip_prefix_def starts_with_def)
  then show ?thesis by blast
qed

end
