(* ===== verification/Dcode.thy ===== *)
theory Dcode
  imports Errors Text "HOL-Library.Multiset"
begin

text \<open>
  \<open>dcode.rs\<close>: values spread over the DNS names of a certificate. The base32 decoder is a parameter, and
  so is the upper case of text that is not ASCII (the Unicode tables).
\<close>

record dcode_ext =
  d_base32 :: "str \<Rightarrow> bytes option"
  d_unicode_upper :: "str \<Rightarrow> str"

definition is_ascii :: "str \<Rightarrow> bool" where
  "is_ascii s \<longleftrightarrow> list_all (\<lambda>c. (of_char c :: nat) < 128) s"

definition upper_char :: "char \<Rightarrow> char" where
  "upper_char c = (if 97 \<le> (of_char c :: nat) \<and> (of_char c :: nat) \<le> 122 then char_of ((of_char c :: nat) - 32) else c)"

definition to_uppercase :: "dcode_ext \<Rightarrow> str \<Rightarrow> str" where
  "to_uppercase d s = (if is_ascii s then map upper_char s else d_unicode_upper d s)"

text \<open>\<open>split_at(2)\<close> panics inside a character, whose later bytes are \<open>10xxxxxx\<close>.\<close>

definition is_char_boundary :: "str \<Rightarrow> nat \<Rightarrow> bool" where
  "is_char_boundary s i \<longleftrightarrow> i = 0 \<or> i = length s \<or>
     (i < length s \<and> \<not> (128 \<le> (of_char (s ! i) :: nat) \<and> (of_char (s ! i) :: nat) < 192))"

text \<open>What one name contributes: nothing, or an index with a chunk.\<close>

definition san_chunk :: "dcode_ext \<Rightarrow> str \<Rightarrow> str \<Rightarrow> (nat \<times> str) option res" where
  "san_chunk d prefix san = (case split_on (CHR ''.'') san of
     first_label # second_label # _ \<Rightarrow>
       if second_label \<noteq> prefix then Inr None
       else if length first_label < 3 then Inr None
       else if \<not> is_char_boundary first_label 2 then Inl (Panic ''split_at'')
       else let index_str = take 2 first_label; chunk = drop 2 first_label in
         if \<not> list_all is_ascii_digit index_str then Inr None
         else Inr (Some (dec_value index_str, to_uppercase d chunk))
   | _ \<Rightarrow> Inr None)"

fun collect_chunks :: "dcode_ext \<Rightarrow> str \<Rightarrow> str list \<Rightarrow> (nat \<times> str) list res" where
  "collect_chunks d prefix [] = Inr []"
| "collect_chunks d prefix (san # sans) =
     try_bind (san_chunk d prefix san) (\<lambda>found.
     try_bind (collect_chunks d prefix sans) (\<lambda>chunks.
     Inr (case found of None \<Rightarrow> chunks | Some c \<Rightarrow> c # chunks)))"

fun has_adjacent :: "(nat \<times> str) list \<Rightarrow> bool" where
  "has_adjacent (a # b # cs) \<longleftrightarrow> fst a = fst b \<or> has_adjacent (b # cs)"
| "has_adjacent _ \<longleftrightarrow> False"

definition decode_chunks :: "dcode_ext \<Rightarrow> (nat \<times> str) list \<Rightarrow> bytes option" where
  "decode_chunks d chunks =
     (if chunks = [] then None
      else let sorted_chunks = sort_key fst chunks in
        if has_adjacent sorted_chunks then None
        else d_base32 d (concat (map snd sorted_chunks)))"

definition decode_from_sans :: "dcode_ext \<Rightarrow> str list \<Rightarrow> str \<Rightarrow> bytes option res" where
  "decode_from_sans d sans prefix =
     try_bind (collect_chunks d prefix sans) (\<lambda>chunks. Inr (decode_chunks d chunks))"

section \<open>The order of the names does not matter\<close>

lemma has_adjacent_distinct: "sorted (map fst cs) \<Longrightarrow> has_adjacent cs \<longleftrightarrow> \<not> distinct (map fst cs)"
proof (induction cs rule: has_adjacent.induct)
  case (1 a b cs)
  have "fst a \<in> fst ` set cs \<longrightarrow> fst a = fst b"
    using 1(2) by auto
  then show ?case using 1 by auto
qed auto

lemma decode_chunks_mset:
  assumes "mset cs = mset cs'"
  shows "decode_chunks d cs = decode_chunks d cs'"
proof (cases "distinct (map fst cs)")
  case True
  have "sort_key fst cs = sort_key fst cs'"
    using True assms by (intro sort_key_inj_key_eq) (simp_all add: distinct_map)
  moreover have "cs = [] \<longleftrightarrow> cs' = []" using assms by (metis mset.simps(1) mset_zero_iff)
  ultimately show ?thesis by (simp add: decode_chunks_def)
next
  case False
  have "mset (map fst cs) = mset (map fst cs')" using assms by (metis mset_map)
  then have "\<not> distinct (map fst cs')" using False by (metis mset_eq_imp_distinct_iff)
  moreover have "has_adjacent (sort_key fst xs) \<longleftrightarrow> \<not> distinct (map fst xs)" for xs :: "(nat \<times> str) list"
  proof -
    have "mset (map fst (sort_key fst xs)) = mset (map fst xs)" by simp
    then have "distinct (map fst (sort_key fst xs)) = distinct (map fst xs)" by (rule mset_eq_imp_distinct_iff)
    then show ?thesis using has_adjacent_distinct [of "sort_key fst xs"] by simp
  qed
  ultimately show ?thesis using False by (simp add: decode_chunks_def Let_def)
qed

lemma san_chunk_Inl: "san_chunk d prefix san = Inl e \<Longrightarrow> e = Panic ''split_at''"
  by (auto simp: san_chunk_def Let_def split: list.splits if_splits)

lemma collect_chunks_eq:
  "collect_chunks d prefix sans =
     (if list_ex (\<lambda>san. \<not> is_ok (san_chunk d prefix san)) sans then Inl (Panic ''split_at'')
      else Inr (List.map_filter (\<lambda>san. projr (san_chunk d prefix san)) sans))"
proof (induction sans)
  case (Cons san sans)
  show ?case
  proof (cases "san_chunk d prefix san")
    case (Inl e)
    then show ?thesis using san_chunk_Inl [OF Inl] by simp
  next
    case (Inr c)
    then show ?thesis using Cons by (cases c) (auto simp: List.map_filter_simps)
  qed
qed (simp add: List.map_filter_simps)

text \<open>
  The decoded value does not depend on the order in which the certificate lists its names: chunks are
  put in the order of their indices, and an index that occurs twice, wherever, is refused.
\<close>

theorem decode_permutation:
  assumes "mset sans = mset sans'"
  shows "decode_from_sans d sans prefix = decode_from_sans d sans' prefix"
proof -
  have "set sans = set sans'" using assms by (rule mset_eq_setD)
  moreover have m: "mset (List.map_filter f sans) = mset (List.map_filter f sans')" for f :: "str \<Rightarrow> (nat \<times> str) option"
    using assms by (simp add: List.map_filter_def)
  ultimately show ?thesis
    by (simp add: decode_from_sans_def collect_chunks_eq list_ex_iff decode_chunks_mset [OF m])
qed

section \<open>Values that were spread\<close>

text \<open>The name that carries chunk \<open>i\<close>.\<close>

definition chunk_name :: "str \<Rightarrow> str \<Rightarrow> nat \<Rightarrow> str \<Rightarrow> str" where
  "chunk_name prefix domain i chunk =
     [digit_char (i div 10), digit_char (i mod 10)] @ chunk @ ''.'' @ prefix @ ''.'' @ domain"

definition base32_text :: "str \<Rightarrow> bool" where
  "base32_text s \<longleftrightarrow> s \<noteq> [] \<and> list_all (\<lambda>c. is_ascii_digit c \<or> 65 \<le> (of_char c :: nat) \<and> (of_char c :: nat) \<le> 90) s"

lemma base32_props:
  assumes "base32_text s"
  shows "to_uppercase d s = s" "CHR ''.'' \<notin> set s" "is_ascii s"
proof -
  have "is_ascii s" "\<forall>c \<in> set s. upper_char c = c"
    using assms by (auto simp: base32_text_def is_ascii_def list_all_iff upper_char_def is_ascii_digit_def)
  then show "to_uppercase d s = s" "is_ascii s" by (simp_all add: to_uppercase_def map_idI)
  show "CHR ''.'' \<notin> set s" using assms by (auto simp: base32_text_def list_all_iff is_ascii_digit_def)
qed

lemma san_chunk_name:
  assumes "i < 100" and "base32_text chunk" and "CHR ''.'' \<notin> set prefix"
  shows "san_chunk d prefix (chunk_name prefix domain i chunk) = Inr (Some (i, chunk))"
proof -
  let ?label = "digit_char (i div 10) # digit_char (i mod 10) # chunk"
  have d: "is_ascii_digit (digit_char (i div 10))" "is_ascii_digit (digit_char (i mod 10))"
      "(of_char (digit_char (i div 10)) :: nat) = 48 + i div 10" "(of_char (digit_char (i mod 10)) :: nat) = 48 + i mod 10"
    using assms(1) by (simp_all add: is_digit_digit_char of_char_digit_char)
  then have v: "dec_value [digit_char (i div 10), digit_char (i mod 10)] = i" by (simp add: dec_value_def)
  obtain c cs where c: "chunk = c # cs" "(of_char c :: nat) < 128"
    using assms(2) by (cases chunk) (auto simp: base32_text_def is_ascii_digit_def)
  have "\<not> is_ascii_digit (CHR ''.'')" by (simp add: is_ascii_digit_def)
  then have "CHR ''.'' \<notin> set ?label"
    using base32_props(2) [OF assms(2)] d(1,2) by (metis set_ConsD)
  moreover have "chunk_name prefix domain i chunk = ?label @ CHR ''.'' # prefix @ CHR ''.'' # domain"
    by (simp add: chunk_name_def)
  ultimately have "split_on (CHR ''.'') (chunk_name prefix domain i chunk) = ?label # prefix # split_on (CHR ''.'') domain"
    using assms(3) by (auto simp: split_on_append split_on_no_sep)
  then show ?thesis
    using d c v base32_props(1) [OF assms(2)] by (simp add: san_chunk_def is_char_boundary_def)
qed

definition unrelated :: "str \<Rightarrow> str \<Rightarrow> bool" where
  "unrelated prefix san \<longleftrightarrow> (case split_on (CHR ''.'') san of _ # second_label # _ \<Rightarrow> second_label \<noteq> prefix | _ \<Rightarrow> True)"

lemma san_chunk_unrelated: "unrelated prefix san \<Longrightarrow> san_chunk d prefix san = Inr None"
  by (auto simp: unrelated_def san_chunk_def split: list.splits)

lemma collect_chunks_names:
  assumes "\<forall>(i, c) \<in> set ics. i < 100 \<and> base32_text c" and "CHR ''.'' \<notin> set prefix"
  shows "collect_chunks d prefix (map (\<lambda>(i, c). chunk_name prefix domain i c) ics) = Inr ics"
  using assms(1)
proof (induction ics)
  case (Cons ic ics)
  obtain i c where ic: "ic = (i, c)" by force
  have "san_chunk d prefix (chunk_name prefix domain i c) = Inr (Some (i, c))"
    using Cons.prems ic by (intro san_chunk_name assms(2)) auto
  then show ?case using Cons ic by simp
qed simp

lemma collect_chunks_append:
  "collect_chunks d prefix (xs @ ys) = try_bind (collect_chunks d prefix xs) (\<lambda>cs.
     try_bind (collect_chunks d prefix ys) (\<lambda>cs'. Inr (cs @ cs')))"
proof (induction xs)
  case Nil
  then show ?case by (cases "collect_chunks d prefix ys") simp_all
next
  case (Cons x xs)
  then show ?case
    by (cases "san_chunk d prefix x"; cases "collect_chunks d prefix xs"; cases "collect_chunks d prefix ys")
      (auto split: option.splits)
qed

lemma collect_chunks_unrelated: "list_all (unrelated prefix) sans \<Longrightarrow> collect_chunks d prefix sans = Inr []"
  by (induction sans) (simp_all add: san_chunk_unrelated)

text \<open>
  C38. A value spread over up to a hundred names is put together again: whatever the order of the names,
  and whatever names of other kinds the certificate lists among them, decoding gives what the base32
  text of the chunks in their order stands for.
\<close>

theorem decode_spread:
  assumes "cs \<noteq> []" and "length cs \<le> 100" and "list_all base32_text cs" and "CHR ''.'' \<notin> set prefix"
    and "list_all (unrelated prefix) others"
    and "mset sans = mset (map (\<lambda>(i, c). chunk_name prefix domain i c) (enumerate 0 cs) @ others)"
  shows "decode_from_sans d sans prefix = Inr (d_base32 d (concat cs))"
proof -
  let ?ics = "enumerate 0 cs"
  have "\<forall>(i, c) \<in> set ?ics. i < 100 \<and> base32_text c"
    using assms(2,3) by (auto simp: in_set_enumerate_eq list_all_length)
  then have c: "collect_chunks d prefix (map (\<lambda>(i, c). chunk_name prefix domain i c) ?ics @ others) = Inr ?ics"
    by (simp add: collect_chunks_append collect_chunks_names [OF _ assms(4)] collect_chunks_unrelated [OF assms(5)])
  have "set sans = set (map (\<lambda>(i, c). chunk_name prefix domain i c) ?ics @ others)" using assms(6) by (rule mset_eq_setD)
  moreover have "mset (List.map_filter f sans) = mset (List.map_filter f (map (\<lambda>(i, c). chunk_name prefix domain i c) ?ics @ others))"
    for f :: "str \<Rightarrow> (nat \<times> str) option"
  proof -
    have "mset (List.map_filter f xs) = image_mset (the \<circ> f) (filter_mset (\<lambda>x. f x \<noteq> None) (mset xs))" for xs
      by (simp add: List.map_filter_def)
    then show ?thesis using assms(6) by simp
  qed
  ultimately obtain cs' where "collect_chunks d prefix sans = Inr cs'" "mset cs' = mset ?ics"
    using c by (auto simp: collect_chunks_eq list_ex_iff split: if_splits)
  moreover have "?ics \<noteq> []" using assms(1) by (cases cs) simp_all
  moreover have "sort_key fst ?ics = ?ics"
    by (rule sort_key_id_if_sorted) simp
  moreover have "distinct (map fst ?ics)" "sorted (map fst ?ics)" by simp_all
  ultimately have "collect_chunks d prefix sans = Inr cs'" "decode_chunks d cs' = decode_chunks d ?ics"
      "decode_chunks d ?ics = d_base32 d (concat cs)"
    using assms(1) has_adjacent_distinct [of ?ics] decode_chunks_mset [of cs' ?ics d]
    by (simp_all add: decode_chunks_def [of d ?ics] Let_def)
  then show ?thesis by (simp add: decode_from_sans_def)
qed

text \<open>Two chunks in the wrong order and another name.\<close>

definition toy_dcode :: dcode_ext where
  "toy_dcode = \<lparr>d_base32 = (\<lambda>s. Some (as_bytes s)), d_unicode_upper = (\<lambda>s. s)\<rparr>"

lemma decode_permutation_witness:
  "decode_from_sans toy_dcode [''00A.hpke.x'', ''y.z''] ''hpke'' = decode_from_sans toy_dcode [''y.z'', ''00A.hpke.x''] ''hpke''"
  by (rule decode_permutation) simp

lemma decode_spread_witness:
  "decode_from_sans toy_dcode [''01B.hpke.x'', ''y.z'', ''00A.hpke.x''] ''hpke'' = Inr (Some (as_bytes ''AB''))"
proof -
  have "digit_char 0 = CHR ''0''" "digit_char 1 = CHR ''1''" by code_simp+
  then have "mset [''01B.hpke.x'', ''y.z'', ''00A.hpke.x''] =
      mset (map (\<lambda>(i, c). chunk_name ''hpke'' ''x'' i c) (enumerate 0 [''A'', ''B'']) @ [''y.z''])"
    by (simp add: chunk_name_def)
  from decode_spread [OF _ _ _ _ _ this, of toy_dcode] show ?thesis
    by (simp add: base32_text_def unrelated_def toy_dcode_def)
qed

end
