(* ===== verification/Verification_Document.thy ===== *)
theory Verification_Document
  imports Attestation_Types
begin

text \<open>
  \<open>verification_document.rs\<close>: the document a client shows for its verified state.
\<close>

definition VERIFICATION_DOCUMENT_SCHEMA_VERSION :: nat where
  "VERIFICATION_DOCUMENT_SCHEMA_VERSION = 1"

definition PINNED_NO_DIGEST :: str where
  "PINNED_NO_DIGEST = ''pinned_no_digest''"

datatype step_status = Pending | Success | Failed | Skipped

record step_state =
  ss_status :: step_status
  ss_error :: "str option"

record verification_steps =
  vs_fetch_digest :: step_state
  vs_verify_code :: step_state
  vs_verify_enclave :: step_state
  vs_compare_measurements :: step_state
  vs_verify_certificate :: step_state

record document_enclave_measurement =
  de_measurement :: measurement
  de_tls_public_key_fingerprint :: str
  de_hpke_public_key :: str

record verification_document =
  vd_schema_version :: nat
  vd_config_repo :: str
  vd_enclave_host :: str
  vd_release_tag :: "str option"
  vd_release_digest :: str
  vd_code_measurement :: measurement
  vd_enclave_measurement :: document_enclave_measurement
  vd_tls_public_key :: str
  vd_hpke_public_key :: str
  vd_code_fingerprint :: str
  vd_enclave_fingerprint :: str
  vd_selected_router_endpoint :: str
  vd_security_verified :: bool
  vd_verifier :: software_identity
  vd_verified_at :: str
  vd_steps :: verification_steps

definition document_from_ground_truth :: "ground_truth \<Rightarrow> str \<Rightarrow> verification_document option" where
  "document_from_ground_truth gt enclave_host =
     Option.bind (tls_public_key gt) (\<lambda>tls_key.
     Option.bind (hpke_public_key gt) (\<lambda>hpke_key.
     let pinned = (release_digest gt = PINNED_NO_DIGEST);
         successful = \<lparr>ss_status = Success, ss_error = None\<rparr>;
         skipped = \<lparr>ss_status = Skipped, ss_error = None\<rparr> in
     Some \<lparr>vd_schema_version = VERIFICATION_DOCUMENT_SCHEMA_VERSION, vd_config_repo = config_repo gt,
       vd_enclave_host = enclave_host, vd_release_tag = release_tag gt, vd_release_digest = release_digest gt,
       vd_code_measurement = code_measurement gt,
       vd_enclave_measurement = \<lparr>de_measurement = enclave_measurement gt,
         de_tls_public_key_fingerprint = tls_key, de_hpke_public_key = hpke_key\<rparr>,
       vd_tls_public_key = tls_key, vd_hpke_public_key = hpke_key,
       vd_code_fingerprint = code_fingerprint gt, vd_enclave_fingerprint = enclave_fingerprint gt,
       vd_selected_router_endpoint = enclave_host, vd_security_verified = True,
       vd_verifier = gt_verifier gt, vd_verified_at = verified_at gt,
       vd_steps = \<lparr>vs_fetch_digest = if pinned then skipped else successful,
         vs_verify_code = if pinned then skipped else successful,
         vs_verify_enclave = successful, vs_compare_measurements = successful, vs_verify_certificate = successful\<rparr>\<rparr>))"

end
