(* ===== verification/Client.thy ===== *)
theory Client
  imports Attestation Tls Dcode Ehbp Cache_Secret Verification_Document
begin

text \<open>
  \<open>client.rs\<close>: the secure client with its trust state, the binding of the TLS certificate to the
  attestation, router discovery with its fallback, and the OpenAI client built on top. A function that
  changes the client returns it; the disk of the VCEK cache is threaded through.
\<close>

text \<open>What a client runs on: a verification environment, the TLS library, a handshake with a host
  that gives the peer's certificates, the decoder of the DNS names, the EHBP crate, and the builder
  of a JSON request (address, bearer token, body) and its exchange over a pinned client.\<close>

record ('c, 'r) client_env =
  k_verify :: verify_env
  k_tls :: tls_ext
  k_handshake :: "str \<Rightarrow> str + bytes list option"
  k_dcode :: dcode_ext
  k_ehbp :: "('c, 'r) ehbp_ext"
  k_request :: "str \<Rightarrow> str \<Rightarrow> json \<Rightarrow> str + http_request"
  k_send :: "http_client \<Rightarrow> http_request \<Rightarrow> str + 'r"

record 'c secure_client =
  sc_host :: str
  sc_repo :: str
  sc_api_key :: str
  sc_pinned_measurement :: "measurement option"
  sc_ground_truth :: "ground_truth option"
  sc_pinned_client :: "bound_client option"
  sc_proxy_url :: "str option"
  sc_ehbp :: "'c ehbp_proxy option"
  sc_refresher :: bool

definition DEFAULT_ROUTER :: str where "DEFAULT_ROUTER = ''inference.tinfoil.sh''"

definition DEFAULT_REPO :: str where "DEFAULT_REPO = ''tinfoilsh/confidential-model-router''"

definition new_secure_client :: "str \<Rightarrow> str \<Rightarrow> str \<Rightarrow> 'c secure_client" where
  "new_secure_client host repo api_key = \<lparr>sc_host = host, sc_repo = repo, sc_api_key = api_key,
     sc_pinned_measurement = None, sc_ground_truth = None, sc_pinned_client = None,
     sc_proxy_url = None, sc_ehbp = None, sc_refresher = False\<rparr>"

definition new_with_proxy :: "str \<Rightarrow> str \<Rightarrow> str \<Rightarrow> str \<Rightarrow> 'c secure_client" where
  "new_with_proxy host repo api_key proxy_url = (new_secure_client host repo api_key)\<lparr>sc_proxy_url := Some proxy_url\<rparr>"

definition with_measurement :: "str \<Rightarrow> str \<Rightarrow> measurement \<Rightarrow> 'c secure_client" where
  "with_measurement host api_key m = \<lparr>sc_host = host, sc_repo = [], sc_api_key = api_key,
     sc_pinned_measurement = Some m, sc_ground_truth = None, sc_pinned_client = None,
     sc_proxy_url = None, sc_ehbp = None, sc_refresher = False\<rparr>"

definition base_url :: "'c secure_client \<Rightarrow> str" where
  "base_url sc = ''https://'' @ sc_host sc"

definition request_base_url :: "'c secure_client \<Rightarrow> str" where
  "request_base_url sc = (case sc_ehbp sc of Some p \<Rightarrow> px_base_url p | None \<Rightarrow> base_url sc)"

section \<open>What the client shows\<close>

definition is_verified :: "'c secure_client \<Rightarrow> bool" where
  "is_verified sc \<longleftrightarrow> sc_pinned_client sc \<noteq> None \<and>
     (case sc_ehbp sc of
        None \<Rightarrow> sc_ground_truth sc \<noteq> None
      | Some p \<Rightarrow> verified_ground_truth (px_channel p) \<noteq> None)"

definition client_ground_truth :: "'c secure_client \<Rightarrow> ground_truth option" where
  "client_ground_truth sc = (case sc_pinned_client sc of
     None \<Rightarrow> None
   | Some _ \<Rightarrow> (case sc_ehbp sc of
       Some p \<Rightarrow> verified_ground_truth (px_channel p)
     | None \<Rightarrow> sc_ground_truth sc))"

definition client_document :: "'c secure_client \<Rightarrow> verification_document option" where
  "client_document sc = Option.bind (client_ground_truth sc) (\<lambda>gt. document_from_ground_truth gt (sc_host sc))"

definition not_verified :: error where
  "not_verified = Configuration ''Client not verified - call verify() first''"

definition http_client :: "'c secure_client \<Rightarrow> bound_client res" where
  "http_client sc =
     (if sc_ehbp sc \<noteq> None then Inl (Configuration ''http_client() is unavailable in EHBP proxy mode'')
      else ok_or not_verified (sc_pinned_client sc))"

definition pinned_http_client :: "'c secure_client \<Rightarrow> http_client res" where
  "pinned_http_client sc = ok_or not_verified (map_option bc_transport (sc_pinned_client sc))"

section \<open>The certificate and the attestation\<close>

definition OID_EC_PUBLIC_KEY :: str where "OID_EC_PUBLIC_KEY = ''1.2.840.10045.2.1''"

definition is_all_zeros :: "str \<Rightarrow> bool" where
  "is_all_zeros key \<longleftrightarrow> list_all (\<lambda>c. c = CHR ''0'') key"

definition dns_names :: "tls_cert \<Rightarrow> str list" where
  "dns_names cert = (case tc_san cert of
     None \<Rightarrow> []
   | Some ns \<Rightarrow> List.map_filter (\<lambda>n. case n of DnsName d \<Rightarrow> Some d | OtherName \<Rightarrow> None) ns)"

text \<open>Check 2: the HPKE key in the names is the attested one, unless that is absent or zero.\<close>

definition check_hpke_names :: "('c, 'r) client_env \<Rightarrow> str list \<Rightarrow> str option \<Rightarrow> unit res" where
  "check_hpke_names env sans expected_hpke_key = (case expected_hpke_key of
     None \<Rightarrow> Inr ()
   | Some expected \<Rightarrow>
       if is_all_zeros expected then Inr ()
       else try_bind (decode_from_sans (k_dcode env) sans ''hpke'') (\<lambda>decoded.
         try_bind (ok_or (Tls ''Certificate SANs do not contain HPKE key (.hpke. entries)'') decoded) (\<lambda>hpke.
         if t_hex (k_tls env) hpke \<noteq> expected then Inl (Tls ''HPKE key mismatch'') else Inr ())))"

text \<open>Check 3: the hash of the attestation document is in the names.\<close>

definition check_hash_names :: "('c, 'r) client_env \<Rightarrow> str list \<Rightarrow> attestation_document \<Rightarrow> unit res" where
  "check_hash_names env sans doc =
     try_bind (decode_from_sans (k_dcode env) sans ''hatt'') (\<lambda>decoded.
     try_bind (ok_or (Tls ''Certificate SANs do not contain attestation hash (.hatt. entries)'') decoded) (\<lambda>hash_bytes.
     try_bind (ok_or (Tls ''Invalid UTF-8 in attestation hash SAN'') (from_utf8 hash_bytes)) (\<lambda>actual.
     if actual \<noteq> document_hash (t_sha256 (k_tls env)) (t_hex (k_tls env)) doc
     then Inl (Tls ''Attestation hash mismatch'') else Inr ())))"

definition verify_tls_binding ::
  "('c, 'r) client_env \<Rightarrow> str \<Rightarrow> str \<Rightarrow> str option \<Rightarrow> attestation_document \<Rightarrow> unit res" where
  "verify_tls_binding env host expected_fingerprint expected_hpke_key doc =
     try_bind (map_err Tls (k_handshake env host)) (\<lambda>peer.
     try_bind (ok_or (Tls ''No peer certificates'') peer) (\<lambda>certs.
     case certs of
       [] \<Rightarrow> Inl (Tls ''Empty certificate chain'')
     | end_entity # _ \<Rightarrow>
         try_bind (ok_or (Tls ''Failed to parse peer certificate'') (t_cert (k_tls env) end_entity)) (\<lambda>cert.
         if tc_key_oid cert \<noteq> OID_EC_PUBLIC_KEY then Inl (Tls ''TLS peer certificate key is not ECDSA'')
         else try_bind (cert_pubkey_fingerprint (k_tls env) end_entity) (\<lambda>actual.
         if actual \<noteq> expected_fingerprint then Inl CertificateMismatch
         else try_bind (check_hpke_names env (dns_names cert) expected_hpke_key) (\<lambda>_.
         check_hash_names env (dns_names cert) doc)))))"

section \<open>Verification\<close>

type_synonym attested = "measurement \<times> str \<times> str option \<times> verification"

definition code_measurement_of :: "('c, 'r) client_env \<Rightarrow> str \<Rightarrow> measurement option \<Rightarrow> (measurement \<times> str \<times> str option) res" where
  "code_measurement_of env repo pinned = (case pinned of
     Some m \<Rightarrow> Inr (m, PINNED_NO_DIGEST, None)
   | None \<Rightarrow> try_bind (verify_repo (a_sig (k_verify env)) (a_cms (k_verify env)) (a_web (k_verify env)) repo) (\<lambda>sr.
       Inr (sr_measurement sr, sr_digest sr, Some (sr_release_tag sr))))"

definition verify_attestation ::
  "('c, 'r) client_env \<Rightarrow> str \<Rightarrow> str \<Rightarrow> measurement option \<Rightarrow> disk \<Rightarrow> disk \<times> attested res" where
  "verify_attestation env host repo pinned d = (case code_measurement_of env repo pinned of
     Inl e \<Rightarrow> (d, Inl e)
   | Inr (code, digest, tag) \<Rightarrow> (case fetch_document (k_verify env) host of
       Inl e \<Rightarrow> (d, Inl e)
     | Inr doc \<Rightarrow> (case verify_full (a_sev (k_verify env)) doc d of
         (d', Inl e) \<Rightarrow> (d', Inl e)
       | (d', Inr v) \<Rightarrow>
           (let sha = s_sha256 (a_sig (k_verify env)); hex = s_hex (a_sig (k_verify env)) in
           (d', try_bind (map_err (\<lambda>_. MeasurementMismatch (fingerprint sha hex code) (fingerprint sha hex (v_measurement v)))
                 (equals code (v_measurement v))) (\<lambda>_.
               try_bind (verify_tls_binding env host (v_tls_public_key_fp v) (v_hpke_public_key v) doc) (\<lambda>_.
               Inr (code, digest, tag, v))))))))"

definition build_ground_truth :: "('c, 'r) client_env \<Rightarrow> str \<Rightarrow> attested \<Rightarrow> ground_truth" where
  "build_ground_truth env repo a = (case a of (code, digest, tag, v) \<Rightarrow>
     (let sha = s_sha256 (a_sig (k_verify env)); hex = s_hex (a_sig (k_verify env)) in
     \<lparr>config_repo = repo, release_tag = tag, release_digest = digest,
      tls_public_key = Some (v_tls_public_key_fp v), hpke_public_key = v_hpke_public_key v,
      code_measurement = code, enclave_measurement = v_measurement v,
      code_fingerprint = fingerprint_for_target sha hex code (m_type (v_measurement v)),
      enclave_fingerprint = fingerprint sha hex (v_measurement v),
      gt_verifier = verifier_identity (a_version (k_verify env)), verified_at = a_now (k_verify env)\<rparr>))"

definition require_hpke_public_key :: "verification \<Rightarrow> str res" where
  "require_hpke_public_key v =
     ok_or (Ehbp ''enclave attestation does not include an HPKE public key'')
       (case v_hpke_public_key v of Some key \<Rightarrow> if is_all_zeros key then None else Some key | None \<Rightarrow> None)"

definition verify_rotated_state ::
  "('c, 'r) client_env \<Rightarrow> str \<Rightarrow> str \<Rightarrow> measurement option \<Rightarrow> disk \<Rightarrow> disk \<times> refreshed_state res" where
  "verify_rotated_state env host repo pinned d = (case verify_attestation env host repo pinned d of
     (d', Inl e) \<Rightarrow> (d', Inl e)
   | (d', Inr a) \<Rightarrow> (d', try_bind (require_hpke_public_key (snd (snd (snd a)))) (\<lambda>key.
       Inr \<lparr>rs_key = key, rs_ground_truth = Some (build_ground_truth env repo a)\<rparr>)))"

definition clear_trust :: "'c secure_client \<Rightarrow> 'c secure_client" where
  "clear_trust sc = sc\<lparr>sc_pinned_client := None,
     sc_ehbp := map_option (\<lambda>p. p\<lparr>px_channel := revoke (px_channel p)\<rparr>) (sc_ehbp sc), sc_ground_truth := None\<rparr>"

text \<open>Step 5b: the proxy transport of the verified state, in proxy mode.\<close>

definition build_transport ::
  "('c, 'r) client_env \<Rightarrow> 'c secure_client \<Rightarrow> verification \<Rightarrow> ground_truth \<Rightarrow> 'c ehbp_proxy option res" where
  "build_transport env sc v gt = (case sc_proxy_url sc of
     None \<Rightarrow> Inr None
   | Some proxy_url \<Rightarrow>
       try_bind (require_hpke_public_key v) (\<lambda>key.
       try_bind (case sc_ehbp sc of Some p \<Rightarrow> Inr p | None \<Rightarrow> new_proxy (k_ehbp env) proxy_url (base_url sc) key) (\<lambda>p.
       case install_verified_state (k_ehbp env) (px_base_url p) key gt (px_channel p) of
         (ch, r) \<Rightarrow> try_bind r (\<lambda>_. Inr (Some (p\<lparr>px_channel := ch\<rparr>))))))"

definition commit_verified :: "('c, 'r) client_env \<Rightarrow> 'c secure_client \<Rightarrow> attested \<Rightarrow> ('c secure_client \<times> ground_truth) res" where
  "commit_verified env sc a =
     try_bind (ok_or (Configuration ''Invalid enclave origin'') (t_parse_url (k_tls env) (base_url sc))) (\<lambda>origin.
     let v = snd (snd (snd a)) in
     try_bind (create_host_bound_pinned_client (k_tls env) (v_tls_public_key_fp v) origin) (\<lambda>pinned.
     let gt = build_ground_truth env (sc_repo sc) a in
     try_bind (build_transport env sc v gt) (\<lambda>ehbp.
     Inr (sc\<lparr>sc_pinned_client := Some pinned, sc_ehbp := ehbp,
            sc_refresher := (ehbp \<noteq> None \<or> sc_refresher sc),
            sc_ground_truth := (if ehbp = None then Some gt else None)\<rparr>, gt))))"

definition verify_client ::
  "('c, 'r) client_env \<Rightarrow> 'c secure_client \<Rightarrow> disk \<Rightarrow> ('c secure_client \<times> disk) \<times> ground_truth res" where
  "verify_client env sc d =
     (let sc0 = clear_trust sc in
      case verify_attestation env (sc_host sc) (sc_repo sc) (sc_pinned_measurement sc) d of
        (d', Inl e) \<Rightarrow> ((sc0, d'), Inl e)
      | (d', Inr a) \<Rightarrow> (case commit_verified env sc0 a of
          Inl e \<Rightarrow> ((sc0, d'), Inl e)
        | Inr (sc', gt) \<Rightarrow> ((sc', d'), Inr gt)))"

section \<open>Router discovery\<close>

text \<open>The clients of \<open>routers\<close> in order, the first that verifies; \<open>None\<close> when none does.\<close>

fun first_verified ::
  "('c, 'r) client_env \<Rightarrow> str \<Rightarrow> str list \<Rightarrow> disk \<Rightarrow> disk \<times> 'c secure_client option" where
  "first_verified env api_key [] d = (d, None)"
| "first_verified env api_key (router # routers) d =
     (case verify_client env (new_secure_client router DEFAULT_REPO api_key) d of
        ((sc, d'), Inr _) \<Rightarrow> (d', Some sc)
      | ((_, d'), Inl _) \<Rightarrow> first_verified env api_key routers d')"

definition verified_default ::
  "('c, 'r) client_env \<Rightarrow> str \<Rightarrow> disk \<Rightarrow> disk \<times> 'c secure_client res" where
  "verified_default env api_key d =
     (case verify_client env (new_secure_client DEFAULT_ROUTER DEFAULT_REPO api_key) d of
        ((sc, d'), r) \<Rightarrow> (d', try_bind r (\<lambda>_. Inr sc)))"

definition new_default_client :: "('c, 'r) client_env \<Rightarrow> str \<Rightarrow> disk \<Rightarrow> disk \<times> 'c secure_client res" where
  "new_default_client env api_key d = (case fetch_routers (k_verify env) of
     Inl _ \<Rightarrow> verified_default env api_key d
   | Inr routers \<Rightarrow> (case first_verified env api_key routers d of
       (d', Some sc) \<Rightarrow> (d', Inr sc)
     | (d', None) \<Rightarrow> verified_default env api_key d'))"

section \<open>Requests\<close>

text \<open>
  \<open>post_json\<close>. In proxy mode the refresher is the re-verification; it runs, and touches the disk of
  the cache, exactly when the channel was rejected, which changes its generation.
\<close>

definition post_json ::
  "('c, 'r) client_env \<Rightarrow> 'c secure_client \<Rightarrow> disk \<Rightarrow> str \<Rightarrow> json \<Rightarrow> ('c secure_client \<times> disk) \<times> 'r res" where
  "post_json env sc d path body = (case sc_ehbp sc of
     Some p \<Rightarrow>
       (case verify_rotated_state env (sc_host sc) (sc_repo sc) (sc_pinned_measurement sc) d of
          (d', refreshed) \<Rightarrow>
            (case send_replayable (k_ehbp env) (px_base_url p) (px_enclave_url p)
                 (if sc_refresher sc then Some refreshed else None)
                 (\<lambda>_. map_err Http (k_request env (px_base_url p @ path) (sc_api_key sc) body)) (px_channel p) of
               (ch, r) \<Rightarrow>
                 ((sc\<lparr>sc_ehbp := Some (p\<lparr>px_channel := ch\<rparr>)\<rparr>,
                   if sc_refresher sc \<and> ch_generation ch \<noteq> ch_generation (px_channel p) then d' else d), r)))
   | None \<Rightarrow> ((sc, d),
       try_bind (pinned_http_client sc) (\<lambda>c.
       try_bind (map_err Http (k_request env (base_url sc @ path) (sc_api_key sc) body)) (\<lambda>q.
       map_err Http (k_send env c q)))))"

section \<open>The OpenAI client\<close>

text \<open>
  Below the retry layer and the injection of the cache secret the typed client has either the proxy,
  whose channel it shares with the secure client, or the pinned client it was built with.
\<close>

datatype openai_transport = Over_Proxy | Over_Tls http_client

record openai =
  oa_api_key :: str
  oa_api_base :: str
  oa_transport :: openai_transport

record 'c client =
  cl_openai :: openai
  cl_secure :: "'c secure_client"
  cl_secret :: secret_source

definition build_openai :: "'c secure_client \<Rightarrow> str \<Rightarrow> openai res" where
  "build_openai sc api_key = (let api_base = request_base_url sc @ ''/v1'' in
     case sc_ehbp sc of
       Some _ \<Rightarrow> Inr \<lparr>oa_api_key = api_key, oa_api_base = api_base, oa_transport = Over_Proxy\<rparr>
     | None \<Rightarrow> try_bind (pinned_http_client sc) (\<lambda>http.
         Inr \<lparr>oa_api_key = api_key, oa_api_base = api_base, oa_transport = Over_Tls http\<rparr>))"

definition from_secure_client :: "'c secure_client \<Rightarrow> str \<Rightarrow> 'c client res" where
  "from_secure_client sc api_key = try_bind (build_openai sc api_key) (\<lambda>openai.
     Inr \<lparr>cl_openai = openai, cl_secure = sc, cl_secret = deferred\<rparr>)"

definition verified_then_built ::
  "('c, 'r) client_env \<Rightarrow> 'c secure_client \<Rightarrow> str \<Rightarrow> disk \<Rightarrow> disk \<times> 'c client res" where
  "verified_then_built env sc api_key d = (case verify_client env sc d of
     ((sc', d'), r) \<Rightarrow> (d', try_bind r (\<lambda>_. from_secure_client sc' api_key)))"

definition client_new :: "('c, 'r) client_env \<Rightarrow> str \<Rightarrow> str \<Rightarrow> str \<Rightarrow> disk \<Rightarrow> disk \<times> 'c client res" where
  "client_new env enclave repo api_key =
     verified_then_built env (new_secure_client enclave repo api_key) api_key"

definition client_new_with_proxy ::
  "('c, 'r) client_env \<Rightarrow> str \<Rightarrow> str \<Rightarrow> str \<Rightarrow> str \<Rightarrow> disk \<Rightarrow> disk \<times> 'c client res" where
  "client_new_with_proxy env enclave repo api_key proxy_url =
     verified_then_built env (new_with_proxy enclave repo api_key proxy_url) api_key"

definition client_new_default_with_api_key :: "('c, 'r) client_env \<Rightarrow> str \<Rightarrow> disk \<Rightarrow> disk \<times> 'c client res" where
  "client_new_default_with_api_key env api_key d = (case new_default_client env api_key d of
     (d', r) \<Rightarrow> (d', try_bind r (\<lambda>sc. from_secure_client sc api_key)))"

definition client_new_default :: "('c, 'r) client_env \<Rightarrow> str option \<Rightarrow> disk \<Rightarrow> disk \<times> 'c client res" where
  "client_new_default env tinfoil_api_key d = (case tinfoil_api_key of
     None \<Rightarrow> (d, Inl (Configuration ''TINFOIL_API_KEY environment variable is not set. Set it or use Client::new_default_with_api_key().''))
   | Some api_key \<Rightarrow> client_new_default_with_api_key env api_key d)"

text \<open>\<open>Client::verify\<close>: the typed client is replaced only after a successful verification.\<close>

definition client_verify ::
  "('c, 'r) client_env \<Rightarrow> 'c client \<Rightarrow> disk \<Rightarrow> ('c client \<times> disk) \<times> ground_truth res" where
  "client_verify env cl d = (case verify_client env (cl_secure cl) d of
     ((sc, d'), Inl e) \<Rightarrow> ((cl\<lparr>cl_secure := sc\<rparr>, d'), Inl e)
   | ((sc, d'), Inr gt) \<Rightarrow> (case build_openai sc (sc_api_key sc) of
       Inl e \<Rightarrow> ((cl\<lparr>cl_secure := sc\<rparr>, d'), Inl e)
     | Inr openai \<Rightarrow> ((cl\<lparr>cl_secure := sc, cl_openai := openai\<rparr>, d'), Inr gt)))"

section \<open>Embeddings\<close>

text \<open>The vectors of a batch in the order of their indices, the sort being stable.\<close>

definition embed_order :: "(nat \<times> 'v) list \<Rightarrow> 'v list" where
  "embed_order data = map snd (sort_key fst data)"

definition embed_batch :: "(openai_error + (nat \<times> 'v) list) \<Rightarrow> openai_error + 'v list" where
  "embed_batch answer = try_bind answer (\<lambda>data. Inr (embed_order data))"

end
