(* ===== verification/Client_Properties.thy ===== *)
theory Client_Properties
  imports Client Ehbp_Properties Attestation_Properties
begin

text \<open>
  What a client of \<open>client.rs\<close> may be trusted with: after every operation its pinned connection, its
  sealing key and the ground truth it shows come from an attestation that held, and a failed
  verification leaves nothing to send with.
\<close>

section \<open>What an accepted attestation says\<close>

definition tls_bound :: "('c, 'r) client_env \<Rightarrow> str \<Rightarrow> str \<Rightarrow> str option \<Rightarrow> attestation_document \<Rightarrow> bool" where
  "tls_bound env host fp hpke doc \<longleftrightarrow> (\<exists>end_entity others cert h.
     k_handshake env host = Inr (Some (end_entity # others)) \<and> t_cert (k_tls env) end_entity = Some cert \<and>
     tc_key_oid cert = OID_EC_PUBLIC_KEY \<and> cert_pubkey_fingerprint (k_tls env) end_entity = Inr fp \<and>
     (\<forall>key. hpke = Some key \<and> \<not> is_all_zeros key \<longrightarrow> (\<exists>b.
        decode_from_sans (k_dcode env) (dns_names cert) ''hpke'' = Inr (Some b) \<and> t_hex (k_tls env) b = key)) \<and>
     decode_from_sans (k_dcode env) (dns_names cert) ''hatt'' = Inr (Some h) \<and>
     from_utf8 h = Some (document_hash (t_sha256 (k_tls env)) (t_hex (k_tls env)) doc))"

definition attestation_holds ::
  "('c, 'r) client_env \<Rightarrow> str \<Rightarrow> str \<Rightarrow> measurement option \<Rightarrow> attested \<Rightarrow> bool" where
  "attestation_holds env host repo pinned a \<longleftrightarrow> (case a of (code, digest, tag, v) \<Rightarrow>
     code_measurement_of env repo pinned = Inr (code, digest, tag) \<and> equals code (v_measurement v) = Inr () \<and>
     (\<exists>doc d d'. fetch_document (k_verify env) host = Inr doc \<and>
        verify_full (a_sev (k_verify env)) doc d = (d', Inr v) \<and>
        tls_bound env host (v_tls_public_key_fp v) (v_hpke_public_key v) doc))"

lemma cons_case_Inr:
  "(case xs of [] \<Rightarrow> Inl e | x # ys \<Rightarrow> f x ys) = Inr y \<longleftrightarrow> (\<exists>x ys. xs = x # ys \<and> f x ys = Inr y)"
  by (cases xs) auto

lemma check_hpke_names_Inr [result_inv]:
  "check_hpke_names env sans hpke = Inr () \<longleftrightarrow>
     (\<forall>key. hpke = Some key \<and> \<not> is_all_zeros key \<longrightarrow> (\<exists>b.
        decode_from_sans (k_dcode env) sans ''hpke'' = Inr (Some b) \<and> t_hex (k_tls env) b = key))"
  by (auto simp: check_hpke_names_def result_inv split: option.splits)

lemma check_hash_names_Inr [result_inv]:
  "check_hash_names env sans doc = Inr () \<longleftrightarrow>
     (\<exists>h. decode_from_sans (k_dcode env) sans ''hatt'' = Inr (Some h) \<and>
        from_utf8 h = Some (document_hash (t_sha256 (k_tls env)) (t_hex (k_tls env)) doc))"
  by (auto simp: check_hash_names_def result_inv)

lemma verify_tls_binding_Inr: "verify_tls_binding env host fp hpke doc = Inr () \<longleftrightarrow> tls_bound env host fp hpke doc"
  unfolding verify_tls_binding_def tls_bound_def by (auto simp: result_inv cons_case_Inr simp del: cert_pubkey_fingerprint_Inr)

lemma verify_attestation_Inr:
  assumes "verify_attestation env host repo pinned d = (d', Inr a)"
  shows "attestation_holds env host repo pinned a"
proof -
  obtain code digest tag doc v where
    "code_measurement_of env repo pinned = Inr (code, digest, tag)" "fetch_document (k_verify env) host = Inr doc"
    "verify_full (a_sev (k_verify env)) doc d = (d', Inr v)" "equals code (v_measurement v) = Inr ()"
    "verify_tls_binding env host (v_tls_public_key_fp v) (v_hpke_public_key v) doc = Inr ()" "a = (code, digest, tag, v)"
    using assms by (auto simp: verify_attestation_def Let_def result_inv split: sum.splits prod.splits)
  then show ?thesis by (auto simp: attestation_holds_def verify_tls_binding_Inr)
qed

section \<open>Verification of a client\<close>

lemma install_state_Inr_iff [result_inv]:
  "install_state h b r ch = (ch', Inr ()) \<longleftrightarrow> (\<exists>c. h_connect h b (rs_key r) = Inr c \<and> ch' = set_active c r ch)"
  by (simp add: install_state_Inr)

lemma prod_case_Inr:
  "(case p of (x, r) \<Rightarrow> try_bind r (\<lambda>_. Inr (f x))) = Inr y \<longleftrightarrow> (\<exists>x. p = (x, Inr ()) \<and> y = f x)"
  by (cases p; cases "snd p") auto

definition proxy_ok :: "('c, 'r) client_env \<Rightarrow> 'c secure_client \<Rightarrow> 'c ehbp_proxy \<Rightarrow> bool" where
  "proxy_ok env sc p \<longleftrightarrow> (\<exists>u. sc_proxy_url sc = Some u \<and> px_base_url p = trim_slashes u) \<and> px_enclave_url p = base_url sc \<and>
     validate_proxy_url (h_parse_url (k_ehbp env)) (px_base_url p) = Inr ()"

lemma new_proxy_Inr:
  assumes "new_proxy h u e key = Inr p"
  shows "px_base_url p = trim_slashes u \<and> px_enclave_url p = e \<and>
    validate_proxy_url (h_parse_url h) (trim_slashes u) = Inr ()"
  using assms by (auto simp: new_proxy_def rekey_def try_bind_Inr_iff guard_Inr_iff prod_case_Inr)

lemma build_transport_Inr:
  assumes "build_transport env sc v gt = Inr t"
  shows "case t of
      None \<Rightarrow> sc_proxy_url sc = None
    | Some p \<Rightarrow> (case sc_ehbp sc of
          Some p0 \<Rightarrow> px_base_url p = px_base_url p0 \<and> px_enclave_url p = px_enclave_url p0
        | None \<Rightarrow> proxy_ok env sc p) \<and> sc_proxy_url sc \<noteq> None \<and>
        (\<exists>key c. require_hpke_public_key v = Inr key \<and> h_connect (k_ehbp env) (px_base_url p) key = Inr c \<and>
           ch_client (px_channel p) = Some c \<and> ch_ground_truth (px_channel p) = Some gt)"
proof (cases "sc_proxy_url sc")
  case None
  then show ?thesis using assms by (auto simp: build_transport_def)
next
  case (Some u)
  then obtain key p0 c where t: "require_hpke_public_key v = Inr key"
      "(case sc_ehbp sc of Some p \<Rightarrow> Inr p | None \<Rightarrow> new_proxy (k_ehbp env) u (base_url sc) key) = Inr p0"
      "h_connect (k_ehbp env) (px_base_url p0) key = Inr c"
      "t = Some (p0\<lparr>px_channel := set_active c \<lparr>rs_key = key, rs_ground_truth = Some gt\<rparr> (px_channel p0)\<rparr>)"
    using assms by (auto simp: build_transport_def install_verified_state_def result_inv prod_case_Inr)
  then show ?thesis
    using Some new_proxy_Inr [of "k_ehbp env" u "base_url sc" key p0]
    by (cases "sc_ehbp sc") (auto simp: proxy_ok_def)
qed

lemma commit_verified_Inr:
  assumes "commit_verified env sc a = Inr (sc', gt)"
  obtains origin pinned ehbp where "t_parse_url (k_tls env) (base_url sc) = Some origin"
    "create_host_bound_pinned_client (k_tls env) (v_tls_public_key_fp (snd (snd (snd a)))) origin = Inr pinned"
    "gt = build_ground_truth env (sc_repo sc) a" "build_transport env sc (snd (snd (snd a))) gt = Inr ehbp"
    "sc' = sc\<lparr>sc_pinned_client := Some pinned, sc_ehbp := ehbp, sc_refresher := (ehbp \<noteq> None \<or> sc_refresher sc),
       sc_ground_truth := (if ehbp = None then Some gt else None)\<rparr>"
  using assms that unfolding commit_verified_def Let_def
  by (auto simp: try_bind_Inr_iff ok_or_Inr_iff)

lemma verify_client_Inr:
  assumes "verify_client env sc d = ((sc', d'), Inr gt)"
  obtains a where "attestation_holds env (sc_host sc) (sc_repo sc) (sc_pinned_measurement sc) a"
    "commit_verified env (clear_trust sc) a = Inr (sc', gt)"
  using assms that verify_attestation_Inr unfolding verify_client_def Let_def
  by (fastforce split: prod.splits sum.splits)

lemma verify_client_Inl:
  assumes "verify_client env sc d = ((sc', d'), Inl e)"
  shows "sc' = clear_trust sc"
  using assms unfolding verify_client_def Let_def by (auto split: prod.splits sum.splits)

lemma clear_trust_fields [simp]:
  "sc_host (clear_trust sc) = sc_host sc" "sc_repo (clear_trust sc) = sc_repo sc"
  "sc_api_key (clear_trust sc) = sc_api_key sc" "sc_proxy_url (clear_trust sc) = sc_proxy_url sc"
  "sc_pinned_measurement (clear_trust sc) = sc_pinned_measurement sc"
  "sc_refresher (clear_trust sc) = sc_refresher sc" "sc_pinned_client (clear_trust sc) = None"
  "sc_ground_truth (clear_trust sc) = None"
  "sc_ehbp (clear_trust sc) = map_option (\<lambda>p. p\<lparr>px_channel := clear_channel (px_channel p)\<rparr>) (sc_ehbp sc)"
  "base_url (clear_trust sc) = base_url sc"
  by (simp_all add: clear_trust_def base_url_def revoke_def)

section \<open>Sending\<close>

lemma send_replayable_revoked:
  assumes "ch_client ch = None"
  shows "\<exists>e. send_replayable h b u refresher build ch = (ch, Inl e)"
proof -
  have *: "\<exists>e. ehbp_send h u 0 ch q = Inl (Ehbp e)" for q
    using assms by (auto simp: ehbp_send_def prepare_send_def)
  show ?thesis
  proof (cases "build 0")
    case (Inr q)
    obtain e where "ehbp_send h u 0 ch q = Inl (Ehbp e)" using * by blast
    then show ?thesis using Inr by (simp add: send_replayable_def)
  qed (simp add: send_replayable_def)
qed

text \<open>What a request may leave the channel as.\<close>

definition keyed_by :: "('c, 'r) ehbp_ext \<Rightarrow> str \<Rightarrow> refreshed_state \<Rightarrow> 'c ehbp_channel \<Rightarrow> bool" where
  "keyed_by h b rs ch \<longleftrightarrow> (\<exists>c. h_connect h b (rs_key rs) = Inr c \<and> ch_client ch = Some c \<and> ch_ground_truth ch = rs_ground_truth rs)"

lemma refresh_after_mismatch_channel:
  assumes "refresh_after_mismatch h b refresher g ch = (ch', r)"
  shows "ch' = ch \<or> ch_client ch' = None \<or> (\<exists>rs. refresher = Some (Inr rs) \<and> keyed_by h b rs ch')"
  using assms
  by (auto simp: refresh_after_mismatch_def reject_if_generation_Some keyed_by_def
      split: option.splits sum.splits elim!: install_refreshed_cases)

lemma mismatch_case:
  "(case first of Inl (EhbpKeyMismatch _) \<Rightarrow> x | _ \<Rightarrow> y) = x \<or> (case first of Inl (EhbpKeyMismatch _) \<Rightarrow> x | _ \<Rightarrow> y) = y"
  by (cases first) (simp_all split: error.splits)

lemma send_replayable_channel:
  assumes "send_replayable h b u refresher build ch = (ch', r)"
  shows "ch' = ch \<or> ch_client ch \<noteq> None \<and>
    (ch_client ch' = None \<or> (\<exists>rs. refresher = Some (Inr rs) \<and> keyed_by h b rs ch'))"
proof (cases "ch' = ch")
  case False
  then have "ch_client ch \<noteq> None" using assms send_replayable_revoked [of ch h b u refresher build] by auto
  moreover have "fst (refresh_after_mismatch h b refresher (ch_generation ch) ch) = ch'"
  proof (cases "build 0")
    case (Inr q)
    then have "ch' = fst (retry_after_mismatch h b refresher (ch_generation ch) (ehbp_send h u 0 ch q)
        (\<lambda>ch'. try_bind (build 1) (ehbp_send h u 1 ch')) ch)"
      using assms by (simp add: send_replayable_def)
    then show ?thesis using False mismatch_case unfolding retry_after_mismatch_channel by metis
  qed (use assms False in \<open>simp add: send_replayable_def\<close>)
  then obtain x where "refresh_after_mismatch h b refresher (ch_generation ch) ch = (ch', x)"
    by (cases "refresh_after_mismatch h b refresher (ch_generation ch) ch") simp
  ultimately show ?thesis
    using refresh_after_mismatch_channel [of h b refresher "ch_generation ch" ch ch' x] False by simp
qed simp

lemma post_json_cases:
  assumes "post_json env sc d path body = ((sc', d'), r)"
  obtains "sc_ehbp sc = None" "sc' = sc"
  | p ch where "sc_ehbp sc = Some p" "sc' = sc\<lparr>sc_ehbp := Some (p\<lparr>px_channel := ch\<rparr>)\<rparr>"
      "ch = px_channel p \<or> ch_client (px_channel p) \<noteq> None \<and> (ch_client ch = None \<or>
        (\<exists>d1 rs. verify_rotated_state env (sc_host sc) (sc_repo sc) (sc_pinned_measurement sc) d = (d1, Inr rs) \<and>
           keyed_by (k_ehbp env) (px_base_url p) rs ch))"
proof (cases "sc_ehbp sc")
  case None
  show ?thesis
  proof (rule that(1))
    show "sc' = sc" using assms None by (simp add: post_json_def)
  qed (rule None)
next
  case (Some p)
  obtain d1 rs where v: "verify_rotated_state env (sc_host sc) (sc_repo sc) (sc_pinned_measurement sc) d = (d1, rs)"
    by force
  obtain ch x where s: "send_replayable (k_ehbp env) (px_base_url p) (px_enclave_url p)
      (if sc_refresher sc then Some rs else None)
      (\<lambda>_. map_err Http (k_request env (px_base_url p @ path) (sc_api_key sc) body)) (px_channel p) = (ch, x)"
    by force
  have "sc' = sc\<lparr>sc_ehbp := Some (p\<lparr>px_channel := ch\<rparr>)\<rparr>" using assms Some v s by (simp add: post_json_def)
  from Some this show ?thesis
  proof (rule that(2))
    show "ch = px_channel p \<or> ch_client (px_channel p) \<noteq> None \<and> (ch_client ch = None \<or>
        (\<exists>d1 rs. verify_rotated_state env (sc_host sc) (sc_repo sc) (sc_pinned_measurement sc) d = (d1, Inr rs) \<and>
           keyed_by (k_ehbp env) (px_base_url p) rs ch))"
      using send_replayable_channel [OF s] v by (cases "sc_refresher sc") auto
  qed
qed

section \<open>The life of a client\<close>

text \<open>Between two operations the world may change: each runs in some environment of \<open>E\<close>.\<close>

datatype client_op = Verify disk | Post disk str json

inductive client_step ::
  "('c, 'r) client_env set \<Rightarrow> 'c secure_client \<Rightarrow> client_op \<Rightarrow> 'c secure_client \<Rightarrow> bool" for E where
  Step_Verify: "env \<in> E \<Longrightarrow> verify_client env sc d = ((sc', d'), r) \<Longrightarrow> client_step E sc (Verify d) sc'"
| Step_Post: "env \<in> E \<Longrightarrow> post_json env sc d path body = ((sc', d'), r) \<Longrightarrow> client_step E sc (Post d path body) sc'"

inductive_cases client_stepE: "client_step E sc act sc'"

definition client_init :: "'c secure_client \<Rightarrow> bool" where
  "client_init sc \<longleftrightarrow> (\<exists>host repo key proxy m. sc = new_secure_client host repo key \<or>
     sc = new_with_proxy host repo key proxy \<or> sc = with_measurement host key m)"

text \<open>Something holds of an attestation that was accepted for this client.\<close>

definition attested_by ::
  "('c, 'r) client_env set \<Rightarrow> 'c secure_client \<Rightarrow> (('c, 'r) client_env \<Rightarrow> attested \<Rightarrow> bool) \<Rightarrow> bool" where
  "attested_by E sc P \<longleftrightarrow> (\<exists>env\<in>E. \<exists>a.
     attestation_holds env (sc_host sc) (sc_repo sc) (sc_pinned_measurement sc) a \<and> P env a)"

definition pinned_by :: "'c secure_client \<Rightarrow> bound_client \<Rightarrow> ('c, 'r) client_env \<Rightarrow> attested \<Rightarrow> bool" where
  "pinned_by sc b env a \<longleftrightarrow> (\<exists>origin. t_parse_url (k_tls env) (base_url sc) = Some origin \<and>
     create_host_bound_pinned_client (k_tls env) (v_tls_public_key_fp (snd (snd (snd a)))) origin = Inr b)"

definition sealed_by :: "'c secure_client \<Rightarrow> 'c ehbp_proxy \<Rightarrow> 'c \<Rightarrow> ('c, 'r) client_env \<Rightarrow> attested \<Rightarrow> bool" where
  "sealed_by sc p c env a \<longleftrightarrow> (\<exists>key. require_hpke_public_key (snd (snd (snd a))) = Inr key \<and>
     h_connect (k_ehbp env) (px_base_url p) key = Inr c) \<and>
     ch_ground_truth (px_channel p) = Some (build_ground_truth env (sc_repo sc) a)"

definition trust_ok :: "('c, 'r) client_env set \<Rightarrow> 'c secure_client \<Rightarrow> bool" where
  "trust_ok E sc \<longleftrightarrow>
     (\<forall>b. sc_pinned_client sc = Some b \<longrightarrow> attested_by E sc (pinned_by sc b) \<and>
        (sc_ehbp sc = None \<longleftrightarrow> sc_proxy_url sc = None)) \<and>
     (\<forall>gt. sc_ground_truth sc = Some gt \<longrightarrow> attested_by E sc (\<lambda>env a. gt = build_ground_truth env (sc_repo sc) a)) \<and>
     (\<forall>p. sc_ehbp sc = Some p \<longrightarrow> sc_ground_truth sc = None \<and> (\<exists>env\<in>E. proxy_ok env sc p) \<and>
        (\<forall>c. ch_client (px_channel p) = Some c \<longrightarrow> sc_pinned_client sc \<noteq> None \<and> attested_by E sc (sealed_by sc p c)))"

lemmas trust_fields = attested_by_def pinned_by_def sealed_by_def proxy_ok_def base_url_def

lemma trust_ok_init: "client_init sc \<Longrightarrow> trust_ok E sc"
  by (auto simp: client_init_def new_secure_client_def new_with_proxy_def with_measurement_def trust_ok_def)

lemma trust_ok_cleared: "trust_ok E sc \<Longrightarrow> trust_ok E (clear_trust sc)"
  by (auto simp: trust_ok_def proxy_ok_def)

text \<open>None of the four depends on more than what a client was made with.\<close>

definition same_identity :: "'c secure_client \<Rightarrow> 'c secure_client \<Rightarrow> bool" where
  "same_identity sc sc' \<longleftrightarrow> sc_host sc' = sc_host sc \<and> sc_repo sc' = sc_repo sc \<and>
     sc_pinned_measurement sc' = sc_pinned_measurement sc \<and> sc_proxy_url sc' = sc_proxy_url sc"

lemma same_identity_attested:
  assumes "same_identity sc sc'"
  shows "attested_by E sc' = attested_by E sc" "pinned_by sc' = pinned_by sc" "sealed_by sc' = sealed_by sc"
    "proxy_ok env sc' = proxy_ok env sc"
  using assms by (auto simp: same_identity_def fun_eq_iff trust_fields simp del: split_paired_Ex)

lemma attested_byI: "env \<in> E \<Longrightarrow>
    attestation_holds env (sc_host sc) (sc_repo sc) (sc_pinned_measurement sc) a \<Longrightarrow> P env a \<Longrightarrow> attested_by E sc P"
  unfolding attested_by_def by blast

lemma trust_ok_verified:
  assumes "trust_ok E sc" "env \<in> E" "verify_client env sc d = ((sc', d'), Inr gt)"
  shows "trust_ok E sc'"
proof -
  obtain a where a: "attestation_holds env (sc_host sc) (sc_repo sc) (sc_pinned_measurement sc) a"
      "commit_verified env (clear_trust sc) a = Inr (sc', gt)"
    by (rule verify_client_Inr [OF assms(3)])
  from a(2) obtain origin pinned ehbp where c: "t_parse_url (k_tls env) (base_url (clear_trust sc)) = Some origin"
    "create_host_bound_pinned_client (k_tls env) (v_tls_public_key_fp (snd (snd (snd a)))) origin = Inr pinned"
    "gt = build_ground_truth env (sc_repo (clear_trust sc)) a"
    "build_transport env (clear_trust sc) (snd (snd (snd a))) gt = Inr ehbp"
    "sc' = (clear_trust sc)\<lparr>sc_pinned_client := Some pinned, sc_ehbp := ehbp,
       sc_refresher := (ehbp \<noteq> None \<or> sc_refresher (clear_trust sc)),
       sc_ground_truth := (if ehbp = None then Some gt else None)\<rparr>"
    by (rule commit_verified_Inr)
  have same: "same_identity sc sc'" by (simp add: same_identity_def c(5))
  note in_E = attested_byI [OF assms(2) a(1)]
  have pinned: "attested_by E sc (pinned_by sc pinned)"
    by (rule in_E) (use c(1,2) in \<open>auto simp: pinned_by_def\<close>)
  have gt: "attested_by E sc (\<lambda>env a. gt = build_ground_truth env (sc_repo sc) a)"
    by (rule in_E) (simp add: c(3))
  have proxy: "sc_proxy_url sc \<noteq> None \<and> (\<exists>env\<in>E. proxy_ok env sc p) \<and>
      (\<exists>c. ch_client (px_channel p) = Some c \<and> attested_by E sc (sealed_by sc p c))" if p: "ehbp = Some p" for p
  proof -
    obtain key c' where k: "require_hpke_public_key (snd (snd (snd a))) = Inr key"
        "h_connect (k_ehbp env) (px_base_url p) key = Inr c'" "ch_client (px_channel p) = Some c'"
        "ch_ground_truth (px_channel p) = Some gt" "sc_proxy_url sc \<noteq> None"
      using build_transport_Inr [OF c(4)] p by auto
    moreover have "attested_by E sc (sealed_by sc p c')"
      by (rule in_E) (use k c(3) in \<open>auto simp: sealed_by_def\<close>)
    moreover have "\<exists>env\<in>E. proxy_ok env sc p"
      using build_transport_Inr [OF c(4)] p assms(1,2)
      by (cases "sc_ehbp sc") (auto simp: trust_ok_def proxy_ok_def)
    ultimately show ?thesis by blast
  qed
  have "ehbp = None \<longleftrightarrow> sc_proxy_url sc = None"
    using build_transport_Inr [OF c(4)] proxy by (cases ehbp) auto
  then show ?thesis
    unfolding trust_ok_def same_identity_attested [OF same]
    using pinned gt proxy same by (auto simp: c(5) same_identity_def)
qed

lemma trust_ok_posted:
  assumes "trust_ok E sc" "env \<in> E" "post_json env sc d path body = ((sc', d'), r)"
  shows "trust_ok E sc'"
  using assms(3)
proof (cases rule: post_json_cases)
  case 1
  then show ?thesis using assms(1) by simp
next
  case (2 p ch)
  have same: "same_identity sc sc'" by (simp add: same_identity_def 2(2))
  have ok: "\<exists>env\<in>E. proxy_ok env sc (p\<lparr>px_channel := ch\<rparr>)" and plain: "sc_ground_truth sc = None"
    using assms(1) 2(1) by (auto simp: trust_ok_def proxy_ok_def)
  have "sc_pinned_client sc \<noteq> None \<and> attested_by E sc (sealed_by sc (p\<lparr>px_channel := ch\<rparr>) c)"
    if c: "ch_client ch = Some c" for c
  proof (cases "ch = px_channel p")
    case True
    then show ?thesis using assms(1) 2(1) c by (auto simp: trust_ok_def)
  next
    case False
    then obtain d1 rs where r: "ch_client (px_channel p) \<noteq> None"
        "verify_rotated_state env (sc_host sc) (sc_repo sc) (sc_pinned_measurement sc) d = (d1, Inr rs)"
        "keyed_by (k_ehbp env) (px_base_url p) rs ch"
      using 2(3) c by auto
    then obtain a where a: "verify_attestation env (sc_host sc) (sc_repo sc) (sc_pinned_measurement sc) d = (d1, Inr a)"
        "require_hpke_public_key (snd (snd (snd a))) = Inr (rs_key rs)"
        "rs_ground_truth rs = Some (build_ground_truth env (sc_repo sc) a)"
      by (auto simp: verify_rotated_state_def result_inv split: prod.splits sum.splits)
    have "attested_by E sc (sealed_by sc (p\<lparr>px_channel := ch\<rparr>) c)"
      by (rule attested_byI [OF assms(2) verify_attestation_Inr [OF a(1)]])
        (use a r(3) c in \<open>auto simp: sealed_by_def keyed_by_def\<close>)
    then show ?thesis using r(1) assms(1) 2(1) by (auto simp: trust_ok_def)
  qed
  then show ?thesis
    unfolding trust_ok_def same_identity_attested [OF same]
    using ok plain assms(1) 2(1) by (auto simp: 2(2) trust_ok_def)
qed

interpretation client_trust: invariant_system client_init "client_step E" "trust_ok E" for E
proof
  show "client_init sc \<Longrightarrow> trust_ok E sc" for sc
    by (rule trust_ok_init)
  show "trust_ok E sc'" if "trust_ok E sc" "client_step E sc act sc'" for sc act sc'
    using that(2)
  proof (cases rule: client_step.cases)
    case (Step_Verify env d d' r)
    then show ?thesis
      using that(1) trust_ok_verified [of E sc env d sc' d'] verify_client_Inl [of env sc d sc' d']
      by (cases r) (auto intro: trust_ok_cleared)
  next
    case (Step_Post env d path body d' r)
    then show ?thesis using that(1) by (auto intro: trust_ok_posted)
  qed
qed

section \<open>What clients can rely on\<close>

lemma attested_by_mono: "attested_by E sc P \<Longrightarrow> (\<And>env a. P env a \<Longrightarrow> Q env a) \<Longrightarrow> attested_by E sc Q"
  unfolding attested_by_def by blast

lemma trust_ok_seal:
  assumes "trust_ok E sc" "sc_ehbp sc = Some p" "ch_client (px_channel p) = Some c"
  shows "attested_by E sc (sealed_by sc p c)" "sc_pinned_client sc \<noteq> None"
  using assms by (auto simp: trust_ok_def)

lemma trust_ok_ground_truth:
  assumes ok: "trust_ok E sc" and shown: "client_ground_truth sc = Some gt"
  shows "attested_by E sc (\<lambda>env a. gt = build_ground_truth env (sc_repo sc) a)"
proof (cases "sc_ehbp sc")
  case None
  then show ?thesis using assms by (auto simp: client_ground_truth_def trust_ok_def split: option.splits)
next
  case (Some p)
  then obtain c where c: "ch_client (px_channel p) = Some c" "ch_ground_truth (px_channel p) = Some gt"
    using shown Some by (cases "sc_pinned_client sc"; cases "ch_client (px_channel p)")
      (auto simp: client_ground_truth_def verified_ground_truth_def)
  show ?thesis by (rule attested_by_mono [OF trust_ok_seal(1) [OF ok Some c(1)]]) (simp add: sealed_by_def c(2))
qed

lemma trust_ok_pinned:
  assumes ok: "trust_ok E sc" and handed: "pinned_http_client sc = Inr c"
  shows "hc_https_only c \<and> hc_redirect_origin c \<noteq> None \<and>
    attested_by E sc (\<lambda>env a. pv_fingerprint (hc_verifier c) = v_tls_public_key_fp (snd (snd (snd a))))"
proof -
  obtain b where b: "sc_pinned_client sc = Some b" "c = bc_transport b"
    using handed by (auto simp: pinned_http_client_def result_inv)
  have p: "attested_by E sc (pinned_by sc b)" using ok b(1) by (auto simp: trust_ok_def)
  then have "hc_https_only c \<and> hc_redirect_origin c \<noteq> None"
    unfolding attested_by_def pinned_by_def create_host_bound_Inr b(2) by auto
  moreover have "attested_by E sc (\<lambda>env a. pv_fingerprint (hc_verifier c) = v_tls_public_key_fp (snd (snd (snd a))))"
    by (rule attested_by_mono [OF p]) (auto simp: pinned_by_def create_host_bound_Inr b(2))
  ultimately show ?thesis by blast
qed

lemma trust_ok_sealed:
  assumes ok: "trust_ok E sc" and on: "sc_ehbp sc = Some p" "ch_client (px_channel p) = Some c"
  shows "attested_by E sc (\<lambda>env a. \<exists>key. v_hpke_public_key (snd (snd (snd a))) = Some key \<and> \<not> is_all_zeros key \<and>
    h_connect (k_ehbp env) (px_base_url p) key = Inr c \<and>
    client_ground_truth sc = Some (build_ground_truth env (sc_repo sc) a))"
proof (rule attested_by_mono [OF trust_ok_seal(1) [OF ok on]])
  obtain b where "sc_pinned_client sc = Some b" using trust_ok_seal(2) [OF ok on] by auto
  then show "\<exists>key. v_hpke_public_key (snd (snd (snd a))) = Some key \<and> \<not> is_all_zeros key \<and>
      h_connect (k_ehbp env) (px_base_url p) key = Inr c \<and> client_ground_truth sc = Some (build_ground_truth env (sc_repo sc) a)"
    if "sealed_by sc p c env a" for env a
    using that on
    by (auto simp: sealed_by_def require_hpke_public_key_def result_inv client_ground_truth_def
        verified_ground_truth_def split: option.splits if_splits)
qed

text \<open>
  C2. Whatever sequence of verifications, failures, requests and key rotations a client went through, in
  a changing world: the ground truth it shows was built from an attestation that held for its host and
  repository; its pinned connection requires the TLS key of such an attestation, over HTTPS and within
  one origin; and the key its proxy channel seals to is the HPKE key of such an attestation, for which
  the ground truth beside it is the one shown. A client made for a proxy never sends without sealing.
\<close>

theorem client_trust_attested:
  assumes "reachable client_init (client_step E) sc"
  shows "(\<forall>gt. client_ground_truth sc = Some gt \<longrightarrow>
       attested_by E sc (\<lambda>env a. gt = build_ground_truth env (sc_repo sc) a)) \<and>
     (\<forall>c. pinned_http_client sc = Inr c \<longrightarrow> hc_https_only c \<and> hc_redirect_origin c \<noteq> None \<and>
       attested_by E sc (\<lambda>env a. pv_fingerprint (hc_verifier c) = v_tls_public_key_fp (snd (snd (snd a))))) \<and>
     (\<forall>p c. sc_ehbp sc = Some p \<and> ch_client (px_channel p) = Some c \<longrightarrow> attested_by E sc (\<lambda>env a.
       \<exists>key. v_hpke_public_key (snd (snd (snd a))) = Some key \<and> \<not> is_all_zeros key \<and>
         h_connect (k_ehbp env) (px_base_url p) key = Inr c \<and>
         client_ground_truth sc = Some (build_ground_truth env (sc_repo sc) a))) \<and>
     (is_verified sc \<and> sc_proxy_url sc \<noteq> None \<longrightarrow> (\<exists>p. sc_ehbp sc = Some p \<and> px_enclave_url p = base_url sc))"
proof -
  have ok: "trust_ok E sc" by (rule client_trust.inv_reachable [OF assms])
  then have "is_verified sc \<and> sc_proxy_url sc \<noteq> None \<longrightarrow> (\<exists>p. sc_ehbp sc = Some p \<and> px_enclave_url p = base_url sc)"
    by (auto simp: is_verified_def trust_ok_def proxy_ok_def)
  then show ?thesis
    using trust_ok_ground_truth [OF ok] trust_ok_pinned [OF ok] trust_ok_sealed [OF ok] by blast
qed

section \<open>The two outcomes of a verification\<close>

lemma verified_client:
  assumes v: "verify_client env sc d = ((sc', d'), Inr gt)"
  shows "is_verified sc' \<and> client_ground_truth sc' = Some gt \<and> is_ok (pinned_http_client sc') \<and>
    (\<exists>a. attestation_holds env (sc_host sc) (sc_repo sc) (sc_pinned_measurement sc) a \<and>
       gt = build_ground_truth env (sc_repo sc) a) \<and>
    (is_ok (http_client sc') \<longleftrightarrow> sc_proxy_url sc = None)"
proof -
  obtain a where a: "attestation_holds env (sc_host sc) (sc_repo sc) (sc_pinned_measurement sc) a"
      "commit_verified env (clear_trust sc) a = Inr (sc', gt)"
    by (rule verify_client_Inr [OF v])
  from a(2) obtain pinned ehbp where c: "gt = build_ground_truth env (sc_repo sc) a"
      "build_transport env (clear_trust sc) (snd (snd (snd a))) gt = Inr ehbp"
      "sc_pinned_client sc' = Some pinned" "sc_ehbp sc' = ehbp"
      "sc_ground_truth sc' = (if ehbp = None then Some gt else None)"
    by (rule commit_verified_Inr) simp
  have "is_verified sc' \<and> client_ground_truth sc' = Some gt \<and> is_ok (pinned_http_client sc') \<and>
      (is_ok (http_client sc') \<longleftrightarrow> sc_proxy_url sc = None)"
    using build_transport_Inr [OF c(2)] c(3-5)
    by (cases ehbp) (auto simp: is_verified_def client_ground_truth_def verified_ground_truth_def
        pinned_http_client_def http_client_def)
  then show ?thesis using a(1) c(1) by blast
qed

lemma cleared_cannot_post: "\<exists>e. post_json env (clear_trust sc) d path body = ((clear_trust sc, d), Inl e)"
proof (cases "sc_ehbp (clear_trust sc)")
  case None
  then show ?thesis by (simp add: post_json_def pinned_http_client_def)
next
  case (Some p)
  let ?sc = "clear_trust sc"
  obtain d2 rs where rot: "verify_rotated_state env (sc_host ?sc) (sc_repo ?sc) (sc_pinned_measurement ?sc) d = (d2, rs)"
    by force
  have off: "ch_client (px_channel p) = None" using Some by auto
  obtain e where s: "send_replayable (k_ehbp env) (px_base_url p) (px_enclave_url p)
      (if sc_refresher ?sc then Some rs else None)
      (\<lambda>_. map_err Http (k_request env (px_base_url p @ path) (sc_api_key ?sc) body)) (px_channel p) = (px_channel p, Inl e)"
    using send_replayable_revoked [OF off] by metis
  have "?sc\<lparr>sc_ehbp := Some (p\<lparr>px_channel := px_channel p\<rparr>)\<rparr> = ?sc"
    using Some by (cases "clear_trust sc") simp
  then show ?thesis unfolding post_json_def Some using rot s by (simp del: clear_trust_fields)
qed

text \<open>
  C3. The outcome of a verification, on both branches. When it succeeds the client is verified, shows
  exactly the ground truth that was returned, which an attestation of its host gave, and has a pinned
  connection. When it fails the client is unverified, whatever it was before: it shows no ground truth,
  hands out no HTTP client, and no request on it is sent, not even by way of a refresh.
\<close>

theorem verify_outcome:
  "case verify_client env sc d of
     ((sc', d'), Inr gt) \<Rightarrow> is_verified sc' \<and> client_ground_truth sc' = Some gt \<and> is_ok (pinned_http_client sc') \<and>
       (\<exists>a. attestation_holds env (sc_host sc) (sc_repo sc) (sc_pinned_measurement sc) a \<and>
          gt = build_ground_truth env (sc_repo sc) a) \<and>
       (is_ok (http_client sc') \<longleftrightarrow> sc_proxy_url sc = None)
   | ((sc', d'), Inl e) \<Rightarrow> \<not> is_verified sc' \<and> client_ground_truth sc' = None \<and> client_document sc' = None \<and>
       \<not> is_ok (http_client sc') \<and> pinned_http_client sc' = Inl not_verified \<and>
       (\<forall>env' d1 path body. \<exists>e'. post_json env' sc' d1 path body = ((sc', d1), Inl e'))"
proof -
  obtain sc' d' r where v: "verify_client env sc d = ((sc', d'), r)" by (metis prod.exhaust)
  show ?thesis
  proof (cases r)
    case (Inl e)
    then have "sc' = clear_trust sc" using v verify_client_Inl by blast
    then show ?thesis
      using v Inl cleared_cannot_post [where sc = sc]
      by (auto simp: is_verified_def client_ground_truth_def client_document_def http_client_def pinned_http_client_def)
  next
    case (Inr gt)
    then show ?thesis using v verified_client [OF v [unfolded Inr]] by simp
  qed
qed

section \<open>Router discovery\<close>

text \<open>The verification of every host in turn fails, taking the cache from \<open>d\<close> to \<open>d0\<close>.\<close>

fun all_refused :: "('c, 'r) client_env \<Rightarrow> str \<Rightarrow> str list \<Rightarrow> disk \<Rightarrow> disk \<Rightarrow> bool" where
  "all_refused env key [] d d0 \<longleftrightarrow> d0 = d"
| "all_refused env key (h # hs) d d0 \<longleftrightarrow> (\<exists>sc d1 e.
     verify_client env (new_secure_client h DEFAULT_REPO key) d = ((sc, d1), Inl e) \<and> all_refused env key hs d1 d0)"

lemma verify_client_host: "verify_client env sc d = ((sc', d'), r) \<Longrightarrow> sc_host sc' = sc_host sc"
  by (cases r) (auto dest: verify_client_Inl elim!: verify_client_Inr commit_verified_Inr)

lemma first_verified_spec:
  "case first_verified env key hs d of
     (d', None) \<Rightarrow> all_refused env key hs d d'
   | (d', Some sc) \<Rightarrow> \<exists>tried rest d0 gt. hs = tried @ sc_host sc # rest \<and> all_refused env key tried d d0 \<and>
       verify_client env (new_secure_client (sc_host sc) DEFAULT_REPO key) d0 = ((sc, d'), Inr gt)"
proof (induction hs arbitrary: d)
  case (Cons h hs)
  obtain sc d1 r where v: "verify_client env (new_secure_client h DEFAULT_REPO key) d = ((sc, d1), r)"
    by (metis prod.exhaust)
  show ?case
  proof (cases r)
    case (Inr gt)
    have "sc_host sc = h" using verify_client_host [OF v] by (simp add: new_secure_client_def)
    moreover have "all_refused env key [] d d" "h # hs = [] @ h # hs" by simp_all
    ultimately show ?thesis using v Inr by (simp only: first_verified.simps prod.case sum.case option.case) blast
  next
    case (Inl e)
    obtain d' found where f: "first_verified env key hs d1 = (d', found)" by force
    show ?thesis
    proof (cases found)
      case None
      then show ?thesis using v Inl f Cons.IH [of d1] by simp
    next
      case (Some sc2)
      then obtain tried rest d0 gt where "hs = tried @ sc_host sc2 # rest" "all_refused env key tried d1 d0"
          "verify_client env (new_secure_client (sc_host sc2) DEFAULT_REPO key) d0 = ((sc2, d'), Inr gt)"
        using Cons.IH [of d1] f by auto
      moreover from this have "h # hs = (h # tried) @ sc_host sc2 # rest" "all_refused env key (h # tried) d d0"
        using v Inl by auto
      ultimately have "\<exists>tried rest d0 gt. h # hs = tried @ sc_host sc2 # rest \<and> all_refused env key tried d d0 \<and>
          verify_client env (new_secure_client (sc_host sc2) DEFAULT_REPO key) d0 = ((sc2, d'), Inr gt)" by blast
      then show ?thesis using v Inl f Some by simp
    qed
  qed
qed simp

text \<open>
  Router discovery returns only verified clients of the default repository: the first router of the
  list that verifies, every earlier one having been refused; or the default router, when the list could
  not be fetched or all of it was refused. It fails only after the default router was refused too, with
  that router's error.
\<close>

theorem default_client_order:
  "case new_default_client env key d of
     (d', Inr sc) \<Rightarrow> is_verified sc \<and> (\<exists>tried d0 gt. all_refused env key tried d d0 \<and>
       verify_client env (new_secure_client (sc_host sc) DEFAULT_REPO key) d0 = ((sc, d'), Inr gt) \<and>
       (case fetch_routers (k_verify env) of
          Inl _ \<Rightarrow> tried = [] \<and> sc_host sc = DEFAULT_ROUTER
        | Inr routers \<Rightarrow> (\<exists>rest. routers = tried @ sc_host sc # rest) \<or> tried = routers \<and> sc_host sc = DEFAULT_ROUTER))
   | (d', Inl e) \<Rightarrow> (\<exists>tried d0 sc. all_refused env key tried d d0 \<and>
       verify_client env (new_secure_client DEFAULT_ROUTER DEFAULT_REPO key) d0 = ((sc, d'), Inl e) \<and>
       (case fetch_routers (k_verify env) of Inl _ \<Rightarrow> tried = [] | Inr routers \<Rightarrow> tried = routers))"
proof -
  have default: "case verified_default env key d0 of
      (d', Inr sc) \<Rightarrow> is_verified sc \<and> sc_host sc = DEFAULT_ROUTER \<and>
        (\<exists>gt. verify_client env (new_secure_client (sc_host sc) DEFAULT_REPO key) d0 = ((sc, d'), Inr gt))
    | (d', Inl e) \<Rightarrow> \<exists>sc. verify_client env (new_secure_client DEFAULT_ROUTER DEFAULT_REPO key) d0 = ((sc, d'), Inl e)" for d0
  proof -
    obtain sc d' r where v: "verify_client env (new_secure_client DEFAULT_ROUTER DEFAULT_REPO key) d0 = ((sc, d'), r)"
      by (metis prod.exhaust)
    then show ?thesis
      using verify_client_host [OF v] verified_client [of env _ d0 sc d']
      by (cases r) (auto simp: verified_default_def new_secure_client_def)
  qed
  show ?thesis
  proof (cases "fetch_routers (k_verify env)")
    case (Inl e)
    obtain d' r where r: "verified_default env key d = (d', r)" by force
    show ?thesis using default [of d] Inl r
      by (cases r) (auto simp: new_default_client_def intro!: exI [of _ "[]"])
  next
    case (Inr routers)
    obtain d1 found where f: "first_verified env key routers d = (d1, found)" by force
    show ?thesis
    proof (cases found)
      case (Some sc)
      then obtain tried rest d0 gt where t: "routers = tried @ sc_host sc # rest" "all_refused env key tried d d0"
          "verify_client env (new_secure_client (sc_host sc) DEFAULT_REPO key) d0 = ((sc, d1), Inr gt)"
        using first_verified_spec [of env key routers d] f by auto
      then show ?thesis using Inr f Some verified_client [OF t(3)] by (auto simp: new_default_client_def)
    next
      case None
      then have refused: "all_refused env key routers d d1" using first_verified_spec [of env key routers d] f by simp
      obtain d' r where r: "verified_default env key d1 = (d', r)" by force
      show ?thesis using default [of d1] Inr f None refused r
        by (cases r) (auto simp: new_default_client_def, blast)
    qed
  qed
qed

section \<open>The typed client\<close>

lemma build_openai_verified:
  assumes "verify_client env sc d = ((sc', d'), Inr gt)"
  shows "build_openai sc' key = Inr \<lparr>oa_api_key = key, oa_api_base = request_base_url sc' @ ''/v1'',
    oa_transport = (case sc_ehbp sc' of Some _ \<Rightarrow> Over_Proxy | None \<Rightarrow> Over_Tls (bc_transport (the (sc_pinned_client sc'))))\<rparr>"
  using verified_client [OF assms]
  by (cases "sc_pinned_client sc'") (auto simp: build_openai_def pinned_http_client_def Let_def split: option.splits)

text \<open>
  After a failed re-verification the typed client keeps the transport it had. In proxy mode that one
  shares the revoked channel; in direct mode it is the connection pinned by the earlier verification.
\<close>

lemma failed_reverify_keeps_transport:
  assumes "client_verify env cl d = ((cl', d'), Inl e)"
  shows "cl_openai cl' = cl_openai cl \<and> \<not> is_verified (cl_secure cl')"
proof -
  obtain sc d1 r where v: "verify_client env (cl_secure cl) d = ((sc, d1), r)" by (metis prod.exhaust)
  then show ?thesis
    using assms build_openai_verified [of env "cl_secure cl" d sc d1] verify_client_Inl [of env "cl_secure cl" d sc d1]
    by (cases r) (auto simp: client_verify_def is_verified_def)
qed

section \<open>A client that verifies\<close>

text \<open>A client of the enclave and the repository of \<open>Attestation_Properties\<close>, whose certificate carries
  the attested values in its names.\<close>

definition toy_client_env :: "(str, str) client_env" where
  "toy_client_env = \<lparr>k_verify = toy_verify_env,
     k_tls = toy_tls\<lparr>t_cert := (\<lambda>b. Some \<lparr>tc_key_oid = ''1.2.840.10045.2.1'', tc_spki = Some b,
         tc_san = Some [DnsName ''00A.hpke.h'', DnsName ''00A.hatt.h'']\<rparr>),
       t_hex := (\<lambda>_. AMD_ARK_GENOA_SPKI_FINGERPRINT)\<rparr>,
     k_handshake = (\<lambda>_. Inr (Some [[1]])),
     k_dcode = \<lparr>d_base32 = (\<lambda>_. Some (as_bytes AMD_ARK_GENOA_SPKI_FINGERPRINT)), d_unicode_upper = (\<lambda>s. s)\<rparr>,
     k_ehbp = toy_ehbp, k_request = (\<lambda>_ _ _. Inl ''no''), k_send = (\<lambda>_ _. Inr ''ok'')\<rparr>"

lemma toy_names:
  "decode_from_sans (k_dcode toy_client_env) [''00A.hpke.h'', ''00A.hatt.h''] ''hpke'' =
     Inr (Some (as_bytes AMD_ARK_GENOA_SPKI_FINGERPRINT))"
  "decode_from_sans (k_dcode toy_client_env) [''00A.hpke.h'', ''00A.hatt.h''] ''hatt'' =
     Inr (Some (as_bytes AMD_ARK_GENOA_SPKI_FINGERPRINT))"
  by (simp_all add: decode_from_sans_def san_chunk_def is_char_boundary_def is_ascii_digit_def decode_chunks_def
      toy_client_env_def Let_def)

lemma toy_binding:
  "verify_tls_binding toy_client_env ''h'' AMD_ARK_GENOA_SPKI_FINGERPRINT (Some AMD_ARK_GENOA_SPKI_FINGERPRINT) toy_document = Inr ()"
proof -
  have "from_utf8 (as_bytes AMD_ARK_GENOA_SPKI_FINGERPRINT) = Some AMD_ARK_GENOA_SPKI_FINGERPRINT"
    by (rule from_utf8_graphic) (simp add: AMD_ARK_GENOA_SPKI_FINGERPRINT_def is_graphic_def)
  moreover have "dns_names \<lparr>tc_key_oid = ''1.2.840.10045.2.1'', tc_spki = Some [1],
      tc_san = Some [DnsName ''00A.hpke.h'', DnsName ''00A.hatt.h'']\<rparr> = [''00A.hpke.h'', ''00A.hatt.h'']"
    by (simp add: dns_names_def List.map_filter_def)
  ultimately show ?thesis
    unfolding verify_tls_binding_Inr tls_bound_def
    using toy_names by (auto simp: toy_client_env_def OID_EC_PUBLIC_KEY_def document_hash_def cert_pubkey_fingerprint_def)
qed

lemma toy_client_verifies:
  "\<exists>sc d' gt. verify_client toy_client_env (new_secure_client ''h'' ''o/r'' ''k'') Map.empty = ((sc, d'), Inr gt)"
proof -
  obtain d' where full: "verify_full toy_env toy_document Map.empty = (d', Inr toy_verification)"
    using toy_verify_full by blast
  have env: "k_verify toy_client_env = toy_verify_env" "a_sev toy_verify_env = toy_env"
      "a_sig toy_verify_env = toy_world" "a_cms toy_verify_env = toy_cms" "a_web toy_verify_env = toy_web"
    by (simp_all add: toy_client_env_def toy_verify_env_def)
  have "verify_attestation toy_client_env ''h'' ''o/r'' None Map.empty =
      (d', Inr (sr_measurement toy_result, sr_digest toy_result, Some (sr_release_tag toy_result), toy_verification))"
    using toy_binding full
    by (simp add: verify_attestation_def code_measurement_of_def env toy_repo_verified toy_fetch toy_measurements_equal)
      (simp add: toy_verification_def)
  moreover obtain origin c where "t_parse_url (k_tls toy_client_env) (''https://'' @ ''h'') = Some origin"
      "create_host_bound_pinned_client (k_tls toy_client_env) (v_tls_public_key_fp toy_verification) origin = Inr c"
    by (simp add: result_inv toy_client_env_def) (simp add: toy_tls_def strip_brackets_def strip_prefix_def starts_with_def)
  ultimately show ?thesis
    by (simp add: verify_client_def commit_verified_def build_transport_def new_secure_client_def clear_trust_def base_url_def Let_def)
qed

lemma client_trust_attested_witness:
  "\<exists>sc :: str secure_client. is_verified sc \<and> attested_by {toy_client_env} sc (\<lambda>env a. client_ground_truth sc =
     Some (build_ground_truth env (sc_repo sc) a))"
proof -
  obtain sc d' gt where v: "verify_client toy_client_env (new_secure_client ''h'' ''o/r'' ''k'') Map.empty = ((sc, d'), Inr gt)"
    using toy_client_verifies by blast
  have "client_init (new_secure_client ''h'' ''o/r'' ''k'')" by (auto simp: client_init_def)
  then have "reachable client_init (client_step {toy_client_env}) sc"
    by (rule reachable_step [OF reachable_init]) (rule Step_Verify [OF _ v], simp)
  moreover have "is_verified sc \<and> client_ground_truth sc = Some gt"
    using verified_client [OF v] by simp
  ultimately show ?thesis using client_trust_attested [of "{toy_client_env}" sc] by auto
qed

end
