(* ===== verification/Serialized.thy ===== *)
theory Serialized
  imports Verification_Document Json
begin

text \<open>
  The JSON form that the \<open>serde\<close> attributes of \<open>attestation/types.rs\<close> and \<open>verification_document.rs\<close>
  describe: names of fields and variants, fields that are left out when they are \<open>None\<close>, and what stands
  for a field that is missing. A decoder is \<open>None\<close> where the crate reports an error. Both directions go
  through \<open>serde_json::Value\<close> (\<open>Json\<close>); reading and printing texts is the crate's.
\<close>

section \<open>Structs and their fields\<close>

text \<open>A struct is read from an object, whose other members are ignored, or from an array with the fields
  in order. A field that is an \<open>Option\<close> may be missing in an object, one with a default in both.\<close>

type_synonym json_fields = "bool \<times> (str \<Rightarrow> json option)"

fun struct_fields :: "str list \<Rightarrow> json \<Rightarrow> json_fields option" where
  "struct_fields names (JObject kvs) = Some (False, map_of kvs)"
| "struct_fields names (JArray vs) = (if length vs \<le> length names then Some (True, map_of (zip names vs)) else None)"
| "struct_fields names _ = None"

definition required_field :: "json_fields \<Rightarrow> str \<Rightarrow> (json \<Rightarrow> 'a option) \<Rightarrow> 'a option" where
  "required_field f k dec = Option.bind (snd f k) dec"

definition optional_field :: "json_fields \<Rightarrow> str \<Rightarrow> (json \<Rightarrow> 'a option) \<Rightarrow> 'a option option" where
  "optional_field f k dec = (case snd f k of
     None \<Rightarrow> if fst f then None else Some None
   | Some v \<Rightarrow> if v = JNull then Some None else map_option Some (dec v))"

definition defaulted_field :: "json_fields \<Rightarrow> str \<Rightarrow> 'a \<Rightarrow> (json \<Rightarrow> 'a option) \<Rightarrow> 'a option" where
  "defaulted_field f k d dec = (case snd f k of None \<Rightarrow> Some d | Some v \<Rightarrow> dec v)"

definition skip_none :: "str \<Rightarrow> ('a \<Rightarrow> json) \<Rightarrow> 'a option \<Rightarrow> (str \<times> json) list" where
  "skip_none k enc v = (case v of None \<Rightarrow> [] | Some w \<Rightarrow> [(k, enc w)])"

text \<open>A variant without data is its name, or an object with that name and \<open>null\<close>.\<close>

fun unit_variant :: "json \<Rightarrow> str option" where
  "unit_variant (JString s) = Some s"
| "unit_variant (JObject [(s, JNull)]) = Some s"
| "unit_variant _ = None"

definition json_list :: "(json \<Rightarrow> 'a option) \<Rightarrow> json \<Rightarrow> 'a list option" where
  "json_list dec v = Option.bind (as_array v) (\<lambda>vs. those (map dec vs))"

fun json_bool :: "json \<Rightarrow> bool option" where
  "json_bool (JBool b) = Some b"
| "json_bool _ = None"

definition json_u8 :: "json \<Rightarrow> nat option" where
  "json_u8 v = Option.bind (as_u64 v) (\<lambda>n. if n < 256 then Some (unat n) else None)"

section \<open>Measurements and the ground truth\<close>

fun predicate_name :: "predicate_type \<Rightarrow> str" where
  "predicate_name SevGuestV2 = ''https://tinfoil.sh/predicate/sev-snp-guest/v2''"
| "predicate_name TdxGuestV2 = ''https://tinfoil.sh/predicate/tdx-guest/v2''"
| "predicate_name SnpTdxMultiPlatformV1 = ''https://tinfoil.sh/predicate/snp-tdx-multiplatform/v1''"
| "predicate_name UnknownPredicate = ''Unknown''"

definition predicate_to_json :: "predicate_type \<Rightarrow> json" where
  "predicate_to_json p = JString (predicate_name p)"

definition predicate_from_json :: "json \<Rightarrow> predicate_type option" where
  "predicate_from_json v = map_option predicate_from_url (unit_variant v)"

definition attestation_document_to_json :: "attestation_document \<Rightarrow> json" where
  "attestation_document_to_json d =
     JObject [(''format'', predicate_to_json (doc_format d)), (''body'', JString (doc_body d))]"

definition attestation_document_from_json :: "json \<Rightarrow> attestation_document option" where
  "attestation_document_from_json v =
     Option.bind (struct_fields [''format'', ''body''] v) (\<lambda>f.
     Option.bind (required_field f ''format'' predicate_from_json) (\<lambda>fmt.
     Option.bind (required_field f ''body'' as_str) (\<lambda>b.
     Some \<lparr>doc_format = fmt, doc_body = b\<rparr>)))"

definition measurement_to_json :: "measurement \<Rightarrow> json" where
  "measurement_to_json m =
     JObject [(''type'', predicate_to_json (m_type m)), (''registers'', JArray (map JString (registers m)))]"

definition measurement_from_json :: "json \<Rightarrow> measurement option" where
  "measurement_from_json v =
     Option.bind (struct_fields [''type'', ''registers''] v) (\<lambda>f.
     Option.bind (required_field f ''type'' predicate_from_json) (\<lambda>ty.
     Option.bind (required_field f ''registers'' (json_list as_str)) (\<lambda>rs.
     Some \<lparr>m_type = ty, registers = rs\<rparr>)))"

definition identity_to_json :: "software_identity \<Rightarrow> json" where
  "identity_to_json i = JObject [(''name'', JString (sw_name i)), (''version'', JString (sw_version i))]"

definition identity_from_json :: "json \<Rightarrow> software_identity option" where
  "identity_from_json v =
     Option.bind (struct_fields [''name'', ''version''] v) (\<lambda>f.
     Option.bind (required_field f ''name'' as_str) (\<lambda>n.
     Option.bind (required_field f ''version'' as_str) (\<lambda>ver.
     Some \<lparr>sw_name = n, sw_version = ver\<rparr>)))"

definition ground_truth_to_json :: "ground_truth \<Rightarrow> json" where
  "ground_truth_to_json gt = JObject (
     [(''config_repo'', JString (config_repo gt))] @
     skip_none ''release_tag'' JString (release_tag gt) @
     [(''digest'', JString (release_digest gt))] @
     skip_none ''tls_public_key'' JString (tls_public_key gt) @
     skip_none ''hpke_public_key'' JString (hpke_public_key gt) @
     [(''code_measurement'', measurement_to_json (code_measurement gt)),
      (''enclave_measurement'', measurement_to_json (enclave_measurement gt)),
      (''code_fingerprint'', JString (code_fingerprint gt)),
      (''enclave_fingerprint'', JString (enclave_fingerprint gt)),
      (''verifier'', identity_to_json (gt_verifier gt)),
      (''verified_at'', JString (verified_at gt))])"

definition GROUND_TRUTH_FIELDS :: "str list" where
  "GROUND_TRUTH_FIELDS = [''config_repo'', ''release_tag'', ''digest'', ''tls_public_key'', ''hpke_public_key'',
     ''code_measurement'', ''enclave_measurement'', ''code_fingerprint'', ''enclave_fingerprint'', ''verifier'',
     ''verified_at'']"

definition ground_truth_from_json :: "json \<Rightarrow> ground_truth option" where
  "ground_truth_from_json v =
     Option.bind (struct_fields GROUND_TRUTH_FIELDS v) (\<lambda>f.
     Option.bind (defaulted_field f ''config_repo'' [] as_str) (\<lambda>repo.
     Option.bind (optional_field f ''release_tag'' as_str) (\<lambda>tag.
     Option.bind (required_field f ''digest'' as_str) (\<lambda>dig.
     Option.bind (optional_field f ''tls_public_key'' as_str) (\<lambda>tls.
     Option.bind (optional_field f ''hpke_public_key'' as_str) (\<lambda>hpke.
     Option.bind (required_field f ''code_measurement'' measurement_from_json) (\<lambda>code.
     Option.bind (required_field f ''enclave_measurement'' measurement_from_json) (\<lambda>enclave.
     Option.bind (required_field f ''code_fingerprint'' as_str) (\<lambda>code_fp.
     Option.bind (required_field f ''enclave_fingerprint'' as_str) (\<lambda>enclave_fp.
     Option.bind (defaulted_field f ''verifier'' unknown_verifier_identity identity_from_json) (\<lambda>ver.
     Option.bind (defaulted_field f ''verified_at'' [] as_str) (\<lambda>at_time.
     Some \<lparr>config_repo = repo, release_tag = tag, release_digest = dig, tls_public_key = tls, hpke_public_key = hpke,
       code_measurement = code, enclave_measurement = enclave, code_fingerprint = code_fp,
       enclave_fingerprint = enclave_fp, gt_verifier = ver, verified_at = at_time\<rparr>))))))))))))"

section \<open>The verification document\<close>

fun status_name :: "step_status \<Rightarrow> str" where
  "status_name Pending = ''pending''"
| "status_name Success = ''success''"
| "status_name Failed = ''failed''"
| "status_name Skipped = ''skipped''"

definition status_to_json :: "step_status \<Rightarrow> json" where
  "status_to_json s = JString (status_name s)"

definition status_from_json :: "json \<Rightarrow> step_status option" where
  "status_from_json v = Option.bind (unit_variant v) (\<lambda>s.
     if s = ''pending'' then Some Pending
     else if s = ''success'' then Some Success
     else if s = ''failed'' then Some Failed
     else if s = ''skipped'' then Some Skipped
     else None)"

definition step_to_json :: "step_state \<Rightarrow> json" where
  "step_to_json s = JObject ([(''status'', status_to_json (ss_status s))] @ skip_none ''error'' JString (ss_error s))"

definition step_from_json :: "json \<Rightarrow> step_state option" where
  "step_from_json v =
     Option.bind (struct_fields [''status'', ''error''] v) (\<lambda>f.
     Option.bind (required_field f ''status'' status_from_json) (\<lambda>s.
     Option.bind (optional_field f ''error'' as_str) (\<lambda>e.
     Some \<lparr>ss_status = s, ss_error = e\<rparr>)))"

definition steps_to_json :: "verification_steps \<Rightarrow> json" where
  "steps_to_json s = JObject
     [(''fetchDigest'', step_to_json (vs_fetch_digest s)),
      (''verifyCode'', step_to_json (vs_verify_code s)),
      (''verifyEnclave'', step_to_json (vs_verify_enclave s)),
      (''compareMeasurements'', step_to_json (vs_compare_measurements s)),
      (''verifyCertificate'', step_to_json (vs_verify_certificate s))]"

definition steps_from_json :: "json \<Rightarrow> verification_steps option" where
  "steps_from_json v =
     Option.bind (struct_fields [''fetchDigest'', ''verifyCode'', ''verifyEnclave'', ''compareMeasurements'',
       ''verifyCertificate''] v) (\<lambda>f.
     Option.bind (required_field f ''fetchDigest'' step_from_json) (\<lambda>fetch.
     Option.bind (required_field f ''verifyCode'' step_from_json) (\<lambda>code.
     Option.bind (required_field f ''verifyEnclave'' step_from_json) (\<lambda>enclave.
     Option.bind (required_field f ''compareMeasurements'' step_from_json) (\<lambda>compare.
     Option.bind (required_field f ''verifyCertificate'' step_from_json) (\<lambda>cert.
     Some \<lparr>vs_fetch_digest = fetch, vs_verify_code = code, vs_verify_enclave = enclave,
       vs_compare_measurements = compare, vs_verify_certificate = cert\<rparr>))))))"

definition enclave_measurement_to_json :: "document_enclave_measurement \<Rightarrow> json" where
  "enclave_measurement_to_json m = JObject
     [(''measurement'', measurement_to_json (de_measurement m)),
      (''tlsPublicKeyFingerprint'', JString (de_tls_public_key_fingerprint m)),
      (''hpkePublicKey'', JString (de_hpke_public_key m))]"

definition enclave_measurement_from_json :: "json \<Rightarrow> document_enclave_measurement option" where
  "enclave_measurement_from_json v =
     Option.bind (struct_fields [''measurement'', ''tlsPublicKeyFingerprint'', ''hpkePublicKey''] v) (\<lambda>f.
     Option.bind (required_field f ''measurement'' measurement_from_json) (\<lambda>m.
     Option.bind (required_field f ''tlsPublicKeyFingerprint'' as_str) (\<lambda>tls.
     Option.bind (required_field f ''hpkePublicKey'' as_str) (\<lambda>hpke.
     Some \<lparr>de_measurement = m, de_tls_public_key_fingerprint = tls, de_hpke_public_key = hpke\<rparr>))))"

definition document_to_json :: "verification_document \<Rightarrow> json" where
  "document_to_json d = JObject (
     [(''schemaVersion'', JNumber (PosInt (of_nat (vd_schema_version d)))),
      (''configRepo'', JString (vd_config_repo d)),
      (''enclaveHost'', JString (vd_enclave_host d))] @
     skip_none ''releaseTag'' JString (vd_release_tag d) @
     [(''releaseDigest'', JString (vd_release_digest d)),
      (''codeMeasurement'', measurement_to_json (vd_code_measurement d)),
      (''enclaveMeasurement'', enclave_measurement_to_json (vd_enclave_measurement d)),
      (''tlsPublicKey'', JString (vd_tls_public_key d)),
      (''hpkePublicKey'', JString (vd_hpke_public_key d)),
      (''codeFingerprint'', JString (vd_code_fingerprint d)),
      (''enclaveFingerprint'', JString (vd_enclave_fingerprint d)),
      (''selectedRouterEndpoint'', JString (vd_selected_router_endpoint d)),
      (''securityVerified'', JBool (vd_security_verified d)),
      (''verifier'', identity_to_json (vd_verifier d)),
      (''verifiedAt'', JString (vd_verified_at d)),
      (''steps'', steps_to_json (vd_steps d))])"

definition DOCUMENT_FIELDS :: "str list" where
  "DOCUMENT_FIELDS = [''schemaVersion'', ''configRepo'', ''enclaveHost'', ''releaseTag'', ''releaseDigest'',
     ''codeMeasurement'', ''enclaveMeasurement'', ''tlsPublicKey'', ''hpkePublicKey'', ''codeFingerprint'',
     ''enclaveFingerprint'', ''selectedRouterEndpoint'', ''securityVerified'', ''verifier'', ''verifiedAt'', ''steps'']"

definition document_from_json :: "json \<Rightarrow> verification_document option" where
  "document_from_json v =
     Option.bind (struct_fields DOCUMENT_FIELDS v) (\<lambda>f.
     Option.bind (required_field f ''schemaVersion'' json_u8) (\<lambda>schema.
     Option.bind (required_field f ''configRepo'' as_str) (\<lambda>repo.
     Option.bind (required_field f ''enclaveHost'' as_str) (\<lambda>host.
     Option.bind (optional_field f ''releaseTag'' as_str) (\<lambda>tag.
     Option.bind (required_field f ''releaseDigest'' as_str) (\<lambda>dig.
     Option.bind (required_field f ''codeMeasurement'' measurement_from_json) (\<lambda>code.
     Option.bind (required_field f ''enclaveMeasurement'' enclave_measurement_from_json) (\<lambda>enclave.
     Option.bind (required_field f ''tlsPublicKey'' as_str) (\<lambda>tls.
     Option.bind (required_field f ''hpkePublicKey'' as_str) (\<lambda>hpke.
     Option.bind (required_field f ''codeFingerprint'' as_str) (\<lambda>code_fp.
     Option.bind (required_field f ''enclaveFingerprint'' as_str) (\<lambda>enclave_fp.
     Option.bind (required_field f ''selectedRouterEndpoint'' as_str) (\<lambda>router.
     Option.bind (required_field f ''securityVerified'' json_bool) (\<lambda>secure.
     Option.bind (required_field f ''verifier'' identity_from_json) (\<lambda>ver.
     Option.bind (required_field f ''verifiedAt'' as_str) (\<lambda>at_time.
     Option.bind (required_field f ''steps'' steps_from_json) (\<lambda>steps.
     Some \<lparr>vd_schema_version = schema, vd_config_repo = repo, vd_enclave_host = host, vd_release_tag = tag,
       vd_release_digest = dig, vd_code_measurement = code, vd_enclave_measurement = enclave,
       vd_tls_public_key = tls, vd_hpke_public_key = hpke, vd_code_fingerprint = code_fp,
       vd_enclave_fingerprint = enclave_fp, vd_selected_router_endpoint = router,
       vd_security_verified = secure, vd_verifier = ver, vd_verified_at = at_time, vd_steps = steps\<rparr>)))))))))))))))))"

section \<open>Values up to the order of members\<close>

text \<open>An object is a map: a text may list its members in one order and the value read from it in another.\<close>

inductive json_same :: "json \<Rightarrow> json \<Rightarrow> bool" where
  Same_Null: "json_same JNull JNull"
| Same_Bool: "json_same (JBool b) (JBool b)"
| Same_Number: "json_same (JNumber n) (JNumber n)"
| Same_String: "json_same (JString s) (JString s)"
| Same_Array: "list_all2 json_same vs ws \<Longrightarrow> json_same (JArray vs) (JArray ws)"
| Same_Object: "(\<And>k. map_of kvs k = None \<longleftrightarrow> map_of kvs' k = None) \<Longrightarrow>
    (\<And>k v w. map_of kvs k = Some v \<Longrightarrow> map_of kvs' k = Some w \<Longrightarrow> json_same v w) \<Longrightarrow>
    json_same (JObject kvs) (JObject kvs')"

inductive_simps json_same_simps: "json_same JNull w" "json_same (JBool b) w" "json_same (JNumber n) w"
  "json_same (JString s) w" "json_same (JArray vs) w"
inductive_cases json_same_objectE: "json_same (JObject kvs) w"

lemma json_same_refl [simp]: "json_same v v"
proof (induction v)
  case (JObject kvs)
  then show ?case by (intro Same_Object) (auto dest: map_of_SomeD)
qed (auto intro: json_same.intros simp: list_all2_same)

lemma json_same_member:
  assumes "json_same (JObject kvs) (JObject kvs')"
  shows "map_of kvs k = Some v \<Longrightarrow> \<exists>w. map_of kvs' k = Some w \<and> json_same v w"
    and "map_of kvs k = None \<Longrightarrow> map_of kvs' k = None"
  using assms by (auto elim!: json_same_objectE) (metis not_None_eq)+

section \<open>Reading back what was written\<close>

text \<open>What every pair of a writer and a reader promises: a value is read back, in whatever order its members
  come, so no two values have the same form; and it is not written as \<open>null\<close>, so it may stand in an
  optional field.\<close>

locale json_codec =
  fixes to_json :: "'a \<Rightarrow> json"
    and from_json :: "json \<Rightarrow> 'a option"
    and valid :: "'a \<Rightarrow> bool"
  assumes from_same: "valid v \<Longrightarrow> json_same (to_json v) w \<Longrightarrow> from_json w = Some v"
    and not_null: "\<not> json_same (to_json v) JNull"
begin

lemma to_json_inject: "valid v \<Longrightarrow> valid v' \<Longrightarrow> json_same (to_json v) w \<Longrightarrow> json_same (to_json v') w \<Longrightarrow> v = v'"
  by (metis from_same option.inject)

lemma read_required:
  "json_same (JObject kvs) (JObject kvs') \<Longrightarrow> map_of kvs k = Some (to_json v) \<Longrightarrow> valid v \<Longrightarrow>
    required_field (False, map_of kvs') k from_json = Some v"
  using json_same_member(1) [of kvs kvs' k "to_json v"] from_same by (auto simp: required_field_def)

lemma read_defaulted:
  "json_same (JObject kvs) (JObject kvs') \<Longrightarrow> map_of kvs k = Some (to_json v) \<Longrightarrow> valid v \<Longrightarrow>
    defaulted_field (False, map_of kvs') k d from_json = Some v"
  using json_same_member(1) [of kvs kvs' k "to_json v"] from_same by (auto simp: defaulted_field_def)

lemma read_some:
  "json_same (JObject kvs) (JObject kvs') \<Longrightarrow> map_of kvs k = Some (to_json v) \<Longrightarrow> valid v \<Longrightarrow>
    optional_field (False, map_of kvs') k from_json = Some (Some v)"
  using json_same_member(1) [of kvs kvs' k "to_json v"] from_same not_null by (auto simp: optional_field_def)

lemma read_list:
  assumes "json_same (JArray (map to_json vs)) w" "list_all valid vs"
  shows "json_list from_json w = Some vs"
proof -
  obtain ws where w: "w = JArray ws" "list_all2 json_same (map to_json vs) ws"
    using assms(1) by (auto simp: json_same_simps)
  have "those (map from_json ws) = Some vs"
    using w(2) assms(2)
    by (induction vs arbitrary: ws) (auto simp: list_all2_Cons1 from_same)
  then show ?thesis using w(1) by (simp add: json_list_def)
qed

end

lemma read_none:
  "json_same (JObject kvs) (JObject kvs') \<Longrightarrow> map_of kvs k = None \<Longrightarrow>
    optional_field (False, map_of kvs') k dec = Some None"
  using json_same_member(2) [of kvs kvs' k] by (simp add: optional_field_def)

interpretation string_json: json_codec JString as_str "\<lambda>_. True"
  by unfold_locales (auto simp: json_same_simps)

lemmas read_string = string_json.read_required string_json.read_defaulted string_json.read_some read_none

interpretation strings_json: json_codec "\<lambda>ss. JArray (map JString ss)" "json_list as_str" "\<lambda>_. True"
proof
  show "json_list as_str w = Some ss" if "json_same (JArray (map JString ss)) w" for ss w
    by (rule string_json.read_list [OF that]) (simp add: list_all_iff)
qed (simp add: json_same_simps)

interpretation predicate_json: json_codec predicate_to_json predicate_from_json "\<lambda>_. True"
proof
  fix p w
  assume "json_same (predicate_to_json p) w"
  then have "w = JString (predicate_name p)" by (simp add: predicate_to_json_def json_same_simps)
  then show "predicate_from_json w = Some p"
    by (cases p) (simp_all add: predicate_from_json_def predicate_from_url_def)
qed (simp add: predicate_to_json_def json_same_simps)

text \<open>A struct is not \<open>null\<close>, and what is the same is an object again.\<close>

lemma struct_same:
  assumes "json_same (JObject kvs) w"
  obtains kvs' where "w = JObject kvs'" "json_same (JObject kvs) (JObject kvs')"
  using assms by (auto elim: json_same_objectE)

lemma struct_not_null: "\<not> json_same (JObject kvs) JNull"
  by (auto elim: json_same_objectE)

interpretation attestation_json: json_codec attestation_document_to_json attestation_document_from_json "\<lambda>_. True"
proof
  fix d w
  assume "json_same (attestation_document_to_json d) w"
  then obtain kvs where w: "w = JObject kvs" and same: "json_same (attestation_document_to_json d) (JObject kvs)"
    unfolding attestation_document_to_json_def by (rule struct_same)
  note read = string_json.read_required [OF same [unfolded attestation_document_to_json_def]]
    predicate_json.read_required [OF same [unfolded attestation_document_to_json_def]]
  show "attestation_document_from_json w = Some d"
    by (simp add: w attestation_document_from_json_def read)
qed (simp add: attestation_document_to_json_def struct_not_null)

interpretation measurement_json: json_codec measurement_to_json measurement_from_json "\<lambda>_. True"
proof
  fix m w
  assume "json_same (measurement_to_json m) w"
  then obtain kvs where w: "w = JObject kvs" and same: "json_same (measurement_to_json m) (JObject kvs)"
    unfolding measurement_to_json_def by (rule struct_same)
  note read = strings_json.read_required [OF same [unfolded measurement_to_json_def]]
    predicate_json.read_required [OF same [unfolded measurement_to_json_def]]
  show "measurement_from_json w = Some m"
    by (simp add: w measurement_from_json_def read)
qed (simp add: measurement_to_json_def struct_not_null)

interpretation identity_json: json_codec identity_to_json identity_from_json "\<lambda>_. True"
proof
  fix i w
  assume "json_same (identity_to_json i) w"
  then obtain kvs where w: "w = JObject kvs" and same: "json_same (identity_to_json i) (JObject kvs)"
    unfolding identity_to_json_def by (rule struct_same)
  note read = string_json.read_required [OF same [unfolded identity_to_json_def]]
  show "identity_from_json w = Some i"
    by (simp add: w identity_from_json_def read)
qed (simp add: identity_to_json_def struct_not_null)

interpretation ground_truth_json: json_codec ground_truth_to_json ground_truth_from_json "\<lambda>_. True"
proof
  fix gt w
  assume "json_same (ground_truth_to_json gt) w"
  then obtain kvs where w: "w = JObject kvs" and same: "json_same (ground_truth_to_json gt) (JObject kvs)"
    unfolding ground_truth_to_json_def by (rule struct_same)
  note read = string_json.read_required [OF same [unfolded ground_truth_to_json_def]]
    string_json.read_defaulted [OF same [unfolded ground_truth_to_json_def]]
    string_json.read_some [OF same [unfolded ground_truth_to_json_def]]
    read_none [OF same [unfolded ground_truth_to_json_def]]
    measurement_json.read_required [OF same [unfolded ground_truth_to_json_def]]
    identity_json.read_defaulted [OF same [unfolded ground_truth_to_json_def]]
  show "ground_truth_from_json w = Some gt"
    by (cases "release_tag gt"; cases "tls_public_key gt"; cases "hpke_public_key gt")
      (simp_all add: w ground_truth_from_json_def skip_none_def read)
qed (simp add: ground_truth_to_json_def struct_not_null)

interpretation status_json: json_codec status_to_json status_from_json "\<lambda>_. True"
proof
  fix s w
  assume "json_same (status_to_json s) w"
  then have "w = JString (status_name s)" by (simp add: status_to_json_def json_same_simps)
  then show "status_from_json w = Some s" by (cases s) (simp_all add: status_from_json_def)
qed (simp add: status_to_json_def json_same_simps)

interpretation step_json: json_codec step_to_json step_from_json "\<lambda>_. True"
proof
  fix s w
  assume "json_same (step_to_json s) w"
  then obtain kvs where w: "w = JObject kvs" and same: "json_same (step_to_json s) (JObject kvs)"
    unfolding step_to_json_def by (rule struct_same)
  note read = string_json.read_some [OF same [unfolded step_to_json_def]]
    read_none [OF same [unfolded step_to_json_def]]
    status_json.read_required [OF same [unfolded step_to_json_def]]
  show "step_from_json w = Some s"
    by (cases "ss_error s") (simp_all add: w step_from_json_def skip_none_def read)
qed (simp add: step_to_json_def struct_not_null)

interpretation steps_json: json_codec steps_to_json steps_from_json "\<lambda>_. True"
proof
  fix s w
  assume "json_same (steps_to_json s) w"
  then obtain kvs where w: "w = JObject kvs" and same: "json_same (steps_to_json s) (JObject kvs)"
    unfolding steps_to_json_def by (rule struct_same)
  note read = step_json.read_required [OF same [unfolded steps_to_json_def]]
  show "steps_from_json w = Some s"
    by (simp add: w steps_from_json_def skip_none_def read)
qed (simp add: steps_to_json_def struct_not_null)

interpretation enclave_measurement_json: json_codec enclave_measurement_to_json enclave_measurement_from_json "\<lambda>_. True"
proof
  fix m w
  assume "json_same (enclave_measurement_to_json m) w"
  then obtain kvs where w: "w = JObject kvs" and same: "json_same (enclave_measurement_to_json m) (JObject kvs)"
    unfolding enclave_measurement_to_json_def by (rule struct_same)
  note read = string_json.read_required [OF same [unfolded enclave_measurement_to_json_def]]
    measurement_json.read_required [OF same [unfolded enclave_measurement_to_json_def]]
  show "enclave_measurement_from_json w = Some m"
    by (simp add: w enclave_measurement_from_json_def skip_none_def read)
qed (simp add: enclave_measurement_to_json_def struct_not_null)

text \<open>The schema version is a \<open>u8\<close> of the source.\<close>

interpretation u8_json: json_codec "\<lambda>n. JNumber (PosInt (of_nat n))" json_u8 "\<lambda>n. n < 256"
  by unfold_locales (auto simp: json_same_simps json_u8_def word_less_nat_alt unat_of_nat)

interpretation bool_json: json_codec JBool json_bool "\<lambda>_. True"
  by unfold_locales (auto simp: json_same_simps)

interpretation document_json: json_codec document_to_json document_from_json "\<lambda>d. vd_schema_version d < 256"
proof
  fix d :: verification_document and w
  assume valid: "vd_schema_version d < 256"
  assume "json_same (document_to_json d) w"
  then obtain kvs where w: "w = JObject kvs" and same: "json_same (document_to_json d) (JObject kvs)"
    unfolding document_to_json_def by (rule struct_same)
  note read = string_json.read_required [OF same [unfolded document_to_json_def]]
    string_json.read_some [OF same [unfolded document_to_json_def]]
    read_none [OF same [unfolded document_to_json_def]]
    u8_json.read_required [OF same [unfolded document_to_json_def]]
    bool_json.read_required [OF same [unfolded document_to_json_def]]
    measurement_json.read_required [OF same [unfolded document_to_json_def]]
    enclave_measurement_json.read_required [OF same [unfolded document_to_json_def]]
    identity_json.read_required [OF same [unfolded document_to_json_def]]
    steps_json.read_required [OF same [unfolded document_to_json_def]]
  show "document_from_json w = Some d"
    using valid by (cases "vd_release_tag d") (simp_all add: w document_from_json_def skip_none_def read)
qed (simp add: document_to_json_def struct_not_null)

text \<open>A legacy document, written before the verifier and the time were recorded, never claims the current
  verifier.\<close>

lemma legacy_verifier_unknown:
  assumes "ground_truth_from_json (JObject kvs) = Some gt" "map_of kvs ''verifier'' = None"
  shows "gt_verifier gt = unknown_verifier_identity"
  using assms by (auto simp: ground_truth_from_json_def defaulted_field_def bind_eq_Some_conv)

lemma legacy_ground_truth:
  "ground_truth_from_json (JObject [(''digest'', JString ''abc123''),
      (''code_measurement'', measurement_to_json \<lparr>m_type = SevGuestV2, registers = [''a'']\<rparr>),
      (''enclave_measurement'', measurement_to_json \<lparr>m_type = SevGuestV2, registers = [''a'']\<rparr>),
      (''code_fingerprint'', JString ''a''), (''enclave_fingerprint'', JString ''a'')]) =
    Some \<lparr>config_repo = [], release_tag = None, release_digest = ''abc123'', tls_public_key = None,
      hpke_public_key = None, code_measurement = \<lparr>m_type = SevGuestV2, registers = [''a'']\<rparr>,
      enclave_measurement = \<lparr>m_type = SevGuestV2, registers = [''a'']\<rparr>, code_fingerprint = ''a'',
      enclave_fingerprint = ''a'', gt_verifier = unknown_verifier_identity, verified_at = []\<rparr>"
  by (simp add: ground_truth_from_json_def measurement_to_json_def measurement_from_json_def predicate_to_json_def
      predicate_from_json_def predicate_from_url_def json_list_def required_field_def optional_field_def defaulted_field_def)

end
