(* ===== verification/Origin_Bound.thy ===== *)
theory Origin_Bound
  imports Tls Transitions
begin

text \<open>
  \<open>OriginBoundClient\<close> and \<open>OriginBoundRequestBuilder\<close> of \<open>verifier/tls.rs\<close>: the client that is handed to
  callers and the builders of its requests. The client and the builder inside belong to
  \<open>reqwest-middleware\<close> and are parameters, as are requests, responses and the arguments that are only
  handed on; the last section states what is used of that crate's documentation.
\<close>

section \<open>The crate inside\<close>

datatype method_call = CallGet | CallPost | CallPut | CallPatch | CallDelete | CallHead | CallRequest str

datatype 'a builder_call = CallHeader 'a 'a | CallHeaders 'a | CallVersion 'a | CallBasicAuth 'a "'a option"
  | CallBearerAuth 'a | CallBody 'a | CallTimeout 'a | CallMultipart 'a | CallQuery 'a | CallJson 'a
  | CallWithExtension 'a

text \<open>A middleware is given the request, its extensions and the rest of the stack.\<close>

type_synonym ('q, 'x, 'r) sending = "'q \<Rightarrow> 'x \<Rightarrow> str + 'r"
type_synonym ('q, 'x, 'r) middleware = "'q \<Rightarrow> 'x \<Rightarrow> ('q, 'x, 'r) sending \<Rightarrow> str + 'r"

record ('c, 'b, 'q, 'a, 'x, 'r) request_crate =
  mw_transport :: "http_client \<Rightarrow> ('q, 'x, 'r) sending"
  mw_stack :: "http_client \<Rightarrow> ('q, 'x, 'r) middleware list \<Rightarrow> 'c"
  mw_open :: "'c \<Rightarrow> method_call \<Rightarrow> 'a \<Rightarrow> 'b"
  mw_execute :: "'c \<Rightarrow> 'q \<Rightarrow> str + 'r"
  mw_execute_with :: "'c \<Rightarrow> ('q, 'x, 'r) sending"
  mw_call :: "'b \<Rightarrow> 'a builder_call \<Rightarrow> 'b"
  mw_build :: "'b \<Rightarrow> str + 'q"
  mw_build_split :: "'b \<Rightarrow> 'c \<times> (str + 'q)"
  mw_extensions :: "'b \<Rightarrow> 'x"
  mw_put_extensions :: "'x \<Rightarrow> 'b \<Rightarrow> 'b"
  mw_send :: "'b \<Rightarrow> str + 'r"
  mw_try_clone :: "'b \<Rightarrow> 'b option"
  mw_fmt :: "'b \<Rightarrow> str"
  mw_no_extensions :: 'x
  mw_url :: "'q \<Rightarrow> url"

section \<open>The verifier's handshake functions\<close>

text \<open>Only the certificate is pinned: the signatures of the handshake are left to the web PKI verifier
  inside, which needs the key of that certificate to accept them.\<close>

record handshake_verifier =
  hv_tls12 :: "bytes \<Rightarrow> bytes \<Rightarrow> bytes \<Rightarrow> str + unit"
  hv_tls13 :: "bytes \<Rightarrow> bytes \<Rightarrow> bytes \<Rightarrow> str + unit"
  hv_schemes :: "str list"

definition verify_tls12_signature :: "handshake_verifier \<Rightarrow> bytes \<Rightarrow> bytes \<Rightarrow> bytes \<Rightarrow> str + unit" where
  "verify_tls12_signature inner message cert dss = hv_tls12 inner message cert dss"

definition verify_tls13_signature :: "handshake_verifier \<Rightarrow> bytes \<Rightarrow> bytes \<Rightarrow> bytes \<Rightarrow> str + unit" where
  "verify_tls13_signature inner message cert dss = hv_tls13 inner message cert dss"

definition supported_verify_schemes :: "handshake_verifier \<Rightarrow> str list" where
  "supported_verify_schemes inner = hv_schemes inner"

section \<open>The client\<close>

record 'c origin_bound_client =
  obc_inner :: 'c

record ('c, 'b) origin_bound_builder =
  ob_inner :: 'b
  ob_client :: "'c origin_bound_client"

definition origin_middleware ::
  "tls_ext \<Rightarrow> ('c, 'b, 'q, 'a, 'x, 'r) request_crate \<Rightarrow> bound_client \<Rightarrow> ('q, 'x, 'r) middleware" where
  "origin_middleware t m bc request extensions next_run =
     middleware_handle t bc (mw_url m request) (\<lambda>_. next_run request extensions)"

text \<open>The exposed half of \<open>create_host_bound_pinned_client\<close>.\<close>

definition exposed_client ::
  "tls_ext \<Rightarrow> ('c, 'b, 'q, 'a, 'x, 'r) request_crate \<Rightarrow> bound_client \<Rightarrow> 'c origin_bound_client" where
  "exposed_client t m bc = \<lparr>obc_inner = mw_stack m (bc_transport bc) [origin_middleware t m bc]\<rparr>"

definition wrap_builder :: "'c origin_bound_client \<Rightarrow> 'b \<Rightarrow> ('c, 'b) origin_bound_builder" where
  "wrap_builder c inner = \<lparr>ob_inner = inner, ob_client = c\<rparr>"

definition client_get :: "('c, 'b, 'q, 'a, 'x, 'r) request_crate \<Rightarrow> 'c origin_bound_client \<Rightarrow> 'a \<Rightarrow> ('c, 'b) origin_bound_builder" where
  "client_get m c url = wrap_builder c (mw_open m (obc_inner c) CallGet url)"

definition client_post :: "('c, 'b, 'q, 'a, 'x, 'r) request_crate \<Rightarrow> 'c origin_bound_client \<Rightarrow> 'a \<Rightarrow> ('c, 'b) origin_bound_builder" where
  "client_post m c url = wrap_builder c (mw_open m (obc_inner c) CallPost url)"

definition client_put :: "('c, 'b, 'q, 'a, 'x, 'r) request_crate \<Rightarrow> 'c origin_bound_client \<Rightarrow> 'a \<Rightarrow> ('c, 'b) origin_bound_builder" where
  "client_put m c url = wrap_builder c (mw_open m (obc_inner c) CallPut url)"

definition client_patch :: "('c, 'b, 'q, 'a, 'x, 'r) request_crate \<Rightarrow> 'c origin_bound_client \<Rightarrow> 'a \<Rightarrow> ('c, 'b) origin_bound_builder" where
  "client_patch m c url = wrap_builder c (mw_open m (obc_inner c) CallPatch url)"

definition client_delete :: "('c, 'b, 'q, 'a, 'x, 'r) request_crate \<Rightarrow> 'c origin_bound_client \<Rightarrow> 'a \<Rightarrow> ('c, 'b) origin_bound_builder" where
  "client_delete m c url = wrap_builder c (mw_open m (obc_inner c) CallDelete url)"

definition client_head :: "('c, 'b, 'q, 'a, 'x, 'r) request_crate \<Rightarrow> 'c origin_bound_client \<Rightarrow> 'a \<Rightarrow> ('c, 'b) origin_bound_builder" where
  "client_head m c url = wrap_builder c (mw_open m (obc_inner c) CallHead url)"

definition client_request ::
  "('c, 'b, 'q, 'a, 'x, 'r) request_crate \<Rightarrow> 'c origin_bound_client \<Rightarrow> str \<Rightarrow> 'a \<Rightarrow> ('c, 'b) origin_bound_builder" where
  "client_request m c meth url = wrap_builder c (mw_open m (obc_inner c) (CallRequest meth) url)"

definition client_execute :: "('c, 'b, 'q, 'a, 'x, 'r) request_crate \<Rightarrow> 'c origin_bound_client \<Rightarrow> 'q \<Rightarrow> str + 'r" where
  "client_execute m c request = mw_execute m (obc_inner c) request"

lemmas client_defs = client_get_def client_post_def client_put_def client_patch_def client_delete_def
  client_head_def client_request_def client_execute_def wrap_builder_def

section \<open>The builder\<close>

definition builder_header ::
  "('c, 'b, 'q, 'a, 'x, 'r) request_crate \<Rightarrow> ('c, 'b) origin_bound_builder \<Rightarrow> 'a \<Rightarrow> 'a \<Rightarrow> ('c, 'b) origin_bound_builder" where
  "builder_header m b key val = b\<lparr>ob_inner := mw_call m (ob_inner b) (CallHeader key val)\<rparr>"

definition builder_headers ::
  "('c, 'b, 'q, 'a, 'x, 'r) request_crate \<Rightarrow> ('c, 'b) origin_bound_builder \<Rightarrow> 'a \<Rightarrow> ('c, 'b) origin_bound_builder" where
  "builder_headers m b hs = b\<lparr>ob_inner := mw_call m (ob_inner b) (CallHeaders hs)\<rparr>"

definition builder_version ::
  "('c, 'b, 'q, 'a, 'x, 'r) request_crate \<Rightarrow> ('c, 'b) origin_bound_builder \<Rightarrow> 'a \<Rightarrow> ('c, 'b) origin_bound_builder" where
  "builder_version m b ver = b\<lparr>ob_inner := mw_call m (ob_inner b) (CallVersion ver)\<rparr>"

definition builder_basic_auth ::
  "('c, 'b, 'q, 'a, 'x, 'r) request_crate \<Rightarrow> ('c, 'b) origin_bound_builder \<Rightarrow> 'a \<Rightarrow> 'a option \<Rightarrow> ('c, 'b) origin_bound_builder" where
  "builder_basic_auth m b username password = b\<lparr>ob_inner := mw_call m (ob_inner b) (CallBasicAuth username password)\<rparr>"

definition builder_bearer_auth ::
  "('c, 'b, 'q, 'a, 'x, 'r) request_crate \<Rightarrow> ('c, 'b) origin_bound_builder \<Rightarrow> 'a \<Rightarrow> ('c, 'b) origin_bound_builder" where
  "builder_bearer_auth m b token = b\<lparr>ob_inner := mw_call m (ob_inner b) (CallBearerAuth token)\<rparr>"

definition builder_body ::
  "('c, 'b, 'q, 'a, 'x, 'r) request_crate \<Rightarrow> ('c, 'b) origin_bound_builder \<Rightarrow> 'a \<Rightarrow> ('c, 'b) origin_bound_builder" where
  "builder_body m b content = b\<lparr>ob_inner := mw_call m (ob_inner b) (CallBody content)\<rparr>"

definition builder_timeout ::
  "('c, 'b, 'q, 'a, 'x, 'r) request_crate \<Rightarrow> ('c, 'b) origin_bound_builder \<Rightarrow> 'a \<Rightarrow> ('c, 'b) origin_bound_builder" where
  "builder_timeout m b duration = b\<lparr>ob_inner := mw_call m (ob_inner b) (CallTimeout duration)\<rparr>"

definition builder_multipart ::
  "('c, 'b, 'q, 'a, 'x, 'r) request_crate \<Rightarrow> ('c, 'b) origin_bound_builder \<Rightarrow> 'a \<Rightarrow> ('c, 'b) origin_bound_builder" where
  "builder_multipart m b form = b\<lparr>ob_inner := mw_call m (ob_inner b) (CallMultipart form)\<rparr>"

definition builder_query ::
  "('c, 'b, 'q, 'a, 'x, 'r) request_crate \<Rightarrow> ('c, 'b) origin_bound_builder \<Rightarrow> 'a \<Rightarrow> ('c, 'b) origin_bound_builder" where
  "builder_query m b q = b\<lparr>ob_inner := mw_call m (ob_inner b) (CallQuery q)\<rparr>"

definition builder_json ::
  "('c, 'b, 'q, 'a, 'x, 'r) request_crate \<Rightarrow> ('c, 'b) origin_bound_builder \<Rightarrow> 'a \<Rightarrow> ('c, 'b) origin_bound_builder" where
  "builder_json m b j = b\<lparr>ob_inner := mw_call m (ob_inner b) (CallJson j)\<rparr>"

definition builder_with_extension ::
  "('c, 'b, 'q, 'a, 'x, 'r) request_crate \<Rightarrow> ('c, 'b) origin_bound_builder \<Rightarrow> 'a \<Rightarrow> ('c, 'b) origin_bound_builder" where
  "builder_with_extension m b extension = b\<lparr>ob_inner := mw_call m (ob_inner b) (CallWithExtension extension)\<rparr>"

definition builder_build :: "('c, 'b, 'q, 'a, 'x, 'r) request_crate \<Rightarrow> ('c, 'b) origin_bound_builder \<Rightarrow> str + 'q" where
  "builder_build m b = mw_build m (ob_inner b)"

definition builder_build_split ::
  "('c, 'b, 'q, 'a, 'x, 'r) request_crate \<Rightarrow> ('c, 'b) origin_bound_builder \<Rightarrow> 'c origin_bound_client \<times> (str + 'q)" where
  "builder_build_split m b = (case mw_build_split m (ob_inner b) of (_, request) \<Rightarrow> (ob_client b, request))"

text \<open>\<open>extensions\<close> lends the extensions out; the borrower may leave anything there.\<close>

definition builder_extensions :: "('c, 'b, 'q, 'a, 'x, 'r) request_crate \<Rightarrow> ('c, 'b) origin_bound_builder \<Rightarrow> 'x" where
  "builder_extensions m b = mw_extensions m (ob_inner b)"

definition builder_put_extensions ::
  "('c, 'b, 'q, 'a, 'x, 'r) request_crate \<Rightarrow> 'x \<Rightarrow> ('c, 'b) origin_bound_builder \<Rightarrow> ('c, 'b) origin_bound_builder" where
  "builder_put_extensions m x b = b\<lparr>ob_inner := mw_put_extensions m x (ob_inner b)\<rparr>"

definition builder_send :: "('c, 'b, 'q, 'a, 'x, 'r) request_crate \<Rightarrow> ('c, 'b) origin_bound_builder \<Rightarrow> str + 'r" where
  "builder_send m b = mw_send m (ob_inner b)"

definition builder_try_clone ::
  "('c, 'b, 'q, 'a, 'x, 'r) request_crate \<Rightarrow> ('c, 'b) origin_bound_builder \<Rightarrow> ('c, 'b) origin_bound_builder option" where
  "builder_try_clone m b = map_option (\<lambda>inner. \<lparr>ob_inner = inner, ob_client = ob_client b\<rparr>) (mw_try_clone m (ob_inner b))"

definition builder_fmt :: "('c, 'b, 'q, 'a, 'x, 'r) request_crate \<Rightarrow> ('c, 'b) origin_bound_builder \<Rightarrow> str" where
  "builder_fmt m b = mw_fmt m (ob_inner b)"

lemmas builder_defs = builder_header_def builder_headers_def builder_version_def builder_basic_auth_def
  builder_bearer_auth_def builder_body_def builder_timeout_def builder_multipart_def builder_query_def
  builder_json_def builder_with_extension_def builder_put_extensions_def

section \<open>What a caller can hold\<close>

text \<open>
  A caller who was given a client can open requests, chain calls on a builder, clone either, build, split
  a builder into a client and a request, and change the extensions. \<open>held\<close> is a value in its hands,
  \<open>bound_step\<close> how it comes to hold another one.
\<close>

datatype ('c, 'b, 'q) held = Held_Client "'c origin_bound_client" | Held_Builder "('c, 'b) origin_bound_builder"
  | Held_Request "str + 'q"

datatype ('a, 'x) bound_op = Op_Clone | Op_Open method_call 'a | Op_Call "'a builder_call" | Op_Extensions 'x
  | Op_Build | Op_Split_Client | Op_Split_Request

fun client_open ::
  "('c, 'b, 'q, 'a, 'x, 'r) request_crate \<Rightarrow> 'c origin_bound_client \<Rightarrow> method_call \<Rightarrow> 'a \<Rightarrow> ('c, 'b) origin_bound_builder" where
  "client_open m c CallGet url = client_get m c url"
| "client_open m c CallPost url = client_post m c url"
| "client_open m c CallPut url = client_put m c url"
| "client_open m c CallPatch url = client_patch m c url"
| "client_open m c CallDelete url = client_delete m c url"
| "client_open m c CallHead url = client_head m c url"
| "client_open m c (CallRequest meth) url = client_request m c meth url"

fun builder_apply ::
  "('c, 'b, 'q, 'a, 'x, 'r) request_crate \<Rightarrow> ('c, 'b) origin_bound_builder \<Rightarrow> 'a builder_call \<Rightarrow> ('c, 'b) origin_bound_builder" where
  "builder_apply m b (CallHeader k v) = builder_header m b k v"
| "builder_apply m b (CallHeaders hs) = builder_headers m b hs"
| "builder_apply m b (CallVersion v) = builder_version m b v"
| "builder_apply m b (CallBasicAuth u p) = builder_basic_auth m b u p"
| "builder_apply m b (CallBearerAuth t) = builder_bearer_auth m b t"
| "builder_apply m b (CallBody c) = builder_body m b c"
| "builder_apply m b (CallTimeout d) = builder_timeout m b d"
| "builder_apply m b (CallMultipart f) = builder_multipart m b f"
| "builder_apply m b (CallQuery q) = builder_query m b q"
| "builder_apply m b (CallJson j) = builder_json m b j"
| "builder_apply m b (CallWithExtension e) = builder_with_extension m b e"

inductive bound_step ::
  "('c, 'b, 'q, 'a, 'x, 'r) request_crate \<Rightarrow> ('c, 'b, 'q) held \<Rightarrow> ('a, 'x) bound_op \<Rightarrow> ('c, 'b, 'q) held \<Rightarrow> bool" for m where
  Step_Clone: "bound_step m (Held_Client c) Op_Clone (Held_Client c)"
| Step_Try_Clone: "builder_try_clone m b = Some b' \<Longrightarrow> bound_step m (Held_Builder b) Op_Clone (Held_Builder b')"
| Step_Open: "bound_step m (Held_Client c) (Op_Open meth url) (Held_Builder (client_open m c meth url))"
| Step_Call: "bound_step m (Held_Builder b) (Op_Call call) (Held_Builder (builder_apply m b call))"
| Step_Extensions: "bound_step m (Held_Builder b) (Op_Extensions x) (Held_Builder (builder_put_extensions m x b))"
| Step_Build: "bound_step m (Held_Builder b) Op_Build (Held_Request (builder_build m b))"
| Step_Split_Client: "bound_step m (Held_Builder b) Op_Split_Client (Held_Client (fst (builder_build_split m b)))"
| Step_Split_Request: "bound_step m (Held_Builder b) Op_Split_Request (Held_Request (snd (builder_build_split m b)))"

inductive_cases bound_step_cases: "bound_step m h op h'"

lemma client_open_wrap: "client_open m c meth url = wrap_builder c (mw_open m (obc_inner c) meth url)"
  by (cases meth) (simp_all add: client_defs)

lemma builder_apply_inner: "builder_apply m b call = b\<lparr>ob_inner := mw_call m (ob_inner b) call\<rparr>"
  by (cases call) (simp_all add: builder_defs)

section \<open>The binding is kept\<close>

text \<open>What the documentation of \<open>reqwest-middleware\<close> says of a client, \<open>RequestBuilder::build_split\<close> and
  \<open>RequestBuilder::send\<close>: executing runs the stack, with the transport as its end; a builder has the
  client it was opened on, and its calls, clones and extensions do not change that; sending is building
  and executing on that client.\<close>

definition middleware_documented :: "('c, 'b, 'q, 'a, 'x, 'r) request_crate \<Rightarrow> bool" where
  "middleware_documented m \<longleftrightarrow>
     (\<forall>transport mw. mw_execute_with m (mw_stack m transport [mw]) = (\<lambda>q x. mw q x (mw_transport m transport))) \<and>
     (\<forall>c q. mw_execute m c q = mw_execute_with m c q (mw_no_extensions m)) \<and>
     (\<forall>c meth url. fst (mw_build_split m (mw_open m c meth url)) = c) \<and>
     (\<forall>b call. fst (mw_build_split m (mw_call m b call)) = fst (mw_build_split m b)) \<and>
     (\<forall>b x. fst (mw_build_split m (mw_put_extensions m x b)) = fst (mw_build_split m b)) \<and>
     (\<forall>b b'. mw_try_clone m b = Some b' \<longrightarrow> fst (mw_build_split m b') = fst (mw_build_split m b)) \<and>
     (\<forall>b. mw_build m b = snd (mw_build_split m b)) \<and>
     (\<forall>b. mw_send m b = try_bind (snd (mw_build_split m b))
        (\<lambda>q. mw_execute_with m (fst (mw_build_split m b)) q (mw_extensions m b)))"

text \<open>The type of a held value: a client is the one that was handed out, and a builder carries that
  client, both in its own field and inside.\<close>

fun bound_to ::
  "('c, 'b, 'q, 'a, 'x, 'r) request_crate \<Rightarrow> 'c origin_bound_client \<Rightarrow> ('c, 'b, 'q) held \<Rightarrow> bool" where
  "bound_to m c (Held_Client c') \<longleftrightarrow> c' = c"
| "bound_to m c (Held_Builder b) \<longleftrightarrow> ob_client b = c \<and>
     (middleware_documented m \<longrightarrow> fst (mw_build_split m (ob_inner b)) = obc_inner c)"
| "bound_to m c (Held_Request r) \<longleftrightarrow> True"

lemma bound_to_step:
  assumes "bound_step m h op h'" "bound_to m c h"
  shows "bound_to m c h'"
  using assms
  by (cases rule: bound_step.cases)
    (auto simp: client_open_wrap builder_apply_inner wrap_builder_def builder_build_split_def builder_try_clone_def
      builder_put_extensions_def middleware_documented_def split: prod.splits)

interpretation bound: invariant_system "(=) (Held_Client c)" "bound_step m" "bound_to m c" for m c
  by unfold_locales (auto intro: bound_to_step)

lemma run_bound_to: "run (bound_step m) (Held_Client c) ops h \<Longrightarrow> bound_to m c h"
  by (rule bound.inv_reachable) (auto simp: reachable_def)

lemma execute_exposed:
  assumes "middleware_documented m" "create_host_bound_pinned_client t fp origin = Inr bc"
  shows "mw_execute_with m (obc_inner (exposed_client t m bc)) q x =
    (if t_origin t (mw_url m q) = t_origin t origin then mw_transport m (bc_transport bc) q x
     else Inl ''request origin is outside the verified enclave origin'')"
  using assms
  by (auto simp: middleware_documented_def exposed_client_def origin_middleware_def middleware_handle_def
      request_origin_matches_def result_inv)

text \<open>
  C40. Whatever a caller does with the client it was given and with what it gets from it (opening
  requests, chaining calls, cloning, splitting a builder, replacing extensions), it never holds a client
  or a builder of another kind: every client is the origin-bound one, every builder carries that client,
  and what executing or sending does is to hand a request to the pinned transport when its URL has the
  verified origin, and to refuse it otherwise, with its extensions kept and before anything is sent.
\<close>

theorem origin_binding_kept:
  assumes "create_host_bound_pinned_client t fp origin = Inr bc" and "middleware_documented m"
    and "run (bound_step m) (Held_Client (exposed_client t m bc)) ops h"
  shows "case h of
      Held_Client c \<Rightarrow> c = exposed_client t m bc \<and>
        (\<forall>q. client_execute m c q =
          (if t_origin t (mw_url m q) = t_origin t origin then mw_transport m (bc_transport bc) q (mw_no_extensions m)
           else Inl ''request origin is outside the verified enclave origin''))
    | Held_Builder b \<Rightarrow> ob_client b = exposed_client t m bc \<and>
        fst (builder_build_split m b) = exposed_client t m bc \<and>
        builder_send m b = (case builder_build m b of Inl e \<Rightarrow> Inl e | Inr q \<Rightarrow>
          if t_origin t (mw_url m q) = t_origin t origin
          then mw_transport m (bc_transport bc) q (builder_extensions m b)
          else Inl ''request origin is outside the verified enclave origin'')
    | Held_Request r \<Rightarrow> True"
proof -
  note kept = run_bound_to [OF assms(3)] and exec = execute_exposed [OF assms(2,1)]
  show ?thesis
  proof (cases h)
    case (Held_Client c)
    with kept exec assms(2) show ?thesis by (simp add: client_execute_def middleware_documented_def)
  next
    case (Held_Builder b)
    with kept exec assms(2) show ?thesis
      by (auto simp: builder_send_def builder_build_def builder_build_split_def builder_extensions_def
          middleware_documented_def try_bind_def split: prod.splits sum.splits)
  qed simp
qed

section \<open>A concrete crate\<close>

text \<open>A request is its URL and its calls; a builder is a client, a request and extensions; a client is
  its sending function; the transport answers with the request it was given.\<close>

type_synonym toy_request = "str \<times> str builder_call list"

definition toy_crate :: "((toy_request, nat, toy_request) sending, (toy_request, nat, toy_request) sending \<times> toy_request \<times> nat,
    toy_request, str, nat, toy_request) request_crate" where
  "toy_crate = \<lparr>mw_transport = (\<lambda>_ q _. Inr q),
     mw_stack = (\<lambda>transport mws q x. case mws of [mw] \<Rightarrow> mw q x (\<lambda>q _. Inr q) | _ \<Rightarrow> Inr q),
     mw_open = (\<lambda>c _ url. (c, (url, []), 0)),
     mw_execute = (\<lambda>c q. c q 0),
     mw_execute_with = (\<lambda>c. c),
     mw_call = (\<lambda>(c, (url, calls), x) call. (c, (url, calls @ [call]), x)),
     mw_build = (\<lambda>(c, q, x). Inr q),
     mw_build_split = (\<lambda>(c, q, x). (c, Inr q)),
     mw_extensions = (\<lambda>(c, q, x). x),
     mw_put_extensions = (\<lambda>x' (c, q, x). (c, q, x')),
     mw_send = (\<lambda>(c, q, x). c q x),
     mw_try_clone = Some,
     mw_fmt = (\<lambda>_. []),
     mw_no_extensions = 0,
     mw_url = (\<lambda>q. the (t_parse_url toy_tls (fst q)))\<rparr>"

lemma toy_crate_documented: "middleware_documented toy_crate"
  by (auto simp: middleware_documented_def toy_crate_def try_bind_def)

lemma origin_binding_kept_witness:
  "\<exists>bc b. ob_client b = exposed_client toy_tls toy_crate bc \<and> builder_send toy_crate b =
     (Inl ''request origin is outside the verified enclave origin'' :: str + toy_request)"
proof -
  obtain bc where bc: "create_host_bound_pinned_client toy_tls ''f'' (the (t_parse_url toy_tls ''https://h'')) = Inr bc"
    by (simp add: result_inv) (simp add: toy_tls_def strip_brackets_def strip_prefix_def starts_with_def)
  let ?c = "exposed_client toy_tls toy_crate bc"
  let ?b = "client_open toy_crate ?c CallPost ''https://other''"
  let ?b' = "builder_apply toy_crate ?b (CallBody ''x'')"
  have run: "run (bound_step toy_crate) (Held_Client ?c) [Op_Open CallPost ''https://other'', Op_Call (CallBody ''x'')] (Held_Builder ?b')"
    by (blast intro: bound_step.intros)
  from origin_binding_kept [OF bc toy_crate_documented run]
  have "ob_client ?b' = ?c"
      "builder_send toy_crate ?b' = Inl ''request origin is outside the verified enclave origin''"
    by (auto simp: builder_build_def builder_apply_inner client_open_wrap wrap_builder_def toy_crate_def toy_tls_def)
  then show ?thesis by blast
qed

end
