(* ===== verification/Client_Access.thy ===== *)
theory Client_Access
  imports Client Serialized Origin_Bound
begin

text \<open>
  What the clients of \<open>client.rs\<close> and the handles of \<open>ehbp_transport.rs\<close> hand out: the verified state as
  JSON texts, which a printer of the JSON crate makes of the values of \<open>Serialized\<close>, the parts a caller
  may ask for, and the refresher that a proxy handle keeps. The last section is the crypto provider that
  \<open>lib.rs\<close> installs once for the process.
\<close>

section \<open>The secure client\<close>

definition client_host :: "'c secure_client \<Rightarrow> str" where
  "client_host sc = sc_host sc"

definition client_api_key :: "'c secure_client \<Rightarrow> str" where
  "client_api_key sc = sc_api_key sc"

definition client_ehbp_proxy :: "'c secure_client \<Rightarrow> 'c ehbp_proxy option" where
  "client_ehbp_proxy sc = sc_ehbp sc"

definition client_ground_truth_json :: "(json \<Rightarrow> str + str) \<Rightarrow> 'c secure_client \<Rightarrow> str res" where
  "client_ground_truth_json print sc =
     try_bind (ok_or (Configuration ''Client not verified - call verify() first'') (client_ground_truth sc)) (\<lambda>gt.
     map_err Json (print (ground_truth_to_json gt)))"

definition client_document_json :: "(json \<Rightarrow> str + str) \<Rightarrow> 'c secure_client \<Rightarrow> str res" where
  "client_document_json print sc =
     try_bind (ok_or (Configuration ''Client not verified or verified state lacks attested keys'') (client_document sc)) (\<lambda>doc.
     map_err Json (print (document_to_json doc)))"

section \<open>The typed client\<close>

definition typed_secure_client :: "'c client \<Rightarrow> 'c secure_client" where
  "typed_secure_client cl = cl_secure cl"

definition typed_enclave :: "'c client \<Rightarrow> str" where
  "typed_enclave cl = client_host (cl_secure cl)"

definition typed_repo :: "'c client \<Rightarrow> str" where
  "typed_repo cl = sc_repo (cl_secure cl)"

definition typed_http_client :: "'c client \<Rightarrow> bound_client res" where
  "typed_http_client cl = http_client (cl_secure cl)"

text \<open>A snapshot of the shared cell.\<close>

definition typed_cache_secret :: "'c client \<Rightarrow> secret_source" where
  "typed_cache_secret cl = cl_secret cl"

text \<open>What the typed crate makes of a transcription is its own.\<close>

definition transcribe :: "(openai \<Rightarrow> 'q \<Rightarrow> openai_error + 'a) \<Rightarrow> 'c client \<Rightarrow> 'q \<Rightarrow> openai_error + 'a" where
  "transcribe create_transcription cl request = create_transcription (cl_openai cl) request"

section \<open>The proxy handle\<close>

definition proxy_base_url :: "'c ehbp_proxy \<Rightarrow> str" where
  "proxy_base_url p = px_base_url p"

definition proxy_generation :: "'c ehbp_proxy \<Rightarrow> u64" where
  "proxy_generation p = ch_generation (px_channel p)"

text \<open>\<open>set_refresher\<close> stores a closure whose result is converted to a \<open>RefreshedState\<close>.\<close>

definition set_refresher ::
  "('t \<Rightarrow> refreshed_state) \<Rightarrow> ('w \<Rightarrow> 'w \<times> 't res) \<Rightarrow> ('w \<Rightarrow> 'w \<times> refreshed_state res) option \<Rightarrow>
     ('w \<Rightarrow> 'w \<times> refreshed_state res) option" where
  "set_refresher into refresh slot =
     Some (\<lambda>w. case refresh w of (w', r) \<Rightarrow> (w', try_bind r (\<lambda>v. Inr (into v))))"

section \<open>The process-wide crypto provider\<close>

text \<open>\<open>Once\<close> and the provider of the process: installing fails when there is one already, and that
  failure is ignored.\<close>

record 'p provider_state =
  ps_done :: bool
  ps_installed :: "'p option"

definition install_default :: "'p \<Rightarrow> 'p option \<Rightarrow> 'p option \<times> bool" where
  "install_default ring installed = (case installed of None \<Rightarrow> (Some ring, True) | Some p \<Rightarrow> (Some p, False))"

definition ensure_crypto_provider :: "'p \<Rightarrow> 'p provider_state \<Rightarrow> 'p provider_state" where
  "ensure_crypto_provider ring st =
     (if ps_done st then st
      else st\<lparr>ps_done := True, ps_installed := fst (install_default ring (ps_installed st))\<rparr>)"

text \<open>After the first call there is a provider, a host application's is never replaced, and further calls
  change nothing.\<close>

lemma ensure_crypto_provider_once:
  "ensure_crypto_provider ring' (ensure_crypto_provider ring st) = ensure_crypto_provider ring st"
  "ps_installed st = Some p \<Longrightarrow> ps_installed (ensure_crypto_provider ring st) = Some p"
  "\<not> ps_done st \<Longrightarrow> ps_installed (ensure_crypto_provider ring st) \<noteq> None"
  by (auto simp: ensure_crypto_provider_def install_default_def split: option.splits)

section \<open>Reading the exported texts\<close>

text \<open>
  C4. The texts a client exports are faithful. For a printer and a parser that agree on them up to the order
  of members, the ground truth text reads back as exactly the ground truth the client is verified with, and the
  document text as the document of it, which names the client's host; a client without a verified state
  exports neither.
\<close>

theorem exported_texts_read_back:
  assumes "\<And>gt t. print (ground_truth_to_json gt) = Inr t \<Longrightarrow> \<exists>w. parse t = Some w \<and> json_same (ground_truth_to_json gt) w"
    and "\<And>doc t. print (document_to_json doc) = Inr t \<Longrightarrow> \<exists>w. parse t = Some w \<and> json_same (document_to_json doc) w"
  shows "(client_ground_truth_json print sc = Inr txt \<longrightarrow>
      client_ground_truth sc \<noteq> None \<and> Option.bind (parse txt) ground_truth_from_json = client_ground_truth sc) \<and>
    (client_document_json print sc = Inr txt' \<longrightarrow> (\<exists>doc. client_document sc = Some doc \<and>
      Option.bind (parse txt') document_from_json = Some doc \<and> vd_enclave_host doc = sc_host sc)) \<and>
    (client_ground_truth sc = None \<longrightarrow>
      client_ground_truth_json print sc = Inl (Configuration ''Client not verified - call verify() first'') \<and>
      client_document_json print sc =
        Inl (Configuration ''Client not verified or verified state lacks attested keys''))"
proof (intro conjI impI)
  assume "client_ground_truth_json print sc = Inr txt"
  then obtain gt where gt: "client_ground_truth sc = Some gt" "print (ground_truth_to_json gt) = Inr txt"
    by (auto simp: client_ground_truth_json_def result_inv)
  then show "client_ground_truth sc \<noteq> None" by simp
  show "Option.bind (parse txt) ground_truth_from_json = client_ground_truth sc"
    using gt assms(1) [OF gt(2)] by (auto dest: ground_truth_json.from_same [rotated])
next
  assume "client_document_json print sc = Inr txt'"
  then obtain doc where doc: "client_document sc = Some doc" "print (document_to_json doc) = Inr txt'"
    by (auto simp: client_document_json_def result_inv)
  then have made: "vd_schema_version doc < 256" "vd_enclave_host doc = sc_host sc"
    by (auto simp: client_document_def document_from_ground_truth_def VERIFICATION_DOCUMENT_SCHEMA_VERSION_def
        Let_def bind_eq_Some_conv)
  show "\<exists>doc. client_document sc = Some doc \<and> Option.bind (parse txt') document_from_json = Some doc \<and>
      vd_enclave_host doc = sc_host sc"
    using doc made assms(2) [OF doc(2)] by (auto dest: document_json.from_same [OF made(1)])
next
  assume "client_ground_truth sc = None"
  then show "client_ground_truth_json print sc = Inl (Configuration ''Client not verified - call verify() first'')"
      "client_document_json print sc = Inl (Configuration ''Client not verified or verified state lacks attested keys'')"
    by (simp_all add: client_ground_truth_json_def client_document_json_def client_document_def)
qed

definition shown_ground_truth :: ground_truth where
  "shown_ground_truth = \<lparr>config_repo = ''o/r'', release_tag = Some ''v1'', release_digest = ''d'', tls_public_key = Some ''t'',
     hpke_public_key = None, code_measurement = \<lparr>m_type = SnpTdxMultiPlatformV1, registers = [''a'', ''b'', ''c'']\<rparr>,
     enclave_measurement = \<lparr>m_type = SevGuestV2, registers = [''a'']\<rparr>, code_fingerprint = ''a'',
     enclave_fingerprint = ''a'', gt_verifier = \<lparr>sw_name = ''tinfoil'', sw_version = ''0.1.6''\<rparr>, verified_at = ''now''\<rparr>"

definition shown_client :: "unit secure_client" where
  "shown_client = (new_secure_client ''h'' ''o/r'' ''k'')\<lparr>sc_ground_truth := Some shown_ground_truth,
     sc_pinned_client := Some \<lparr>bc_transport = \<lparr>hc_verifier = \<lparr>pv_fingerprint = ''t'', pv_server_name = Some ''h''\<rparr>,
       hc_https_only = True, hc_redirect_origin = Some ''h''\<rparr>, bc_origin = ''h''\<rparr>\<rparr>"

text \<open>A printer that knows one value, and a parser that lists its members backwards.\<close>

definition one_text :: "json \<Rightarrow> str + str" where
  "one_text j = (if j = ground_truth_to_json shown_ground_truth then Inr ''text'' else Inl [])"

fun backwards :: "json \<Rightarrow> json" where
  "backwards (JObject kvs) = JObject (rev kvs)"
| "backwards v = v"

lemma shown_same: "json_same (ground_truth_to_json shown_ground_truth) (backwards (ground_truth_to_json shown_ground_truth))"
proof -
  obtain kvs where kvs: "ground_truth_to_json shown_ground_truth = JObject kvs" "distinct (map fst kvs)"
    by (simp add: ground_truth_to_json_def shown_ground_truth_def skip_none_def)
  then have "map_of (rev kvs) = map_of kvs" by (intro map_of_inject_set [THEN iffD2]) (auto simp: rev_map [symmetric])
  then have "json_same (JObject kvs) (JObject (rev kvs))"
    by (intro Same_Object) (auto simp: json_same_refl)
  then show ?thesis by (simp add: kvs(1))
qed

lemma exported_texts_read_back_witness:
  "client_ground_truth_json one_text shown_client = Inr ''text'' \<and>
     ground_truth_from_json (backwards (ground_truth_to_json shown_ground_truth)) = Some shown_ground_truth"
proof
  let ?parse = "\<lambda>_ :: str. Some (backwards (ground_truth_to_json shown_ground_truth))"
  have gt: "client_ground_truth shown_client = Some shown_ground_truth"
    by (simp add: client_ground_truth_def shown_client_def new_secure_client_def)
  then show written: "client_ground_truth_json one_text shown_client = Inr ''text''"
    by (simp add: client_ground_truth_json_def one_text_def)
  have agree: "one_text j = Inr t \<Longrightarrow> \<exists>w. ?parse t = Some w \<and> json_same j w" for j t
    by (simp add: one_text_def shown_same split: if_splits)
  show "ground_truth_from_json (backwards (ground_truth_to_json shown_ground_truth)) = Some shown_ground_truth"
    using exported_texts_read_back [of one_text ?parse shown_client "''text''", OF agree agree] written gt by simp
qed

end
