(* ===== verification/Sse.thy ===== *)
theory Sse
  imports Json
begin

text \<open>
  \<open>sse.rs\<close>: the parser of server-sent events. A stream is the list of what it gives, an error of the
  transport or bytes; the parser's answer is the values it yields and the error that ends it, if one
  does. Parsing JSON is a parameter.
\<close>

section \<open>UTF-8 with the position of the error\<close>

text \<open>
  \<open>str::from_utf8\<close>: \<open>None\<close> when it succeeds, otherwise \<open>valid_up_to\<close> and \<open>error_len\<close>, the latter
  \<open>None\<close> when the input ends inside a character.
\<close>

definition continuation :: "nat \<Rightarrow> bool" where
  "continuation b \<longleftrightarrow> 128 \<le> b \<and> b \<le> 191"

definition second_ok :: "nat \<Rightarrow> nat \<Rightarrow> bool" where
  "second_ok a b \<longleftrightarrow> continuation b \<and> (a = 224 \<longrightarrow> 160 \<le> b) \<and> (a = 237 \<longrightarrow> b \<le> 159) \<and>
     (a = 240 \<longrightarrow> 144 \<le> b) \<and> (a = 244 \<longrightarrow> b \<le> 143)"

definition char_width :: "nat \<Rightarrow> nat" where
  "char_width a = (if a < 128 then 1 else if 194 \<le> a \<and> a \<le> 223 then 2 else if 224 \<le> a \<and> a \<le> 239 then 3
     else if 240 \<le> a \<and> a \<le> 244 then 4 else 0)"

fun rest_error :: "nat \<Rightarrow> (nat \<Rightarrow> bool) list \<Rightarrow> nat list \<Rightarrow> nat option option" where
  "rest_error n [] bs = None"
| "rest_error n (p # ps) [] = Some None"
| "rest_error n (p # ps) (b # bs) = (if p b then rest_error (n + 1) ps bs else Some (Some n))"

definition char_rest :: "nat \<Rightarrow> (nat \<Rightarrow> bool) list" where
  "char_rest a = take (char_width a - 1) [second_ok a, continuation, continuation]"

function utf8_error :: "nat list \<Rightarrow> (nat \<times> nat option) option" where
  "utf8_error [] = None"
| "utf8_error (a # bs) =
     (if char_width a = 0 then Some (0, Some 1)
      else case rest_error 1 (char_rest a) bs of
        Some e \<Rightarrow> Some (0, e)
      | None \<Rightarrow> map_option (\<lambda>(v, e). (v + char_width a, e)) (utf8_error (drop (char_width a - 1) bs)))"
  by pat_completeness auto
termination by (relation "measure length") auto

section \<open>Events\<close>

definition MAX_SSE_EVENT_BYTES :: nat where "MAX_SSE_EVENT_BYTES = 1024 * 1024"

definition MAX_PENDING_UTF8_BYTES :: nat where "MAX_PENDING_UTF8_BYTES = 3"

definition find_str :: "str \<Rightarrow> str \<Rightarrow> nat option" where
  "find_str p s = map_option (\<lambda>(before, _). length before) (split_once_str p s)"

definition LF :: char where "LF = CHR 0x0A"

definition CR :: char where "CR = CHR 0x0D"

definition find_event_boundary :: "str \<Rightarrow> (nat \<times> nat) option" where
  "find_event_boundary buffer =
     (case (find_str [LF, LF] buffer, find_str [CR, LF, CR, LF] buffer) of
        (Some lf, Some crlf) \<Rightarrow> Some (if lf < crlf then (lf, 2) else (crlf, 4))
      | (Some lf, None) \<Rightarrow> Some (lf, 2)
      | (None, Some crlf) \<Rightarrow> Some (crlf, 4)
      | (None, None) \<Rightarrow> None)"

text \<open>What one line of an event contributes.\<close>

definition event_line :: "(str \<Rightarrow> json option) \<Rightarrow> str \<Rightarrow> json list res" where
  "event_line parse line = (case strip_prefix (trim_start line) ''data:'' of
     None \<Rightarrow> Inr []
   | Some rest \<Rightarrow>
       let payload = trim rest in
       if payload = [] \<or> payload = ''[DONE]'' then Inr []
       else try_bind (ok_or (Network (''failed to decode SSE payload as JSON (payload: '' @ payload @ '')'')) (parse payload)) (\<lambda>v.
         Inr [v]))"

definition parse_event_block :: "(str \<Rightarrow> json option) \<Rightarrow> str \<Rightarrow> json list res" where
  "parse_event_block parse event = try_bind (try_map (event_line parse) (lines event)) (\<lambda>vs. Inr (concat vs))"

section \<open>The stream\<close>

definition sse_exceeded :: error where
  "sse_exceeded = Network ''SSE event exceeded 1048576 bytes''"

lemma find_event_boundary_shorter [termination_simp]:
  "find_event_boundary buffer = Some (i, n) \<Longrightarrow> 2 \<le> n \<and> i + n \<le> length buffer"
  by (auto simp: find_event_boundary_def find_str_def dest!: split_once_str_Some split: option.splits if_splits)

text \<open>The inner loop: every complete event of the buffer. Values yielded before an error stay yielded.\<close>

function drain_events :: "(str \<Rightarrow> json option) \<Rightarrow> str \<Rightarrow> json list \<times> str res" where
  "drain_events parse buffer = (case find_event_boundary buffer of
     None \<Rightarrow> ([], Inr buffer)
   | Some (idx, sep) \<Rightarrow>
       if MAX_SSE_EVENT_BYTES < idx then ([], Inl sse_exceeded)
       else (case parse_event_block parse (take idx buffer) of
         Inl e \<Rightarrow> ([], Inl e)
       | Inr vs \<Rightarrow> (case drain_events parse (drop (idx + sep) buffer) of (ws, r) \<Rightarrow> (vs @ ws, r))))"
  by pat_completeness auto
termination by (relation "measure (\<lambda>(_, buffer). length buffer)") (auto dest!: find_event_boundary_shorter)

declare drain_events.simps [simp del]

record sse_state =
  sse_buffer :: str
  sse_pending :: bytes

definition sse_chunk :: "(str \<Rightarrow> json option) \<Rightarrow> sse_state \<Rightarrow> bytes \<Rightarrow> json list \<times> sse_state res" where
  "sse_chunk parse st chunk =
     (let input = sse_pending st @ chunk in
      case (case utf8_error (map unat input) of
          None \<Rightarrow> (sse_buffer st @ from_bytes input, [], None)
        | Some (valid_up_to, error_len) \<Rightarrow>
            (sse_buffer st @ from_bytes (take valid_up_to input), drop valid_up_to input, error_len)) of
        (buffer, pending, error_len) \<Rightarrow>
          if error_len \<noteq> None \<or> MAX_PENDING_UTF8_BYTES < length pending
          then ([], Inl (Network ''SSE stream contained invalid UTF-8''))
          else (case drain_events parse buffer of
            (vs, Inl e) \<Rightarrow> (vs, Inl e)
          | (vs, Inr rest) \<Rightarrow>
              if MAX_SSE_EVENT_BYTES < length rest then (vs, Inl sse_exceeded)
              else (vs, Inr \<lparr>sse_buffer = rest, sse_pending = pending\<rparr>)))"

definition sse_finish :: "(str \<Rightarrow> json option) \<Rightarrow> sse_state \<Rightarrow> json list \<times> error option" where
  "sse_finish parse st =
     (if sse_pending st \<noteq> [] then ([], Some (Network ''SSE stream ended with incomplete UTF-8''))
      else if sse_buffer st = [] then ([], None)
      else (case parse_event_block parse (sse_buffer st) of
        Inl e \<Rightarrow> ([], Some e)
      | Inr vs \<Rightarrow> (vs, None)))"

fun sse_run :: "(str \<Rightarrow> json option) \<Rightarrow> sse_state \<Rightarrow> (str + bytes) list \<Rightarrow> json list \<times> error option" where
  "sse_run parse st [] = sse_finish parse st"
| "sse_run parse st (Inl e # chunks) = ([], Some (Network e))"
| "sse_run parse st (Inr chunk # chunks) = (case sse_chunk parse st chunk of
     (vs, Inl e) \<Rightarrow> (vs, Some e)
   | (vs, Inr st') \<Rightarrow> (case sse_run parse st' chunks of (ws, r) \<Rightarrow> (vs @ ws, r)))"

definition parse_event_stream :: "(str \<Rightarrow> json option) \<Rightarrow> (str + bytes) list \<Rightarrow> json list \<times> error option" where
  "parse_event_stream parse byte_stream = sse_run parse \<lparr>sse_buffer = [], sse_pending = []\<rparr> byte_stream"

end
