(* ===== verification/Relaxed.thy ===== *)
theory Relaxed
  imports Client Sse
begin

text \<open>
  \<open>relaxed.rs\<close>: chat completions on raw JSON, their answers and streams, and the request builder. A
  response is its status with the outcome of reading its body; parsing JSON and the reason phrase of a
  status are parameters. An object is read by key, so its order does not matter.
\<close>

section \<open>Lossy text\<close>

text \<open>\<open>String::from_utf8_lossy\<close>: every malformed piece is one replacement character.\<close>

lemma utf8_error_advances [termination_simp]: "utf8_error bs = Some (v, Some k) \<Longrightarrow> bs \<noteq> [] \<and> 0 < k"
proof -
  have "rest_error n ps cs = Some (Some k) \<Longrightarrow> n \<le> k" for n ps cs
    by (induction n ps cs rule: rest_error.induct) (fastforce split: if_splits)+
  then show "utf8_error bs = Some (v, Some k) \<Longrightarrow> bs \<noteq> [] \<and> 0 < k"
    by (induction bs arbitrary: v rule: utf8_error.induct) (fastforce split: if_splits option.splits)+
qed

function from_utf8_lossy :: "bytes \<Rightarrow> str" where
  "from_utf8_lossy bs = (case utf8_error (map unat bs) of
     None \<Rightarrow> from_bytes bs
   | Some (v, e) \<Rightarrow> from_bytes (take v bs) @ [CHR 0xEF, CHR 0xBF, CHR 0xBD] @
       (case e of None \<Rightarrow> [] | Some k \<Rightarrow> from_utf8_lossy (drop (v + k) bs)))"
  by pat_completeness auto
termination
proof (relation "measure length", goal_cases)
  case (2 bs p v e k)
  then have "bs \<noteq> [] \<and> 0 < k" using utf8_error_advances [of "map unat bs" v k] by simp
  then show ?case by (cases bs) auto
qed simp

declare from_utf8_lossy.simps [simp del]

section \<open>Requests\<close>

definition CHAT_COMPLETIONS_PATH :: str where "CHAT_COMPLETIONS_PATH = ''/v1/chat/completions''"

fun force_stream :: "bool \<Rightarrow> json \<Rightarrow> json" where
  "force_stream v (JObject kvs) = JObject (member_insert ''stream'' (JBool v) kvs)"
| "force_stream v body = body"

record http_answer =
  ha_status :: nat
  ha_body :: "str + bytes"
  ha_stream :: "(str + bytes) list"

record relaxed_ext =
  rx_parse :: "bytes \<Rightarrow> json option"
  rx_parse_str :: "str \<Rightarrow> json option"
  rx_status :: "nat \<Rightarrow> str"

definition status_success :: "nat \<Rightarrow> bool" where
  "status_success s \<longleftrightarrow> 200 \<le> s \<and> s < 300"

definition http_error :: "relaxed_ext \<Rightarrow> nat \<Rightarrow> bytes \<Rightarrow> error" where
  "http_error rx s b =
     (let parsed = rx_parse rx b;
          pointed = (\<lambda>ks. Option.bind parsed (\<lambda>v. jpointer_str v ks));
          text = from_utf8_lossy b in
      Api (ApiError \<lparr>status_code = s,
        error_message = (case pointed [''error'', ''message''] of Some m \<Rightarrow> m
          | None \<Rightarrow> if text = [] then ''HTTP '' @ rx_status rx s else text),
        error_param = pointed [''error'', ''param''],
        error_type = pointed [''error'', ''type''],
        error_code = pointed [''error'', ''code'']\<rparr>))"

text \<open>The state a request may change: the client, the cache of the disk, and what the secret is resolved
  from. \<open>relaxed_post\<close> is the common part of \<open>create\<close> and \<open>create_stream\<close>.\<close>

definition relaxed_body :: "('w \<Rightarrow> 'w \<times> str) \<Rightarrow> bool \<Rightarrow> json \<Rightarrow> secret_source \<Rightarrow> 'w \<Rightarrow> (secret_source \<times> 'w) \<times> json" where
  "relaxed_body resolve stream body src w = provision_value resolve (force_stream stream body) src w"

definition relaxed_post ::
  "('c, http_answer) client_env \<Rightarrow> ('w \<Rightarrow> 'w \<times> str) \<Rightarrow> bool \<Rightarrow> json \<Rightarrow> 'c client \<Rightarrow> disk \<Rightarrow> 'w \<Rightarrow>
     ('c client \<times> disk \<times> 'w) \<times> http_answer res" where
  "relaxed_post env resolve stream body cl d w =
     (case relaxed_body resolve stream body (cl_secret cl) w of
        ((src, w'), body') \<Rightarrow>
          (case post_json env (cl_secure cl) d CHAT_COMPLETIONS_PATH body' of
             ((sc, d'), r) \<Rightarrow> ((cl\<lparr>cl_secure := sc, cl_secret := src\<rparr>, d', w'), r)))"

definition relaxed_answer :: "relaxed_ext \<Rightarrow> http_answer \<Rightarrow> json res" where
  "relaxed_answer rx answer = try_bind (map_err Http (ha_body answer)) (\<lambda>b.
     if \<not> status_success (ha_status answer) then Inl (http_error rx (ha_status answer) b)
     else ok_or (Json ''response'') (rx_parse rx b))"

definition create ::
  "relaxed_ext \<Rightarrow> ('c, http_answer) client_env \<Rightarrow> ('w \<Rightarrow> 'w \<times> str) \<Rightarrow> json \<Rightarrow> 'c client \<Rightarrow> disk \<Rightarrow> 'w \<Rightarrow>
     ('c client \<times> disk \<times> 'w) \<times> json res" where
  "create rx env resolve body cl d w = (case relaxed_post env resolve False body cl d w of
     (st, r) \<Rightarrow> (st, try_bind r (relaxed_answer rx)))"

definition stream_answer :: "relaxed_ext \<Rightarrow> http_answer \<Rightarrow> (json list \<times> error option) res" where
  "stream_answer rx answer =
     (if \<not> status_success (ha_status answer)
      then try_bind (map_err Http (ha_body answer)) (\<lambda>b. Inl (http_error rx (ha_status answer) b))
      else Inr (parse_event_stream (rx_parse_str rx) (ha_stream answer)))"

definition create_stream ::
  "relaxed_ext \<Rightarrow> ('c, http_answer) client_env \<Rightarrow> ('w \<Rightarrow> 'w \<times> str) \<Rightarrow> json \<Rightarrow> 'c client \<Rightarrow> disk \<Rightarrow> 'w \<Rightarrow>
     ('c client \<times> disk \<times> 'w) \<times> (json list \<times> error option) res" where
  "create_stream rx env resolve body cl d w = (case relaxed_post env resolve True body cl d w of
     (st, r) \<Rightarrow> (st, try_bind r (stream_answer rx)))"

section \<open>Reading answers\<close>

definition jpointer_array :: "json \<Rightarrow> str list \<Rightarrow> json list" where
  "jpointer_array v ks = (case Option.bind (jpointer v ks) as_array of Some xs \<Rightarrow> xs | None \<Rightarrow> [])"

definition content :: "json \<Rightarrow> str option" where
  "content v = jpointer_str v [''choices'', ''0'', ''message'', ''content'']"

definition finish_reason :: "json \<Rightarrow> str option" where
  "finish_reason v = jpointer_str v [''choices'', ''0'', ''finish_reason'']"

definition tool_calls :: "json \<Rightarrow> json list" where
  "tool_calls v = jpointer_array v [''choices'', ''0'', ''message'', ''tool_calls'']"

definition annotations :: "json \<Rightarrow> json list" where
  "annotations v = jpointer_array v [''choices'', ''0'', ''message'', ''annotations'']"

definition response_model :: "json \<Rightarrow> str option" where
  "response_model v = jstr v [''model'']"

definition response_id :: "json \<Rightarrow> str option" where
  "response_id v = jstr v [''id'']"

definition choices_len :: "json \<Rightarrow> nat" where
  "choices_len v = (case jarray v [''choices''] of Some xs \<Rightarrow> length xs | None \<Rightarrow> 0)"

record relaxed_tool_call =
  tc_id :: "str option"
  tc_function_name :: "str option"
  tc_arguments_raw :: str

definition tool_call_from_value :: "json \<Rightarrow> relaxed_tool_call" where
  "tool_call_from_value v =
     \<lparr>tc_id = jstr v [''id''], tc_function_name = jpointer_str v [''function'', ''name''],
      tc_arguments_raw = (case jpointer_str v [''function'', ''arguments''] of Some s \<Rightarrow> s | None \<Rightarrow> [])\<rparr>"

definition typed_tool_calls :: "json \<Rightarrow> relaxed_tool_call list" where
  "typed_tool_calls v = map tool_call_from_value (tool_calls v)"

definition arguments_of :: "(str \<Rightarrow> 'a option) \<Rightarrow> relaxed_tool_call \<Rightarrow> 'a res" where
  "arguments_of parse tc = ok_or (Json ''arguments'') (parse (tc_arguments_raw tc))"

definition event_type :: "json \<Rightarrow> str option" where
  "event_type v = jstr v [''type'']"

definition is_vendor_event :: "json \<Rightarrow> bool" where
  "is_vendor_event v \<longleftrightarrow> event_type v \<noteq> None"

definition delta_content :: "json \<Rightarrow> str option" where
  "delta_content v = jpointer_str v [''choices'', ''0'', ''delta'', ''content'']"

definition tool_call_deltas :: "json \<Rightarrow> json list" where
  "tool_call_deltas v = jpointer_array v [''choices'', ''0'', ''delta'', ''tool_calls'']"

definition chunk_finish_reason :: "json \<Rightarrow> str option" where
  "chunk_finish_reason v = jpointer_str v [''choices'', ''0'', ''finish_reason'']"

definition annotation_deltas :: "json \<Rightarrow> json list" where
  "annotation_deltas v = jpointer_array v [''choices'', ''0'', ''delta'', ''annotations'']"

section \<open>Building requests\<close>

type_synonym request_builder = "(str \<times> json) list"

definition builder_set :: "str \<Rightarrow> json \<Rightarrow> request_builder \<Rightarrow> request_builder" where
  "builder_set k v b = member_insert k v b"

definition builder_model :: "str \<Rightarrow> request_builder \<Rightarrow> request_builder" where
  "builder_model m b = member_insert ''model'' (JString m) b"

definition builder_messages :: "json list \<Rightarrow> request_builder \<Rightarrow> request_builder" where
  "builder_messages ms b = member_insert ''messages'' (JArray ms) b"

text \<open>A \<open>messages\<close> field that is not an array is left alone.\<close>

definition push_message :: "json \<Rightarrow> request_builder \<Rightarrow> request_builder" where
  "push_message m b = (case map_of b ''messages'' of
     None \<Rightarrow> member_insert ''messages'' (JArray [m]) b
   | Some v \<Rightarrow> (case as_array v of
       Some ms \<Rightarrow> member_insert ''messages'' (JArray (ms @ [m])) b
     | None \<Rightarrow> b))"

definition web_search_with_options :: "json \<Rightarrow> request_builder \<Rightarrow> request_builder" where
  "web_search_with_options v b = member_insert ''web_search_options'' v b"

definition web_search :: "request_builder \<Rightarrow> request_builder" where
  "web_search b = web_search_with_options (JObject []) b"

definition pii_check_with_options :: "json \<Rightarrow> request_builder \<Rightarrow> request_builder" where
  "pii_check_with_options v b = member_insert ''pii_check_options'' v b"

definition pii_check :: "request_builder \<Rightarrow> request_builder" where
  "pii_check b = pii_check_with_options (JObject []) b"

definition structured_outputs_choice :: "str list \<Rightarrow> request_builder \<Rightarrow> request_builder" where
  "structured_outputs_choice cs b =
     builder_set ''structured_outputs'' (JObject [(''choice'', JArray (map JString cs))]) b"

definition structured_outputs_regex :: "str \<Rightarrow> request_builder \<Rightarrow> request_builder" where
  "structured_outputs_regex p b = builder_set ''structured_outputs'' (JObject [(''regex'', JString p)]) b"

definition response_format_json_schema :: "str \<Rightarrow> json \<Rightarrow> request_builder \<Rightarrow> request_builder" where
  "response_format_json_schema name schema b =
     builder_set ''response_format'' (JObject [(''type'', JString ''json_schema''),
       (''json_schema'', JObject [(''name'', JString name), (''schema'', schema)])]) b"

definition builder_build :: "request_builder \<Rightarrow> json" where
  "builder_build b = JObject b"

end
