(* ===== verification/Sse_Properties.thy ===== *)
theory Sse_Properties
  imports Sse
begin

text \<open>
  The event stream parser against a reference that sees the whole text at once: how the transport cuts
  the bytes into chunks, inside a character or a separator too, does not matter.
\<close>

section \<open>UTF-8 in pieces\<close>

lemma rest_error_append:
  "rest_error n ps (bs @ x) = (case rest_error n ps bs of
     None \<Rightarrow> None | Some (Some k) \<Rightarrow> Some (Some k) | Some None \<Rightarrow> rest_error (n + length bs) (drop (length bs) ps) x)"
proof (induction n ps bs rule: rest_error.induct)
  case (2 n p ps)
  then show ?case by (cases x) auto
qed (auto split: option.splits)

lemma rest_error_None_length: "rest_error n ps bs = None \<Longrightarrow> length ps \<le> length bs"
  by (induction n ps bs rule: rest_error.induct) (auto split: if_splits)

lemma rest_error_cut_length: "rest_error n ps bs = Some None \<Longrightarrow> length bs < length ps"
  by (induction n ps bs rule: rest_error.induct) (auto split: if_splits)

lemma rest_error_take: "rest_error n ps bs = None \<Longrightarrow> rest_error n ps (take (length ps) bs) = None"
  by (induction n ps bs rule: rest_error.induct) (auto split: if_splits)

lemma char_width_le: "char_width a \<le> 4"
  by (simp add: char_width_def)

lemma length_char_rest: "length (char_rest a) = char_width a - 1"
  using char_width_le [of a] by (simp add: char_rest_def)

declare utf8_error.simps(2) [simp del]

abbreviation shift_error :: "nat \<Rightarrow> (nat \<times> nat option) option \<Rightarrow> (nat \<times> nat option) option" where
  "shift_error n \<equiv> map_option (\<lambda>(v, e). (v + n, e))"

lemma utf8_error_valid_append: "utf8_error bs = None \<Longrightarrow> utf8_error (bs @ x) = shift_error (length bs) (utf8_error x)"
proof (induction bs rule: utf8_error.induct)
  case 1
  show ?case by (cases "utf8_error x") auto
next
  case (2 a bs)
  have w: "char_width a \<noteq> 0" and r: "rest_error 1 (char_rest a) bs = None"
    and t: "utf8_error (drop (char_width a - 1) bs) = None"
    using "2.prems" by (auto simp: utf8_error.simps(2) split: if_splits option.splits)
  have len: "char_width a - 1 \<le> length bs" using rest_error_None_length [OF r] by (simp add: length_char_rest)
  have "utf8_error (drop (char_width a - 1) bs @ x) = shift_error (length bs - (char_width a - 1)) (utf8_error x)"
    using "2.IH" [OF w r t] by simp
  then show ?case
    using w r len by (cases "utf8_error x") (auto simp: utf8_error.simps(2) rest_error_append)
qed

lemma utf8_error_permanent: "utf8_error bs = Some (v, Some k) \<Longrightarrow> utf8_error (bs @ x) = Some (v, Some k)"
proof (induction bs arbitrary: v rule: utf8_error.induct)
  case (2 a bs)
  show ?case
  proof (cases "rest_error 1 (char_rest a) bs")
    case None
    have len: "char_width a - 1 \<le> length bs" using rest_error_None_length [OF None] by (simp add: length_char_rest)
    show ?thesis
      using "2.prems" "2.IH" [OF _ None] None len
      by (cases "char_width a = 0") (auto simp: utf8_error.simps(2) rest_error_append)
  next
    case (Some e)
    then show ?thesis
      using "2.prems" by (cases "char_width a = 0") (auto simp: utf8_error.simps(2) rest_error_append)
  qed
qed simp

lemma utf8_error_split:
  "utf8_error bs = Some (v, e) \<Longrightarrow> v \<le> length bs \<and> utf8_error (take v bs) = None \<and> utf8_error (drop v bs) = Some (0, e)"
proof (induction bs arbitrary: v rule: utf8_error.induct)
  case (2 a bs)
  show ?case
  proof (cases "char_width a \<noteq> 0 \<and> rest_error 1 (char_rest a) bs = None")
    case True
    let ?n = "char_width a - 1"
    obtain v' where v': "utf8_error (drop ?n bs) = Some (v', e)" "v = v' + char_width a"
      using "2.prems" True by (auto simp: utf8_error.simps(2))
    note ih = "2.IH" [OF _ _ v'(1)]
    have len: "?n \<le> length bs" using rest_error_None_length [of 1 "char_rest a" bs] True by (simp add: length_char_rest)
    have v: "v = Suc (?n + v')" using v'(2) True by simp
    have "rest_error 1 (char_rest a) (take (?n + v') bs) = None"
      using rest_error_append [of 1 "char_rest a" "take ?n bs" "take v' (drop ?n bs)"]
        rest_error_take [of 1 "char_rest a" bs] True
      by (simp only: take_add length_char_rest) simp
    moreover obtain m where "char_width a = Suc m" using True by (cases "char_width a") auto
    ultimately show ?thesis
      using ih True len v by (auto simp: utf8_error.simps(2) drop_take drop_drop add.commute)
  next
    case False
    then show ?thesis using "2.prems" by (auto simp: utf8_error.simps(2) split: option.splits if_splits)
  qed
qed simp

lemma utf8_error_cut_short: "utf8_error bs = Some (0, None) \<Longrightarrow> length bs \<le> 3"
proof (cases bs)
  case (Cons a cs)
  assume e: "utf8_error bs = Some (0, None)"
  then have "rest_error 1 (char_rest a) cs = Some None"
    using Cons by (auto simp: utf8_error.simps(2) split: if_splits option.splits)
  then show ?thesis
    using rest_error_cut_length char_width_le [of a] Cons by (fastforce simp: length_char_rest)
qed simp

text \<open>The decoder with positions accepts the same texts as the one without.\<close>

lemma utf8_error_None_iff: "utf8_error bs = None \<longleftrightarrow> utf8_ok bs"
proof (induction bs rule: utf8_error.induct)
  case (2 a bs)
  have shape: "bs = [] \<or> (\<exists>b. bs = [b]) \<or> (\<exists>b c. bs = [b, c]) \<or> (\<exists>b c d es. bs = b # c # d # es)"
    by (metis list.exhaust)
  consider "a < 128" | "194 \<le> a \<and> a \<le> 223" | "224 \<le> a \<and> a \<le> 239" | "240 \<le> a \<and> a \<le> 244"
    | "char_width a = 0" "\<not> a < 128" "\<not> (194 \<le> a \<and> a \<le> 223)" "\<not> (224 \<le> a \<and> a \<le> 239)" "\<not> (240 \<le> a \<and> a \<le> 244)"
    by (auto simp: char_width_def)
  then show ?case
  proof cases
    case 1
    then show ?thesis using 2 by (auto simp: utf8_error.simps(2) char_width_def char_rest_def)
  next
    case 2
    then show ?thesis using "2.IH" shape
      by (auto simp: utf8_error.simps(2) char_width_def char_rest_def second_ok_def continuation_def split: list.splits)
  next
    case 3
    then show ?thesis using "2.IH" shape
      by (auto simp: utf8_error.simps(2) char_width_def char_rest_def second_ok_def continuation_def split: list.splits)
  next
    case 4
    then show ?thesis using "2.IH" shape
      by (auto simp: utf8_error.simps(2) char_width_def char_rest_def second_ok_def continuation_def split: list.splits)
  next
    case 5
    then show ?thesis using shape by (auto simp: utf8_error.simps(2))
  qed
qed simp

section \<open>The first separator\<close>

definition occurs :: "str \<Rightarrow> str \<Rightarrow> nat \<Rightarrow> bool" where
  "occurs p s i \<longleftrightarrow> i + length p \<le> length s \<and> take (length p) (drop i s) = p"

lemma find_str_Cons:
  "p \<noteq> [] \<Longrightarrow> find_str p (x # xs) = (if starts_with (x # xs) p then Some 0 else map_option Suc (find_str p xs))"
  by (auto simp: find_str_def option.map_comp comp_def case_prod_unfold)

lemma occurs_0: "p \<noteq> [] \<Longrightarrow> occurs p s 0 \<longleftrightarrow> starts_with s p"
proof -
  have "length p \<le> length s" if "take (length p) s = p"
    using arg_cong [OF that, of length] by (simp add: min_def split: if_splits)
  then show ?thesis by (auto simp: occurs_def starts_with_def)
qed

lemma occurs_Suc [simp]: "occurs p (x # xs) (Suc i) \<longleftrightarrow> occurs p xs i"
  by (simp add: occurs_def)

lemma find_str_iff:
  assumes "p \<noteq> []"
  shows "find_str p s = Some i \<longleftrightarrow> occurs p s i \<and> (\<forall>j<i. \<not> occurs p s j)"
    and "find_str p s = None \<longleftrightarrow> (\<forall>j. \<not> occurs p s j)"
proof (induction s arbitrary: i)
  case Nil
  { case 1 then show ?case using assms by (auto simp: find_str_def occurs_def) }
  { case 2 then show ?case using assms by (auto simp: find_str_def occurs_def) }
next
  case (Cons x xs)
  { case 1
    show ?case
      using Cons.IH(1) assms
      by (cases i) (auto simp: find_str_Cons occurs_0 All_less_Suc2) }
  { case 2
    have "(\<forall>j. \<not> occurs p (x # xs) j) \<longleftrightarrow> \<not> occurs p (x # xs) 0 \<and> (\<forall>j. \<not> occurs p xs j)"
      by (metis not0_implies_Suc occurs_Suc)
    then show ?case using Cons.IH(2) assms by (auto simp: find_str_Cons occurs_0) }
qed

lemma occurs_append: "occurs p s i \<Longrightarrow> occurs p (s @ r) i"
  by (auto simp: occurs_def)

lemma occurs_append_inside: "occurs p (s @ r) i \<Longrightarrow> i + length p \<le> length s \<Longrightarrow> occurs p s i"
  by (auto simp: occurs_def)

lemma occurs_nth: "occurs p s i \<Longrightarrow> k < length p \<Longrightarrow> s ! (i + k) = p ! k"
  by (metis occurs_def nth_drop nth_take add_leD1)

definition separated :: "str \<Rightarrow> nat \<Rightarrow> nat \<Rightarrow> bool" where
  "separated s i n \<longleftrightarrow> n = 2 \<and> occurs [LF, LF] s i \<or> n = 4 \<and> occurs [CR, LF, CR, LF] s i"

lemma separator_clash: "occurs [LF, LF] s i \<Longrightarrow> occurs [CR, LF, CR, LF] s i \<Longrightarrow> False"
  using occurs_nth [of "[LF, LF]" s i 0] occurs_nth [of "[CR, LF, CR, LF]" s i 0] by (simp add: LF_def CR_def)

lemma boundary_None_iff: "find_event_boundary s = None \<longleftrightarrow> (\<forall>j n. \<not> separated s j n)"
  by (auto simp: find_event_boundary_def find_str_iff separated_def split: option.splits)

definition first_separated :: "str \<Rightarrow> nat \<Rightarrow> nat \<Rightarrow> bool" where
  "first_separated s i n \<longleftrightarrow> separated s i n \<and> (\<forall>j<i. \<forall>m. \<not> separated s j m)"

lemma boundary_Some: "find_event_boundary s = Some (i, n) \<Longrightarrow> first_separated s i n"
proof -
  assume b: "find_event_boundary s = Some (i, n)"
  have l: "occurs [LF, LF] s l \<and> (\<forall>j<l. \<not> occurs [LF, LF] s j)" if "find_str [LF, LF] s = Some l" for l
    using that find_str_iff(1) [of "[LF, LF]"] by blast
  have c: "occurs [CR, LF, CR, LF] s l \<and> (\<forall>j<l. \<not> occurs [CR, LF, CR, LF] s j)" if "find_str [CR, LF, CR, LF] s = Some l" for l
    using that find_str_iff(1) [of "[CR, LF, CR, LF]"] by blast
  have no: "find_str [LF, LF] s = None \<Longrightarrow> \<not> occurs [LF, LF] s j"
      "find_str [CR, LF, CR, LF] s = None \<Longrightarrow> \<not> occurs [CR, LF, CR, LF] s j" for j
    using find_str_iff(2) [of "[LF, LF]"] find_str_iff(2) [of "[CR, LF, CR, LF]"] by blast+
  show ?thesis
  proof (cases "find_str [LF, LF] s")
    case None
    then show ?thesis
      using b no c by (cases "find_str [CR, LF, CR, LF] s") (auto simp: find_event_boundary_def first_separated_def separated_def)
  next
    case (Some k)
    show ?thesis
    proof (cases "find_str [CR, LF, CR, LF] s")
      case None
      then show ?thesis
        using b no(2) l Some by (auto simp: find_event_boundary_def first_separated_def separated_def)
    next
      case c': (Some k')
      have "k < k' \<or> k' < k" using l [OF Some] c [OF c'] separator_clash by (metis linorder_neqE_nat)
      then show ?thesis
        using b l [OF Some] c [OF c'] Some c'
        by (auto simp: find_event_boundary_def first_separated_def separated_def)
    qed
  qed
qed

lemma first_separated_unique: "first_separated s i n \<Longrightarrow> first_separated s i' n' \<Longrightarrow> i = i' \<and> n = n'"
  unfolding first_separated_def using separator_clash by (metis linorder_neqE_nat separated_def)

lemma boundary_Some_iff:
  "find_event_boundary s = Some (i, n) \<longleftrightarrow> separated s i n \<and> (\<forall>j<i. \<forall>m. \<not> separated s j m)"
proof
  assume "separated s i n \<and> (\<forall>j<i. \<forall>m. \<not> separated s j m)"
  then have r: "first_separated s i n" by (simp add: first_separated_def)
  then obtain p where "find_event_boundary s = Some p" using boundary_None_iff [of s] by (auto simp: first_separated_def)
  then show "find_event_boundary s = Some (i, n)"
    using boundary_Some [of s "fst p" "snd p"] first_separated_unique [OF r] by auto
qed (use boundary_Some first_separated_def in blast)

lemma separated_length: "separated s i n \<Longrightarrow> 2 \<le> n \<and> n \<le> 4 \<and> i + n \<le> length s"
  by (auto simp: separated_def occurs_def)

lemma separated_append: "separated s i n \<Longrightarrow> separated (s @ r) i n"
  by (auto simp: separated_def occurs_append)

lemma separated_inside: "separated (s @ r) i n \<Longrightarrow> i + n \<le> length s \<Longrightarrow> separated s i n"
  by (auto simp: separated_def intro: occurs_append_inside)

text \<open>More text never moves a separator that was found.\<close>

lemma boundary_stable:
  assumes "find_event_boundary s = Some (i, n)"
  shows "find_event_boundary (s @ r) = Some (i, n)"
proof -
  have i: "separated s i n" "\<And>j m. j < i \<Longrightarrow> \<not> separated s j m"
    using assms by (auto simp: boundary_Some_iff)
  have "False" if j: "j < i" "separated (s @ r) j m" for j m
  proof -
    have out: "length s < j + m" using separated_inside [OF j(2)] i(2) [OF j(1)] by force
    have "i + n \<le> length s" "2 \<le> n" "m \<le> 4" using separated_length i(1) j(2) by blast+
    then have "m = 4" "n = 2" "i = j + 1"
      using out j(1) i(1) j(2) by (auto simp: separated_def)
    then have "occurs [LF, LF] (s @ r) i" "occurs [CR, LF, CR, LF] (s @ r) j"
      using i(1) j(2) by (auto simp: separated_def intro: occurs_append)
    then have "(s @ r) ! (i + 1) = LF" "(s @ r) ! (j + 2) = CR"
      using occurs_nth [of "[LF, LF]" "s @ r" i 1] occurs_nth [of "[CR, LF, CR, LF]" "s @ r" j 2] by auto
    then show False using \<open>i = j + 1\<close> by (simp add: LF_def CR_def)
  qed
  then show ?thesis using separated_append [OF i(1)] by (auto simp: boundary_Some_iff)
qed

lemma boundary_crosses:
  assumes "find_event_boundary s = None" and "find_event_boundary (s @ r) = Some (i, n)"
  shows "length s < i + n"
  using assms separated_inside [of s r i n] by (force simp: boundary_None_iff boundary_Some_iff)

section \<open>The reference\<close>

text \<open>The events of a whole text, the last one ended by the end of the text, and their values.\<close>

function sse_events :: "str \<Rightarrow> str list" where
  "sse_events s = (case find_event_boundary s of
     None \<Rightarrow> if s = [] then [] else [s]
   | Some (i, n) \<Rightarrow> take i s # sse_events (drop (i + n) s))"
  by pat_completeness auto
termination by (relation "measure length") (auto dest!: find_event_boundary_shorter)

declare sse_events.simps [simp del]

definition sse_values :: "(str \<Rightarrow> json option) \<Rightarrow> str \<Rightarrow> json list res" where
  "sse_values parse text = try_bind (try_map (parse_event_block parse) (sse_events text)) (\<lambda>vss. Inr (concat vss))"

lemma boundary_Nil [simp]: "find_event_boundary [] = None"
  by (auto simp: boundary_None_iff dest: separated_length)

lemma sse_events_Nil [simp]: "sse_events [] = []"
  by (simp add: sse_events.simps [of "[]"])

lemma sse_events_append:
  assumes "find_event_boundary s = Some (i, n)"
  shows "sse_events (s @ r) = take i s # sse_events (drop (i + n) s @ r)"
  using find_event_boundary_shorter [OF assms]
  by (subst sse_events.simps) (simp add: boundary_stable [OF assms])

lemma try_map_append:
  "try_map f (xs @ ys) = try_bind (try_map f xs) (\<lambda>a. try_bind (try_map f ys) (\<lambda>b. Inr (a @ b)))"
proof (induction xs)
  case Nil
  show ?case by (cases "try_map f ys") auto
next
  case (Cons x xs)
  then show ?case by (cases "f x"; cases "try_map f xs"; cases "try_map f ys") auto
qed

lemma sse_values_append:
  "sse_events t = es @ sse_events t' \<Longrightarrow> try_map (parse_event_block parse) es = Inr vss \<Longrightarrow>
     sse_values parse t = try_bind (sse_values parse t') (\<lambda>ws. Inr (concat vss @ ws))"
  unfolding sse_values_def by (cases "try_map (parse_event_block parse) (sse_events t')") (simp_all add: try_map_append)

lemma drain_events_spec:
  assumes "drain_events parse b = (vs, Inr b')"
  shows "find_event_boundary b' = None \<and> (\<exists>es vss. (\<forall>r. sse_events (b @ r) = es @ sse_events (b' @ r)) \<and>
    try_map (parse_event_block parse) es = Inr vss \<and> vs = concat vss)"
  using assms
proof (induction parse b arbitrary: vs rule: drain_events.induct)
  case (1 parse b)
  show ?case
  proof (cases "find_event_boundary b")
    case None
    then have "vs = [] \<and> b' = b" using "1.prems" by (simp add: drain_events.simps [of _ b])
    then show ?thesis using None by (intro conjI exI [of _ "[]"]) auto
  next
    case (Some p)
    obtain i n where p: "p = (i, n)" by force
    note b = Some [unfolded p]
    obtain us ws where d: "parse_event_block parse (take i b) = Inr us" "\<not> MAX_SSE_EVENT_BYTES < i"
        "drain_events parse (drop (i + n) b) = (ws, Inr b')" "vs = us @ ws"
      using "1.prems" b by (subst (asm) drain_events.simps) (auto split: if_splits sum.splits prod.splits)
    obtain es vss where es: "find_event_boundary b' = None" "\<forall>r. sse_events (drop (i + n) b @ r) = es @ sse_events (b' @ r)"
        "try_map (parse_event_block parse) es = Inr vss" "ws = concat vss"
      using "1.IH" [OF b refl d(2,1,3)] by blast
    have "\<forall>r. sse_events (b @ r) = (take i b # es) @ sse_events (b' @ r)"
      by (simp add: sse_events_append [OF b] es(2))
    moreover have "try_map (parse_event_block parse) (take i b # es) = Inr (us # vss)" using d(1) es(3) by simp
    moreover have "vs = concat (us # vss)" using d(4) es(4) by simp
    ultimately show ?thesis using es(1) by blast
  qed
qed

lemma drain_events_complete:
  assumes "try_map (parse_event_block parse) (sse_events (b @ r)) = Inr vss"
    and "\<forall>e\<in>set (sse_events (b @ r)). length e \<le> MAX_SSE_EVENT_BYTES"
  shows "\<exists>vs b'. drain_events parse b = (vs, Inr b')"
  using assms
proof (induction parse b arbitrary: vss rule: drain_events.induct)
  case (1 parse b)
  show ?case
  proof (cases "find_event_boundary b")
    case None
    then show ?thesis by (simp add: drain_events.simps [of _ b])
  next
    case (Some p)
    obtain i n where p: "p = (i, n)" by force
    note b = Some [unfolded p]
    have i: "i \<le> length b" using find_event_boundary_shorter [OF b] by simp
    obtain us vss' where d: "parse_event_block parse (take i b) = Inr us" "length (take i b) \<le> MAX_SSE_EVENT_BYTES"
        "try_map (parse_event_block parse) (sse_events (drop (i + n) b @ r)) = Inr vss'"
        "\<forall>e\<in>set (sse_events (drop (i + n) b @ r)). length e \<le> MAX_SSE_EVENT_BYTES"
      using "1.prems" by (auto simp: sse_events_append [OF b] try_bind_Inr_iff)
    have small: "\<not> MAX_SSE_EVENT_BYTES < i" using d(2) i by simp
    obtain ws b' where "drain_events parse (drop (i + n) b) = (ws, Inr b')"
      using "1.IH" [OF b refl small d(1,3,4)] by blast
    then show ?thesis using b d(1) small by (subst drain_events.simps) simp
  qed
qed

text \<open>What is left in the buffer is no longer than an event and three bytes of a separator.\<close>

lemma leftover_bound:
  assumes "find_event_boundary b = None" and "\<forall>e\<in>set (sse_events (b @ r)). length e + 3 \<le> m"
  shows "length b \<le> m"
proof (cases "find_event_boundary (b @ r)")
  case None
  then show ?thesis using assms(2) by (cases "b @ r = []") (auto simp: sse_events.simps [of "b @ r"])
next
  case (Some p)
  obtain i n where p: "p = (i, n)" by force
  note s = Some [unfolded p]
  have "length b < i + n" by (rule boundary_crosses [OF assms(1) s])
  moreover have "n \<le> 4" "i \<le> length (b @ r)"
    using s separated_length [of "b @ r" i n] by (auto simp: boundary_Some_iff)
  moreover have "length (take i (b @ r)) + 3 \<le> m" using assms(2) s by (simp add: sse_events.simps [of "b @ r"])
  ultimately show ?thesis by simp
qed

section \<open>One chunk\<close>

lemma from_bytes_append [simp]: "from_bytes (a @ b) = from_bytes a @ from_bytes b"
  by (simp add: from_bytes_def)

lemma from_bytes_Nil [simp]: "from_bytes [] = []"
  by (simp add: from_bytes_def)

text \<open>The bytes held back are empty or the beginning of a character.\<close>

definition held_back :: "sse_state \<Rightarrow> bool" where
  "held_back st \<longleftrightarrow> find_event_boundary (sse_buffer st) = None \<and>
     (sse_pending st = [] \<or> utf8_error (map unat (sse_pending st)) = Some (0, None))"

lemma sse_chunk_Inr:
  assumes "sse_chunk parse st chunk = (vs, Inr st')"
  shows "\<exists>v. utf8_error (map unat (take v (sse_pending st @ chunk))) = None \<and>
    drain_events parse (sse_buffer st @ from_bytes (take v (sse_pending st @ chunk))) = (vs, Inr (sse_buffer st')) \<and>
    sse_pending st' = drop v (sse_pending st @ chunk) \<and> held_back st'"
proof -
  let ?in = "sse_pending st @ chunk"
  show ?thesis
  proof (cases "utf8_error (map unat ?in)")
    case None
    obtain ws r where d: "drain_events parse (sse_buffer st @ from_bytes ?in) = (ws, r)" by force
    then have "ws = vs" "r = Inr (sse_buffer st')" "sse_pending st' = []"
      using assms None by (auto simp: sse_chunk_def Let_def split: sum.splits if_splits)
    then show ?thesis using None d drain_events_spec by (intro exI [of _ "length ?in"]) (auto simp: held_back_def)
  next
    case (Some p)
    obtain v e where p: "p = (v, e)" by force
    obtain ws r where d: "drain_events parse (sse_buffer st @ from_bytes (take v ?in)) = (ws, r)" by force
    have "e = None" "ws = vs" "r = Inr (sse_buffer st')" "sse_pending st' = drop v ?in"
      using assms Some p d unfolding sse_chunk_def Let_def by (auto split: sum.splits if_splits)
    moreover have "utf8_error (map unat (take v ?in)) = None" "utf8_error (map unat (drop v ?in)) = Some (0, e)"
      using utf8_error_split [OF Some [unfolded p]] by (simp_all add: take_map drop_map)
    ultimately show ?thesis using d drain_events_spec by (intro exI [of _ v]) (auto simp: held_back_def)
  qed
qed

lemma sse_chunkI:
  assumes "input = sse_pending st @ chunk"
    and "utf8_error (map unat input) = None \<and> drop v input = [] \<or>
      utf8_error (map unat input) = Some (v, None) \<and> length (drop v input) \<le> 3"
    and "drain_events parse (sse_buffer st @ from_bytes (take v input)) = (us, Inr b')"
    and "length b' \<le> MAX_SSE_EVENT_BYTES"
  shows "sse_chunk parse st chunk = (us, Inr \<lparr>sse_buffer = b', sse_pending = drop v input\<rparr>)"
  using assms(2)
proof
  assume a: "utf8_error (map unat input) = None \<and> drop v input = []"
  then have "take v input = input" by simp
  then show ?thesis using a assms(3,4) by (simp add: sse_chunk_def Let_def assms(1) [symmetric])
next
  assume "utf8_error (map unat input) = Some (v, None) \<and> length (drop v input) \<le> 3"
  then show ?thesis using assms(3,4) by (simp add: sse_chunk_def Let_def assms(1) [symmetric] MAX_PENDING_UTF8_BYTES_def)
qed

lemma sse_run_sound:
  assumes "held_back st" and "sse_run parse st (map Inr chunks) = (vs, None)"
  shows "utf8_error (map unat (sse_pending st @ concat chunks)) = None \<and>
    sse_values parse (sse_buffer st @ from_bytes (sse_pending st @ concat chunks)) = Inr vs"
  using assms
proof (induction chunks arbitrary: st vs)
  case Nil
  then have "sse_pending st = []" "find_event_boundary (sse_buffer st) = None"
    by (auto simp: sse_finish_def held_back_def split: if_splits)
  then show ?case
    using Nil.prems by (auto simp: sse_finish_def sse_values_def sse_events.simps [of "sse_buffer st"]
        split: if_splits sum.splits)
next
  case (Cons chunk chunks)
  let ?in = "sse_pending st @ chunk"
  obtain us st' ws where c: "sse_chunk parse st chunk = (us, Inr st')" "sse_run parse st' (map Inr chunks) = (ws, None)"
      "vs = us @ ws"
    using Cons.prems(2) by (auto split: prod.splits sum.splits)
  obtain v where v: "utf8_error (map unat (take v ?in)) = None"
      "drain_events parse (sse_buffer st @ from_bytes (take v ?in)) = (us, Inr (sse_buffer st'))"
      "sse_pending st' = drop v ?in" "held_back st'"
    using sse_chunk_Inr [OF c(1)] by blast
  note ih = Cons.IH [OF v(4) c(2), unfolded v(3)]
  have bytes: "?in @ concat chunks = take v ?in @ drop v ?in @ concat chunks"
    by (simp only: append_take_drop_id append_assoc [symmetric])
  have "utf8_error (map unat (?in @ concat chunks)) = None"
    unfolding bytes map_append [of unat "take v ?in"] using utf8_error_valid_append [OF v(1)] ih by simp
  moreover obtain es vss where es: "\<forall>r. sse_events (sse_buffer st @ from_bytes (take v ?in) @ r) = es @ sse_events (sse_buffer st' @ r)"
      "try_map (parse_event_block parse) es = Inr vss" "us = concat vss"
    using drain_events_spec [OF v(2)] by auto
  have "sse_values parse (sse_buffer st @ from_bytes (?in @ concat chunks)) = Inr vs"
    unfolding bytes from_bytes_append [of "take v ?in"]
    using sse_values_append [OF spec [OF es(1)] es(2), of "from_bytes (drop v ?in @ concat chunks)"] ih c(3) es(3) by simp
  ultimately show ?case by simp
qed

lemma sse_run_complete:
  assumes "held_back st" and "utf8_error (map unat (sse_pending st @ concat chunks)) = None"
    and "sse_values parse (sse_buffer st @ from_bytes (sse_pending st @ concat chunks)) = Inr vs"
    and "\<forall>e\<in>set (sse_events (sse_buffer st @ from_bytes (sse_pending st @ concat chunks))). length e + 3 \<le> MAX_SSE_EVENT_BYTES"
  shows "sse_run parse st (map Inr chunks) = (vs, None)"
  using assms
proof (induction chunks arbitrary: st vs)
  case Nil
  then have "sse_pending st = []" "find_event_boundary (sse_buffer st) = None"
    by (auto simp: held_back_def)
  then show ?case
    using Nil.prems by (auto simp: sse_finish_def sse_values_def sse_events.simps [of "sse_buffer st"] try_bind_Inr_iff)
next
  case (Cons chunk chunks)
  let ?in = "sse_pending st @ chunk"
  define v where "v = (case utf8_error (map unat ?in) of None \<Rightarrow> length ?in | Some (v, e) \<Rightarrow> v)"
  define b where "b = sse_buffer st @ from_bytes (take v ?in)"
  define r where "r = from_bytes (drop v ?in @ concat chunks)"
  have whole: "utf8_error (map unat ?in @ map unat (concat chunks)) = None" using Cons.prems(2) by simp
  have cut: "utf8_error (map unat ?in) = None \<and> drop v ?in = [] \<or> utf8_error (map unat ?in) = Some (v, None) \<and>
      utf8_error (map unat (drop v ?in)) = Some (0, None) \<and> length (drop v ?in) \<le> 3"
  proof (cases "utf8_error (map unat ?in)")
    case (Some p)
    obtain v' e where p: "p = (v', e)" by force
    have "e = None" using utf8_error_permanent [of "map unat ?in" v' _ "map unat (concat chunks)"] Some p whole by (cases e) auto
    moreover have "v = v'" using Some p by (simp add: v_def)
    ultimately show ?thesis
      using Some p utf8_error_split [of "map unat ?in" v' e] utf8_error_cut_short [of "map unat (drop v ?in)"]
      by (simp add: drop_map)
  qed (simp add: v_def)
  have bytes: "?in @ concat chunks = take v ?in @ drop v ?in @ concat chunks"
    by (simp only: append_take_drop_id append_assoc [symmetric])
  have all_text: "sse_buffer st @ from_bytes (sse_pending st @ concat (chunk # chunks)) = b @ r"
    using arg_cong [OF bytes, of from_bytes] by (simp add: b_def r_def)
  obtain vss where vss: "try_map (parse_event_block parse) (sse_events (b @ r)) = Inr vss" "vs = concat vss"
    using Cons.prems(3) [unfolded all_text] by (auto simp: sse_values_def try_bind_Inr_iff)
  have "\<forall>e\<in>set (sse_events (b @ r)). length e \<le> MAX_SSE_EVENT_BYTES" using Cons.prems(4) [unfolded all_text] by auto
  then obtain us b' where d: "drain_events parse b = (us, Inr b')"
    using drain_events_complete [OF vss(1)] by blast
  obtain es vss' where es: "find_event_boundary b' = None" "\<forall>r. sse_events (b @ r) = es @ sse_events (b' @ r)"
      "try_map (parse_event_block parse) es = Inr vss'" "us = concat vss'"
    using drain_events_spec [OF d] by blast
  have small: "\<forall>e\<in>set (sse_events (b' @ r)). length e + 3 \<le> MAX_SSE_EVENT_BYTES"
    using Cons.prems(4) [unfolded all_text] by (auto simp: es(2))
  have len: "length b' \<le> MAX_SSE_EVENT_BYTES" by (rule leftover_bound [OF es(1) small])
  define st' where "st' = \<lparr>sse_buffer = b', sse_pending = drop v ?in\<rparr>"
  have chunk: "sse_chunk parse st chunk = (us, Inr st')"
    unfolding st'_def by (rule sse_chunkI [OF refl _ d [unfolded b_def] len]) (use cut in blast)
  have held: "held_back st'" using cut es(1) by (auto simp: held_back_def st'_def)
  obtain ws where ws: "sse_values parse (b' @ r) = Inr ws" "vs = us @ ws"
    using Cons.prems(3) [unfolded all_text] sse_values_append [OF spec [OF es(2)] es(3), of r] es(4)
    by (auto simp: try_bind_Inr_iff)
  have "utf8_error (map unat (sse_pending st' @ concat chunks)) = None"
  proof (cases "utf8_error (map unat ?in)")
    case None
    then show ?thesis using cut whole utf8_error_valid_append [OF None] by (auto simp: st'_def)
  next
    case (Some p)
    then have ok: "utf8_error (map unat (take v ?in)) = None"
      using cut utf8_error_split [of "map unat ?in" v None] by (auto simp: take_map)
    have "utf8_error (map unat (take v ?in @ drop v ?in @ concat chunks)) = None"
      using Cons.prems(2) by (simp only: bytes [symmetric] append_assoc concat.simps)
    then have "utf8_error (map unat (drop v ?in @ concat chunks)) = None"
      by (simp only: map_append [of unat "take v ?in"] utf8_error_valid_append [OF ok] option.map_disc_iff)
    then show ?thesis by (simp only: st'_def sse_state.simps)
  qed
  then have "sse_run parse st' (map Inr chunks) = (ws, None)"
    using Cons.IH [OF held] ws(1) small by (simp add: st'_def r_def)
  then show ?case using chunk ws(2) by simp
qed

section \<open>Chunks do not matter\<close>

text \<open>
  C36. Over every way to cut a stream into chunks the parser gives the values of the whole text: when its
  events leave room for a separator below the limit, the stream ends without an error with the values
  \<open>vs\<close> exactly when the bytes are UTF-8 and \<open>vs\<close> are the values of the events of that text.
\<close>

theorem sse_chunking:
  assumes "\<And>text. from_utf8 (concat chunks) = Some text \<Longrightarrow> list_all (\<lambda>e. length e + 3 \<le> MAX_SSE_EVENT_BYTES) (sse_events text)"
  shows "parse_event_stream parse (map Inr chunks) = (vs, None) \<longleftrightarrow>
    (\<exists>text. from_utf8 (concat chunks) = Some text \<and> sse_values parse text = Inr vs)"
proof -
  let ?st = "\<lparr>sse_buffer = [], sse_pending = []\<rparr>"
  have st: "held_back ?st" by (simp add: held_back_def)
  have utf8: "from_utf8 (concat chunks) = Some t \<longleftrightarrow>
      utf8_error (map unat (concat chunks)) = None \<and> t = from_bytes (concat chunks)" for t
    by (auto simp: from_utf8_def utf8_error_None_iff)
  show ?thesis
    using sse_run_sound [OF st, of parse chunks vs] sse_run_complete [OF st, of chunks parse vs] assms
    by (auto simp: parse_event_stream_def utf8 list_all_iff)
qed

lemma sse_events_length: "e \<in> set (sse_events s) \<Longrightarrow> length e \<le> length s"
proof (induction s rule: sse_events.induct)
  case (1 s)
  show ?case
  proof (cases "find_event_boundary s")
    case (Some p)
    obtain i n where p: "p = (i, n)" by force
    have "e = take i s \<or> e \<in> set (sse_events (drop (i + n) s))"
      using "1.prems" Some p by (simp add: sse_events.simps [of s])
    then show ?thesis using "1.IH" [OF Some p [symmetric]] by fastforce
  qed (use "1.prems" in \<open>auto simp: sse_events.simps [of s] split: if_splits\<close>)
qed

text \<open>Two events, with the separator and a character cut in two.\<close>

definition toy_events :: str where
  "toy_events = ''data:a'' @ [LF, LF] @ [CHR ''x'', CHR 0xC3, CHR 0xA9]"

lemma toy_events_values: "sse_values (\<lambda>s. Some (JString s)) toy_events = Inr [JString ''a'']"
proof -
  have "find_event_boundary toy_events = Some (6, 2)"
    by (simp add: find_event_boundary_def find_str_def toy_events_def starts_with_def LF_def CR_def)
  moreover have "find_event_boundary [CHR ''x'', CHR 0xC3, CHR 0xA9] = None"
    by (simp add: find_event_boundary_def find_str_def starts_with_def LF_def CR_def)
  ultimately have e: "sse_events toy_events = [''data:a'', [CHR ''x'', CHR 0xC3, CHR 0xA9]]"
    using sse_events.simps [of "[CHR ''x'', CHR 0xC3, CHR 0xA9]"]
    by (simp add: sse_events.simps [of toy_events]) (simp add: toy_events_def)
  have "trim_start s = s" if "s \<noteq> []" "is_graphic (hd s)" for s
    unfolding trim_start_def by (rule trim_with_graphic) (use that white_space_graphic in auto)
  then have "trim_start ''data:a'' = ''data:a''" "trim_start [CHR ''x'', CHR 0xC3, CHR 0xA9] = [CHR ''x'', CHR 0xC3, CHR 0xA9]"
    by (simp_all add: is_graphic_def)
  moreover have "trim ''a'' = ''a''" by (rule trim_graphic) (simp add: is_graphic_def)
  ultimately show ?thesis
    by (simp add: sse_values_def e parse_event_block_def lines_def event_line_def strip_prefix_def starts_with_def)
qed

lemma sse_chunking_witness:
  "parse_event_stream (\<lambda>s. Some (JString s))
     (map Inr [as_bytes (''data:a'' @ [LF]), as_bytes [LF, CHR ''x'', CHR 0xC3], [0xA9]]) = ([JString ''a''], None)"
proof -
  let ?chunks = "[as_bytes (''data:a'' @ [LF]), as_bytes [LF, CHR ''x'', CHR 0xC3], [0xA9]]"
  have bytes: "concat ?chunks = as_bytes toy_events"
    by (simp add: toy_events_def as_bytes_def)
  have "utf8_ok (map unat (as_bytes toy_events))"
    by (simp add: toy_events_def as_bytes_def LF_def)
  then have u: "from_utf8 (concat ?chunks) = Some toy_events" by (simp only: bytes from_utf8_def if_True from_as_bytes)
  have "length toy_events + 3 \<le> MAX_SSE_EVENT_BYTES" by (simp add: toy_events_def MAX_SSE_EVENT_BYTES_def)
  then have "list_all (\<lambda>e. length e + 3 \<le> MAX_SSE_EVENT_BYTES) (sse_events toy_events)"
    using sse_events_length [of _ toy_events] by (fastforce simp: list_all_iff)
  then show ?thesis using u toy_events_values by (subst sse_chunking) auto
qed

text \<open>
  Without that room the cut can matter: an event of exactly the limit is parsed when its separator
  arrives with it, and refused when the separator arrives in two pieces.
\<close>

lemma split_separator_refused:
  assumes "list_all is_graphic e" and "length e = MAX_SSE_EVENT_BYTES" and "parse_event_block parse e = Inr vs"
  shows "parse_event_stream parse [Inr (as_bytes (e @ [LF, LF]))] = (vs, None)"
    and "parse_event_stream parse [Inr (as_bytes (e @ [LF])), Inr (as_bytes [LF])] = ([], Some sse_exceeded)"
proof -
  have ascii: "utf8_error (map unat (as_bytes (e @ replicate n LF))) = None" for n
    using assms(1) unfolding utf8_error_None_iff
    by (intro utf8_ok_ascii) (auto simp: list_all_iff is_graphic_def as_bytes_def unat_of_char_word LF_def)
  have no: "LF \<notin> set e" "CR \<notin> set e" using assms(1) by (auto simp: list_all_iff is_graphic_def LF_def CR_def)
  have end_of: "\<not> separated (e @ replicate n LF) j m" if "j < length e \<or> n < 2" for j m n
  proof
    assume s: "separated (e @ replicate n LF) j m"
    have two: "j + 2 \<le> length e + n" using separated_length [OF s] by simp
    then have "j < length e" using that by auto
    moreover have "(e @ replicate n LF) ! j = LF \<or> (e @ replicate n LF) ! j = CR"
      using s occurs_nth [of "[LF, LF]" _ j 0] occurs_nth [of "[CR, LF, CR, LF]" _ j 0] by (auto simp: separated_def)
    ultimately have "j < length e" "e ! j = LF \<or> e ! j = CR" by (auto simp: nth_append)
    then show False using no nth_mem [of j e] by metis
  qed
  have one: "find_event_boundary (e @ [LF]) = None"
    using end_of [where n = 1] by (simp add: boundary_None_iff)
  have "separated (e @ [LF, LF]) (length e) 2" by (simp add: separated_def occurs_def)
  then have two: "find_event_boundary (e @ [LF, LF]) = Some (length e, 2)"
    using end_of [where n = 2] by (simp add: boundary_Some_iff numeral_2_eq_2)
  show "parse_event_stream parse [Inr (as_bytes (e @ [LF, LF]))] = (vs, None)"
    using ascii [of 2] two assms(2,3)
    by (simp add: parse_event_stream_def sse_chunk_def numeral_2_eq_2 drain_events.simps [of _ "e @ [LF, LF]"]
        drain_events.simps [of _ "[]"] sse_finish_def)
  show "parse_event_stream parse [Inr (as_bytes (e @ [LF])), Inr (as_bytes [LF])] = ([], Some sse_exceeded)"
    using ascii [of 1] one assms(2)
    by (simp add: parse_event_stream_def sse_chunk_def drain_events.simps [of _ "e @ [LF]"])
qed

end
