(* ===== verification/Relaxed_Properties.thy ===== *)
theory Relaxed_Properties
  imports Relaxed Sse_Properties Client_Properties
begin

text \<open>
  What the relaxed chat path sends, and what it makes of the answer.
\<close>

section \<open>The body that is sent\<close>

text \<open>The members of the posted object, and where its secret is from.\<close>

definition posted_members :: "('w \<Rightarrow> 'w \<times> str) \<Rightarrow> bool \<Rightarrow> (str \<times> json) list \<Rightarrow> secret_source \<Rightarrow> 'w \<Rightarrow> (str \<times> json) list" where
  "posted_members resolve stream kvs src w =
     (let forced = member_insert ''stream'' (JBool stream) kvs in
      if map_of kvs ''user_cache_secret'' \<notin> {None, Some (JString [])} then forced
      else case snd (source_get resolve src w) of
        Some secret \<Rightarrow> member_insert ''user_cache_secret'' (JString secret) forced | None \<Rightarrow> forced)"

definition source_after :: "('w \<Rightarrow> 'w \<times> str) \<Rightarrow> (str \<times> json) list \<Rightarrow> secret_source \<Rightarrow> 'w \<Rightarrow> secret_source \<times> 'w" where
  "source_after resolve kvs src w =
     (if map_of kvs ''user_cache_secret'' \<notin> {None, Some (JString [])} then (src, w)
      else fst (source_get resolve src w))"

lemma relaxed_body_object:
  "relaxed_body resolve stream (JObject kvs) src w =
     (source_after resolve kvs src w, JObject (posted_members resolve stream kvs src w))"
  by (simp add: relaxed_body_def posted_members_def source_after_def USER_CACHE_SECRET_FIELD_def
      map_of_member_insert Let_def split: prod.split option.split)

lemma relaxed_post_object:
  assumes "source_after resolve kvs (cl_secret cl) w = (src, w')"
  shows "relaxed_post env resolve stream (JObject kvs) cl d w =
    (case post_json env (cl_secure cl) d ''/v1/chat/completions'' (JObject (posted_members resolve stream kvs (cl_secret cl) w)) of
       ((sc, d'), r) \<Rightarrow> ((cl\<lparr>cl_secure := sc, cl_secret := src\<rparr>, d', w'), r))"
  by (simp add: relaxed_post_def relaxed_body_object assms CHAT_COMPLETIONS_PATH_def)

lemma posted_members_of:
  "map_of (posted_members resolve stream kvs src w) ''stream'' = Some (JBool stream)"
  "k \<notin> {''stream'', ''user_cache_secret''} \<Longrightarrow> map_of (posted_members resolve stream kvs src w) k = map_of kvs k"
  "map_of (posted_members resolve stream kvs src w) ''user_cache_secret'' =
     (if map_of kvs ''user_cache_secret'' \<notin> {None, Some (JString [])} then map_of kvs ''user_cache_secret''
      else case snd (source_get resolve src w) of
        Some secret \<Rightarrow> Some (JString secret) | None \<Rightarrow> map_of kvs ''user_cache_secret'')"
  by (auto simp: posted_members_def map_of_member_insert Let_def split: option.split)

lemma posted_members_streamed:
  "k \<noteq> ''stream'' \<Longrightarrow> map_of (posted_members resolve s kvs src w) k = map_of (posted_members resolve s' kvs src w) k"
  by (auto simp: posted_members_def map_of_member_insert Let_def split: option.split)

text \<open>Any other value is posted as it is.\<close>

lemma relaxed_body_other: "\<nexists>kvs. body = JObject kvs \<Longrightarrow> relaxed_body resolve stream body src w = ((src, w), body)"
  by (cases body) (auto simp: relaxed_body_def)

text \<open>
  C37. What the two relaxed calls do with an object: each posts one body to the path of the chat
  completions, through the secure client, and returns what its own reader makes of the response;
  whatever the caller put into the body, \<open>create\<close>, which reads one JSON answer, posts \<open>stream: false\<close> and
  \<open>create_stream\<close>, which reads events, posts \<open>stream: true\<close>. A cache secret of the caller is kept and none
  is resolved; otherwise the secret is the one of the client's source. Every other member is the
  caller's, and the two bodies differ in \<open>stream\<close> alone.
\<close>

theorem relaxed_request_body:
  "\<exists>whole streamed src w'.
     create rx env resolve (JObject kvs) cl d w =
       (case post_json env (cl_secure cl) d ''/v1/chat/completions'' (JObject whole) of
          ((sc, d'), r) \<Rightarrow> ((cl\<lparr>cl_secure := sc, cl_secret := src\<rparr>, d', w'), try_bind r (relaxed_answer rx))) \<and>
     create_stream rx env resolve (JObject kvs) cl d w =
       (case post_json env (cl_secure cl) d ''/v1/chat/completions'' (JObject streamed) of
          ((sc, d'), r) \<Rightarrow> ((cl\<lparr>cl_secure := sc, cl_secret := src\<rparr>, d', w'), try_bind r (stream_answer rx))) \<and>
     map_of whole ''stream'' = Some (JBool False) \<and> map_of streamed ''stream'' = Some (JBool True) \<and>
     (\<forall>k. k \<notin> {''stream'', ''user_cache_secret''} \<longrightarrow> map_of whole k = map_of kvs k) \<and>
     (\<forall>k. k \<noteq> ''stream'' \<longrightarrow> map_of streamed k = map_of whole k) \<and>
     (if map_of kvs ''user_cache_secret'' \<notin> {None, Some (JString [])}
      then map_of whole ''user_cache_secret'' = map_of kvs ''user_cache_secret'' \<and> src = cl_secret cl \<and> w' = w
      else (src, w') = fst (source_get resolve (cl_secret cl) w) \<and>
        map_of whole ''user_cache_secret'' =
          (case snd (source_get resolve (cl_secret cl) w) of
             Some secret \<Rightarrow> Some (JString secret) | None \<Rightarrow> map_of kvs ''user_cache_secret''))"
proof -
  obtain src w' where st: "source_after resolve kvs (cl_secret cl) w = (src, w')" by (metis prod.exhaust)
  have c: "create rx env resolve (JObject kvs) cl d w =
       (case post_json env (cl_secure cl) d ''/v1/chat/completions'' (JObject (posted_members resolve False kvs (cl_secret cl) w)) of
          ((sc, d'), r) \<Rightarrow> ((cl\<lparr>cl_secure := sc, cl_secret := src\<rparr>, d', w'), try_bind r (relaxed_answer rx)))"
      "create_stream rx env resolve (JObject kvs) cl d w =
       (case post_json env (cl_secure cl) d ''/v1/chat/completions'' (JObject (posted_members resolve True kvs (cl_secret cl) w)) of
          ((sc, d'), r) \<Rightarrow> ((cl\<lparr>cl_secure := sc, cl_secret := src\<rparr>, d', w'), try_bind r (stream_answer rx)))"
    by (simp_all add: create_def create_stream_def relaxed_post_object [OF st] split: prod.split)
  have s: "if map_of kvs ''user_cache_secret'' \<notin> {None, Some (JString [])}
      then src = cl_secret cl \<and> w' = w else (src, w') = fst (source_get resolve (cl_secret cl) w)"
    using st unfolding source_after_def by (metis prod.inject)
  note m = posted_members_of [where resolve = resolve and kvs = kvs and src = "cl_secret cl" and w = w]
  let ?own = "map_of kvs ''user_cache_secret'' \<notin> {None, Some (JString [])}"
  let ?whole = "posted_members resolve False kvs (cl_secret cl) w"
  have secret: "if ?own
      then map_of ?whole ''user_cache_secret'' = map_of kvs ''user_cache_secret'' \<and> src = cl_secret cl \<and> w' = w
      else (src, w') = fst (source_get resolve (cl_secret cl) w) \<and>
        map_of ?whole ''user_cache_secret'' =
          (case snd (source_get resolve (cl_secret cl) w) of
             Some secret \<Rightarrow> Some (JString secret) | None \<Rightarrow> map_of kvs ''user_cache_secret'')"
  proof (cases ?own)
    case True
    then show ?thesis using s m(3) by presburger
  next
    case False
    then show ?thesis using s m(3) by presburger
  qed
  have others: "\<forall>k. k \<notin> {''stream'', ''user_cache_secret''} \<longrightarrow> map_of ?whole k = map_of kvs k"
    by (intro allI impI m(2))
  have same: "\<forall>k. k \<noteq> ''stream'' \<longrightarrow> map_of (posted_members resolve True kvs (cl_secret cl) w) k = map_of ?whole k"
    by (intro allI impI posted_members_streamed)
  show ?thesis
    by (rule exI [of _ ?whole], rule exI [of _ "posted_members resolve True kvs (cl_secret cl) w"],
        rule exI [of _ src], rule exI [of _ w'])
      (rule conjI [OF c(1) conjI [OF c(2) conjI [OF m(1) conjI [OF m(1) conjI [OF others conjI [OF same secret]]]]]])
qed

text \<open>A client in direct mode whose transport sends only a body that says \<open>stream: false\<close>: the caller's
  \<open>stream: true\<close> is answered in one piece, and a stream gets no response at all.\<close>

definition whole_only :: "json \<Rightarrow> bool" where
  "whole_only body \<longleftrightarrow> (case body of JObject kvs \<Rightarrow> map_of kvs ''stream'' = Some (JBool False) | _ \<Rightarrow> False)"

definition whole_env :: "(str, http_answer) client_env" where
  "whole_env = \<lparr>k_verify = toy_verify_env, k_tls = toy_tls, k_handshake = (\<lambda>_. Inl ''refused''), k_dcode = toy_dcode,
     k_ehbp = \<lparr>h_parse_url = (\<lambda>_. None), h_build_http = True, h_connect = (\<lambda>_ k. Inr k), h_header_ok = (\<lambda>_. True),
       h_execute = (\<lambda>_ _ _. Inl (Other_Ehbp ''no''))\<rparr>,
     k_request = (\<lambda>_ _ body. if whole_only body then Inr \<lparr>req_method = ''POST'', req_path = [], req_url = [], req_headers = [], req_body = None\<rparr> else Inl ''stream''),
     k_send = (\<lambda>_ _. Inr \<lparr>ha_status = 200, ha_body = Inr [], ha_stream = []\<rparr>)\<rparr>"

definition whole_client :: "str client" where
  "whole_client = \<lparr>cl_openai = \<lparr>oa_api_key = ''k'', oa_api_base = ''b'', oa_transport = Over_Proxy\<rparr>,
     cl_secure = (new_secure_client ''h'' ''o/r'' ''k'')\<lparr>sc_pinned_client := Some \<lparr>bc_transport =
       \<lparr>hc_verifier = \<lparr>pv_fingerprint = [], pv_server_name = None\<rparr>, hc_https_only = True, hc_redirect_origin = None\<rparr>,
       bc_origin = []\<rparr>\<rparr>,
     cl_secret = deferred\<rparr>"

definition whole_rx :: relaxed_ext where
  "whole_rx = \<lparr>rx_parse = (\<lambda>_. Some (JString ''answer'')), rx_parse_str = (\<lambda>_. None), rx_status = (\<lambda>_. [])\<rparr>"

lemma whole_post:
  "post_json whole_env (cl_secure whole_client) d path (JObject kvs) =
     ((cl_secure whole_client, d),
      if map_of kvs ''stream'' = Some (JBool False) then Inr \<lparr>ha_status = 200, ha_body = Inr [], ha_stream = []\<rparr>
      else Inl (Http ''stream''))"
  by (simp add: post_json_def whole_client_def new_secure_client_def pinned_http_client_def whole_env_def whole_only_def)

lemma relaxed_request_body_witness:
  "snd (create whole_rx whole_env (\<lambda>w. (w, ''s'')) (JObject [(''stream'', JBool True)]) whole_client Map.empty ()) =
     Inr (JString ''answer'') \<and>
   snd (create_stream whole_rx whole_env (\<lambda>w. (w, ''s'')) (JObject [(''stream'', JBool True)]) whole_client Map.empty ()) =
     Inl (Http ''stream'')"
proof -
  obtain whole streamed src w' where
      "create whole_rx whole_env (\<lambda>w. (w, ''s'')) (JObject [(''stream'', JBool True)]) whole_client Map.empty () =
         (case post_json whole_env (cl_secure whole_client) Map.empty ''/v1/chat/completions'' (JObject whole) of
            ((sc, d'), r) \<Rightarrow> ((whole_client\<lparr>cl_secure := sc, cl_secret := src\<rparr>, d', w'), try_bind r (relaxed_answer whole_rx)))"
      "create_stream whole_rx whole_env (\<lambda>w. (w, ''s'')) (JObject [(''stream'', JBool True)]) whole_client Map.empty () =
         (case post_json whole_env (cl_secure whole_client) Map.empty ''/v1/chat/completions'' (JObject streamed) of
            ((sc, d'), r) \<Rightarrow> ((whole_client\<lparr>cl_secure := sc, cl_secret := src\<rparr>, d', w'), try_bind r (stream_answer whole_rx)))"
      "map_of whole ''stream'' = Some (JBool False)" "map_of streamed ''stream'' = Some (JBool True)"
    using relaxed_request_body [of whole_rx whole_env "\<lambda>w. (w, ''s'')" "[(''stream'', JBool True)]" whole_client Map.empty "()"]
    by (elim exE conjE) (rule that)
  then show ?thesis by (simp add: whole_post relaxed_answer_def whole_rx_def status_success_def)
qed

section \<open>The answer\<close>

lemma http_error_status: "\<exists>api. http_error rx s b = Api (ApiError api) \<and> status_code api = s"
  by (simp add: http_error_def Let_def)

text \<open>An answer is accepted exactly when its status is a success and its body is JSON; one that is not a
  success is an error of the API with that status, and the retry layer repeats it only for a timeout, a
  server error, or too many requests that are not a spent quota.\<close>

lemma relaxed_answer_Inr:
  "relaxed_answer rx a = Inr v \<longleftrightarrow>
     status_success (ha_status a) \<and> (\<exists>b. ha_body a = Inr b \<and> rx_parse rx b = Some v)"
  by (auto simp: relaxed_answer_def result_inv)

lemma http_error_retryable:
  "is_retryable (http_error rx s b) \<longleftrightarrow>
     s = 408 \<or> 500 \<le> s \<and> s < 600 \<or>
     s = 429 \<and> Option.bind (rx_parse rx b) (\<lambda>v. jpointer_str v [''error'', ''type'']) \<noteq> Some INSUFFICIENT_QUOTA \<and>
       Option.bind (rx_parse rx b) (\<lambda>v. jpointer_str v [''error'', ''code'']) \<noteq> Some INSUFFICIENT_QUOTA"
  by (auto simp: is_retryable_def http_error_def Let_def)

lemma relaxed_post_refused:
  assumes "cl_secure cl = clear_trust sc"
  shows "\<exists>src w' e. relaxed_post env resolve s body cl d w = ((cl\<lparr>cl_secret := src\<rparr>, d, w'), Inl e)"
proof -
  obtain src w' body' where b: "relaxed_body resolve s body (cl_secret cl) w = ((src, w'), body')"
    by (metis prod.exhaust)
  obtain e where p: "post_json env (clear_trust sc) d CHAT_COMPLETIONS_PATH body' = ((clear_trust sc, d), Inl e)"
    using cleared_cannot_post [of env sc d CHAT_COMPLETIONS_PATH body'] by (rule exE)
  have "cl\<lparr>cl_secure := clear_trust sc, cl_secret := src\<rparr> = cl\<lparr>cl_secret := src\<rparr>"
    unfolding assms [symmetric] by simp
  then show ?thesis unfolding relaxed_post_def b assms by (simp add: p) blast
qed

text \<open>
  On a client whose last verification failed the relaxed calls get no answer: both end in an error,
  and neither the secure client nor the disk changes.
\<close>

theorem relaxed_needs_trust:
  assumes "verify_client env0 sc0 d0 = ((cl_secure cl, d1), Inl e)"
  shows "\<exists>st1 e1 st2 e2. create rx env resolve body cl d w = (st1, Inl e1) \<and> create_stream rx env resolve body cl d w = (st2, Inl e2) \<and>
    cl_secure (fst st1) = cl_secure cl \<and> cl_secure (fst st2) = cl_secure cl \<and> fst (snd st1) = d \<and> fst (snd st2) = d"
proof -
  have cl: "cl_secure cl = clear_trust sc0" by (rule verify_client_Inl [OF assms])
  obtain src1 w1 e1 where 1: "relaxed_post env resolve False body cl d w = ((cl\<lparr>cl_secret := src1\<rparr>, d, w1), Inl e1)"
    using relaxed_post_refused [OF cl] by metis
  obtain src2 w2 e2 where 2: "relaxed_post env resolve True body cl d w = ((cl\<lparr>cl_secret := src2\<rparr>, d, w2), Inl e2)"
    using relaxed_post_refused [OF cl] by metis
  show ?thesis by (simp add: create_def create_stream_def 1 2)
qed

text \<open>A client whose handshake with its host fails.\<close>

lemma no_handshake:
  assumes "k_handshake env (sc_host sc) = Inl m"
  shows "\<exists>d' e. verify_client env sc d = ((clear_trust sc, d'), Inl e)"
proof -
  obtain sc' d' r where v: "verify_client env sc d = ((sc', d'), r)" by (metis prod.exhaust)
  have "\<not> attestation_holds env (sc_host sc) (sc_repo sc) (sc_pinned_measurement sc) a" for a
    using assms by (auto simp: attestation_holds_def tls_bound_def)
  then have "r \<noteq> Inr gt" for gt using v by (metis verify_client_Inr)
  then show ?thesis using v verify_client_Inl by (cases r) blast+
qed

definition toy_chat_env :: "(str, http_answer) client_env" where
  "toy_chat_env = \<lparr>k_verify = toy_verify_env, k_tls = toy_tls, k_handshake = (\<lambda>_. Inl ''refused''), k_dcode = toy_dcode,
     k_ehbp = \<lparr>h_parse_url = (\<lambda>_. None), h_build_http = True, h_connect = (\<lambda>_ k. Inr k), h_header_ok = (\<lambda>_. True),
       h_execute = (\<lambda>_ _ _. Inl (Other_Ehbp ''no''))\<rparr>,
     k_request = (\<lambda>_ _ _. Inl ''no''), k_send = (\<lambda>_ _. Inl ''no'')\<rparr>"

lemma relaxed_needs_trust_witness:
  "\<exists>(cl :: str client) st e. create \<lparr>rx_parse = (\<lambda>_. None), rx_parse_str = (\<lambda>_. None), rx_status = (\<lambda>_. [])\<rparr>
     toy_chat_env (\<lambda>w. (w, ''s'')) JNull cl Map.empty () = (st, Inl e) \<and> cl_secure (fst st) = cl_secure cl"
proof -
  let ?rx = "\<lparr>rx_parse = (\<lambda>_. None), rx_parse_str = (\<lambda>_. None), rx_status = (\<lambda>_. [])\<rparr> :: relaxed_ext"
  let ?sc = "new_secure_client ''h'' ''o/r'' ''k'' :: str secure_client"
  let ?cl = "\<lparr>cl_openai = \<lparr>oa_api_key = ''k'', oa_api_base = ''b'', oa_transport = Over_Proxy\<rparr>,
    cl_secure = clear_trust ?sc, cl_secret = deferred\<rparr>"
  have "k_handshake toy_chat_env (sc_host ?sc) = Inl ''refused''" by (simp add: toy_chat_env_def)
  from no_handshake [OF this, of Map.empty] obtain d' e where
    "verify_client toy_chat_env ?sc Map.empty = ((cl_secure ?cl, d'), Inl e)" by auto
  from relaxed_needs_trust [OF this, of ?rx toy_chat_env "\<lambda>w. (w, ''s'')" JNull Map.empty "()"] obtain st e1 where
    "create ?rx toy_chat_env (\<lambda>w. (w, ''s'')) JNull ?cl Map.empty () = (st, Inl e1)" "cl_secure (fst st) = cl_secure ?cl"
    by blast
  then show ?thesis by (intro exI conjI)
qed

end
