(* ===== verification/Multimodal.thy ===== *)
theory Multimodal
  imports Errors Text
begin

text \<open>
  \<open>multimodal.rs\<close>: content parts from images and audio. Reading the file and the base64 encoder are
  parameters. A path is UTF-8 text with Unix separators.
\<close>

section \<open>The extension of a path\<close>

text \<open>\<open>Path::extension\<close> of the standard library, of a file name.\<close>

definition extension_of :: "str \<Rightarrow> str option" where
  "extension_of name = (let before = rev (dropWhile (\<lambda>c. c \<noteq> CHR ''.'') (rev name)) in
     if length before \<le> 1 then None else Some (drop (length before) name))"

definition extension_lower :: "str \<Rightarrow> str option" where
  "extension_lower path = map_option to_ascii_lowercase (Option.bind (file_name path) extension_of)"

definition guess_image_mime :: "str \<Rightarrow> str" where
  "guess_image_mime path =
     (if extension_lower path \<in> {Some ''jpg'', Some ''jpeg''} then ''image/jpeg''
      else if extension_lower path = Some ''png'' then ''image/png''
      else if extension_lower path = Some ''gif'' then ''image/gif''
      else if extension_lower path = Some ''webp'' then ''image/webp''
      else if extension_lower path = Some ''bmp'' then ''image/bmp''
      else ''image/jpeg'')"

datatype audio_format = Mp3 | Wav

definition guess_audio_format :: "str \<Rightarrow> audio_format option" where
  "guess_audio_format path =
     (if extension_lower path = Some ''mp3'' then Some Mp3
      else if extension_lower path = Some ''wav'' then Some Wav
      else None)"

section \<open>Images\<close>

datatype image_detail = Auto | LowDetail | HighDetail

record image_url =
  iu_url :: str
  iu_detail :: "image_detail option"

definition image_from_base64 :: "str \<Rightarrow> str \<Rightarrow> image_url" where
  "image_from_base64 base64_data mime_type =
     \<lparr>iu_url = ''data:'' @ mime_type @ '';base64,'' @ base64_data, iu_detail = Some Auto\<rparr>"

definition image_from_bytes :: "(bytes \<Rightarrow> str) \<Rightarrow> bytes \<Rightarrow> str \<Rightarrow> image_url" where
  "image_from_bytes encode b mime_type = image_from_base64 (encode b) mime_type"

definition image_from_path :: "(bytes \<Rightarrow> str) \<Rightarrow> (str \<Rightarrow> bytes res) \<Rightarrow> str \<Rightarrow> image_url res" where
  "image_from_path encode read path = try_bind (read path) (\<lambda>b.
     Inr (image_from_bytes encode b (guess_image_mime path)))"

section \<open>Audio\<close>

record input_audio =
  ia_data :: str
  ia_format :: audio_format

definition audio_from_bytes :: "(bytes \<Rightarrow> str) \<Rightarrow> bytes \<Rightarrow> audio_format \<Rightarrow> input_audio" where
  "audio_from_bytes encode b f = \<lparr>ia_data = encode b, ia_format = f\<rparr>"

definition audio_from_path :: "(bytes \<Rightarrow> str) \<Rightarrow> (str \<Rightarrow> bytes res) \<Rightarrow> str \<Rightarrow> input_audio res" where
  "audio_from_path encode read path = try_bind (read path) (\<lambda>b.
     try_bind (ok_or (Io ''Unsupported or unrecognised audio extension'') (guess_audio_format path)) (\<lambda>f.
     Inr (audio_from_bytes encode b f)))"

section \<open>Which extensions count\<close>

lemma dropWhile_rev_append:
  "c \<notin> set t \<Longrightarrow> dropWhile (\<lambda>x. x \<noteq> c) (rev (s @ c # t)) = c # rev s"
  by (induction t rule: rev_induct) auto

lemma extension_of_append: "CHR ''.'' \<notin> set t \<Longrightarrow> s \<noteq> [] \<Longrightarrow> extension_of (s @ CHR ''.'' # t) = Some t"
  unfolding extension_of_def Let_def dropWhile_rev_append by (cases s) auto

lemma split_on_append_last:
  "c \<notin> set t \<Longrightarrow> \<exists>ps. ps \<noteq> [] \<and> split_on c (s @ c # t) = ps @ [t]"
proof (induction s)
  case Nil
  then show ?case by (auto simp: split_on_no_sep intro: exI [of _ "[[]]"])
next
  case (Cons x s)
  then obtain p ps where "split_on c (s @ c # t) = p # ps @ [t]" by (auto simp: neq_Nil_conv)
  then have "split_on c ((x # s) @ c # t) = (if x = c then [] # p # ps @ [t] else (x # p) # ps @ [t])" by simp
  then show ?case by (metis append_Cons list.discI)
qed

text \<open>The format of a recording depends on nothing but the text after the last dot of its name, in
  either case, whatever directory it is in.\<close>

lemma guess_audio_format_append:
  assumes "CHR ''/'' \<notin> set stem" "stem \<noteq> []" "CHR ''/'' \<notin> set ext" "CHR ''.'' \<notin> set ext"
    and "stem @ CHR ''.'' # ext \<noteq> ''..''"
  shows "guess_audio_format (dir @ CHR ''/'' # stem @ CHR ''.'' # ext) =
    (if to_ascii_lowercase ext = ''mp3'' then Some Mp3 else if to_ascii_lowercase ext = ''wav'' then Some Wav else None)"
proof -
  let ?name = "stem @ CHR ''.'' # ext"
  have n: "CHR ''/'' \<notin> set ?name" "?name \<noteq> []" "?name \<noteq> ''.''" using assms by (auto simp: append_eq_Cons_conv)
  let ?ps = "split_on (CHR ''/'') (dir @ CHR ''/'' # ?name)"
  obtain init where "?ps = init @ [?name]" using split_on_append_last [OF n(1)] by blast
  then have "file_name (dir @ CHR ''/'' # ?name) = Some ?name"
    using n assms(5) by (simp add: file_name_def)
  then have "extension_lower (dir @ CHR ''/'' # ?name) = Some (to_ascii_lowercase ext)"
    using extension_of_append [OF assms(4,2)] by (simp add: extension_lower_def)
  then show ?thesis by (simp add: guess_audio_format_def)
qed

end
