(* ===== verification/Conformance.thy ===== *)
theory Conformance
  imports Rekor
begin

text \<open>
  \<open>bin/conformance.rs\<close>: the command line verifier of the sigstore conformance tests. It checks the
  same parts of a bundle as the library, with its own code for the bundle's older forms: message
  signatures, keys instead of certificates, certificate chains. Errors are texts, without those of
  third-party crates; \<open>main\<close> prints them and exits with 1. The file system and the operations of
  \<open>p384\<close>, \<open>rsa\<close>, \<open>hex\<close> and \<open>x509-cert\<close> that the library does not use are parameters.
\<close>

datatype conf_error = Failed str | Panicked str

type_synonym 'a cres = "conf_error + 'a"

text \<open>\<open>map_err(|e| format!("...: {e}"))\<close> on an error of the library; a panic stays a panic.\<close>

fun conf_err :: "str \<Rightarrow> error \<Rightarrow> conf_error" where
  "conf_err msg (Panic p) = Panicked p"
| "conf_err msg e = Failed msg"

abbreviation need :: "str \<Rightarrow> 'a option \<Rightarrow> 'a cres" where
  "need msg \<equiv> ok_or (Failed msg)"

datatype general_name = UriName str | Rfc822Name str | OtherName

record conf_ext =
  f_read :: "str \<Rightarrow> bytes option"
  f_exists :: "str \<Rightarrow> bool"
  f_hex_decode :: "str \<Rightarrow> bytes option"
  f_san :: "sig_cert \<Rightarrow> str + general_name list option"
  f_p384_sig_raw :: "bytes \<Rightarrow> bytes option"
  f_p384_verify :: "bytes \<Rightarrow> bytes \<Rightarrow> bytes \<Rightarrow> bool"
  f_rsa_key :: "bytes \<Rightarrow> bytes option"
  f_rsa_verify :: "bytes \<Rightarrow> bytes \<Rightarrow> bytes \<Rightarrow> bool"

text \<open>\<open>fs::read_to_string\<close>: the bytes of the same file, when they are UTF-8.\<close>

definition read_to_string :: "sig_ext \<Rightarrow> conf_ext \<Rightarrow> str \<Rightarrow> str option" where
  "read_to_string x fe path = Option.bind (f_read fe path) (s_utf8 x)"

definition conf_b64 :: "sig_ext \<Rightarrow> str \<Rightarrow> str \<Rightarrow> bytes cres" where
  "conf_b64 x msg s = need msg (s_b64_decode x s)"

section \<open>Arguments\<close>

record verify_args =
  va_staging :: bool
  va_bundle_path :: str
  va_certificate_identity :: "str option"
  va_certificate_oidc_issuer :: "str option"
  va_key_path :: "str option"
  va_trusted_root_path :: "str option"
  va_artifact :: str

text \<open>The variables of the loop.\<close>

record parsed_options =
  po_staging :: bool
  po_bundle_path :: "str option"
  po_cert_identity :: "str option"
  po_cert_issuer :: "str option"
  po_key_path :: "str option"
  po_trusted_root :: "str option"

definition no_options :: parsed_options where
  "no_options = \<lparr>po_staging = False, po_bundle_path = None, po_cert_identity = None, po_cert_issuer = None,
     po_key_path = None, po_trusted_root = None\<rparr>"

definition requires_value :: "str \<Rightarrow> conf_error" where
  "requires_value option = Failed (option @ '' requires a value'')"

definition finish_args :: "parsed_options \<Rightarrow> str \<Rightarrow> verify_args cres" where
  "finish_args po artifact =
     try_bind (need ''--bundle is required'' (po_bundle_path po)) (\<lambda>path.
     Inr \<lparr>va_staging = po_staging po, va_bundle_path = path, va_certificate_identity = po_cert_identity po,
          va_certificate_oidc_issuer = po_cert_issuer po, va_key_path = po_key_path po,
          va_trusted_root_path = po_trusted_root po, va_artifact = artifact\<rparr>)"

text \<open>What an option with a value does to the variables.\<close>

definition set_option :: "str \<Rightarrow> (str \<Rightarrow> parsed_options \<Rightarrow> parsed_options) option" where
  "set_option a =
     (if a = ''--bundle'' then Some (\<lambda>v po. po\<lparr>po_bundle_path := Some v\<rparr>)
      else if a = ''--certificate-identity'' then Some (\<lambda>v po. po\<lparr>po_cert_identity := Some v\<rparr>)
      else if a = ''--certificate-oidc-issuer'' then Some (\<lambda>v po. po\<lparr>po_cert_issuer := Some v\<rparr>)
      else if a = ''--key'' then Some (\<lambda>v po. po\<lparr>po_key_path := Some v\<rparr>)
      else if a = ''--trusted-root'' then Some (\<lambda>v po. po\<lparr>po_trusted_root := Some v\<rparr>)
      else None)"

fun parse_args :: "parsed_options \<Rightarrow> str list \<Rightarrow> verify_args cres" where
  "parse_args po [] = Inl (Failed ''Missing positional artifact argument'')"
| "parse_args po (a # args) =
     (if a = ''--staging'' then parse_args (po\<lparr>po_staging := True\<rparr>) args
      else case set_option a of
        Some set_it \<Rightarrow> (case args of [] \<Rightarrow> Inl (requires_value a) | v # args' \<Rightarrow> parse_args (set_it v po) args')
      | None \<Rightarrow>
          if \<not> starts_with a ''--'' then finish_args po a
          else Inl (Failed (''Unknown option: '' @ a)))"

definition parse_verify_args :: "str list \<Rightarrow> verify_args cres" where
  "parse_verify_args args = parse_args no_options args"

section \<open>The certificate and the artifact\<close>

definition extract_leaf_cert_der :: "sig_ext \<Rightarrow> json \<Rightarrow> bytes cres" where
  "extract_leaf_cert_der x bundle =
     try_bind (need ''Missing verificationMaterial'' (jget bundle ''verificationMaterial'')) (\<lambda>vm.
     case jstr vm [''certificate'', ''rawBytes''] of
       Some cert_b64 \<Rightarrow> conf_b64 x ''Decode certificate'' cert_b64
     | None \<Rightarrow> (case jarray vm [''x509CertificateChain'', ''certificates''] of
         Some certs \<Rightarrow> (case certs of
             [] \<Rightarrow> Inl (Failed ''Empty certificate chain'')
           | c # _ \<Rightarrow>
               try_bind (need ''Missing rawBytes in certificate chain'' (jstr c [''rawBytes''])) (\<lambda>cert_b64.
               conf_b64 x ''Decode certificate'' cert_b64))
       | None \<Rightarrow> Inl (Failed ''No certificate in verificationMaterial'')))"

definition resolve_artifact_sha256 :: "sig_ext \<Rightarrow> conf_ext \<Rightarrow> str \<Rightarrow> bytes cres" where
  "resolve_artifact_sha256 x fe artifact =
     (let from_file = try_bind (need (''Read artifact '' @ artifact) (f_read fe artifact)) (\<lambda>data.
            Inr (digest_bytes (s_sha256 x data))) in
      case strip_prefix artifact ''sha256:'' of
        Some hex_str \<Rightarrow>
          if length hex_str = 64 \<and> list_all is_ascii_hexdigit hex_str \<and> \<not> f_exists fe artifact
          then need ''Decode hex digest'' (f_hex_decode fe hex_str)
          else from_file
      | None \<Rightarrow> from_file)"

section \<open>Keys and signatures\<close>

record pub_key_info =
  pki_raw_bytes :: bytes
  pki_curve_oid :: "str option"

definition pem_to_der :: "sig_ext \<Rightarrow> str \<Rightarrow> bytes cres" where
  "pem_to_der x pem_str = need ''Parse PEM'' (s_pem x pem_str)"

definition extract_ec_pubkey_info_from_spki :: "sig_ext \<Rightarrow> bytes \<Rightarrow> pub_key_info cres" where
  "extract_ec_pubkey_info_from_spki x spki_der =
     try_bind (need ''Parse SPKI'' (s_spki x spki_der)) (\<lambda>spki.
     Inr \<lparr>pki_raw_bytes = spki_public_key spki,
          pki_curve_oid = Option.bind (alg_parameters (spki_algorithm spki)) (s_curve_oid x)\<rparr>)"

definition get_verifying_key_info ::
  "sig_ext \<Rightarrow> conf_ext \<Rightarrow> json \<Rightarrow> bytes option \<Rightarrow> str option \<Rightarrow> pub_key_info cres" where
  "get_verifying_key_info x fe bundle cert_der key_path =
     (case (cert_der, key_path) of
        (Some cert_bytes, _) \<Rightarrow>
          try_bind (need ''Parse certificate'' (s_cert x cert_bytes)) (\<lambda>cert.
          Inr \<lparr>pki_raw_bytes = x_public_key cert, pki_curve_oid = curve_oid x cert\<rparr>)
      | (None, Some path) \<Rightarrow>
          try_bind (need ''Read key file'' (read_to_string x fe path)) (\<lambda>pem_str.
          try_bind (need ''Parse PEM key'' (s_pem x pem_str)) (\<lambda>contents.
          extract_ec_pubkey_info_from_spki x contents))
      | (None, None) \<Rightarrow>
          if jpath bundle [''verificationMaterial'', ''publicKey'', ''hint''] \<noteq> None
          then Inl (Failed ''Key-based bundle requires --key argument'')
          else Inl (Failed ''No certificate or key available for signature verification''))"

text \<open>A signature that starts with the tag of a sequence is DER, any other is the raw pair.\<close>

definition p256_signature :: "sig_ext \<Rightarrow> bytes \<Rightarrow> bytes option" where
  "p256_signature x sig_bytes =
     (if starts_with sig_bytes [0x30] then s_p256_sig_der x sig_bytes else s_p256_sig_raw x sig_bytes)"

definition p384_signature :: "sig_ext \<Rightarrow> conf_ext \<Rightarrow> bytes \<Rightarrow> bytes option" where
  "p384_signature x fe sig_bytes =
     (if starts_with sig_bytes [0x30] then s_p384_sig_der x sig_bytes else f_p384_sig_raw fe sig_bytes)"

definition verify_message_signature ::
  "sig_ext \<Rightarrow> conf_ext \<Rightarrow> json \<Rightarrow> bytes option \<Rightarrow> str option \<Rightarrow> unit cres" where
  "verify_message_signature x fe bundle cert_der key_path =
     try_bind (need ''Missing messageSignature'' (jget bundle ''messageSignature'')) (\<lambda>msg_sig.
     try_bind (need ''Missing signature in messageSignature'' (jstr msg_sig [''signature''])) (\<lambda>sig_b64.
     try_bind (conf_b64 x ''Decode signature'' sig_b64) (\<lambda>sig_bytes.
     try_bind (need ''Missing messageDigest.digest'' (jstr msg_sig [''messageDigest'', ''digest''])) (\<lambda>digest_b64.
     try_bind (conf_b64 x ''Decode digest'' digest_b64) (\<lambda>dig.
     try_bind (get_verifying_key_info x fe bundle cert_der key_path) (\<lambda>key_info.
     if pki_curve_oid key_info = Some OID_SECP384R1 then
       try_bind (need ''Invalid P384 public key'' (s_p384_sec1 x (pki_raw_bytes key_info))) (\<lambda>key.
       try_bind (need ''Invalid signature'' (p384_signature x fe sig_bytes)) (\<lambda>sg.
       if s_p384_verify_prehash x key dig sg then Inr () else Inl (Failed ''Message signature verification failed'')))
     else
       try_bind (need ''Invalid public key'' (s_p256_sec1 x (pki_raw_bytes key_info))) (\<lambda>key.
       try_bind (need ''Invalid signature'' (p256_signature x sig_bytes)) (\<lambda>sg.
       if s_p256_verify_prehash x key dig sg then Inr ()
       else Inl (Failed ''Message signature verification failed'')))))))))"

definition conf_verify_dsse_signature ::
  "sig_ext \<Rightarrow> conf_ext \<Rightarrow> json \<Rightarrow> bytes option \<Rightarrow> str option \<Rightarrow> unit cres" where
  "conf_verify_dsse_signature x fe bundle cert_der key_path =
     try_bind (need ''Missing dsseEnvelope'' (jget bundle ''dsseEnvelope'')) (\<lambda>dsse.
     try_bind (need ''Missing payloadType'' (jstr dsse [''payloadType''])) (\<lambda>payload_type.
     try_bind (need ''Missing payload'' (jstr dsse [''payload''])) (\<lambda>payload_b64.
     try_bind (need ''Missing signatures array'' (jarray dsse [''signatures''])) (\<lambda>sgs.
     case sgs of [] \<Rightarrow> Inl (Failed ''DSSE envelope has no signatures'') | sg0 # _ \<Rightarrow>
     try_bind (need ''Missing sig in DSSE signature'' (jstr sg0 [''sig''])) (\<lambda>sig_b64.
     try_bind (conf_b64 x ''Decode DSSE payload'' payload_b64) (\<lambda>payload.
     try_bind (conf_b64 x ''Decode DSSE signature'' sig_b64) (\<lambda>sig_bytes.
     let pae = compute_pae payload_type payload in
     try_bind (get_verifying_key_info x fe bundle cert_der key_path) (\<lambda>key_info.
     if pki_curve_oid key_info = Some OID_SECP384R1 then
       try_bind (need ''Invalid P384 public key'' (s_p384_sec1 x (pki_raw_bytes key_info))) (\<lambda>key.
       try_bind (need ''Invalid DSSE signature'' (p384_signature x fe sig_bytes)) (\<lambda>sg.
       if f_p384_verify fe key pae sg then Inr () else Inl (Failed ''DSSE signature verification failed'')))
     else
       try_bind (need ''Invalid public key'' (s_p256_sec1 x (pki_raw_bytes key_info))) (\<lambda>key.
       try_bind (need ''Invalid DSSE signature'' (p256_signature x sig_bytes)) (\<lambda>sg.
       if s_p256_verify x key pae sg then Inr ()
       else Inl (Failed ''DSSE signature verification failed'')))))))))))"

section \<open>The identity of the certificate\<close>

fun names_identity :: "str \<Rightarrow> general_name \<Rightarrow> bool" where
  "names_identity identity (UriName uri) = (uri = identity)"
| "names_identity identity (Rfc822Name email) = (email = identity)"
| "names_identity identity OtherName = False"

definition verify_cert_san :: "conf_ext \<Rightarrow> sig_cert \<Rightarrow> str \<Rightarrow> unit cres" where
  "verify_cert_san fe cert expected_identity =
     try_bind (map_err (\<lambda>e. Failed ''Parse SAN'') (f_san fe cert)) (\<lambda>san.
     try_bind (need ''Certificate missing SubjectAltName'' san) (\<lambda>names.
     if list_ex (names_identity expected_identity) names then Inr ()
     else Inl (Failed (''Certificate SAN does not match expected identity '' @ expected_identity))))"

fun issuer_extension :: "sig_ext \<Rightarrow> extension list \<Rightarrow> str option" where
  "issuer_extension x [] = None"
| "issuer_extension x (ext # exts) =
     (if extn_id ext = OIDC_ISSUER_V2 \<or> extn_id ext = OIDC_ISSUER_V1
      then (case decode_asn1_string x (extn_value ext) of Some v \<Rightarrow> Some v | None \<Rightarrow> issuer_extension x exts)
      else issuer_extension x exts)"

definition verify_cert_oidc_issuer :: "sig_ext \<Rightarrow> sig_cert \<Rightarrow> str \<Rightarrow> unit cres" where
  "verify_cert_oidc_issuer x cert expected_issuer =
     (case Option.bind (x_extensions cert) (issuer_extension x) of
        Some v \<Rightarrow>
          if v = expected_issuer then Inr ()
          else Inl (Failed (''OIDC issuer mismatch: expected '' @ expected_issuer @ '', got '' @ v))
      | None \<Rightarrow> Inl (Failed ''Certificate missing OIDC issuer extension''))"

section \<open>The log entry\<close>

text \<open>The field of the first element of an array.\<close>

definition first_of :: "json \<Rightarrow> str list \<Rightarrow> json option" where
  "first_of v ks = Option.bind (jarray v ks) (\<lambda>arr. case arr of [] \<Rightarrow> None | e # _ \<Rightarrow> Some e)"

definition first_str :: "json \<Rightarrow> str list \<Rightarrow> str list \<Rightarrow> str option" where
  "first_str v ks ks' = Option.bind (first_of v ks) (\<lambda>e. jstr e ks')"

definition hashedrekord_inner_spec :: "json \<Rightarrow> json" where
  "hashedrekord_inner_spec spec = (case jget spec ''hashedRekordV002'' of Some s \<Rightarrow> s | None \<Rightarrow> spec)"

definition dsse_inner_spec :: "json \<Rightarrow> json" where
  "dsse_inner_spec spec = (case jget spec ''dsseV002'' of Some s \<Rightarrow> s | None \<Rightarrow> spec)"

definition pem_field_to_der :: "sig_ext \<Rightarrow> str \<Rightarrow> bytes cres" where
  "pem_field_to_der x v =
     (if starts_with v ''-----'' then pem_to_der x v
      else
      try_bind (conf_b64 x ''Decode PEM field'' v) (\<lambda>decoded.
      try_bind (need ''PEM field UTF-8'' (s_utf8 x decoded)) (\<lambda>s.
      pem_to_der x s)))"

definition body_kind :: "json \<Rightarrow> str" where
  "body_kind body_json = str_or [] (jstr body_json [''kind''])"

definition extract_rekor_cert_der :: "sig_ext \<Rightarrow> json \<Rightarrow> bytes cres" where
  "extract_rekor_cert_der x body_json =
     try_bind (need ''Missing spec'' (jget body_json ''spec'')) (\<lambda>spec.
     if body_kind body_json = ''dsse'' then
       (let inner = dsse_inner_spec spec in
        case first_str inner [''signatures''] [''verifier'', ''x509Certificate'', ''rawBytes''] of
          Some raw_b64 \<Rightarrow> conf_b64 x ''Decode dsse v002 cert'' raw_b64
        | None \<Rightarrow>
            try_bind (need ''Missing verifier in DSSE Rekor entry'' (first_str inner [''signatures''] [''verifier''])) (\<lambda>verifier_b64.
            try_bind (conf_b64 x ''Decode verifier'' verifier_b64) (\<lambda>pem_bytes.
            try_bind (need ''UTF-8'' (s_utf8 x pem_bytes)) (\<lambda>pem_str.
            pem_to_der x pem_str))))
     else if body_kind body_json = ''intoto'' then
       try_bind (need ''Missing publicKey in intoto Rekor entry''
           (first_str spec [''content'', ''envelope'', ''signatures''] [''publicKey''])) (\<lambda>pk_b64.
       pem_field_to_der x pk_b64)
     else if body_kind body_json = ''hashedrekord'' then
       (let inner = hashedrekord_inner_spec spec in
        case jstr inner [''signature'', ''verifier'', ''x509Certificate'', ''rawBytes''] of
          Some raw_b64 \<Rightarrow> conf_b64 x ''Decode v002 cert'' raw_b64
        | None \<Rightarrow>
            try_bind (need ''Missing publicKey/verifier in hashedrekord'' (jstr inner [''signature'', ''publicKey'', ''content''])) (\<lambda>pem_str.
            pem_field_to_der x pem_str))
     else Inl (Failed (''Unknown Rekor entry kind: '' @ body_kind body_json)))"

definition extract_rekor_signature :: "sig_ext \<Rightarrow> json \<Rightarrow> bytes cres" where
  "extract_rekor_signature x body_json =
     try_bind (need ''Missing spec'' (jget body_json ''spec'')) (\<lambda>spec.
     if body_kind body_json = ''dsse'' then
       try_bind (need ''Missing signature in DSSE Rekor entry''
           (Option.bind (first_of (dsse_inner_spec spec) [''signatures'']) (\<lambda>sg.
            Option.bind (orelse (jget sg ''content'') (jget sg ''signature'')) as_str))) (\<lambda>sig_b64.
       conf_b64 x ''Decode Rekor sig'' sig_b64)
     else if body_kind body_json = ''intoto'' then
       try_bind (need ''Missing sig in intoto Rekor entry''
           (first_str spec [''content'', ''envelope'', ''signatures''] [''sig''])) (\<lambda>sig_b64_b64.
       try_bind (conf_b64 x ''Decode intoto sig outer'' sig_b64_b64) (\<lambda>inner_b64.
       try_bind (need ''intoto sig inner not UTF-8'' (s_utf8 x inner_b64)) (\<lambda>inner_str.
       conf_b64 x ''Decode intoto sig inner'' inner_str)))
     else if body_kind body_json = ''hashedrekord'' then
       try_bind (need ''Missing signature in hashedrekord'' (jstr (hashedrekord_inner_spec spec) [''signature'', ''content''])) (\<lambda>sig_b64.
       conf_b64 x ''Decode Rekor sig'' sig_b64)
     else Inl (Failed (''Unknown kind: '' @ body_kind body_json)))"

definition conf_body :: "sig_ext \<Rightarrow> bytes \<Rightarrow> json cres" where
  "conf_body x body = need ''Parse body'' (s_json x body)"

definition conf_verify_kind_version :: "sig_ext \<Rightarrow> json \<Rightarrow> bytes \<Rightarrow> unit cres" where
  "conf_verify_kind_version x entry body =
     try_bind (need ''Missing kindVersion'' (jget entry ''kindVersion'')) (\<lambda>kv.
     try_bind (need ''Parse canonicalizedBody'' (s_json x body)) (\<lambda>body_json.
     if jstr body_json [''kind''] \<noteq> jstr kv [''kind''] \<or> jstr body_json [''apiVersion''] \<noteq> jstr kv [''version'']
     then Inl (Failed ''Kind/version mismatch'')
     else Inr ()))"

definition verify_cert_binding :: "sig_ext \<Rightarrow> json \<Rightarrow> bytes \<Rightarrow> unit cres" where
  "verify_cert_binding x bundle body =
     try_bind (conf_body x body) (\<lambda>body_json.
     try_bind (extract_rekor_cert_der x body_json) (\<lambda>rekor_cert_der.
     try_bind (extract_leaf_cert_der x bundle) (\<lambda>bundle_cert_der.
     if rekor_cert_der \<noteq> bundle_cert_der then Inl (Failed ''Certificate binding mismatch'') else Inr ())))"

definition verify_key_binding :: "sig_ext \<Rightarrow> conf_ext \<Rightarrow> str \<Rightarrow> bytes \<Rightarrow> unit cres" where
  "verify_key_binding x fe key_path body =
     try_bind (conf_body x body) (\<lambda>body_json.
     try_bind (need ''Missing spec'' (jget body_json ''spec'')) (\<lambda>spec.
     let inner = (if body_kind body_json = ''hashedrekord'' then hashedrekord_inner_spec spec else spec) in
     try_bind (need ''Missing publicKey in Rekor entry'' (jstr inner [''signature'', ''publicKey'', ''content''])) (\<lambda>rekor_key_pem.
     try_bind (if starts_with rekor_key_pem ''-----'' then Inr rekor_key_pem
               else try_bind (conf_b64 x ''Decode key'' rekor_key_pem) (\<lambda>decoded.
                    need ''Key UTF-8'' (s_utf8 x decoded))) (\<lambda>rekor_key_text.
     try_bind (pem_to_der x rekor_key_text) (\<lambda>rekor_key_der.
     try_bind (need ''Read key'' (read_to_string x fe key_path)) (\<lambda>key_pem.
     try_bind (pem_to_der x key_pem) (\<lambda>key_der.
     if rekor_key_der \<noteq> key_der then Inl (Failed ''Key binding mismatch'') else Inr ())))))))"

definition bundle_signature :: "sig_ext \<Rightarrow> json \<Rightarrow> bool \<Rightarrow> bytes cres" where
  "bundle_signature x bundle is_dsse =
     (if is_dsse then
        try_bind (need ''Missing DSSE sig in bundle'' (first_str bundle [''dsseEnvelope'', ''signatures''] [''sig''])) (\<lambda>sig_b64.
        conf_b64 x ''Decode bundle sig'' sig_b64)
      else
        try_bind (need ''Missing messageSignature.signature'' (jstr bundle [''messageSignature'', ''signature''])) (\<lambda>sig_b64.
        conf_b64 x ''Decode bundle sig'' sig_b64))"

definition verify_sig_binding :: "sig_ext \<Rightarrow> json \<Rightarrow> bytes \<Rightarrow> bool \<Rightarrow> unit cres" where
  "verify_sig_binding x bundle body is_dsse =
     try_bind (conf_body x body) (\<lambda>body_json.
     try_bind (extract_rekor_signature x body_json) (\<lambda>rekor_sig.
     try_bind (bundle_signature x bundle is_dsse) (\<lambda>bundle_sig.
     if rekor_sig \<noteq> bundle_sig then Inl (Failed ''Signature binding mismatch'') else Inr ())))"

definition expected_payload_hash :: "sig_ext \<Rightarrow> json \<Rightarrow> str cres" where
  "expected_payload_hash x payload_hash =
     (case jstr payload_hash [''value''] of
        Some v \<Rightarrow> Inr v
      | None \<Rightarrow> (case jstr payload_hash [''digest''] of
          Some digest_b64 \<Rightarrow>
            try_bind (conf_b64 x ''Decode payloadHash digest'' digest_b64) (\<lambda>b. Inr (s_hex x b))
        | None \<Rightarrow> Inl (Failed ''Missing payloadHash value/digest'')))"

definition conf_verify_payload_hash_binding :: "sig_ext \<Rightarrow> json \<Rightarrow> bytes \<Rightarrow> unit cres" where
  "conf_verify_payload_hash_binding x bundle body =
     try_bind (conf_body x body) (\<lambda>body_json.
     let kind = body_kind body_json in
     if kind \<noteq> ''dsse'' \<and> kind \<noteq> ''intoto'' then Inr ()
     else
     try_bind (need ''Missing spec'' (jget body_json ''spec'')) (\<lambda>spec.
     try_bind (need ''DSSE Rekor entry missing payloadHash''
         (if kind = ''intoto'' then jpath spec [''content'', ''payloadHash'']
          else jget (dsse_inner_spec spec) ''payloadHash'')) (\<lambda>payload_hash.
     let algo = str_or [] (jstr payload_hash [''algorithm'']) in
     if algo \<noteq> ''sha256'' \<and> algo \<noteq> ''SHA2_256''
     then Inl (Failed (''Unsupported hash algorithm: '' @ algo))
     else
     try_bind (expected_payload_hash x payload_hash) (\<lambda>expected_hash.
     try_bind (need ''Missing DSSE payload'' (jstr bundle [''dsseEnvelope'', ''payload''])) (\<lambda>payload_b64.
     try_bind (conf_b64 x ''Decode payload'' payload_b64) (\<lambda>payload.
     let actual_hash = s_hex x (digest_bytes (s_sha256 x payload)) in
     if actual_hash \<noteq> expected_hash
     then Inl (Failed (''Payload hash mismatch: expected '' @ expected_hash @ '', got '' @ actual_hash))
     else Inr ()))))))"

section \<open>Times of the entry\<close>

definition conf_tlog_entry :: "json \<Rightarrow> json cres" where
  "conf_tlog_entry bundle =
     try_bind (need ''Missing tlogEntries'' (jarray bundle [''verificationMaterial'', ''tlogEntries''])) (\<lambda>entries.
     case entries of
       [entry] \<Rightarrow> Inr entry
     | _ \<Rightarrow> Inl (Failed (''Expected exactly 1 tlog entry, got '' @ dec_str (length entries))))"

definition is_rekor_v2 :: "json \<Rightarrow> bool" where
  "is_rekor_v2 kind_version \<longleftrightarrow>
     str_or ''0.0.1'' (jstr kind_version [''version'']) = ''0.0.2'' \<and> jstr kind_version [''kind''] \<noteq> Some ''intoto''"

definition entry_integrated_time :: "json \<Rightarrow> nat option" where
  "entry_integrated_time entry = map_option unat (Option.bind (jget entry ''integratedTime'') json_u64)"

definition outside :: "sig_cert \<Rightarrow> nat \<Rightarrow> bool" where
  "outside cert t \<longleftrightarrow> t < x_not_before cert \<or> x_not_after cert < t"

definition window_text :: "sig_cert \<Rightarrow> str" where
  "window_text cert = '' outside cert validity ['' @ dec_str (x_not_before cert) @ '', '' @ dec_str (x_not_after cert) @ '']''"

text \<open>A version 1 entry's time lies in the validity of the certificate, if there is one.\<close>

definition check_integrated_time :: "sig_ext \<Rightarrow> json \<Rightarrow> bool \<Rightarrow> bytes option \<Rightarrow> unit cres" where
  "check_integrated_time x entry v2 cert_der =
     (case cert_der of
        Some cert_bytes \<Rightarrow>
          if v2 then Inr ()
          else
          try_bind (need ''Missing integratedTime'' (entry_integrated_time entry)) (\<lambda>t.
          try_bind (need ''Parse cert for validity check'' (s_cert x cert_bytes)) (\<lambda>cert.
          if outside cert t then Inl (Failed (''Integrated time '' @ dec_str t @ window_text cert)) else Inr ()))
      | None \<Rightarrow> Inr ())"

text \<open>The earliest verified timestamp, all of them inside the validity of the certificate.\<close>

definition conf_tsa_time ::
  "sig_ext \<Rightarrow> cms_ext \<Rightarrow> json \<Rightarrow> str \<Rightarrow> bool \<Rightarrow> bytes option \<Rightarrow> bool \<Rightarrow> nat option cres" where
  "conf_tsa_time x y bundle tr_json v2 cert_der is_dsse =
     try_bind (need ''Missing bundle signature''
         (jpointer_str bundle (if is_dsse then [''dsseEnvelope'', ''signatures'', ''0'', ''sig'']
            else [''messageSignature'', ''signature'']))) (\<lambda>sig_b64.
     try_bind (conf_b64 x ''Decode signature'' sig_b64) (\<lambda>bundle_sig.
     try_bind (map_err (conf_err ''Load timestamp authorities'') (load_timestamp_authorities_from_json x tr_json)) (\<lambda>tsas.
     try_bind (map_err (conf_err ''TSA timestamp'') (verify_timestamps x y bundle bundle_sig tsas)) (\<lambda>(times, errors).
     if v2 \<and> times = [] then Inl (Failed ''Rekor v2 entry requires a verified TSA timestamp'')
     else
     try_bind
       (case cert_der of
          Some cert_bytes \<Rightarrow>
            try_bind (need ''Parse cert for TSA check'' (s_cert x cert_bytes)) (\<lambda>cert.
            case find (outside cert) times of
              Some t \<Rightarrow> Inl (Failed (''TSA timestamp '' @ dec_str t @ window_text cert))
            | None \<Rightarrow> Inr ())
        | None \<Rightarrow> Inr ()) (\<lambda>_.
     Inr (min_time times))))))"

definition has_promise :: "json \<Rightarrow> bool" where
  "has_promise entry \<longleftrightarrow> jpointer entry [''inclusionPromise'', ''signedEntryTimestamp''] \<noteq> None"

definition conf_find_key :: "rekor_key list \<Rightarrow> str \<Rightarrow> nat option \<Rightarrow> rekor_key cres" where
  "conf_find_key keys log_id timestamp_for_key =
     need (''No matching Rekor key for log ID: '' @ log_id)
       (find (\<lambda>k. rk_key_id k = log_id \<and>
          (case timestamp_for_key of
             Some ts \<Rightarrow> \<not> before_window (rk_valid_from k) ts \<and> \<not> after_window (rk_valid_until k) ts
           | None \<Rightarrow> True)) keys)"

section \<open>Checkpoint and inclusion\<close>

definition conf_checkpoint ::
  "sig_ext \<Rightarrow> json \<Rightarrow> json \<Rightarrow> rekor_key \<Rightarrow> str \<Rightarrow> bool \<Rightarrow> signed_checkpoint cres" where
  "conf_checkpoint x entry ip key log_id v2 =
     try_bind (need ''Missing checkpoint'' (jstr ip [''checkpoint'', ''envelope''])) (\<lambda>checkpoint_str.
     try_bind (map_err (conf_err ''Parse checkpoint'') (decode_checkpoint x checkpoint_str)) (\<lambda>sc.
     try_bind
       (if \<not> v2 \<and> has_promise entry
        then map_err (conf_err ''Rekor signed entry timestamp'') (verify_signed_entry_timestamp x entry key)
        else Inr ()) (\<lambda>_.
     try_bind (conf_b64 x ''Decode logId'' log_id) (\<lambda>log_id_bytes.
     try_bind (map_err (conf_err ''Checkpoint signature'')
       (verify_signature x sc (rk_key_der key) (rk_key_type key) (rk_host key) log_id_bytes)) (\<lambda>_.
     Inr sc)))))"

definition conf_root_hash :: "sig_ext \<Rightarrow> json \<Rightarrow> signed_checkpoint \<Rightarrow> bytes cres" where
  "conf_root_hash x ip sc =
     try_bind (need ''Missing rootHash'' (jstr ip [''rootHash''])) (\<lambda>root_hash_b64.
     try_bind (conf_b64 x ''Decode rootHash'' root_hash_b64) (\<lambda>root_hash.
     if digest_bytes (cp_hash (cp_note sc)) \<noteq> root_hash
     then Inl (Failed (''Root hash mismatch: checkpoint has '' @ s_hex x (digest_bytes (cp_hash (cp_note sc))) @
            '', proof has '' @ s_hex x root_hash))
     else Inr root_hash))"

definition conf_proof_u64 :: "json \<Rightarrow> str \<Rightarrow> u64 cres" where
  "conf_proof_u64 ip k = need (''Missing '' @ k) (Option.bind (jget ip k) json_u64)"

definition conf_proof_hashes :: "sig_ext \<Rightarrow> json \<Rightarrow> bytes list cres" where
  "conf_proof_hashes x ip =
     try_bind (need ''Missing hashes'' (jarray ip [''hashes''])) (\<lambda>hs.
     try_map (\<lambda>h. try_bind (need ''Non-string hash'' (as_str h)) (conf_b64 x ''Decode hash'')) hs)"

definition conf_to_digest :: "str \<Rightarrow> bytes \<Rightarrow> digest cres" where
  "conf_to_digest msg b = (if length b = 32 then Inr (digest_from_bytes b) else Inl (Failed msg))"

definition conf_verify_merkle :: "sig_ext \<Rightarrow> bytes \<Rightarrow> u64 \<Rightarrow> u64 \<Rightarrow> bytes list \<Rightarrow> bytes \<Rightarrow> unit cres" where
  "conf_verify_merkle x body_bytes log_index tree_size hashes root_hash =
     (let leaf_hash = hash_leaf (s_sha256 x) body_bytes in
      try_bind (try_map (conf_to_digest ''Invalid proof hash length'') hashes) (\<lambda>proof_outputs.
      try_bind (conf_to_digest ''Invalid root hash length'' root_hash) (\<lambda>root_output.
      map_err (\<lambda>e. conf_err ''Merkle inclusion proof failed'' (merkle_to_error e))
        (verify_inclusion (hash_children (s_sha256 x)) log_index leaf_hash tree_size proof_outputs root_output))))"

text \<open>The body against the bundle: kind and version, certificate or key, signature, payload.\<close>

definition conf_bindings ::
  "sig_ext \<Rightarrow> conf_ext \<Rightarrow> json \<Rightarrow> json \<Rightarrow> bytes \<Rightarrow> bytes option \<Rightarrow> str option \<Rightarrow> bool \<Rightarrow> unit cres" where
  "conf_bindings x fe bundle entry body_bytes cert_der key_path is_dsse =
     try_bind (conf_verify_kind_version x entry body_bytes) (\<lambda>_.
     try_bind
       (if cert_der \<noteq> None then verify_cert_binding x bundle body_bytes
        else (case key_path of Some p \<Rightarrow> verify_key_binding x fe p body_bytes | None \<Rightarrow> Inr ())) (\<lambda>_.
     try_bind (verify_sig_binding x bundle body_bytes is_dsse) (\<lambda>_.
     if is_dsse then conf_verify_payload_hash_binding x bundle body_bytes else Inr ())))"

definition conf_verify_rekor_entry ::
  "sig_ext \<Rightarrow> cms_ext \<Rightarrow> conf_ext \<Rightarrow> json \<Rightarrow> str \<Rightarrow> bytes option \<Rightarrow> str option \<Rightarrow> bool \<Rightarrow> unit cres" where
  "conf_verify_rekor_entry x y fe bundle tr_json cert_der key_path is_dsse =
     try_bind (conf_tlog_entry bundle) (\<lambda>entry.
     try_bind (need ''Missing kindVersion'' (jget entry ''kindVersion'')) (\<lambda>kind_version.
     let v2 = is_rekor_v2 kind_version in
     try_bind (check_integrated_time x entry v2 cert_der) (\<lambda>_.
     try_bind (conf_tsa_time x y bundle tr_json v2 cert_der is_dsse) (\<lambda>tsa_time.
     if \<not> v2 \<and> \<not> has_promise entry \<and> tsa_time = None
     then Inl (Failed ''Rekor v1 entry has no inclusion promise and no TSA timestamp'')
     else
     try_bind (need ''Missing inclusion proof'' (jget entry ''inclusionProof'')) (\<lambda>ip.
     try_bind (map_err (conf_err ''Load Rekor keys'') (load_rekor_keys_from_json x tr_json)) (\<lambda>rekor_keys.
     try_bind (need ''Missing logId'' (jstr entry [''logId'', ''keyId''])) (\<lambda>log_id.
     let timestamp_for_key = (if \<not> v2 \<and> has_promise entry then entry_integrated_time entry else tsa_time) in
     try_bind (conf_find_key rekor_keys log_id timestamp_for_key) (\<lambda>rekor_key.
     try_bind (conf_checkpoint x entry ip rekor_key log_id v2) (\<lambda>sc.
     try_bind (conf_root_hash x ip sc) (\<lambda>root_hash.
     try_bind (conf_proof_u64 ip ''logIndex'') (\<lambda>log_index.
     try_bind (conf_proof_u64 ip ''treeSize'') (\<lambda>tree_size.
     try_bind (conf_proof_hashes x ip) (\<lambda>proof_hashes.
     try_bind (need ''Missing canonicalizedBody'' (jstr entry [''canonicalizedBody''])) (\<lambda>body_b64.
     try_bind (conf_b64 x ''Decode body'' body_b64) (\<lambda>body_bytes.
     try_bind (conf_bindings x fe bundle entry body_bytes cert_der key_path is_dsse) (\<lambda>_.
     conf_verify_merkle x body_bytes log_index tree_size proof_hashes root_hash))))))))))))))))"

section \<open>Certificate timestamps\<close>

text \<open>An issuer whose key cannot be encoded again is passed over.\<close>

fun conf_issuer_spki :: "sig_ext \<Rightarrow> sig_cert \<Rightarrow> fulcio_ca list \<Rightarrow> bytes option" where
  "conf_issuer_spki x cert [] = None"
| "conf_issuer_spki x cert (ca # cas) =
     (case Option.bind (case fca_chain_der ca of [] \<Rightarrow> None | der # _ \<Rightarrow> s_cert x der) (\<lambda>issuer_cert.
           if x_issuer cert = x_subject issuer_cert then s_spki_der x issuer_cert else None) of
        Some spki \<Rightarrow> Some spki
      | None \<Rightarrow> conf_issuer_spki x cert cas)"

fun try_embedded_scts :: "sig_ext \<Rightarrow> keyring \<Rightarrow> nat \<Rightarrow> embedded_sct list \<Rightarrow> unit cres" where
  "try_embedded_scts x kr n [] = Inl (Failed (''No valid SCT found ('' @ dec_str n @ '' SCTs checked)''))"
| "try_embedded_scts x kr n (e # es) =
     try_bind (map_err (conf_err ''SCT'') (verify_embedded_sct x e kr)) (\<lambda>r.
     case r of Inr u \<Rightarrow> Inr () | Inl err \<Rightarrow> try_embedded_scts x kr n es)"

definition verify_scts :: "sig_ext \<Rightarrow> bytes \<Rightarrow> str \<Rightarrow> unit cres" where
  "verify_scts x cert_der tr_json =
     try_bind (need ''Parse cert for SCT'' (s_cert x cert_der)) (\<lambda>cert.
     try_bind (map_err (conf_err ''Load Fulcio CAs for SCT'') (load_fulcio_cas_from_json x tr_json)) (\<lambda>fulcio_cas.
     try_bind (need ''Could not find issuer certificate for SCT verification'' (conf_issuer_spki x cert fulcio_cas)) (\<lambda>issuer_spki_der.
     try_bind (map_err (\<lambda>e. Failed ''Failed to extract SCTs'') (all_from_cert x cert issuer_spki_der)) (\<lambda>all_scts.
     if \<not> distinct (map es_log_id all_scts) then Inl (Failed ''Duplicate SCT found (same log ID)'')
     else
     try_bind (map_err (conf_err ''Load CT log keyring'') (load_ctlog_keyring_from_json x tr_json)) (\<lambda>ct_keyring.
     try_embedded_scts x ct_keyring (length all_scts) all_scts)))))"

section \<open>The Fulcio certificate\<close>

definition OID_RSA_SHA256 :: str where "OID_RSA_SHA256 = ''1.2.840.113549.1.1.11''"

definition conf_verify_ecdsa_p256 :: "sig_ext \<Rightarrow> bytes \<Rightarrow> bytes \<Rightarrow> bytes \<Rightarrow> bool" where
  "conf_verify_ecdsa_p256 x tbs sg pubkey =
     (case s_p256_sec1 x pubkey of None \<Rightarrow> False
      | Some key \<Rightarrow> (case s_p256_sig_der x sg of None \<Rightarrow> False
      | Some signature \<Rightarrow> s_p256_verify x key tbs signature))"

definition verify_ecdsa_p256_sha384 :: "sig_ext \<Rightarrow> bytes \<Rightarrow> bytes \<Rightarrow> bytes \<Rightarrow> bool" where
  "verify_ecdsa_p256_sha384 x tbs sg pubkey =
     (case s_p256_sec1 x pubkey of None \<Rightarrow> False
      | Some key \<Rightarrow> (case s_p256_sig_der x sg of None \<Rightarrow> False
      | Some signature \<Rightarrow> s_p256_verify_prehash x key (s_sha384 x tbs) signature))"

definition verify_ecdsa_p384 :: "sig_ext \<Rightarrow> conf_ext \<Rightarrow> bytes \<Rightarrow> bytes \<Rightarrow> bytes \<Rightarrow> bool" where
  "verify_ecdsa_p384 x fe tbs sg pubkey =
     (case s_p384_sec1 x pubkey of None \<Rightarrow> False
      | Some key \<Rightarrow> (case s_p384_sig_der x sg of None \<Rightarrow> False
      | Some signature \<Rightarrow> f_p384_verify fe key tbs signature))"

definition verify_rsa_sha256 :: "sig_ext \<Rightarrow> conf_ext \<Rightarrow> bytes \<Rightarrow> bytes \<Rightarrow> bytes \<Rightarrow> bool" where
  "verify_rsa_sha256 x fe tbs sg spki_der =
     (case f_rsa_key fe spki_der of None \<Rightarrow> False
      | Some key \<Rightarrow> f_rsa_verify fe key (digest_bytes (s_sha256 x tbs)) sg)"

text \<open>The signature of one certificate by the key of another, for the algorithms that are known.\<close>

definition conf_signed_by :: "sig_ext \<Rightarrow> conf_ext \<Rightarrow> sig_cert \<Rightarrow> sig_cert \<Rightarrow> bytes \<Rightarrow> bool" where
  "conf_signed_by x fe cert issuer tbs =
     (let algo = alg_oid (x_signature_algorithm cert); curve = curve_oid x issuer;
          sg = x_signature cert; pubkey = x_public_key issuer in
      if algo = OID_ECDSA_SHA256 then curve = Some OID_SECP256R1 \<and> conf_verify_ecdsa_p256 x tbs sg pubkey
      else if algo = OID_ECDSA_SHA384 then
        curve = Some OID_SECP256R1 \<and> verify_ecdsa_p256_sha384 x tbs sg pubkey \<or>
        curve = Some OID_SECP384R1 \<and> verify_ecdsa_p384 x fe tbs sg pubkey
      else algo = OID_RSA_SHA256 \<and>
        verify_rsa_sha256 x fe tbs sg (case s_spki_der x issuer of Some der \<Rightarrow> der | None \<Rightarrow> []))"

text \<open>The loop over the authorities; everything that does not verify is passed over.\<close>

fun conf_try_cas :: "sig_ext \<Rightarrow> conf_ext \<Rightarrow> sig_cert \<Rightarrow> fulcio_ca list \<Rightarrow> unit cres" where
  "conf_try_cas x fe cert [] = Inl (Failed ''Certificate not issued by any trusted Fulcio CA'')"
| "conf_try_cas x fe cert (ca # cas) =
     (if x_not_before cert < fca_valid_from ca \<or> after_window (fca_valid_until ca) (x_not_before cert)
      then conf_try_cas x fe cert cas
      else case fca_chain_der ca of
        [] \<Rightarrow> conf_try_cas x fe cert cas
      | der # _ \<Rightarrow> (case s_cert x der of
          None \<Rightarrow> conf_try_cas x fe cert cas
        | Some issuer_cert \<Rightarrow>
            if x_issuer cert \<noteq> x_subject issuer_cert then conf_try_cas x fe cert cas
            else
            try_bind (need ''Encode TBS'' (s_tbs_der x cert)) (\<lambda>tbs_bytes.
            if conf_signed_by x fe cert issuer_cert tbs_bytes then Inr ()
            else conf_try_cas x fe cert cas)))"

definition conf_verify_fulcio_chain :: "sig_ext \<Rightarrow> conf_ext \<Rightarrow> bytes \<Rightarrow> str \<Rightarrow> unit cres" where
  "conf_verify_fulcio_chain x fe cert_der tr_json =
     try_bind (need ''Parse signing cert'' (s_cert x cert_der)) (\<lambda>signing_cert.
     try_bind (map_err (conf_err ''Load Fulcio CAs'') (load_fulcio_cas_from_json x tr_json)) (\<lambda>fulcio_cas.
     conf_try_cas x fe signing_cert fulcio_cas))"

section \<open>The artifact\<close>

definition is_digest_input :: "str \<Rightarrow> bool" where
  "is_digest_input artifact_input \<longleftrightarrow>
     starts_with artifact_input ''sha256:'' \<and> length artifact_input = 71 \<and>
     list_all is_ascii_hexdigit (drop 7 artifact_input)"

definition subject_matches :: "str \<Rightarrow> str \<Rightarrow> json \<Rightarrow> bool" where
  "subject_matches artifact_hex artifact_input subject \<longleftrightarrow>
     str_or [] (jstr subject [''digest'', ''sha256'']) = artifact_hex \<or>
     \<not> is_digest_input artifact_input \<and>
     (let subject_name = str_or [] (jstr subject [''name'']) in
      subject_name = str_or artifact_input (file_name artifact_input) \<or> subject_name = artifact_input)"

definition verify_artifact_digest :: "sig_ext \<Rightarrow> json \<Rightarrow> bytes \<Rightarrow> bool \<Rightarrow> str \<Rightarrow> unit cres" where
  "verify_artifact_digest x bundle artifact_sha256 is_msg_sig artifact_input =
     (if is_msg_sig then
        try_bind (need ''Missing messageDigest.digest'' (jstr bundle [''messageSignature'', ''messageDigest'', ''digest''])) (\<lambda>digest_b64.
        try_bind (conf_b64 x ''Decode message digest'' digest_b64) (\<lambda>bundle_digest.
        if artifact_sha256 \<noteq> bundle_digest
        then Inl (Failed ''Artifact digest does not match message digest in bundle'') else Inr ()))
      else
        try_bind (need ''Missing DSSE payload'' (jstr bundle [''dsseEnvelope'', ''payload''])) (\<lambda>payload_b64.
        try_bind (conf_b64 x ''Decode payload'' payload_b64) (\<lambda>payload.
        try_bind (need ''Parse statement'' (s_json x payload)) (\<lambda>statement.
        try_bind (need ''Missing subject in in-toto statement'' (jarray statement [''subject''])) (\<lambda>subjects.
        if list_ex (subject_matches (s_hex x artifact_sha256) artifact_input) subjects then Inr ()
        else Inl (Failed ''Artifact does not match any subject in in-toto statement''))))))"

section \<open>The command\<close>

text \<open>The checks of the certificate's identity, as the arguments ask for them.\<close>

definition conf_identity :: "sig_ext \<Rightarrow> conf_ext \<Rightarrow> verify_args \<Rightarrow> bytes \<Rightarrow> unit cres" where
  "conf_identity x fe va cert_bytes =
     try_bind (need ''Parse cert'' (s_cert x cert_bytes)) (\<lambda>cert.
     try_bind (case va_certificate_identity va of Some i \<Rightarrow> verify_cert_san fe cert i | None \<Rightarrow> Inr ()) (\<lambda>_.
     try_bind (case va_certificate_oidc_issuer va of Some i \<Rightarrow> verify_cert_oidc_issuer x cert i | None \<Rightarrow> Inr ()) (\<lambda>_.
     map_err (conf_err ''Certificate validation'') (validate_certificate_extensions cert))))"

definition conf_verify_bundle :: "sig_ext \<Rightarrow> cms_ext \<Rightarrow> conf_ext \<Rightarrow> str list \<Rightarrow> unit cres" where
  "conf_verify_bundle x y fe args =
     try_bind (parse_verify_args args) (\<lambda>va.
     try_bind (need ''Read bundle'' (read_to_string x fe (va_bundle_path va))) (\<lambda>bundle_json.
     try_bind (need ''Parse bundle JSON'' (s_json x (as_bytes bundle_json))) (\<lambda>bundle.
     try_bind (case va_trusted_root_path va of
         Some path \<Rightarrow> need ''Read trusted root'' (read_to_string x fe path)
       | None \<Rightarrow> Inr (s_root_json x)) (\<lambda>tr_json.
     let has_msg_sig = jget bundle ''messageSignature'' \<noteq> None; has_dsse = jget bundle ''dsseEnvelope'' \<noteq> None in
     if \<not> has_msg_sig \<and> \<not> has_dsse
     then Inl (Failed ''Bundle has neither messageSignature nor dsseEnvelope'')
     else
     try_bind (if va_key_path va = None then try_bind (extract_leaf_cert_der x bundle) (\<lambda>c. Inr (Some c))
               else Inr None) (\<lambda>cert_der.
     try_bind (resolve_artifact_sha256 x fe (va_artifact va)) (\<lambda>artifact_sha256.
     try_bind (if has_msg_sig then verify_message_signature x fe bundle cert_der (va_key_path va)
               else conf_verify_dsse_signature x fe bundle cert_der (va_key_path va)) (\<lambda>_.
     try_bind (case cert_der of Some c \<Rightarrow> conf_identity x fe va c | None \<Rightarrow> Inr ()) (\<lambda>_.
     try_bind (case cert_der of Some c \<Rightarrow> verify_scts x c tr_json | None \<Rightarrow> Inr ()) (\<lambda>_.
     try_bind (conf_verify_rekor_entry x y fe bundle tr_json cert_der (va_key_path va) has_dsse) (\<lambda>_.
     try_bind (case cert_der of Some c \<Rightarrow> conf_verify_fulcio_chain x fe c tr_json | None \<Rightarrow> Inr ()) (\<lambda>_.
     verify_artifact_digest x bundle artifact_sha256 has_msg_sig (va_artifact va))))))))))))"

text \<open>The exit status of the program; a panic exits with 101.\<close>

definition conf_main :: "sig_ext \<Rightarrow> cms_ext \<Rightarrow> conf_ext \<Rightarrow> str list \<Rightarrow> nat" where
  "conf_main x y fe args =
     (case args of
        [] \<Rightarrow> 101
      | [_] \<Rightarrow> 1
      | _ # subcommand # rest \<Rightarrow>
          if subcommand = ''verify-bundle'' then
            (case conf_verify_bundle x y fe rest of
               Inr _ \<Rightarrow> 0
             | Inl (Failed _) \<Rightarrow> 1
             | Inl (Panicked _) \<Rightarrow> 101)
          else 1)"

end
