(* ===== verification/Conformance_Properties.thy ===== *)
theory Conformance_Properties
  imports Conformance Sigstore_Properties
begin

text \<open>
  What the command line verifier establishes when it accepts a bundle, and what it does not: the
  content of a file is not looked at when its name is that of a subject.
\<close>

section \<open>Reading the arguments\<close>

text \<open>The arguments in one order; the parser takes them in any order and ignores what follows the
  artifact.\<close>

definition option_args :: "str \<Rightarrow> str option \<Rightarrow> str list" where
  "option_args k v = (case v of Some s \<Rightarrow> [k, s] | None \<Rightarrow> [])"

definition render_args :: "verify_args \<Rightarrow> str list" where
  "render_args va =
     (if va_staging va then [''--staging''] else []) @ [''--bundle'', va_bundle_path va] @
     option_args ''--certificate-identity'' (va_certificate_identity va) @
     option_args ''--certificate-oidc-issuer'' (va_certificate_oidc_issuer va) @
     option_args ''--key'' (va_key_path va) @ option_args ''--trusted-root'' (va_trusted_root_path va) @
     [va_artifact va]"

lemma parse_args_option:
  "set_option k = Some f \<Longrightarrow> k \<noteq> ''--staging'' \<Longrightarrow>
     parse_args po (option_args k v @ args) = parse_args (case v of Some s \<Rightarrow> f s po | None \<Rightarrow> po) args"
  by (cases v) (simp_all add: option_args_def)

lemma set_option_dashes: "set_option a = Some f \<Longrightarrow> starts_with a ''--''"
  by (auto simp: set_option_def starts_with_def split: if_splits)

lemma args_roundtrip:
  assumes "\<not> starts_with (va_artifact va) ''--''"
  shows "parse_verify_args (render_args va @ rest) = Inr va"
proof -
  have "set_option (va_artifact va) = None"
    using assms set_option_dashes by (cases "set_option (va_artifact va)") auto
  moreover have "va_artifact va \<noteq> ''--staging''" using assms by (auto simp: starts_with_def)
  ultimately have artifact: "parse_args po (va_artifact va # rest) = finish_args po (va_artifact va)" for po
    using assms by simp
  have opts: "set_option ''--bundle'' = Some (\<lambda>v po. po\<lparr>po_bundle_path := Some v\<rparr>)"
      "set_option ''--certificate-identity'' = Some (\<lambda>v po. po\<lparr>po_cert_identity := Some v\<rparr>)"
      "set_option ''--certificate-oidc-issuer'' = Some (\<lambda>v po. po\<lparr>po_cert_issuer := Some v\<rparr>)"
      "set_option ''--key'' = Some (\<lambda>v po. po\<lparr>po_key_path := Some v\<rparr>)"
      "set_option ''--trusted-root'' = Some (\<lambda>v po. po\<lparr>po_trusted_root := Some v\<rparr>)"
    by (simp_all add: set_option_def)
  have path: "parse_args po (''--bundle'' # p # args) = parse_args (po\<lparr>po_bundle_path := Some p\<rparr>) args" for po p args
    by (simp add: opts)
  have staging: "parse_args po (''--staging'' # args) = parse_args (po\<lparr>po_staging := True\<rparr>) args" for po args
    by simp
  show ?thesis
    unfolding parse_verify_args_def render_args_def
    by (simp add: artifact parse_args_option opts path staging del: parse_args.simps)
      (simp add: finish_args_def no_options_def split: option.split)
qed

section \<open>Signatures\<close>

definition digest_signed :: "sig_ext \<Rightarrow> conf_ext \<Rightarrow> pub_key_info \<Rightarrow> bytes \<Rightarrow> bytes \<Rightarrow> bool" where
  "digest_signed x fe key_info dig sig_bytes =
     (if pki_curve_oid key_info = Some OID_SECP384R1
      then \<exists>key sg. s_p384_sec1 x (pki_raw_bytes key_info) = Some key \<and> p384_signature x fe sig_bytes = Some sg \<and>
        s_p384_verify_prehash x key dig sg
      else \<exists>key sg. s_p256_sec1 x (pki_raw_bytes key_info) = Some key \<and> p256_signature x sig_bytes = Some sg \<and>
        s_p256_verify_prehash x key dig sg)"

definition envelope_signed :: "sig_ext \<Rightarrow> conf_ext \<Rightarrow> pub_key_info \<Rightarrow> bytes \<Rightarrow> bytes \<Rightarrow> bool" where
  "envelope_signed x fe key_info pae sig_bytes =
     (if pki_curve_oid key_info = Some OID_SECP384R1
      then \<exists>key sg. s_p384_sec1 x (pki_raw_bytes key_info) = Some key \<and> p384_signature x fe sig_bytes = Some sg \<and>
        f_p384_verify fe key pae sg
      else \<exists>key sg. s_p256_sec1 x (pki_raw_bytes key_info) = Some key \<and> p256_signature x sig_bytes = Some sg \<and>
        s_p256_verify x key pae sg)"

lemma conf_b64_Inr [result_inv]: "conf_b64 x msg s = Inr b \<longleftrightarrow> s_b64_decode x s = Some b"
  by (simp add: conf_b64_def result_inv)

lemma list_case_Inr [result_inv]:
  "(case xs of [] \<Rightarrow> Inl e | a # as \<Rightarrow> f a as) = Inr v \<longleftrightarrow> (\<exists>a as. xs = a # as \<and> f a as = Inr v)"
  by (cases xs) auto

lemma if_ok_Inr [result_inv]: "(if b then Inr v else Inl e) = Inr w \<longleftrightarrow> b \<and> w = v"
  by auto

lemma conf_body_Inr [result_inv]: "conf_body x b = Inr j \<longleftrightarrow> s_json x b = Some j"
  by (simp add: conf_body_def result_inv)

lemma bundle_signature_message:
  "bundle_signature x bundle False = Inr sb \<longleftrightarrow>
     (\<exists>s. jstr bundle [''messageSignature'', ''signature''] = Some s \<and> s_b64_decode x s = Some sb)"
  by (simp add: bundle_signature_def result_inv)

lemma verify_message_signature_Inr:
  assumes "verify_message_signature x fe bundle cert_der key_path = Inr ()"
  obtains info d dig sb where "get_verifying_key_info x fe bundle cert_der key_path = Inr info"
    "jstr bundle [''messageSignature'', ''messageDigest'', ''digest''] = Some d" "s_b64_decode x d = Some dig"
    "bundle_signature x bundle False = Inr sb" "digest_signed x fe info dig sb"
  using assms that
  unfolding verify_message_signature_def digest_signed_def
  by (cases "\<exists>info. get_verifying_key_info x fe bundle cert_der key_path = Inr info \<and> pki_curve_oid info = Some OID_SECP384R1")
    (fastforce simp: result_inv bundle_signature_message jstr_Cons split: if_splits)+

lemma first_of_Some: "first_of v ks = Some e \<longleftrightarrow> (\<exists>es. jarray v ks = Some (e # es))"
  by (auto simp: first_of_def split: bind_splits list.splits)

lemma first_str_Some: "first_str v ks ks' = Some s \<longleftrightarrow> (\<exists>e es. jarray v ks = Some (e # es) \<and> jstr e ks' = Some s)"
  by (auto simp: first_str_def first_of_Some bind_eq_Some_conv)

lemma jarray_Cons: "jget v k = Some w \<Longrightarrow> jarray v (k # ks) = jarray w ks"
  by (simp add: jarray_def)

lemma bundle_signature_dsse:
  "bundle_signature x bundle True = Inr sb \<longleftrightarrow>
     (\<exists>s. first_str bundle [''dsseEnvelope'', ''signatures''] [''sig''] = Some s \<and> s_b64_decode x s = Some sb)"
  by (simp add: bundle_signature_def result_inv)

lemma conf_verify_dsse_signature_Inr:
  assumes "conf_verify_dsse_signature x fe bundle cert_der key_path = Inr ()"
  obtains info ty p payload sb where "get_verifying_key_info x fe bundle cert_der key_path = Inr info"
    "jstr bundle [''dsseEnvelope'', ''payloadType''] = Some ty"
    "jstr bundle [''dsseEnvelope'', ''payload''] = Some p" "s_b64_decode x p = Some payload"
    "bundle_signature x bundle True = Inr sb" "envelope_signed x fe info (compute_pae ty payload) sb"
proof -
  obtain dsse ty p sg0 sgs s payload sb info where a: "jget bundle ''dsseEnvelope'' = Some dsse"
      "jstr dsse [''payloadType''] = Some ty" "jstr dsse [''payload''] = Some p"
      "jarray dsse [''signatures''] = Some (sg0 # sgs)" "jstr sg0 [''sig''] = Some s"
      "s_b64_decode x p = Some payload" "s_b64_decode x s = Some sb"
      "get_verifying_key_info x fe bundle cert_der key_path = Inr info"
      "envelope_signed x fe info (compute_pae ty payload) sb"
    using assms unfolding conf_verify_dsse_signature_def envelope_signed_def Let_def
    by (simp only: result_inv) (fastforce simp: result_inv split: if_splits)
  then show thesis
    by (intro that [OF a(8) _ _ a(6) _ a(9)]) (auto simp: jstr_Cons bundle_signature_dsse first_str_Some jarray_Cons)
qed

section \<open>The certificate\<close>

definition named :: "conf_ext \<Rightarrow> sig_cert \<Rightarrow> str \<Rightarrow> bool" where
  "named fe cert identity \<longleftrightarrow> (\<exists>names. f_san fe cert = Inr (Some names) \<and> (UriName identity \<in> set names \<or> Rfc822Name identity \<in> set names))"

lemma names_identity_iff: "names_identity i n \<longleftrightarrow> n = UriName i \<or> n = Rfc822Name i"
  by (cases n) auto

lemma verify_cert_san_Inr [result_inv]: "verify_cert_san fe cert i = Inr u \<longleftrightarrow> named fe cert i"
  by (auto simp: verify_cert_san_def named_def result_inv list_ex_iff names_identity_iff)

lemma verify_cert_oidc_issuer_Inr [result_inv]:
  "verify_cert_oidc_issuer x cert i = Inr u \<longleftrightarrow> Option.bind (x_extensions cert) (issuer_extension x) = Some i"
  by (auto simp: verify_cert_oidc_issuer_def split: option.splits)

lemma issuer_extension_Some:
  "issuer_extension x exts = Some v \<Longrightarrow>
     \<exists>e \<in> set exts. extn_id e \<in> {OIDC_ISSUER_V1, OIDC_ISSUER_V2} \<and> decode_asn1_string x (extn_value e) = Some v"
  by (induction exts) (auto split: if_splits option.splits)

text \<open>The certificate is signed by the first certificate of an authority that was valid when it was
  issued.\<close>

definition fulcio_issued :: "sig_ext \<Rightarrow> conf_ext \<Rightarrow> str \<Rightarrow> sig_cert \<Rightarrow> bool" where
  "fulcio_issued x fe tr_json cert \<longleftrightarrow>
     (\<exists>cas ca der ders issuer tbs. load_fulcio_cas_from_json x tr_json = Inr cas \<and> ca \<in> set cas \<and>
        within (Some (fca_valid_from ca)) (fca_valid_until ca) (x_not_before cert) \<and>
        fca_chain_der ca = der # ders \<and> s_cert x der = Some issuer \<and> x_issuer cert = x_subject issuer \<and>
        s_tbs_der x cert = Some tbs \<and> conf_signed_by x fe cert issuer tbs)"

lemma conf_try_cas_Inr:
  "conf_try_cas x fe cert cas = Inr u \<Longrightarrow>
     \<exists>ca der ders issuer tbs. ca \<in> set cas \<and>
        within (Some (fca_valid_from ca)) (fca_valid_until ca) (x_not_before cert) \<and>
        fca_chain_der ca = der # ders \<and> s_cert x der = Some issuer \<and> x_issuer cert = x_subject issuer \<and>
        s_tbs_der x cert = Some tbs \<and> conf_signed_by x fe cert issuer tbs"
proof (induction cas)
  case (Cons ca cas)
  show ?case
  proof (cases "conf_try_cas x fe cert cas = Inr u")
    case True
    then show ?thesis using Cons.IH by auto
  next
    case False
    then show ?thesis
      using Cons.prems by (fastforce simp: within_def before_window_def result_inv split: if_splits list.splits option.splits)
  qed
qed simp

definition sct_logged :: "sig_ext \<Rightarrow> str \<Rightarrow> sig_cert \<Rightarrow> bool" where
  "sct_logged x tr_json cert \<longleftrightarrow>
     (\<exists>cas spki kr e. load_fulcio_cas_from_json x tr_json = Inr cas \<and> conf_issuer_spki x cert cas = Some spki \<and>
        load_ctlog_keyring_from_json x tr_json = Inr kr \<and> es_cert e = cert \<and> es_issuer_id e = s_sha256 x spki \<and>
        sct_signed x e kr)"

lemma try_embedded_scts_Inr: "try_embedded_scts x kr n es = Inr u \<Longrightarrow> \<exists>e \<in> set es. sct_signed x e kr"
proof (induction es)
  case (Cons e es)
  obtain r where r: "verify_embedded_sct x e kr = Inr r"
      "(case r of Inr u \<Rightarrow> Inr () | Inl err \<Rightarrow> try_embedded_scts x kr n es) = Inr u"
    using Cons.prems that by (simp only: try_embedded_scts.simps try_bind_Inr_iff map_err_Inr_iff) blast
  then show ?case using Cons.IH by (cases r) (auto simp: result_inv)
qed simp

lemma verify_scts_Inr:
  assumes "verify_scts x cert_der tr_json = Inr ()"
  obtains cert where "s_cert x cert_der = Some cert" "sct_logged x tr_json cert"
proof -
  obtain cert cas spki scts kr where a: "s_cert x cert_der = Some cert"
      "load_fulcio_cas_from_json x tr_json = Inr cas" "conf_issuer_spki x cert cas = Some spki"
      "all_from_cert x cert spki = Inr scts" "load_ctlog_keyring_from_json x tr_json = Inr kr"
      "try_embedded_scts x kr (length scts) scts = Inr ()"
    using assms unfolding verify_scts_def by (auto simp: result_inv)
  obtain e where "e \<in> set scts" "sct_signed x e kr" using try_embedded_scts_Inr [OF a(6)] by blast
  moreover have "es_cert e = cert \<and> es_issuer_id e = s_sha256 x spki" if "e \<in> set scts" for e
    using a(4) that by (auto simp: all_from_cert_def result_inv)
  ultimately show thesis using that [OF a(1)] a(2,3,5) unfolding sct_logged_def by blast
qed

section \<open>The log entry\<close>

lemma conf_to_digest_Inr: "conf_to_digest msg b = Inr d \<longleftrightarrow> length b = 32 \<and> d = digest_from_bytes b"
  by (auto simp: conf_to_digest_def)

lemma conf_verify_merkle_Inr:
  assumes "conf_verify_merkle x body idx sz hs root_hash = Inr ()"
  obtains hashes root where "root_hash = digest_bytes root" "hs = map digest_bytes hashes" "idx < sz"
    "root_from_inclusion_proof (hash_children (s_sha256 x)) idx (hash_leaf (s_sha256 x) body) sz hashes = Inr root"
    "committed x body root idx sz hashes"
proof -
  have "(\<lambda>h d. conf_to_digest ''Invalid proof hash length'' h = Inr d) =
      (\<lambda>h d. to_digest ''Invalid proof hash length (expected 32 bytes)'' h = Inr d)"
    by (auto simp: conf_to_digest_def to_digest_def fun_eq_iff)
  then have "verify_merkle x body idx sz hs root_hash = Inr ()"
    using assms
    by (auto simp: conf_verify_merkle_def verify_merkle_def Let_def result_inv conf_to_digest_Inr to_digest_def)
  then show thesis using that by (rule verify_merkle_Inr)
qed

lemma conf_tlog_entry_Inr:
  "conf_tlog_entry bundle = Inr entry \<longleftrightarrow> jarray bundle [''verificationMaterial'', ''tlogEntries''] = Some [entry]"
  by (cases "jarray bundle [''verificationMaterial'', ''tlogEntries'']") (auto simp: conf_tlog_entry_def split: list.splits)

text \<open>What the logged body says: its kind and version are those of the entry, and its certificate and
  signature those of the bundle.\<close>

definition body_bound :: "sig_ext \<Rightarrow> json \<Rightarrow> json \<Rightarrow> bytes \<Rightarrow> bytes option \<Rightarrow> bool \<Rightarrow> bool" where
  "body_bound x bundle entry body_bytes cert_der is_dsse \<longleftrightarrow>
     (\<exists>body kv sg. s_json x body_bytes = Some body \<and> jget entry ''kindVersion'' = Some kv \<and>
        jstr body [''kind''] = jstr kv [''kind''] \<and> jstr body [''apiVersion''] = jstr kv [''version''] \<and>
        (\<forall>der. cert_der = Some der \<longrightarrow> extract_rekor_cert_der x body = extract_leaf_cert_der x bundle) \<and>
        extract_rekor_signature x body = Inr sg \<and> bundle_signature x bundle is_dsse = Inr sg)"

lemma conf_bindings_Inr:
  "conf_bindings x fe bundle entry body_bytes cert_der key_path is_dsse = Inr () \<Longrightarrow>
     body_bound x bundle entry body_bytes cert_der is_dsse"
  unfolding conf_bindings_def conf_verify_kind_version_def verify_sig_binding_def body_bound_def
  by (auto simp: result_inv verify_cert_binding_def split: if_splits)

text \<open>A key of the trust root signed the checkpoint of the entry's inclusion proof, and the hashes of that
  proof, at its index and tree size, lead from the body to the checkpoint's root.\<close>

definition body_logged :: "sig_ext \<Rightarrow> str \<Rightarrow> json \<Rightarrow> bytes \<Rightarrow> bool" where
  "body_logged x tr_json entry body_bytes \<longleftrightarrow>
     (\<exists>keys key log_id_bytes ip note_text sc idx sz hashes. load_rekor_keys_from_json x tr_json = Inr keys \<and>
        key \<in> set keys \<and> jstr entry [''logId'', ''keyId''] = Some (rk_key_id key) \<and>
        s_b64_decode x (rk_key_id key) = Some log_id_bytes \<and>
        jget entry ''inclusionProof'' = Some ip \<and> jstr ip [''checkpoint'', ''envelope''] = Some note_text \<and>
        decode_checkpoint x note_text = Inr sc \<and>
        checkpoint_signed_by x sc (rk_key_der key) (rk_key_type key) (rk_host key) log_id_bytes \<and>
        conf_proof_u64 ip ''logIndex'' = Inr idx \<and> conf_proof_u64 ip ''treeSize'' = Inr sz \<and>
        conf_proof_hashes x ip = Inr (map digest_bytes hashes) \<and> idx < sz \<and>
        root_from_inclusion_proof (hash_children (s_sha256 x)) idx (hash_leaf (s_sha256 x) body_bytes) sz hashes
          = Inr (cp_hash (cp_note sc)) \<and>
        committed x body_bytes (cp_hash (cp_note sc)) idx sz hashes)"

text \<open>A time at which the signature existed, inside the validity of the certificate: a verified
  timestamp of the bundle's signature, or the log's signed integrated time.\<close>

definition observed_at :: "sig_ext \<Rightarrow> cms_ext \<Rightarrow> json \<Rightarrow> str \<Rightarrow> json \<Rightarrow> nat \<Rightarrow> bool" where
  "observed_at x y bundle tr_json entry t \<longleftrightarrow>
     (\<exists>sg tsas. load_timestamp_authorities_from_json x tr_json = Inr tsas \<and>
        bundle_time x y sg tsas (bundle_timestamps bundle) t) \<or>
     (\<exists>keys key. load_rekor_keys_from_json x tr_json = Inr keys \<and> key \<in> set keys \<and>
        jstr entry [''logId'', ''keyId''] = Some (rk_key_id key) \<and>
        within (rk_valid_from key) (rk_valid_until key) t \<and> set_signed x entry key t)"

lemma conf_find_key_Inr:
  "conf_find_key keys log_id t = Inr key \<Longrightarrow>
     key \<in> set keys \<and> rk_key_id key = log_id \<and> (\<forall>ts. t = Some ts \<longrightarrow> within (rk_valid_from key) (rk_valid_until key) ts)"
  by (auto simp: conf_find_key_def result_inv within_def find_Some_iff)

lemma conf_checkpoint_Inr:
  assumes "conf_checkpoint x entry ip key log_id v2 = Inr sc"
  obtains note_text log_id_bytes where "jstr ip [''checkpoint'', ''envelope''] = Some note_text"
    "decode_checkpoint x note_text = Inr sc" "s_b64_decode x log_id = Some log_id_bytes"
    "checkpoint_signed_by x sc (rk_key_der key) (rk_key_type key) (rk_host key) log_id_bytes"
    "\<not> v2 \<and> has_promise entry \<longrightarrow> verify_signed_entry_timestamp x entry key = Inr ()"
  using assms that unfolding conf_checkpoint_def by (auto simp: result_inv split: if_splits)

lemma conf_tsa_time_Inr:
  assumes "conf_tsa_time x y bundle tr_json v2 (Some der) is_dsse = Inr (Some t)" "s_cert x der = Some cert"
  obtains sg tsas where "load_timestamp_authorities_from_json x tr_json = Inr tsas" "\<not> outside cert t"
    "bundle_time x y sg tsas (bundle_timestamps bundle) t"
proof -
  obtain sg tsas times es where a: "load_timestamp_authorities_from_json x tr_json = Inr tsas"
      "verify_timestamps x y bundle sg tsas = Inr (times, es)" "find (outside cert) times = None" "min_time times = Some t"
    using assms unfolding conf_tsa_time_def by (auto simp: result_inv split: option.splits)
  have "t \<in> set times" using a(4) by (rule min_time_Some)
  then have "\<not> outside cert t" using a(3) by (auto simp: find_None_iff)
  with \<open>t \<in> set times\<close> show thesis using that a(1) verify_timestamps_Inr [OF a(2)] by blast
qed

lemma min_time_None: "min_time ts = None \<longleftrightarrow> ts = []"
  by (simp add: min_time_def split: list.split)

lemma conf_tsa_time_v2: "conf_tsa_time x y bundle tr_json True c is_dsse = Inr t \<Longrightarrow> t \<noteq> None"
  using min_time_None by (force simp: conf_tsa_time_def result_inv)

text \<open>What acceptance of the entry establishes.\<close>

lemma conf_entry_accepted:
  assumes "conf_verify_rekor_entry x y fe bundle tr_json cert_der key_path is_dsse = Inr ()"
  obtains entry b body_bytes where
    "jarray bundle [''verificationMaterial'', ''tlogEntries''] = Some [entry]"
    "jstr entry [''canonicalizedBody''] = Some b" "s_b64_decode x b = Some body_bytes"
    "body_bound x bundle entry body_bytes cert_der is_dsse" "body_logged x tr_json entry body_bytes"
    "\<And>der cert. cert_der = Some der \<Longrightarrow> s_cert x der = Some cert \<Longrightarrow>
       \<exists>t. x_not_before cert \<le> t \<and> t \<le> x_not_after cert \<and> observed_at x y bundle tr_json entry t"
proof -
  obtain entry kv tsa_time ip keys log_id key sc root_hash idx sz hs b body_bytes where
    a: "conf_tlog_entry bundle = Inr entry"
      "check_integrated_time x entry (is_rekor_v2 kv) cert_der = Inr ()"
      "conf_tsa_time x y bundle tr_json (is_rekor_v2 kv) cert_der is_dsse = Inr tsa_time"
      "\<not> (\<not> is_rekor_v2 kv \<and> \<not> has_promise entry \<and> tsa_time = None)"
      "jget entry ''inclusionProof'' = Some ip" "load_rekor_keys_from_json x tr_json = Inr keys"
      "jstr entry [''logId'', ''keyId''] = Some log_id"
      "conf_find_key keys log_id (if \<not> is_rekor_v2 kv \<and> has_promise entry then entry_integrated_time entry else tsa_time) = Inr key"
      "conf_checkpoint x entry ip key log_id (is_rekor_v2 kv) = Inr sc" "conf_root_hash x ip sc = Inr root_hash"
      "jstr entry [''canonicalizedBody''] = Some b" "s_b64_decode x b = Some body_bytes"
      "conf_bindings x fe bundle entry body_bytes cert_der key_path is_dsse = Inr ()"
      "conf_verify_merkle x body_bytes idx sz hs root_hash = Inr ()"
    and n: "conf_proof_u64 ip ''logIndex'' = Inr idx" "conf_proof_u64 ip ''treeSize'' = Inr sz" "conf_proof_hashes x ip = Inr hs"
    using assms unfolding conf_verify_rekor_entry_def Let_def
    by (simp only: try_bind_Inr_iff ok_or_Inr_iff map_err_Inr_iff conf_b64_Inr guard_Inr_iff ex_unit_iff)
      (elim exE conjE, rule that)
  note key = conf_find_key_Inr [OF a(8)]
  obtain note_text log_id_bytes where c: "jstr ip [''checkpoint'', ''envelope''] = Some note_text"
      "decode_checkpoint x note_text = Inr sc" "s_b64_decode x log_id = Some log_id_bytes"
      "checkpoint_signed_by x sc (rk_key_der key) (rk_key_type key) (rk_host key) log_id_bytes"
      "\<not> is_rekor_v2 kv \<and> has_promise entry \<longrightarrow> verify_signed_entry_timestamp x entry key = Inr ()"
    by (rule conf_checkpoint_Inr [OF a(9)])
  obtain hashes root where m: "root_hash = digest_bytes root" "hs = map digest_bytes hashes" "idx < sz"
      "root_from_inclusion_proof (hash_children (s_sha256 x)) idx (hash_leaf (s_sha256 x) body_bytes) sz hashes = Inr root"
      "committed x body_bytes root idx sz hashes"
    by (rule conf_verify_merkle_Inr [OF a(14)])
  have "root = cp_hash (cp_note sc)"
    using a(10) m(1) by (auto simp: conf_root_hash_def result_inv split: if_splits)
  then have "body_logged x tr_json entry body_bytes"
    using a(5,6) key a(7) c(1-4) m(2-5) n unfolding body_logged_def by metis
  note logged = this
  have time: "\<exists>t. x_not_before cert \<le> t \<and> t \<le> x_not_after cert \<and> observed_at x y bundle tr_json entry t"
    if der: "cert_der = Some der" and cert: "s_cert x der = Some cert" for der cert
  proof (cases "\<not> is_rekor_v2 kv \<and> has_promise entry")
    case True
    then obtain t where t: "entry_integrated_time entry = Some t" "\<not> outside cert t"
      using a(2) der cert by (auto simp: check_integrated_time_def result_inv)
    have "within (rk_valid_from key) (rk_valid_until key) t" using key True t(1) by simp
    moreover have "set_signed x entry key t"
      using verify_signed_entry_timestamp_Inr [OF c(5) [rule_format, OF True]] t(1) by (auto simp: entry_integrated_time_def)
    ultimately show ?thesis using t(2) key a(6,7) unfolding observed_at_def outside_def by (metis not_less)
  next
    case False
    have "tsa_time \<noteq> None"
    proof (cases "is_rekor_v2 kv")
      case True
      then show ?thesis using a(3) conf_tsa_time_v2 by metis
    next
      case v1: False
      then show ?thesis using a(4) False by simp
    qed
    then obtain t where t: "tsa_time = Some t" by blast
    obtain sg tsas where "load_timestamp_authorities_from_json x tr_json = Inr tsas" "\<not> outside cert t"
        "bundle_time x y sg tsas (bundle_timestamps bundle) t"
      by (rule conf_tsa_time_Inr [OF a(3) [unfolded der t] cert])
    then show ?thesis unfolding observed_at_def outside_def by (metis not_less)
  qed
  show thesis
    using that [OF _ a(11,12) conf_bindings_Inr [OF a(13)] logged] a(1) time by (simp add: conf_tlog_entry_Inr)
qed

section \<open>The whole command\<close>

definition trusted_root_text :: "sig_ext \<Rightarrow> conf_ext \<Rightarrow> verify_args \<Rightarrow> str option" where
  "trusted_root_text x fe va =
     (case va_trusted_root_path va of Some path \<Rightarrow> read_to_string x fe path | None \<Rightarrow> Some (s_root_json x))"

text \<open>
  The key signed the artifact: its digest, in a message signature; or an envelope with a statement that
  has the artifact as a subject, by the subject's digest or, for a file, by its name.
\<close>

definition artifact_signed :: "sig_ext \<Rightarrow> conf_ext \<Rightarrow> verify_args \<Rightarrow> json \<Rightarrow> pub_key_info \<Rightarrow> bool" where
  "artifact_signed x fe va bundle key_info \<longleftrightarrow>
     (\<exists>art. resolve_artifact_sha256 x fe (va_artifact va) = Inr art \<and>
        (if jget bundle ''messageSignature'' \<noteq> None
         then \<exists>sb. bundle_signature x bundle False = Inr sb \<and> digest_signed x fe key_info art sb
         else \<exists>ty p payload sb st subjects. jstr bundle [''dsseEnvelope'', ''payloadType''] = Some ty \<and>
           jstr bundle [''dsseEnvelope'', ''payload''] = Some p \<and> s_b64_decode x p = Some payload \<and>
           bundle_signature x bundle True = Inr sb \<and> envelope_signed x fe key_info (compute_pae ty payload) sb \<and>
           s_json x payload = Some st \<and> jarray st [''subject''] = Some subjects \<and>
           (\<exists>subject \<in> set subjects. subject_matches (s_hex x art) (va_artifact va) subject)))"

definition cert_key :: "sig_ext \<Rightarrow> sig_cert \<Rightarrow> pub_key_info" where
  "cert_key x cert = \<lparr>pki_raw_bytes = x_public_key cert, pki_curve_oid = curve_oid x cert\<rparr>"

lemma get_verifying_key_info_cert:
  "get_verifying_key_info x fe bundle (Some der) k = Inr info \<longleftrightarrow> (\<exists>cert. s_cert x der = Some cert \<and> info = cert_key x cert)"
  by (auto simp: get_verifying_key_info_def result_inv cert_key_def)

lemma artifact_signedI:
  assumes "resolve_artifact_sha256 x fe (va_artifact va) = Inr art"
    and "(if jget bundle ''messageSignature'' \<noteq> None then verify_message_signature x fe bundle c k
          else conf_verify_dsse_signature x fe bundle c k) = Inr ()"
    and "verify_artifact_digest x bundle art (jget bundle ''messageSignature'' \<noteq> None) (va_artifact va) = Inr ()"
  obtains info where "get_verifying_key_info x fe bundle c k = Inr info" "artifact_signed x fe va bundle info"
proof (cases "jget bundle ''messageSignature'' = None")
  case True
  then have "conf_verify_dsse_signature x fe bundle c k = Inr ()" using assms(2) by simp
  then obtain info ty p payload sb where s: "get_verifying_key_info x fe bundle c k = Inr info"
    "jstr bundle [''dsseEnvelope'', ''payloadType''] = Some ty"
    "jstr bundle [''dsseEnvelope'', ''payload''] = Some p" "s_b64_decode x p = Some payload"
    "bundle_signature x bundle True = Inr sb" "envelope_signed x fe info (compute_pae ty payload) sb"
    by (rule conf_verify_dsse_signature_Inr)
  moreover obtain st subjects where "s_json x payload = Some st" "jarray st [''subject''] = Some subjects"
      "\<exists>subject \<in> set subjects. subject_matches (s_hex x art) (va_artifact va) subject"
    using assms(3) True s(3,4) by (auto simp: verify_artifact_digest_def result_inv list_ex_iff)
  ultimately show thesis using that assms(1) True unfolding artifact_signed_def by auto
next
  case False
  then have "verify_message_signature x fe bundle c k = Inr ()" using assms(2) by simp
  then obtain info d dig sb where s: "get_verifying_key_info x fe bundle c k = Inr info"
    "jstr bundle [''messageSignature'', ''messageDigest'', ''digest''] = Some d" "s_b64_decode x d = Some dig"
    "bundle_signature x bundle False = Inr sb" "digest_signed x fe info dig sb"
    by (rule verify_message_signature_Inr)
  moreover have "dig = art" using assms(3) False s(2,3) by (auto simp: verify_artifact_digest_def result_inv)
  ultimately show thesis using that assms(1) False unfolding artifact_signed_def by auto
qed

text \<open>
  C34. What the command establishes when it accepts a bundle without a key: a certificate of the bundle
  that is usable for code signing, has the identity and the issuer that were asked for, is signed by a
  trusted authority and is in a transparency log signed the artifact; and the bundle's only log entry
  names that certificate, is in a log with a trusted key, and was observed while the certificate was
  valid, as a trusted timestamp or the log itself says. The signature in the log entry is the envelope's
  if the bundle has one, whichever signature covers the artifact.
\<close>

theorem conformance_accepts:
  assumes "conf_verify_bundle x y fe args = Inr ()" and "parse_verify_args args = Inr va" and "va_key_path va = None"
  shows "\<exists>js bundle tr_json der cert entry b body_bytes t.
     read_to_string x fe (va_bundle_path va) = Some js \<and> s_json x (as_bytes js) = Some bundle \<and>
     trusted_root_text x fe va = Some tr_json \<and> extract_leaf_cert_der x bundle = Inr der \<and> s_cert x der = Some cert \<and>
     validate_certificate_extensions cert = Inr () \<and>
     (\<forall>i. va_certificate_identity va = Some i \<longrightarrow> named fe cert i) \<and>
     (\<forall>i. va_certificate_oidc_issuer va = Some i \<longrightarrow> Option.bind (x_extensions cert) (issuer_extension x) = Some i) \<and>
     fulcio_issued x fe tr_json cert \<and> sct_logged x tr_json cert \<and> artifact_signed x fe va bundle (cert_key x cert) \<and>
     jarray bundle [''verificationMaterial'', ''tlogEntries''] = Some [entry] \<and>
     jstr entry [''canonicalizedBody''] = Some b \<and> s_b64_decode x b = Some body_bytes \<and>
     body_bound x bundle entry body_bytes (Some der) (jget bundle ''dsseEnvelope'' \<noteq> None) \<and>
     body_logged x tr_json entry body_bytes \<and>
     x_not_before cert \<le> t \<and> t \<le> x_not_after cert \<and> observed_at x y bundle tr_json entry t"
proof -
  obtain js bu tr_json der art where a:
      "read_to_string x fe (va_bundle_path va) = Some js" "s_json x (as_bytes js) = Some bu"
      "(case va_trusted_root_path va of Some path \<Rightarrow> need ''Read trusted root'' (read_to_string x fe path)
          | None \<Rightarrow> Inr (s_root_json x)) = Inr tr_json"
      "extract_leaf_cert_der x bu = Inr der" "resolve_artifact_sha256 x fe (va_artifact va) = Inr art"
      "(if jget bu ''messageSignature'' \<noteq> None then verify_message_signature x fe bu (Some der) None
        else conf_verify_dsse_signature x fe bu (Some der) None) = Inr ()"
      "conf_identity x fe va der = Inr ()" "verify_scts x der tr_json = Inr ()"
      "conf_verify_rekor_entry x y fe bu tr_json (Some der) None (jget bu ''dsseEnvelope'' \<noteq> None) = Inr ()"
      "conf_verify_fulcio_chain x fe der tr_json = Inr ()"
      "verify_artifact_digest x bu art (jget bu ''messageSignature'' \<noteq> None) (va_artifact va) = Inr ()"
    using assms(1) unfolding conf_verify_bundle_def Let_def assms(2) try_bind_simps assms(3)
    by (auto simp: result_inv)
  have root: "trusted_root_text x fe va = Some tr_json"
    using a(3) by (auto simp: trusted_root_text_def result_inv split: option.splits)
  obtain cert where cert: "s_cert x der = Some cert" "sct_logged x tr_json cert"
    by (rule verify_scts_Inr [OF a(8)])
  have id: "validate_certificate_extensions cert = Inr ()"
      "\<forall>i. va_certificate_identity va = Some i \<longrightarrow> named fe cert i"
      "\<forall>i. va_certificate_oidc_issuer va = Some i \<longrightarrow> Option.bind (x_extensions cert) (issuer_extension x) = Some i"
    using a(7) cert(1) unfolding conf_identity_def by (auto simp: result_inv split: option.splits)
  have ca: "fulcio_issued x fe tr_json cert"
    using a(10) cert(1) conf_try_cas_Inr unfolding conf_verify_fulcio_chain_def fulcio_issued_def
    by (fastforce simp: result_inv)
  obtain info where "get_verifying_key_info x fe bu (Some der) None = Inr info" "artifact_signed x fe va bu info"
    by (rule artifact_signedI [OF a(5,6,11)])
  then have art: "artifact_signed x fe va bu (cert_key x cert)"
    using cert(1) by (simp add: get_verifying_key_info_cert)
  from conf_entry_accepted [OF a(9)] obtain entry b body_bytes t where
      "jarray bu [''verificationMaterial'', ''tlogEntries''] = Some [entry]"
      "jstr entry [''canonicalizedBody''] = Some b" "s_b64_decode x b = Some body_bytes"
      "body_bound x bu entry body_bytes (Some der) (jget bu ''dsseEnvelope'' \<noteq> None)"
      "body_logged x tr_json entry body_bytes" "x_not_before cert \<le> t" "t \<le> x_not_after cert"
      "observed_at x y bu tr_json entry t"
    using cert(1) by metis
  then show ?thesis using a(1,2,4) root cert id ca art by blast
qed

section \<open>The content of a file\<close>

text \<open>Another content of some files changes nothing for the checks that do not read them: the key is the
  only file that is read after the bundle, the trusted root and the artifact.\<close>

abbreviation with_read :: "conf_ext \<Rightarrow> (str \<Rightarrow> bytes option) \<Rightarrow> conf_ext" where
  "with_read fe r \<equiv> fe\<lparr>f_read := r\<rparr>"

lemma with_read_text: "r path = f_read fe path \<Longrightarrow> read_to_string x (with_read fe r) path = read_to_string x fe path"
  by (simp add: read_to_string_def)

lemma with_read_fixed [simp]:
  "p384_signature x (with_read fe r) sb = p384_signature x fe sb"
  "verify_cert_san (with_read fe r) cert i = verify_cert_san fe cert i"
  "conf_signed_by x (with_read fe r) cert issuer tbs = conf_signed_by x fe cert issuer tbs"
  "conf_identity x (with_read fe r) va der = conf_identity x fe va der"
  by (simp_all add: p384_signature_def verify_cert_san_def conf_signed_by_def conf_identity_def verify_ecdsa_p384_def
      verify_rsa_sha256_def Let_def cong: if_cong option.case_cong)

lemma with_read_keys:
  assumes "\<And>path. k = Some path \<Longrightarrow> r path = f_read fe path"
  shows "get_verifying_key_info x (with_read fe r) bundle c k = get_verifying_key_info x fe bundle c k"
    and "verify_message_signature x (with_read fe r) bundle c k = verify_message_signature x fe bundle c k"
    and "conf_verify_dsse_signature x (with_read fe r) bundle c k = conf_verify_dsse_signature x fe bundle c k"
    and "conf_bindings x (with_read fe r) bundle entry b c k d = conf_bindings x fe bundle entry b c k d"
proof -
  have t: "read_to_string x (with_read fe r) path = read_to_string x fe path" if "k = Some path" for path
    using assms [OF that] by (rule with_read_text)
  show i: "get_verifying_key_info x (with_read fe r) bundle c k = get_verifying_key_info x fe bundle c k"
    by (cases k; cases c) (simp_all add: get_verifying_key_info_def t)
  show "verify_message_signature x (with_read fe r) bundle c k = verify_message_signature x fe bundle c k"
    "conf_verify_dsse_signature x (with_read fe r) bundle c k = conf_verify_dsse_signature x fe bundle c k"
    by (simp_all add: verify_message_signature_def conf_verify_dsse_signature_def i Let_def
        cong: if_cong option.case_cong list.case_cong)
  have "verify_key_binding x (with_read fe r) path b = verify_key_binding x fe path b" if "k = Some path" for path
    by (simp add: verify_key_binding_def t [OF that] Let_def cong: if_cong)
  then show "conf_bindings x (with_read fe r) bundle entry b c k d = conf_bindings x fe bundle entry b c k d"
    by (simp add: conf_bindings_def cong: if_cong option.case_cong)
qed

lemma with_read_entry:
  assumes "\<And>path. k = Some path \<Longrightarrow> r path = f_read fe path"
  shows "conf_verify_rekor_entry x y (with_read fe r) bundle tr c k d = conf_verify_rekor_entry x y fe bundle tr c k d"
  by (simp add: conf_verify_rekor_entry_def with_read_keys(4) [OF assms] Let_def cong: if_cong)

lemma with_read_fulcio [simp]:
  "conf_verify_fulcio_chain x (with_read fe r) der tr = conf_verify_fulcio_chain x fe der tr"
proof -
  have "conf_try_cas x (with_read fe r) cert cas = conf_try_cas x fe cert cas" for cert cas
    by (induction cas) (simp_all cong: if_cong list.case_cong option.case_cong)
  then show ?thesis by (simp add: conf_verify_fulcio_chain_def)
qed

text \<open>A subject of the bundle's statement has the name of the artifact, or of its file.\<close>

definition names_subject :: "sig_ext \<Rightarrow> json \<Rightarrow> str \<Rightarrow> bool" where
  "names_subject x bundle artifact \<longleftrightarrow>
     (\<exists>p payload st subjects subject. jstr bundle [''dsseEnvelope'', ''payload''] = Some p \<and>
        s_b64_decode x p = Some payload \<and> s_json x payload = Some st \<and>
        jarray st [''subject''] = Some subjects \<and> subject \<in> set subjects \<and>
        jstr subject [''name''] \<in> {Some artifact, file_name artifact} - {None})"

lemma verify_artifact_digest_named:
  assumes "names_subject x bundle artifact" "\<not> is_digest_input artifact"
  shows "verify_artifact_digest x bundle d False artifact = Inr ()"
proof -
  obtain p payload st subjects subject where a: "jstr bundle [''dsseEnvelope'', ''payload''] = Some p"
      "s_b64_decode x p = Some payload" "s_json x payload = Some st" "jarray st [''subject''] = Some subjects"
      "subject \<in> set subjects" "jstr subject [''name''] \<in> {Some artifact, file_name artifact} - {None}"
    using assms(1) unfolding names_subject_def by blast
  have "subject_matches (s_hex x d) artifact subject"
    using a(6) assms(2) by (auto simp: subject_matches_def str_or_def)
  then have "list_ex (subject_matches (s_hex x d) artifact) subjects" using a(5) by (auto simp: list_ex_iff)
  then show ?thesis using a(1-4) by (simp add: verify_artifact_digest_def conf_b64_def)
qed

text \<open>
  C35. The content of a file is not verified when a subject of the statement has its name: if the command
  accepts an envelope for a file so named, which is none of the other files it reads (the bundle, a
  key, a trusted root), it accepts it whatever bytes are in that file.
\<close>

theorem tampered_artifact_accepted:
  assumes "conf_verify_bundle x y fe args = Inr ()" and "parse_verify_args args = Inr va"
    and "Option.bind (read_to_string x fe (va_bundle_path va)) (\<lambda>js. s_json x (as_bytes js)) = Some bundle"
    and "jget bundle ''messageSignature'' = None" and "names_subject x bundle (va_artifact va)"
    and "\<not> starts_with (va_artifact va) ''sha256:''"
    and "Some (va_artifact va) \<notin> {Some (va_bundle_path va), va_key_path va, va_trusted_root_path va}"
  shows "conf_verify_bundle x y (with_read fe (\<lambda>path. if path = va_artifact va then Some tampered else f_read fe path)) args = Inr ()"
proof -
  let ?r = "\<lambda>path. if path = va_artifact va then Some tampered else f_read fe path"
  obtain js where js: "read_to_string x fe (va_bundle_path va) = Some js" "s_json x (as_bytes js) = Some bundle"
    using assms(3) by (auto simp: bind_eq_Some_conv)
  have t: "read_to_string x (with_read fe ?r) path = read_to_string x fe path" if "path \<noteq> va_artifact va" for path
    using that by (simp add: read_to_string_def)
  have b: "read_to_string x (with_read fe ?r) (va_bundle_path va) = Some js" using t assms(7) js(1) by auto
  have root: "(case va_trusted_root_path va of Some path \<Rightarrow> need ''Read trusted root'' (read_to_string x (with_read fe ?r) path)
        | None \<Rightarrow> Inr (s_root_json x)) =
      (case va_trusted_root_path va of Some path \<Rightarrow> need ''Read trusted root'' (read_to_string x fe path)
        | None \<Rightarrow> Inr (s_root_json x))"
    using t assms(7) by (cases "va_trusted_root_path va") auto
  have k: "?r path = f_read fe path" if "va_key_path va = Some path" for path using that assms(7) by auto
  have keys: "conf_verify_dsse_signature x (with_read fe ?r) bundle c (va_key_path va) =
        conf_verify_dsse_signature x fe bundle c (va_key_path va)"
      "conf_verify_rekor_entry x y (with_read fe ?r) bundle tr c (va_key_path va) d =
        conf_verify_rekor_entry x y fe bundle tr c (va_key_path va) d" for c tr d
    using with_read_keys(3) [of "va_key_path va" ?r fe] with_read_entry [of "va_key_path va" ?r fe] k by blast+
  have "strip_prefix (va_artifact va) ''sha256:'' = None" "\<not> is_digest_input (va_artifact va)"
    using assms(6) by (simp_all add: strip_prefix_def is_digest_input_def)
  then have "resolve_artifact_sha256 x (with_read fe ?r) (va_artifact va) = Inr (digest_bytes (s_sha256 x tampered))"
    and accepts: "verify_artifact_digest x bundle d False (va_artifact va) = Inr ()" for d
    using verify_artifact_digest_named [OF assms(5)] by (simp_all add: resolve_artifact_sha256_def)
  then show ?thesis
    using assms(1) unfolding conf_verify_bundle_def Let_def assms(2) try_bind_simps root b js(1)
    by (simp add: js(2) assms(4) keys result_inv ex_unit_iff cong: option.case_cong split del: if_split) blast
qed

section \<open>A bundle that is accepted\<close>

text \<open>The repository of \<open>Sigstore_Properties\<close>, with its bundle in a file and the artifact in the file
  \<open>n\<close>, the name of the statement's subject.\<close>

definition toy_files :: conf_ext where
  "toy_files =
     \<lparr>f_read = (\<lambda>_. Some []), f_exists = (\<lambda>_. False),
      f_hex_decode = (\<lambda>s. Some (as_bytes s)), f_san = (\<lambda>_. Inr (Some [UriName toy_workflow])),
      f_p384_sig_raw = (\<lambda>_. None), f_p384_verify = (\<lambda>_ _ _. False), f_rsa_key = (\<lambda>_. None),
      f_rsa_verify = (\<lambda>_ _ _. False)\<rparr>"

lemma toy_files_text: "read_to_string toy_world toy_files path = Some []"
  by (simp add: read_to_string_def toy_files_def toy_parsersD(9) [OF toy_world_parsers] from_bytes_def)

definition toy_va :: verify_args where
  "toy_va = \<lparr>va_staging = False, va_bundle_path = ''b'', va_certificate_identity = Some toy_workflow,
     va_certificate_oidc_issuer = Some GITHUB_ACTIONS_ISSUER, va_key_path = None, va_trusted_root_path = None,
     va_artifact = ''n''\<rparr>"

definition toy_args :: "str list" where
  "toy_args = [''--bundle'', ''b'', ''--certificate-identity'', toy_workflow,
     ''--certificate-oidc-issuer'', GITHUB_ACTIONS_ISSUER, ''n'']"

lemma toy_args_parsed: "parse_verify_args toy_args = Inr toy_va"
  using args_roundtrip [of toy_va "[]"]
  by (simp add: render_args_def toy_va_def option_args_def toy_args_def starts_with_def)

lemmas toy_from_json =
  toy_loaded [unfolded load_rekor_keys_def load_timestamp_authorities_def load_fulcio_cas_def]
  toy_keyring [unfolded load_ctlog_keyring_def]

lemma toy_leaf_fields:
  "x_public_key toy_leaf = as_bytes ''SIG''" "curve_oid toy_world toy_leaf = Some OID_SECP256R1"
  "curve_oid toy_world toy_ca = Some OID_SECP256R1" "x_not_before toy_leaf = 10" "x_not_after toy_leaf = 20"
  "x_issuer toy_leaf = x_subject toy_ca" "alg_oid (x_signature_algorithm toy_leaf) = OID_ECDSA_SHA256"
  "x_signature toy_leaf = x_public_key toy_ca"
  by (simp_all add: toy_leaf_def toy_ca_def toy_fulcio_cert_def curve_oid_def toy_p256_def toy_world_fields toy_ecdsa_def)

lemma toy_cli_cert:
  "extract_leaf_cert_der toy_world toy_bundle = Inr (as_bytes ''CERT'')"
  "conf_identity toy_world toy_files toy_va (as_bytes ''CERT'') = Inr ()"
  "verify_scts toy_world (as_bytes ''CERT'') (s_root_json toy_world) = Inr ()"
  "conf_verify_fulcio_chain toy_world toy_files (as_bytes ''CERT'') (s_root_json toy_world) = Inr ()"
proof -
  show "extract_leaf_cert_der toy_world toy_bundle = Inr (as_bytes ''CERT'')"
    by (simp add: extract_leaf_cert_der_def toy_json conf_b64_def toy_world_b64)
  have "validate_certificate_extensions toy_leaf = Inr ()"
    by (auto simp: validate_certificate_extensions_Inr toy_leaf_def toy_fulcio_cert_def)
  moreover have "verify_cert_oidc_issuer toy_world toy_leaf GITHUB_ACTIONS_ISSUER = Inr ()"
    unfolding verify_cert_oidc_issuer_Inr
    by (simp add: toy_leaf_def toy_fulcio_cert_def decode_asn1_string_def toy_world_fields)
  moreover have "verify_cert_san toy_files toy_leaf toy_workflow = Inr ()"
    unfolding verify_cert_san_Inr by (simp add: named_def toy_files_def)
  ultimately show "conf_identity toy_world toy_files toy_va (as_bytes ''CERT'') = Inr ()"
    by (simp add: conf_identity_def toy_world_fields(3) toy_va_def)
  have i: "conf_issuer_spki toy_world toy_leaf [toy_fulcio_ca] = Some []"
    by (simp add: toy_fulcio_ca_def toy_world_fields toy_leaf_fields)
  show "verify_scts toy_world (as_bytes ''CERT'') (s_root_json toy_world) = Inr ()"
    by (simp add: verify_scts_def toy_world_fields(3) toy_from_json i toy_scts verify_embedded_sct_def
        to_digitally_signed_def tls_serialize_def tls_vec_u24_def tls_vec_u16_def verify_at_def toy_ct_key_def
        before_window_def after_window_def check_signature_def toy_world_fields(13,15,17) del: conf_issuer_spki.simps)
  show "conf_verify_fulcio_chain toy_world toy_files (as_bytes ''CERT'') (s_root_json toy_world) = Inr ()"
    by (simp add: conf_verify_fulcio_chain_def toy_from_json toy_fulcio_ca_def toy_world_fields toy_leaf_fields
        conf_signed_by_def conf_verify_ecdsa_p256_def after_window_def)
qed

lemma toy_cli_signature:
  "conf_verify_dsse_signature toy_world toy_files toy_bundle (Some (as_bytes ''CERT'')) None = Inr ()"
proof -
  obtain env sgs where env: "jget toy_bundle ''dsseEnvelope'' = Some env"
      "jstr env [''payloadType''] = Some ''application/vnd.in-toto+json''" "jstr env [''payload''] = Some ''PAYLOAD''"
      "jarray env [''signatures''] = Some [sgs]" "jstr sgs [''sig''] = Some ''SIG''"
    by (simp add: toy_json)
  have k: "get_verifying_key_info toy_world toy_files toy_bundle (Some (as_bytes ''CERT'')) None = Inr (cert_key toy_world toy_leaf)"
    by (simp add: get_verifying_key_info_cert toy_world_fields(3))
  show ?thesis
    by (simp add: conf_verify_dsse_signature_def env k conf_b64_def toy_world_b64 cert_key_def toy_leaf_fields
        p256_signature_def toy_world_fields OID_SECP256R1_def OID_SECP384R1_def)
qed

lemma toy_cli_entry:
  "conf_verify_rekor_entry toy_world toy_cms toy_files toy_bundle (s_root_json toy_world) (Some (as_bytes ''CERT'')) None True = Inr ()"
proof -
  note p = toy_world_parsers
  note w = toy_parsersD [OF p]
  obtain kv ip where kv: "jget toy_entry ''kindVersion'' = Some kv" "jstr kv [''kind''] = Some ''dsse''" "jstr kv [''version''] = Some ''0.0.1''"
    and ip: "jget toy_entry ''inclusionProof'' = Some ip"
      "jstr ip [''checkpoint'', ''envelope''] = Some (toy_note_text @ newline # newline # toy_sig_text)"
      "jstr ip [''rootHash''] = Some toy_root" "jget ip ''logIndex'' = Some (JString ''0'')"
      "jget ip ''treeSize'' = Some (JString ''1'')" "jarray ip [''hashes''] = Some []"
    by (simp add: toy_json)
  have e: "conf_tlog_entry toy_bundle = Inr toy_entry" "\<not> is_rekor_v2 kv" "has_promise toy_entry"
      "entry_integrated_time toy_entry = Some 15" "jstr toy_entry [''canonicalizedBody''] = Some ''BODY''"
    using kv toy_entry_parts(5)
    by (simp_all add: conf_tlog_entry_Inr is_rekor_v2_def has_promise_def entry_integrated_time_def str_or_def
        json_u64_def parse_u64_small toy_json del: jpointer.simps)
  have i: "check_integrated_time toy_world toy_entry False (Some (as_bytes ''CERT'')) = Inr ()"
    by (simp add: check_integrated_time_def e toy_world_fields outside_def toy_leaf_fields)
  have t: "conf_tsa_time toy_world toy_cms toy_bundle (s_root_json toy_world) False (Some (as_bytes ''CERT'')) True = Inr None"
    using toy_bundle_parts(3) [OF p]
    by (auto simp: conf_tsa_time_def bundle_dsse_signature_def result_inv conf_b64_def toy_from_json
        toy_bundle_parts(5) [OF p] toy_world_fields min_time_def)
  have k: "conf_find_key [toy_rekor_key] ''LOGID'' (Some 15) = Inr toy_rekor_key"
    by (simp add: conf_find_key_def toy_rekor_key_def before_window_def after_window_def)
  have d: "digest_bytes (digest_from_bytes (as_bytes toy_root)) = as_bytes toy_root"
    by (simp add: digest_to_from_bytes toy_note_texts(10))
  have s: "verify_signature toy_world toy_signed_note (rk_key_der toy_rekor_key) (rk_key_type toy_rekor_key)
      (rk_host toy_rekor_key) (as_bytes ''LOGID'') = Inr ()"
    by (simp add: verify_signature_Inr checkpoint_signed_by_def toy_signed_note_def toy_rekor_key_def
        log_signed_def w) (simp add: as_bytes_def)
  have c: "conf_checkpoint toy_world toy_entry ip toy_rekor_key ''LOGID'' False = Inr toy_signed_note"
    using s by (simp add: conf_checkpoint_def ip toy_note_decoded [OF p] e toy_entry_signed [OF p] conf_b64_def w)
  have r: "conf_root_hash toy_world ip toy_signed_note = Inr (as_bytes toy_root)"
    by (simp add: conf_root_hash_def ip toy_signed_note_def conf_b64_def w d)
  have n: "conf_proof_u64 ip ''logIndex'' = Inr 0" "conf_proof_u64 ip ''treeSize'' = Inr 1" "conf_proof_hashes toy_world ip = Inr []"
    by (simp_all add: conf_proof_u64_def conf_proof_hashes_def ip json_u64_def parse_u64_small)
  have m: "conf_verify_merkle toy_world b 0 1 [] (as_bytes toy_root) = Inr ()" for b
    using toy_merkle [OF p, of b]
    by (auto simp: conf_verify_merkle_def verify_merkle_def Let_def conf_to_digest_def to_digest_def result_inv toy_note_texts)
  have x: "extract_rekor_cert_der toy_world toy_body = Inr (as_bytes ''CERT'')"
      "extract_rekor_signature toy_world toy_body = Inr (as_bytes ''SIG'')"
      "bundle_signature toy_world toy_bundle True = Inr (as_bytes ''SIG'')"
    by (simp_all add: extract_rekor_cert_der_def extract_rekor_signature_def bundle_signature_def body_kind_def
        dsse_inner_spec_def first_str_def first_of_def str_or_def pem_to_der_def conf_b64_def toy_json w)
  have h: "conf_verify_payload_hash_binding toy_world toy_bundle (as_bytes ''BODY'') = Inr ()"
    by (simp add: conf_verify_payload_hash_binding_def conf_body_def w body_kind_def dsse_inner_spec_def
        str_or_def expected_payload_hash_def conf_b64_def toy_json d)
  have kb: "conf_verify_kind_version toy_world toy_entry (as_bytes ''BODY'') = Inr ()"
    by (simp add: conf_verify_kind_version_def w kv) (simp add: toy_json)
  have b: "conf_bindings toy_world toy_files toy_bundle toy_entry (as_bytes ''BODY'') (Some (as_bytes ''CERT'')) None True = Inr ()"
    by (simp add: conf_bindings_def kb verify_cert_binding_def verify_sig_binding_def conf_body_def w x toy_cli_cert(1) h)
  show ?thesis
    by (simp add: conf_verify_rekor_entry_def e kv(1) i t ip(1) toy_from_json toy_entry_parts(6) k c r n conf_b64_def w b m)
qed

lemma toy_named: "names_subject toy_world toy_bundle ''n''"
  unfolding names_subject_def
  by (simp add: toy_bundle_def toy_statement_def jstr_def jarray_def toy_world_b64(1) toy_world_payload)

lemma toy_cli_accepted: "conf_verify_bundle toy_world toy_cms toy_files toy_args = Inr ()"
proof -
  have b: "jget toy_bundle ''messageSignature'' = None" "jget toy_bundle ''dsseEnvelope'' \<noteq> None"
    by (simp_all add: toy_bundle_def)
  have a: "verify_artifact_digest toy_world toy_bundle dig False ''n'' = Inr ()" for dig
    by (rule verify_artifact_digest_named [OF toy_named]) (simp add: is_digest_input_def starts_with_def)
  have r: "resolve_artifact_sha256 toy_world toy_files ''n'' = Inr (digest_bytes (s_sha256 toy_world []))"
    by (simp add: resolve_artifact_sha256_def strip_prefix_def starts_with_def toy_files_def)
  note f = toy_files_text
  have v: "va_bundle_path toy_va = ''b''" "va_key_path toy_va = None" "va_trusted_root_path toy_va = None" "va_artifact toy_va = ''n''"
    by (simp_all add: toy_va_def)
  have j: "s_json toy_world (as_bytes []) = Some toy_bundle" by (simp add: as_bytes_def toy_world_fields)
  show ?thesis
    by (simp add: conf_verify_bundle_def toy_args_parsed v f j b b(2) [simplified] toy_cli_cert toy_cli_signature toy_cli_entry r a)
qed

lemma conformance_accepts_witness:
  "\<exists>der cert. s_cert toy_world der = Some cert \<and> named toy_files cert toy_workflow \<and>
     fulcio_issued toy_world toy_files (s_root_json toy_world) cert \<and>
     sct_logged toy_world (s_root_json toy_world) cert \<and>
     artifact_signed toy_world toy_files toy_va toy_bundle (cert_key toy_world cert)"
proof -
  have v: "va_key_path toy_va = None" "trusted_root_text toy_world toy_files toy_va = Some (s_root_json toy_world)"
      "va_certificate_identity toy_va = Some toy_workflow" "read_to_string toy_world toy_files p = Some []"
      "s_json toy_world (as_bytes []) = Some toy_bundle" for p
    by (simp_all add: toy_va_def trusted_root_text_def toy_files_text as_bytes_def toy_world_fields)
  show ?thesis
    using conformance_accepts [OF toy_cli_accepted toy_args_parsed v(1)] unfolding v(2-4) option.inject
    using v(5) by (metis option.inject)
qed

lemma tampered_artifact_accepted_witness:
  "conf_verify_bundle toy_world toy_cms
     (with_read toy_files (\<lambda>path. if path = ''n'' then Some (as_bytes ''tampered'') else f_read toy_files path)) toy_args = Inr ()"
  using tampered_artifact_accepted [OF toy_cli_accepted toy_args_parsed, of toy_bundle "as_bytes ''tampered''"] toy_named
  by (simp add: toy_va_def toy_files_text toy_world_fields as_bytes_def starts_with_def toy_bundle_def)

end
