(* ===== verification/Spec2Isabelle.thy ===== *)
theory Spec2Isabelle
  imports Merkle_Properties Attestation_Properties Ehbp_Properties Secret_Machine Cache_Secret Cache_Machine Client_Properties
    Client_Access Relaxed_Properties
    Sse_Properties Multimodal Conformance_Properties
begin

text \<open>
  A verification library for \<open>tinfoil-rs\<close>, the Rust client of Tinfoil's secure enclaves. The paths
  below are under \<open>src/src/\<close> of the repository.

  \<^bold>\<open>The program.\<close> A client (\<open>client.rs\<close>) talks to a model that runs in an enclave. Before it
  sends anything it asks two independent roots of trust for a measurement and compares the answers:

  \<^item> the hardware: the enclave's SEV-SNP report (\<open>verifier/attestation/\<close>), signed by a chip key that
    descends from AMD's root, whose report data holds the keys the enclave uses;
  \<^item> the source: the latest GitHub release of the enclave's repository and its sigstore bundle
    (\<open>verifier/github.rs\<close>, \<open>verifier/sigstore/\<close>), that is a statement with the expected measurement,
    signed by the repository's workflow under a certificate of Fulcio and logged in Rekor.

  \<open>verifier/attestation/mod.rs\<close> composes the two in \<open>verify_complete\<close>. The client then pins the
  enclave's TLS key (\<open>verifier/tls.rs\<close>, \<open>verifier/dcode.rs\<close>) or, behind a proxy, seals every body to the
  enclave's HPKE key (\<open>ehbp_transport.rs\<close>), adds a secret that scopes the prompt cache
  (\<open>user_cache_secret.rs\<close>), and offers typed and raw JSON requests with streamed answers (\<open>relaxed.rs\<close>,
  \<open>sse.rs\<close>, \<open>multimodal.rs\<close>). \<open>bin/conformance.rs\<close> is a command line verifier of sigstore bundles.

  \<^bold>\<open>Conventions.\<close> A \<open>Result\<close> is a sum whose left side is the error, \<open>try_bind\<close> is the operator
  \<open>?\<close>, and every early return is a branch (\<open>Prelude\<close>, \<open>Errors\<close>). A slice, an index, a shift or an
  \<open>expect\<close> that fails is the error \<open>Panic\<close>. Fixed-width integers are words where they can wrap and
  natural numbers where the source only compares them (Unix seconds) or where the code bounds them
  (the sizes of Merkle paths). A \<open>String\<close> is the list of its UTF-8 bytes. The text of an error is the
  literal of the source, without what a crate's error would add. A function that changes a
  value behind \<open>&mut\<close>, a lock or a file returns the changed value. Waits and logging are left out, except
  that \<open>fetch_with_retry\<close> returns its waits.

  \<^bold>\<open>What is a parameter.\<close> Code of other crates and of the network is an argument of the
  definitions that use it, collected in records: \<open>sev_crypto\<close>, \<open>disk_io\<close> and \<open>sev_env\<close> (X.509 and
  signatures of the hardware part, AMD's key service, the cache file, the clock), \<open>sig_ext\<close> and
  \<open>cms_ext\<close> (base64, hashes, JSON, X.509, CMS and signatures of the sigstore part, and the embedded
  trusted root), \<open>web\<close> and \<open>verify_env\<close> (HTTP), \<open>tls_ext\<close> and \<open>dcode_ext\<close>, \<open>ehbp_ext\<close> (the sealing
  client and its exchange), \<open>request_crate\<close> (the client and the builder inside the origin-bound ones),
  \<open>json_ext\<close> and \<open>secret_env\<close> (JSON texts, the random generator, system calls), \<open>cache_calls\<close>,
  \<open>client_env\<close>, \<open>relaxed_ext\<close> and \<open>conf_ext\<close>. Nothing is assumed of them but where a theorem says so
  (\<open>b64_codec\<close> of \<open>Checkpoint\<close>, the base32 code of \<open>Dcode\<close>, \<open>middleware_documented\<close> of \<open>Origin_Bound\<close>, and
  that a JSON printer and
  parser agree up to the order of members in \<open>Client_Access\<close>): security statements have the form ``what was
  accepted was signed under these keys, or two messages with the same digest are exhibited''. The
  witnesses instantiate the parameters with concrete functions.

  \<^bold>\<open>The theories.\<close>

  \<^item> \<open>Prelude\<close>, \<open>Text\<close>, \<open>Errors\<close>, \<open>Json\<close>, \<open>Transitions\<close>: words, results, the text functions of the standard
    library, \<open>error.rs\<close>, \<open>serde_json::Value\<close>, and the contracts of a transition system
    (\<open>invariant_system\<close>, \<open>simulation\<close>) as locales.
  \<^item> \<open>Merkle_Tree\<close> (the trees and proofs of RFC 6962 over an abstract hasher, with the locale
    \<open>tree_hasher\<close>), \<open>Rfc6962\<close> and \<open>Merkle_Proof\<close> (\<open>merkle/rfc6962.rs\<close>, \<open>merkle/proof_verification.rs\<close>),
    \<open>Merkle_Bits\<close>, \<open>Merkle_Properties\<close>: the iterative word arithmetic is sound and complete for the recursive
    specification, for trees of up to \<open>2 ^ 63\<close> leaves, and panics exactly above.
  \<^item> \<open>Sev_Constants\<close>, \<open>Attestation_Types\<close>, \<open>Sev_Report\<close>, \<open>Sev_Validation\<close>, \<open>Cert_Chain\<close>, \<open>Sev_Chain\<close>
    (\<open>attestation/constants.rs\<close>, \<open>types.rs\<close>, \<open>sev/report.rs\<close>, \<open>validation.rs\<close>, \<open>cert_chain.rs\<close>,
    \<open>signature.rs\<close>, \<open>mod.rs\<close>), \<open>Sev_Properties\<close>: what an accepted report guarantees, that no input panics, and
    that one process never leaves the cache of chip certificates half written. \<open>Cache_Writer\<close> has the calls of the system that
    fill that cache and shows that they refine the function of their outcomes; \<open>Cache_Machine\<close> interleaves
    processes that do so at once, and has the run in which they leave an unfinished file.
  \<^item> \<open>Sigstore_Base\<close>, \<open>Trust\<close>, \<open>Keyring\<close>, \<open>Transparency\<close>, \<open>Certificate_Info\<close>, \<open>Fulcio\<close> (with the locale
    \<open>issuance\<close>), \<open>Dsse\<close>, \<open>Checkpoint\<close>, \<open>Tsa\<close>, \<open>Rekor\<close>, \<open>Sigstore\<close>: one theory per file of
    \<open>verifier/sigstore/\<close>; \<open>Rekor_Properties\<close> and \<open>Sigstore_Properties\<close>: what a log entry and a verified
    repository stand for. An accepted body is bound to the bundle's certificate and signature, and to its payload where
    the format says so (a hashedrekord body without \<open>hashedRekordV002\<close> data is not); its inclusion proof, with that
    proof's own index, size and hashes, leads to the root of the checkpoint that a trusted key signed.
  \<^item> \<open>Http_Util\<close>, \<open>Http_Request\<close>, \<open>Github\<close> (\<open>verifier/util.rs\<close>, \<open>github.rs\<close>), \<open>Attestation\<close>
    (\<open>attestation/mod.rs\<close>, \<open>discovery.rs\<close>), \<open>Attestation_Properties\<close>: the network around the two roots and
    their comparison.
  \<^item> \<open>Ehbp\<close>, \<open>Ehbp_Machine\<close>, \<open>Ehbp_Properties\<close> (\<open>ehbp_transport.rs\<close>): the critical sections of the proxy
    handle as functions, the interleaving of any number of requests, refreshes and re-verifications as a step
    relation, its invariant, its refinement of a trust state, and progress.
  \<^item> \<open>Json_Splice\<close>, \<open>Secret_File\<close>, \<open>Secret_Machine\<close>, \<open>Cache_Secret\<close> (\<open>user_cache_secret.rs\<close>) with
    \<open>Json_Splice_Properties\<close> and \<open>Secret_Properties\<close>: the byte scanner against a grammar of JSON objects, the
    persisted secret for one process, and processes that race for it, with partial writes and crashes.
  \<^item> \<open>Tls\<close>, \<open>Dcode\<close>, \<open>Verification_Document\<close>, \<open>Client\<close>, \<open>Client_Properties\<close>: pinning, the values in DNS
    names, and the client's trust state through any sequence of operations. \<open>Origin_Bound\<close>: the client handed to
    callers, its builders with every method, and the typestate that all that is derived from it stays bound to the
    origin. \<open>Serialized\<close> (with the locale \<open>json_codec\<close>): the JSON form that the \<open>serde\<close> attributes of
    \<open>types.rs\<close> and \<open>verification_document.rs\<close> describe; \<open>Client_Access\<close>: the texts and handles a client gives
    out, and the crypto provider of \<open>lib.rs\<close>.
  \<^item> \<open>Sse\<close>, \<open>Sse_Properties\<close>, \<open>Relaxed\<close>, \<open>Relaxed_Properties\<close>, \<open>Multimodal\<close>: the stream parser against a
    reference that sees the whole text, and the raw request path: what each of its two calls posts and how it reads
    the response.
  \<^item> \<open>Conformance\<close>, \<open>Conformance_Properties\<close>: the command line verifier, what it accepts, and what it lets
    through. Files are their bytes under a path; text is read from the same bytes.

  This theory imports all of them and states the property that spans both roots of trust.

  \<^bold>\<open>Bounds.\<close> There is no fuel: every loop of the source is a structural recursion or a \<open>function\<close>
  with its measure. The retry loop makes at most three attempts, a bundle has at most 32 timestamps, an
  event of a stream at most \<open>2 ^ 20\<close> bytes, a report at least 1184; these are the source's constants.

  \<^bold>\<open>Not modelled.\<close> \<open>verifier/mod.rs\<close>, \<open>sigstore/merkle/mod.rs\<close>, \<open>verifier/embedded.rs\<close> and the rest
  of \<open>lib.rs\<close> are re-exports and included files. The other implementations that \<open>Debug\<close> derives, and the display
  texts of errors, are for people. Reading a JSON text with one member twice, which the derived readers refuse, is
  not modelled: \<open>Serialized\<close> starts from a \<open>serde_json::Value\<close>, whose members are unique. A few methods only
  forward to \<open>async-openai\<close> or \<open>tower\<close> (\<open>Deref\<close> of the typed client, \<open>poll_ready\<close>) or wrap a value without
  looking at it (constructors and \<open>raw\<close> of the relaxed types). The branches for systems that are not Unix
  differ from the modelled ones in how a file is protected. \<open>test_support.rs\<close>, the unit tests and \<open>src/tests/\<close>
  are tests.
\<close>

section \<open>The whole verification\<close>

text \<open>
  C1. What \<open>verify_complete\<close> returns rests on both roots of trust at once: there is an SEV-SNP
  report, signed by a chip key that descends from AMD's pinned root and valid for the default options,
  whose launch measurement is the SNP measurement of a statement that GitHub Actions signed for this
  repository and the reported release; the TLS and HPKE keys to pin are the two halves of that same
  report's data; and the two fingerprints are both that measurement.
\<close>

theorem complete_verified:
  assumes "verify_complete env host repo d = (d', Inr gt)"
  shows "\<exists>doc report vcek ask ark now m release bundle payload st.
     fetch_document env host = Inr doc \<and>
     decode_report (e_decode_b64 (a_sev env)) (e_gz_take (a_sev env)) (doc_body doc) = Inr report \<and>
     e_clock (a_sev env) = Some now \<and> chain_of_trust (e_crypto (a_sev env)) now vcek ask ark \<and>
     validate_report_fields_with_options report default_options = Inr m \<and>
     vcek_matches (e_crypto (a_sev env)) vcek report m \<and> report_signed (e_crypto (a_sev env)) vcek report \<and>
     release_tag gt = Some release \<and> release_signed (a_sig env) bundle repo release payload \<and>
     parse_statement (a_sig env) payload = Inr st \<and>
     measurement_from_statement st (release_digest gt) = Inr (code_measurement gt) \<and>
     registers (code_measurement gt) ! 0 = c_hex (e_crypto (a_sev env)) (take 48 (drop 144 report)) \<and>
     tls_public_key gt = Some (c_hex (e_crypto (a_sev env)) (take 32 (drop 80 report))) \<and>
     hpke_public_key gt = Some (c_hex (e_crypto (a_sev env)) (take 32 (drop 112 report))) \<and>
     code_fingerprint gt = registers (code_measurement gt) ! 0 \<and>
     enclave_fingerprint gt = registers (code_measurement gt) ! 0"
proof -
  let ?c = "e_crypto (a_sev env)"
  obtain doc v sr where a: "fetch_document env host = Inr doc" "verify_full (a_sev env) doc d = (d', Inr v)"
      "verify_repo (a_sig env) (a_cms env) (a_web env) repo = Inr sr" "ground_truth_of env repo v sr = Inr gt"
    by (rule verify_complete_Inr [OF assms])
  have "sev_verify_full_with_options (a_sev env) (doc_body doc) default_options d = (d', Inr v)"
    using a(2) by (auto simp: verify_full_def verify_full_with_options_def split: predicate_type.splits)
  note hw = sev_accepted [OF this]
  then obtain rs where v: "m_type (v_measurement v) = SevGuestV2" "registers (v_measurement v) = [rs]" by auto
  obtain bundle_json b payload st where repo: "release_signed (a_sig env) b repo (sr_release_tag sr) payload"
      "parse_statement (a_sig env) payload = Inr st" "measurement_from_statement st (sr_digest sr) = Inr (sr_measurement sr)"
    using verify_repo_Inr [OF a(3)] by blast
  have code: "m_type (sr_measurement sr) = SnpTdxMultiPlatformV1"
    using repo(3) by (auto simp: measurement_from_statement_Inr)
  note gt = ground_truth_of_Inr [OF a(4)]
  have match: "platform_match (sr_measurement sr) (v_measurement v)"
    using gt equals_multiplatform [OF code] v(1) by simp
  have fp: "code_fingerprint gt = registers (v_measurement v) ! 0" "enclave_fingerprint gt = registers (v_measurement v) ! 0"
    using a(4) sev_fingerprints_agree [OF code v(1) match] v(1)
    by (auto simp: ground_truth_of_def Let_def result_inv)
  have "registers (sr_measurement sr) ! 0 = registers (v_measurement v) ! 0"
    using match v(1) by (simp add: platform_match_def)
  then show ?thesis using hw a(1) repo gt fp by fastforce
qed

lemma complete_verified_witness:
  "\<exists>(gt :: ground_truth) report vcek ask ark payload st.
     chain_of_trust toy_crypto 15 vcek ask ark \<and> report_signed toy_crypto vcek report \<and>
     parse_statement toy_world payload = Inr st \<and>
     measurement_from_statement st (release_digest gt) = Inr (code_measurement gt) \<and>
     registers (code_measurement gt) ! 0 = c_hex toy_crypto (take 48 (drop 144 report))"
proof -
  obtain d' gt where "verify_complete toy_verify_env ''h'' ''o/r'' Map.empty = (d', Inr gt)"
    using toy_complete by blast
  moreover have "e_crypto (a_sev toy_verify_env) = toy_crypto" "e_clock (a_sev toy_verify_env) = Some 15"
      "a_sig toy_verify_env = toy_world"
    by (simp_all add: toy_verify_env_def toy_env_def)
  note env = this
  ultimately obtain vcek ask ark report payload st where
    "chain_of_trust toy_crypto 15 vcek ask ark" "report_signed toy_crypto vcek report"
    "parse_statement toy_world payload = Inr st"
    "measurement_from_statement st (release_digest gt) = Inr (code_measurement gt)"
    "registers (code_measurement gt) ! 0 = c_hex toy_crypto (take 48 (drop 144 report))"
    using complete_verified [of toy_verify_env, unfolded env] by blast
  then show ?thesis by blast
qed

end
